(* ===== verification/Prelude.thy ===== *)
theory Prelude
  imports Complex_Main "HOL-Library.AList" "HOL-Library.Char_ord" "HOL-Library.List_Lexorder"
begin

text \<open>
  Shared vocabulary of the development: Python exceptions as values, insertion-ordered
  dictionaries as association lists, truthiness of optional strings, and the generic list
  lemmas the components use.
\<close>

section \<open>Collections of rewrite rules\<close>

named_theorems dec_simps \<open>facts on the decimal operations\<close>
named_theorems dict_simps \<open>facts on insertion-ordered dictionaries\<close>
named_theorems ledger_defs \<open>definitions of the ledger operations\<close>

section \<open>Exceptions as values\<close>

text \<open>
  The exceptions the modelled code raises. A handler that may raise returns
  \<open>py_error + 'a\<close>, with \<open>Inl\<close> for the raised exception.
\<close>

datatype py_error =
    ValueError string
  | KeyError
  | IndexError
  | TypeError
  | AttributeError
  | RecursionError
  | OverflowError
  | TimeoutError
  | ZeroDivisionError
  | InvalidOperation
  | ExecutionBlockedError string
  | RuntimeError string
  | AnchorDecodeError string
  | UnknownDiscriminatorError
  | ActiveRuntimeError
  | SolanaRpcError "int option"
  | QuoteUnavailableError string
  | QuoteStaleError string
  | RateLimitExceededError string
  | CancelledError

type_synonym 'a result = "py_error + 'a"

definition rbind :: "'e + 'a \<Rightarrow> ('a \<Rightarrow> 'e + 'b) \<Rightarrow> 'e + 'b" where
  "rbind m f = (case m of Inl e \<Rightarrow> Inl e | Inr x \<Rightarrow> f x)"

lemma rbind_simps [simp]:
  "rbind (Inl e) f = Inl e"
  "rbind (Inr x) f = f x"
  by (simp_all add: rbind_def)

lemma rbind_eq_Inr [simp]: "rbind m f = Inr y \<longleftrightarrow> (\<exists>x. m = Inr x \<and> f x = Inr y)"
  by (cases m) auto

section \<open>Python dictionaries\<close>

text \<open>
  A dictionary whose iteration order matters is an association list: assigning an existing
  key keeps its place, a new key goes to the end, which is what \<^const>\<open>AList.update\<close> does.
\<close>

type_synonym ('k, 'v) dict = "('k \<times> 'v) list"

abbreviation dict_get :: "('k, 'v) dict \<Rightarrow> 'k \<Rightarrow> 'v option" where
  "dict_get d k \<equiv> map_of d k"

abbreviation dict_set :: "('k, 'v) dict \<Rightarrow> 'k \<Rightarrow> 'v \<Rightarrow> ('k, 'v) dict" where
  "dict_set d k v \<equiv> AList.update k v d"

abbreviation dict_values :: "('k, 'v) dict \<Rightarrow> 'v list" where
  "dict_values d \<equiv> map snd d"

definition dict_setdefault :: "('k, 'v) dict \<Rightarrow> 'k \<Rightarrow> 'v \<Rightarrow> ('k, 'v) dict" where
  "dict_setdefault d k v = (case map_of d k of None \<Rightarrow> AList.update k v d | Some _ \<Rightarrow> d)"

definition dict_wf :: "('k, 'v) dict \<Rightarrow> bool" where
  "dict_wf d \<longleftrightarrow> distinct (map fst d)"

lemma dict_get_set [simp, dict_simps]:
  "dict_get (dict_set d k v) = (dict_get d)(k \<mapsto> v)"
  by (rule update_conv')

lemma dict_wf_set [simp, dict_simps]: "dict_wf d \<Longrightarrow> dict_wf (dict_set d k v)"
  by (simp add: dict_wf_def distinct_update)

lemma dict_wf_setdefault [simp, dict_simps]: "dict_wf d \<Longrightarrow> dict_wf (dict_setdefault d k v)"
  by (simp add: dict_setdefault_def split: option.split)

lemma dict_get_setdefault [dict_simps]:
  "dict_get (dict_setdefault d k v) j
     = (if j = k then (case dict_get d k of None \<Rightarrow> Some v | Some w \<Rightarrow> Some w) else dict_get d j)"
  by (simp add: dict_setdefault_def split: option.split)

lemma dict_wf_get_iff: "dict_wf d \<Longrightarrow> dict_get d k = Some v \<longleftrightarrow> (k, v) \<in> set d"
  by (simp add: dict_wf_def)

lemma dict_set_new: "dict_get d k = None \<Longrightarrow> dict_set d k v = d @ [(k, v)]"
  by (induction d) (auto split: if_splits)

lemma dict_set_same: "dict_get d k = Some v \<Longrightarrow> dict_set d k v = d"
  by (induction d) (auto split: if_splits)

lemma dict_set_twice [simp]: "dict_set (dict_set d k v) k w = dict_set d k w"
  by (induction d) auto

lemma dict_set_split:
  assumes "dict_wf d" and "dict_get d k = Some v"
  obtains xs ys where "d = xs @ (k, v) # ys" "k \<notin> fst ` set xs" "k \<notin> fst ` set ys"
    and "\<And>w. dict_set d k w = xs @ (k, w) # ys"
proof -
  from assms(2) have "(k, v) \<in> set d" by (rule map_of_SomeD)
  then obtain xs ys where d: "d = xs @ (k, v) # ys" by (auto dest: split_list)
  with assms(1) have nin: "k \<notin> fst ` set xs" "k \<notin> fst ` set ys"
    by (auto simp: dict_wf_def)
  have "dict_set (xs @ (k, v) # ys) k w = xs @ (k, w) # ys" for w
    using nin(1) by (induction xs) auto
  with d nin that show thesis by blast
qed

lemma set_dict_set: "dict_wf d \<Longrightarrow>
  set (dict_set d k w) = insert (k, w) {(j, v). (j, v) \<in> set d \<and> j \<noteq> k}"
  by (induction d) (auto simp: dict_wf_def image_iff)

section \<open>Optional strings and their truth value\<close>

text \<open>\<open>x or d\<close> for an optional string: \<open>None\<close> and the empty string are falsy.\<close>

fun str_or :: "string option \<Rightarrow> string \<Rightarrow> string" where
  "str_or None d = d"
| "str_or (Some s) d = (if s = [] then d else s)"

fun truthy :: "string option \<Rightarrow> bool" where
  "truthy None = False"
| "truthy (Some s) = (s \<noteq> [])"

definition startswith :: "string \<Rightarrow> string \<Rightarrow> bool" where
  "startswith s p \<longleftrightarrow> take (length p) s = p"

lemma startswith_append [simp]: "startswith (p @ s) p"
  by (simp add: startswith_def)

lemma startswith_iff: "startswith s p \<longleftrightarrow> (\<exists>r. s = p @ r)"
  unfolding startswith_def by (metis append_eq_conv_conj append_take_drop_id)

section \<open>List lemmas\<close>

lemma last_filter_or:
  "filter P xs \<noteq> [] \<Longrightarrow> P (last (filter P xs)) \<and> last (filter P xs) \<in> set xs"
  using last_in_set by fastforce

lemma find_Some_set: "find P xs = Some x \<Longrightarrow> x \<in> set xs \<and> P x"
  by (induction xs) (auto split: if_splits)

end
