(* ===== verification/Decimal_Arith.thy ===== *)
theory Decimal_Arith
  imports Prelude
begin

text \<open>
  Python's \<open>decimal.Decimal\<close> under the default context (28 significant digits,
  ROUND_HALF_EVEN). A finite decimal is modelled by its numerical value, a rational; every
  arithmetic operation rounds its exact result with \<open>dctx\<close>, as the context does. The
  constructor \<open>Decimal(...)\<close>, comparison, \<open>min\<close> and \<open>max\<close> do not round. The exponent of
  zero results, signed zero, NaN and the exponent limits (999999) are not part of the model.
\<close>

type_synonym decimal = rat

section \<open>Rounding to an integer\<close>

definition round_half_even :: "rat \<Rightarrow> int" where
  "round_half_even x =
     (let f = \<lfloor>x\<rfloor>; d = x - of_int f in
      if d < 1/2 then f else if 1/2 < d then f + 1 else if even f then f else f + 1)"

definition round_down :: "rat \<Rightarrow> int" where
  "round_down x = (if 0 \<le> x then \<lfloor>x\<rfloor> else - \<lfloor>- x\<rfloor>)"

lemma round_half_even_error: "\<bar>of_int (round_half_even x) - x\<bar> \<le> 1/2"
proof -
  define f where "f = \<lfloor>x\<rfloor>"
  have "of_int f \<le> x" "x < of_int f + 1" unfolding f_def by linarith+
  then show ?thesis
    unfolding round_half_even_def f_def[symmetric] Let_def by (auto simp: abs_if)
qed

lemma round_half_even_of_int [simp]: "round_half_even (of_int k) = k"
  by (simp add: round_half_even_def)

lemma round_half_even_mono:
  assumes "x \<le> y" shows "round_half_even x \<le> round_half_even y"
proof (cases "\<lfloor>x\<rfloor> = \<lfloor>y\<rfloor>")
  case True
  with assms show ?thesis by (auto simp: round_half_even_def Let_def)
next
  case False
  with assms have "\<lfloor>x\<rfloor> + 1 \<le> \<lfloor>y\<rfloor>" using floor_mono[OF assms] by linarith
  moreover have "round_half_even x \<le> \<lfloor>x\<rfloor> + 1" "\<lfloor>y\<rfloor> \<le> round_half_even y"
    by (auto simp: round_half_even_def Let_def)
  ultimately show ?thesis by linarith
qed

lemma round_half_even_uminus: "round_half_even (- x) = - round_half_even x"
proof (cases "x = of_int \<lfloor>x\<rfloor>")
  case True
  then show ?thesis
    by (metis of_int_minus round_half_even_of_int)
next
  case False
  then have f: "\<lfloor>- x\<rfloor> = - \<lfloor>x\<rfloor> - 1"
    by (intro floor_unique) (simp_all, linarith+)
  have "- x - of_int \<lfloor>- x\<rfloor> = 1 - (x - of_int \<lfloor>x\<rfloor>)" by (simp add: f)
  then show ?thesis
    by (simp add: round_half_even_def Let_def f)
qed

lemma round_down_mono: assumes "x \<le> y" shows "round_down x \<le> round_down y"
proof (cases "0 \<le> x \<or> y < 0")
  case True
  with assms show ?thesis by (auto simp: round_down_def floor_mono)
next
  case False
  then have "0 \<le> \<lfloor>- x\<rfloor>" "0 \<le> \<lfloor>y\<rfloor>" by simp_all
  then have "- \<lfloor>- x\<rfloor> \<le> \<lfloor>y\<rfloor>" by linarith
  with False show ?thesis by (simp add: round_down_def)
qed

lemma round_down_of_int [simp]: "round_down (of_int k) = k"
  by (simp add: round_down_def flip: of_int_minus)

lemma round_down_uminus: "round_down (- x) = - round_down x"
  by (auto simp: round_down_def)

lemma round_down_le: "0 \<le> x \<Longrightarrow> of_int (round_down x) \<le> x"
  by (simp add: round_down_def)

section \<open>The decimal exponent of a positive rational\<close>

function idigits :: "int \<Rightarrow> int" where
  "idigits n = (if n < 10 then 1 else 1 + idigits (n div 10))"
  by pat_completeness auto
termination by (relation "measure nat") auto

declare idigits.simps [simp del]

lemma idigits_pos: "1 \<le> idigits n"
proof (induction n rule: idigits.induct)
  case (1 n)
  then show ?case by (subst idigits.simps) auto
qed

lemma idigits_bounds: "0 < n \<Longrightarrow> 10 ^ nat (idigits n - 1) \<le> n \<and> n < 10 ^ nat (idigits n)"
proof (induction n rule: idigits.induct)
  case (1 n)
  show ?case
  proof (cases "n < 10")
    case True
    with 1 show ?thesis by (simp add: idigits.simps[of n])
  next
    case False
    let ?m = "n div 10" and ?k = "idigits (n div 10)"
    have IH: "10 ^ nat (?k - 1) \<le> ?m" "?m < 10 ^ nat ?k" using 1 False by auto
    have k: "1 \<le> ?k" by (rule idigits_pos)
    then have e: "nat ?k = Suc (nat (?k - 1))" "nat (1 + ?k) = Suc (nat ?k)" by simp_all
    have "10 * ?m \<le> n" "n < 10 * ?m + 10" by presburger+
    with IH have "10 * 10 ^ nat (?k - 1) \<le> n" "n < 10 * 10 ^ nat ?k" by linarith+
    moreover have "idigits n = 1 + ?k" using False by (subst idigits.simps) simp
    ultimately show ?thesis by (simp only: e power_Suc) (simp add: e)
  qed
qed

definition ilog10 :: "rat \<Rightarrow> int" where
  "ilog10 x = (let (n, d) = quotient_of x; k = idigits n - idigits d
     in if 10 powi k \<le> x then k else k - 1)"

lemma powi_le: "a \<le> b \<Longrightarrow> (10::rat) powi a \<le> 10 powi b"
  by (rule power_int_increasing) simp_all

lemma powi_less_iff [simp]: "(10::rat) powi a < 10 powi b \<longleftrightarrow> a < b"
  using powi_le[of b a] power_int_strict_increasing[of a b "10::rat"] by force

lemma powi_nat: "0 \<le> k \<Longrightarrow> (10::rat) powi k = of_int (10 ^ nat k)"
  by (simp add: power_int_def)

lemma ilog10_bounds:
  assumes "0 < x"
  shows "10 powi ilog10 x \<le> x" and "x < 10 powi (ilog10 x + 1)"
proof -
  obtain n d where q: "quotient_of x = (n, d)" by force
  have d: "0 < d" using q by (rule quotient_of_denom_pos)
  have x: "x = of_int n / of_int d" using q by (rule quotient_of_div)
  with assms d have n: "0 < n" by (simp add: zero_less_divide_iff)
  let ?a = "idigits n" and ?b = "idigits d"
  have nb: "(10::rat) powi (?a - 1) \<le> of_int n" "of_int n < (10::rat) powi ?a"
    using idigits_bounds[OF n] idigits_pos[of n] by (simp_all add: powi_nat flip: of_int_power)
  have db: "(10::rat) powi (?b - 1) \<le> of_int d" "of_int d < (10::rat) powi ?b"
    using idigits_bounds[OF d] idigits_pos[of d] by (simp_all add: powi_nat flip: of_int_power)
  have "(10::rat) powi (?a - ?b - 1) = 10 powi (?a - 1) / 10 powi ?b"
    by (simp add: power_int_diff)
  also have "\<dots> \<le> of_int n / of_int d"
    using nb(1) db(2) d n by (intro frac_le) auto
  finally have low: "10 powi (?a - ?b - 1) \<le> x" using x by simp
  have "x < 10 powi ?a / 10 powi (?b - 1)"
    unfolding x using nb(2) db(1) d n by (intro frac_less) auto
  also have "\<dots> = 10 powi (?a - ?b + 1)"
    by (simp add: power_int_diff power_int_add)
  finally have high: "x < 10 powi (?a - ?b + 1)" .
  show "10 powi ilog10 x \<le> x" using low q by (auto simp: ilog10_def Let_def)
  show "x < 10 powi (ilog10 x + 1)" using high q by (auto simp: ilog10_def Let_def)
qed

lemma ilog10_mono: assumes "0 < x" "x \<le> y" shows "ilog10 x \<le> ilog10 y"
proof -
  have "(10::rat) powi ilog10 x < 10 powi (ilog10 y + 1)"
    using ilog10_bounds[of x] ilog10_bounds[of y] assms by linarith
  then show ?thesis by simp
qed

lemma ilog10_eqI: assumes "10 powi e \<le> x" "x < 10 powi (e + 1)" shows "ilog10 x = e"
proof -
  have "0 < x" using assms(1) by (rule less_le_trans[rotated]) simp
  note b = ilog10_bounds[OF this]
  have "(10::rat) powi e < 10 powi (ilog10 x + 1)" "(10::rat) powi ilog10 x < 10 powi (e + 1)"
    using assms b by linarith+
  then show ?thesis by simp
qed

section \<open>Rounding laws as an interface\<close>

text \<open>
  What the components use of a rounding function, whichever it is: it is monotone, idempotent
  and odd. The context rounding and the two \<open>quantize\<close> modes of the program satisfy it.
\<close>

locale rounding =
  fixes rnd :: "rat \<Rightarrow> rat"
  assumes mono: "x \<le> y \<Longrightarrow> rnd x \<le> rnd y"
    and idem: "rnd (rnd x) = rnd x"
    and odd: "rnd (- x) = - rnd x"
begin

lemma zero: "rnd 0 = 0"
  using odd[of 0] by simp

lemma nonneg: "0 \<le> x \<Longrightarrow> 0 \<le> rnd x"
  using mono[of 0 x] by (simp add: zero)

lemma nonpos: "x \<le> 0 \<Longrightarrow> rnd x \<le> 0"
  using mono[of x 0] by (simp add: zero)

lemma le_fixed: "x \<le> y \<Longrightarrow> rnd y = y \<Longrightarrow> rnd x \<le> y"
  using mono[of x y] by simp

lemma ge_fixed: "y \<le> x \<Longrightarrow> rnd y = y \<Longrightarrow> y \<le> rnd x"
  using mono[of y x] by simp

lemma abs_le_fixed: "\<bar>x\<bar> \<le> y \<Longrightarrow> rnd y = y \<Longrightarrow> \<bar>rnd x\<bar> \<le> y"
  using le_fixed[of x y] ge_fixed[of "- y" x] odd[of y] by (simp add: abs_le_iff)

lemma fixed_uminus: "rnd x = x \<Longrightarrow> rnd (- x) = - x"
  by (simp add: odd)

lemma neg_imp_neg: "rnd x < 0 \<Longrightarrow> x < 0"
  using nonneg[of x] by linarith

lemma pos_imp_pos: "0 < rnd x \<Longrightarrow> 0 < x"
  using nonpos[of x] by linarith

end

text \<open>A rounding with a relative error bound also keeps strict signs.\<close>

locale relative_rounding = rounding +
  fixes eps :: rat
  assumes eps_lt_1: "eps < 1"
    and rel_error: "\<bar>rnd x - x\<bar> \<le> eps * \<bar>x\<bar>"
begin

lemma pos: assumes "0 < x" shows "0 < rnd x"
proof -
  have "eps * x < 1 * x" using assms eps_lt_1 by (intro mult_strict_right_mono)
  with rel_error[of x] assms show ?thesis by (simp add: abs_le_iff)
qed

lemma pos_iff: "0 < rnd x \<longleftrightarrow> 0 < x"
  using pos pos_imp_pos by blast

lemma neg_iff: "rnd x < 0 \<longleftrightarrow> x < 0"
  using pos_iff[of "- x"] by (simp add: odd)

lemma zero_iff: "rnd x = 0 \<longleftrightarrow> x = 0"
  using pos_iff[of x] neg_iff[of x] zero by force

lemma nonneg_iff: "0 \<le> rnd x \<longleftrightarrow> 0 \<le> x"
  using neg_iff[of x] by linarith

lemma nonpos_iff: "rnd x \<le> 0 \<longleftrightarrow> x \<le> 0"
  using pos_iff[of x] by linarith

end

section \<open>The context rounding\<close>

definition dctx :: "rat \<Rightarrow> decimal" where
  "dctx x = (if x = 0 then 0 else
     let q = 10 powi (ilog10 \<bar>x\<bar> - 27) in of_int (round_half_even (x / q)) * q)"

lemma dctx_0 [simp, dec_simps]: "dctx 0 = 0"
  by (simp add: dctx_def)

lemma dctx_uminus: "dctx (- x) = - dctx x"
  by (simp add: dctx_def Let_def round_half_even_uminus)

lemma dctx_pos_bounds:
  assumes "0 < x"
  shows "10 powi ilog10 x \<le> dctx x" and "dctx x \<le> 10 powi (ilog10 x + 1)"
proof -
  let ?q = "(10::rat) powi (ilog10 x - 27)"
  have q: "0 < ?q" by simp
  have lo: "10 powi ilog10 x = of_int (10 ^ 27) * ?q"
    by (simp add: power_int_diff)
  have hi: "10 powi (ilog10 x + 1) = of_int (10 ^ 28) * ?q"
    by (simp add: power_int_diff power_int_add)
  have "of_int (10 ^ 27) \<le> x / ?q" "x / ?q \<le> of_int (10 ^ 28)"
    using ilog10_bounds[OF assms] q lo hi by (simp_all only: pos_le_divide_eq pos_divide_le_eq less_imp_le)
  then have "10 ^ 27 \<le> round_half_even (x / ?q)" "round_half_even (x / ?q) \<le> 10 ^ 28"
    using round_half_even_mono round_half_even_of_int by metis+
  then have "of_int (10 ^ 27) * ?q \<le> of_int (round_half_even (x / ?q)) * ?q"
    "of_int (round_half_even (x / ?q)) * ?q \<le> of_int (10 ^ 28) * ?q"
    using q by (simp_all only: mult_le_cancel_right_pos of_int_le_iff)
  then show "10 powi ilog10 x \<le> dctx x" "dctx x \<le> 10 powi (ilog10 x + 1)"
    unfolding lo hi using assms by (simp_all add: dctx_def Let_def)
qed

lemma dctx_pos: "0 < x \<Longrightarrow> 0 < dctx x"
  by (rule less_le_trans[OF _ dctx_pos_bounds(1)]) simp_all

lemma dctx_mono_pos: assumes "0 < x" "x \<le> y" shows "dctx x \<le> dctx y"
proof (cases "ilog10 x = ilog10 y")
  case True
  let ?q = "(10::rat) powi (ilog10 x - 27)"
  have "round_half_even (x / ?q) \<le> round_half_even (y / ?q)"
    using assms by (intro round_half_even_mono divide_right_mono) auto
  with True assms show ?thesis
    by (simp add: dctx_def Let_def mult_right_mono)
next
  case False
  with ilog10_mono[OF assms] have "ilog10 x + 1 \<le> ilog10 y" by simp
  then have "(10::rat) powi (ilog10 x + 1) \<le> 10 powi ilog10 y" by (rule powi_le)
  with dctx_pos_bounds[of x] dctx_pos_bounds[of y] assms show ?thesis by linarith
qed

lemma dctx_mono: assumes "x \<le> y" shows "dctx x \<le> dctx y"
proof -
  consider "0 < x" | "x \<le> 0" "0 \<le> y" | "y < 0" using assms by linarith
  then show ?thesis
  proof cases
    case 2
    then show ?thesis
      using dctx_pos[of "- x"] dctx_pos[of y] by (cases "x = 0"; cases "y = 0") (auto simp: dctx_uminus)
  next
    case 3
    with dctx_mono_pos[of "- y" "- x"] assms show ?thesis by (simp add: dctx_uminus)
  qed (use assms dctx_mono_pos in auto)
qed

lemma dctx_exact_pos:
  assumes "0 < m" "m < 10 ^ 28"
  shows "dctx (of_int m * 10 powi k) = of_int m * 10 powi k"
proof -
  let ?x = "of_int m * (10::rat) powi k"
  have x: "0 < ?x" using assms by simp
  have "?x < of_int (10 ^ 28) * 10 powi k"
    using assms by (intro mult_strict_right_mono) (simp_all only: of_int_less_iff, simp)
  then have "?x < 10 powi (k + 28)" by (simp add: power_int_add mult.commute)
  with ilog10_bounds(1)[OF x] have "(10::rat) powi ilog10 ?x < 10 powi (k + 28)" by linarith
  then have e: "0 \<le> k - (ilog10 ?x - 27)" by simp
  let ?q = "(10::rat) powi (ilog10 ?x - 27)"
  have "?x / ?q = of_int m * 10 powi (k - (ilog10 ?x - 27))"
    by (simp add: power_int_diff)
  also have "\<dots> = of_int (m * 10 ^ nat (k - (ilog10 ?x - 27)))"
    using e by (simp add: powi_nat)
  finally have "of_int (round_half_even (?x / ?q)) = ?x / ?q"
    by (metis round_half_even_of_int)
  then show ?thesis using x by (simp add: dctx_def Let_def)
qed

lemma dctx_exact:
  assumes "\<bar>m\<bar> \<le> 10 ^ 28"
  shows "dctx (of_int m * 10 powi k) = of_int m * 10 powi k"
proof -
  have le: "dctx (of_int n * 10 powi k) = of_int n * 10 powi k" if "0 < n" "n \<le> 10 ^ 28" for n
  proof (cases "n = 10 ^ 28")
    case True
    have "of_int n * (10::rat) powi k = of_int 1 * 10 powi (k + 28)"
      by (simp add: True power_int_add)
    then show ?thesis using dctx_exact_pos[of 1 "k + 28"] by simp
  next
    case False
    with that show ?thesis by (intro dctx_exact_pos) auto
  qed
  consider "m = 0" | "0 < m" | "0 < - m" by linarith
  then show ?thesis
  proof cases
    case 3
    with le[of "- m"] assms show ?thesis by (simp add: dctx_uminus)
  qed (use le[of m] assms in auto)
qed

lemma dctx_form: "\<exists>m k. \<bar>m\<bar> \<le> 10 ^ 28 \<and> dctx x = of_int m * 10 powi k"
proof (cases "x = 0")
  case True
  then show ?thesis by (intro exI[of _ 0]) simp
next
  case False
  define q where "q = (10::rat) powi (ilog10 \<bar>x\<bar> - 27)"
  define m where "m = round_half_even (x / q)"
  have q: "0 < q" by (simp add: q_def)
  have "\<bar>x\<bar> < of_int (10 ^ 28) * q"
    using ilog10_bounds(2)[of "\<bar>x\<bar>"] False by (simp add: q_def power_int_diff power_int_add)
  then have "\<bar>x / q\<bar> < of_int (10 ^ 28)" using q by (simp add: abs_divide pos_divide_less_eq)
  then have "x / q \<le> of_int (10 ^ 28)" "of_int (- (10 ^ 28)) \<le> x / q"
    by (simp_all only: of_int_minus)
  then have "m \<le> 10 ^ 28" "- (10 ^ 28) \<le> m"
    unfolding m_def using round_half_even_mono round_half_even_of_int by metis+
  then show ?thesis using False
    by (intro exI[of _ m] exI[of _ "ilog10 \<bar>x\<bar> - 27"]) (simp add: dctx_def m_def q_def Let_def abs_le_iff)
qed

lemma dctx_idem [simp, dec_simps]: "dctx (dctx x) = dctx x"
  using dctx_form[of x] dctx_exact by metis

lemma dctx_rel_error: "\<bar>dctx x - x\<bar> \<le> 5 / 10 ^ 28 * \<bar>x\<bar>"
proof (cases "x = 0")
  case False
  define q where "q = (10::rat) powi (ilog10 \<bar>x\<bar> - 27)"
  have q: "0 < q" by (simp add: q_def)
  have "dctx x - x = (of_int (round_half_even (x / q)) - x / q) * q"
    using False q by (simp add: dctx_def q_def Let_def left_diff_distrib)
  then have "\<bar>dctx x - x\<bar> = \<bar>of_int (round_half_even (x / q)) - x / q\<bar> * q"
    using q by (simp add: abs_mult)
  also have "\<dots> \<le> 1/2 * q" using q by (intro mult_right_mono round_half_even_error) simp
  also have "q = 10 powi ilog10 \<bar>x\<bar> / 10 ^ 27" by (simp add: q_def power_int_diff)
  also have "\<dots> \<le> \<bar>x\<bar> / 10 ^ 27"
    using ilog10_bounds(1)[of "\<bar>x\<bar>"] False by (intro divide_right_mono) simp_all
  finally show ?thesis by simp
qed simp

interpretation dec: relative_rounding dctx "5 / 10 ^ 28"
  by unfold_locales (rule dctx_mono dctx_idem dctx_uminus dctx_rel_error | simp)+

section \<open>Arithmetic operations\<close>

definition dadd :: "decimal \<Rightarrow> decimal \<Rightarrow> decimal" where
  "dadd a b = dctx (a + b)"

definition dsub :: "decimal \<Rightarrow> decimal \<Rightarrow> decimal" where
  "dsub a b = dctx (a - b)"

definition dmul :: "decimal \<Rightarrow> decimal \<Rightarrow> decimal" where
  "dmul a b = dctx (a * b)"

text \<open>
  \<open>ddiv\<close> is the value of a division whose divisor is not zero; \<open>ddiv_checked\<close> is
  the operator \<open>/\<close> where the divisor can be zero.
\<close>

definition ddiv :: "decimal \<Rightarrow> decimal \<Rightarrow> decimal" where
  "ddiv a b = dctx (a / b)"

definition ddiv_checked :: "decimal \<Rightarrow> decimal \<Rightarrow> decimal result" where
  "ddiv_checked a b = (if b = 0 then Inl ZeroDivisionError else Inr (ddiv a b))"

definition dneg :: "decimal \<Rightarrow> decimal" where
  "dneg a = dctx (- a)"

definition dabs :: "decimal \<Rightarrow> decimal" where
  "dabs a = dctx \<bar>a\<bar>"

text \<open>\<open>sum(values, Decimal("0"))\<close>: additions from left to right, each rounded.\<close>

definition dsum :: "decimal list \<Rightarrow> decimal" where
  "dsum xs = foldl dadd 0 xs"

lemmas dec_op_defs = dadd_def dsub_def dmul_def ddiv_def dneg_def dabs_def

text \<open>
  \<open>quantize\<close> to \<open>k\<close> places with a rounding mode: \<open>InvalidOperation\<close> when the
  coefficient would need more than 28 digits.
\<close>

definition quantize_value :: "(rat \<Rightarrow> int) \<Rightarrow> nat \<Rightarrow> rat \<Rightarrow> decimal" where
  "quantize_value r k x = of_int (r (x * 10 ^ k)) / 10 ^ k"

definition quantize :: "(rat \<Rightarrow> int) \<Rightarrow> nat \<Rightarrow> decimal \<Rightarrow> decimal result" where
  "quantize r k x = (if 10 ^ 28 \<le> \<bar>r (x * 10 ^ k)\<bar> then Inl InvalidOperation
     else Inr (quantize_value r k x))"

interpretation qhe: rounding "quantize_value round_half_even k"
proof
  show "quantize_value round_half_even k x \<le> quantize_value round_half_even k y"
    if "x \<le> y" for x y
    using that by (simp add: quantize_value_def divide_right_mono round_half_even_mono)
qed (simp_all add: quantize_value_def round_half_even_uminus)

interpretation qdown: rounding "quantize_value round_down k"
proof
  show "quantize_value round_down k x \<le> quantize_value round_down k y" if "x \<le> y" for x y
    using that by (simp add: quantize_value_def divide_right_mono round_down_mono)
qed (simp_all add: quantize_value_def round_down_uminus)

lemma quantize_down_le: "0 \<le> x \<Longrightarrow> quantize_value round_down k x \<le> x"
  using round_down_le[of "x * 10 ^ k"] by (simp add: quantize_value_def pos_divide_le_eq)

lemma quantize_fixed: "quantize_value round_half_even k (of_int m / 10 ^ k) = of_int m / 10 ^ k"
  by (simp add: quantize_value_def)

subsection \<open>Signs, bounds and exactness\<close>

lemma dec_op_fixed [simp, dec_simps]:
  "dctx (dadd a b) = dadd a b" "dctx (dsub a b) = dsub a b" "dctx (dmul a b) = dmul a b"
  "dctx (ddiv a b) = ddiv a b" "dctx (dneg a) = dneg a" "dctx (dabs a) = dabs a"
  by (simp_all add: dec_op_defs)

lemma dsum_fixed [simp, dec_simps]: "dctx (dsum xs) = dsum xs"
  by (cases xs rule: rev_cases) (simp_all add: dsum_def)

lemma dadd_nonneg: "0 \<le> a \<Longrightarrow> 0 \<le> b \<Longrightarrow> 0 \<le> dadd a b"
  by (simp add: dadd_def dec.nonneg)

lemma dadd_pos: "0 < a \<Longrightarrow> 0 \<le> b \<Longrightarrow> 0 < dadd a b"
  by (simp add: dadd_def dec.pos)

lemma dmul_nonneg: "0 \<le> a \<Longrightarrow> 0 \<le> b \<Longrightarrow> 0 \<le> dmul a b"
  by (simp add: dmul_def dec.nonneg)

lemma dmul_pos: "0 < a \<Longrightarrow> 0 < b \<Longrightarrow> 0 < dmul a b"
  by (simp add: dmul_def dec.pos)

lemma ddiv_nonneg: "0 \<le> a \<Longrightarrow> 0 \<le> b \<Longrightarrow> 0 \<le> ddiv a b"
  by (simp add: ddiv_def dec.nonneg)

lemma ddiv_pos: "0 < a \<Longrightarrow> 0 < b \<Longrightarrow> 0 < ddiv a b"
  by (simp add: ddiv_def dec.pos)

lemma dsub_nonneg_iff: "0 \<le> dsub a b \<longleftrightarrow> b \<le> a"
  by (simp add: dsub_def dec.nonneg_iff)

lemma dsub_pos_iff: "0 < dsub a b \<longleftrightarrow> b < a"
  by (simp add: dsub_def dec.pos_iff)

lemma dsub_zero_iff: "dsub a b = 0 \<longleftrightarrow> a = b"
  by (simp add: dsub_def dec.zero_iff)

lemma dsub_neg_iff: "dsub a b < 0 \<longleftrightarrow> a < b"
  by (simp add: dsub_def dec.neg_iff)

lemma dsum_nonneg: "(\<And>x. x \<in> set xs \<Longrightarrow> 0 \<le> x) \<Longrightarrow> 0 \<le> dsum xs"
proof (induction xs rule: rev_induct)
  case (snoc x xs)
  then have "0 \<le> dsum xs" "0 \<le> x" by auto
  then show ?case by (simp add: dsum_def dadd_nonneg)
qed (simp add: dsum_def)

lemma dsum_Nil [simp]: "dsum [] = 0"
  by (simp add: dsum_def)

lemma dsum_snoc [simp]: "dsum (xs @ [x]) = dadd (dsum xs) x"
  by (simp add: dsum_def)

lemma dctx_1 [simp]: "dctx 1 = 1"
  using dctx_exact[of 1 0] by simp

lemma dmul_1 [simp]: "dmul a 1 = dctx a" "dmul 1 a = dctx a"
  by (simp_all add: dmul_def)

lemma dmul_0 [simp]: "dmul a 0 = 0" "dmul 0 a = 0"
  by (simp_all add: dmul_def)

lemma ddiv_self [simp]: "a \<noteq> 0 \<Longrightarrow> ddiv a a = 1"
  by (simp add: ddiv_def)

lemma ddiv_0 [simp]: "ddiv 0 a = 0"
  by (simp add: ddiv_def)

lemma dadd_0 [simp]: "dadd a 0 = dctx a" "dadd 0 a = dctx a"
  by (simp_all add: dadd_def)

lemma dsub_self [simp]: "dsub a a = 0"
  by (simp add: dsub_def)

lemma dsub_0 [simp]: "dsub a 0 = dctx a"
  by (simp add: dsub_def)

lemma ddiv_le_1: "0 \<le> a \<Longrightarrow> a \<le> b \<Longrightarrow> 0 < b \<Longrightarrow> ddiv a b \<le> 1"
  unfolding ddiv_def by (rule dec.le_fixed) simp_all

lemma dmul_le_left: "0 \<le> a \<Longrightarrow> b \<le> 1 \<Longrightarrow> dctx a = a \<Longrightarrow> dmul a b \<le> a"
  unfolding dmul_def by (rule dec.le_fixed) (simp_all add: mult_left_le)

lemma dctx_grid:
  assumes "x * 10 ^ k = of_int m" and "\<bar>m\<bar> \<le> 10 ^ 28"
  shows "dctx x = x"
proof -
  have "x = of_int m * 10 powi (- int k)"
    by (simp add: assms(1)[symmetric] power_int_minus field_simps)
  then show ?thesis using dctx_exact[OF assms(2), of "- int k"] by simp
qed

end
