(* ===== verification/Py_Time.thy ===== *)
theory Py_Time
  imports Decimal_Arith
begin

text \<open>
  Time-zone aware \<open>datetime\<close> values as microseconds since 1970-01-01 UTC, \<open>timedelta\<close> as
  microseconds, and the ISO date strings the program uses as day keys. The IANA data behind
  \<open>ZoneInfo\<close> is not part of the sources: a zone is a pair of functions between instants and
  wall-clock microseconds. Durations enter decimals through \<open>Decimal(str(td.total_seconds()))\<close>;
  below \<open>10 ^ 15\<close> microseconds (31 years) the shortest representation of the binary float is
  the exact number of seconds with at most six places, which is what \<open>seconds_of\<close> gives.
\<close>

type_synonym datetime = int
type_synonym timedelta = int

definition usec :: int where
  "usec = 1000000"

definition seconds :: "int \<Rightarrow> timedelta" where
  "seconds n = n * usec"

definition seconds_of :: "timedelta \<Rightarrow> decimal" where
  "seconds_of d = of_int d / of_int usec"

text \<open>\<open>int(td.total_seconds())\<close> truncates towards zero.\<close>

definition int_seconds :: "timedelta \<Rightarrow> int" where
  "int_seconds d = (if 0 \<le> d then d div usec else - ((- d) div usec))"

lemma seconds_of_seconds: "seconds_of (seconds n) = of_int n"
  by (simp add: seconds_of_def seconds_def usec_def)

lemma int_seconds_ge:
  assumes "0 < n" shows "n \<le> int_seconds d \<longleftrightarrow> seconds n \<le> d"
proof (cases "0 \<le> d")
  case True
  have "n \<le> d div usec \<longleftrightarrow> n * usec \<le> d"
  proof
    assume "n \<le> d div usec"
    then have "n * usec \<le> (d div usec) * usec" by (simp add: usec_def)
    also have "\<dots> \<le> d" by (simp add: usec_def)
    finally show "n * usec \<le> d" .
  next
    assume "n * usec \<le> d"
    then have "(n * usec) div usec \<le> d div usec" by (rule zdiv_mono1) (simp add: usec_def)
    then show "n \<le> d div usec" by (simp add: usec_def)
  qed
  with True show ?thesis by (simp add: int_seconds_def seconds_def)
next
  case False
  then have "0 \<le> (- d) div usec" "d < seconds n"
    using assms by (simp_all add: usec_def seconds_def div_int_pos_iff)
  with False assms show ?thesis by (simp add: int_seconds_def)
qed

section \<open>Zones and day keys\<close>

record time_zone =
  to_wall :: "datetime \<Rightarrow> int"
  from_wall :: "int \<Rightarrow> datetime"

definition utc :: time_zone where
  "utc = \<lparr>to_wall = (\<lambda>t. t), from_wall = (\<lambda>w. w)\<rparr>"

definition day_usec :: int where
  "day_usec = 86400 * usec"

text \<open>Proleptic Gregorian date of a day number (day 0 is 1970-01-01).\<close>

definition civil_from_days :: "int \<Rightarrow> int \<times> int \<times> int" where
  "civil_from_days n =
     (let z = n + 719468;
          era = z div 146097;
          doe = z - era * 146097;
          yoe = (doe - doe div 1460 + doe div 36524 - doe div 146096) div 365;
          doy = doe - (365 * yoe + yoe div 4 - yoe div 100);
          mp = (5 * doy + 2) div 153;
          d = doy - (153 * mp + 2) div 5 + 1;
          m = (if mp < 10 then mp + 3 else mp - 9);
          y = yoe + era * 400
      in (if m \<le> 2 then y + 1 else y, m, d))"

fun digit_char :: "int \<Rightarrow> char" where
  "digit_char d = char_of (48 + nat d)"

fun pad_digits :: "nat \<Rightarrow> int \<Rightarrow> string" where
  "pad_digits 0 n = []"
| "pad_digits (Suc k) n = pad_digits k (n div 10) @ [digit_char (n mod 10)]"

definition isoformat_date :: "int \<Rightarrow> string" where
  "isoformat_date n =
     (case civil_from_days n of (y, m, d) \<Rightarrow>
        pad_digits 4 y @ ''-'' @ pad_digits 2 m @ ''-'' @ pad_digits 2 d)"

definition date_key :: "time_zone \<Rightarrow> datetime \<Rightarrow> string" where
  "date_key tz t = isoformat_date (to_wall tz t div day_usec)"

definition day_start_wall :: "time_zone \<Rightarrow> datetime \<Rightarrow> int" where
  "day_start_wall tz t = (to_wall tz t div day_usec) * day_usec"

lemma day_usec_pos [simp]: "0 < day_usec"
  by (simp add: day_usec_def usec_def)

lemma day_start_wall_bounds:
  "day_start_wall tz t \<le> to_wall tz t" "to_wall tz t < day_start_wall tz t + day_usec"
proof -
  have "to_wall tz t = (to_wall tz t div day_usec) * day_usec + to_wall tz t mod day_usec" by simp
  moreover have "0 \<le> to_wall tz t mod day_usec" "to_wall tz t mod day_usec < day_usec"
    using day_usec_pos by (simp_all only: pos_mod_sign pos_mod_bound)
  ultimately show "day_start_wall tz t \<le> to_wall tz t" "to_wall tz t < day_start_wall tz t + day_usec"
    unfolding day_start_wall_def by linarith+
qed

end
