(* ===== verification/Models.thy ===== *)
theory Models
  imports Py_Time
begin

text \<open>
  Quotes, fills and positions (\<open>models.py\<close>). Fields carry a prefix, since record fields share
  one name space; the constraints of the pydantic fields are the predicate \<open>fill_valid\<close>.
\<close>

datatype quote_direction = QBUY | QSELL

datatype position_status = OPEN | CLOSED

datatype fill_type = ENTRY | EXIT

record quote_response =
  quote_request_id :: string
  quote_requested_at :: datetime
  quote_received_at :: datetime
  quote_latency_ms :: int
  quote_token_in :: string
  quote_token_out :: string
  quote_in_amount :: decimal
  quote_out_amount :: decimal
  quote_in_amount_usd :: "decimal option"
  quote_out_amount_usd :: "decimal option"
  quote_price_impact_pct :: decimal
  quote_platform_fee_usd :: decimal
  quote_estimated_network_fee_usd :: decimal
  quote_expires_at :: "datetime option"

definition quote_is_stale :: "quote_response \<Rightarrow> datetime \<Rightarrow> bool" where
  "quote_is_stale q now = (case quote_expires_at q of None \<Rightarrow> False | Some e \<Rightarrow> e \<le> now)"

record round_trip_quote =
  rt_buy :: quote_response
  rt_sell :: quote_response
  rt_starting_usd :: decimal
  rt_ending_usd :: decimal
  rt_loss_pct :: decimal

record fill_record =
  fill_id :: string
  fill_position_id :: "string option"
  fill_token_mint :: string
  fill_order_id :: string
  fill_quote_id :: string
  fill_kind :: fill_type
  fill_token_amount :: decimal
  fill_usd_notional :: decimal
  fill_cost_basis_usd :: decimal
  fill_created_at :: datetime
  fill_exit_reason :: "string option"
  fill_price_impact_pct :: decimal
  fill_platform_fee_usd :: decimal
  fill_network_fee_usd :: decimal
  fill_other_cost_usd :: decimal
  fill_adverse_fill_bps :: int
  fill_quote_latency_ms :: int
  fill_round_trip_cost_pct :: "decimal option"

text \<open>The \<open>Field(ge=..., lt=...)\<close> constraints; violating one raises a \<open>ValidationError\<close>.\<close>

definition fill_valid :: "fill_record \<Rightarrow> bool" where
  "fill_valid f \<longleftrightarrow> 0 \<le> fill_platform_fee_usd f \<and> 0 \<le> fill_network_fee_usd f
     \<and> 0 \<le> fill_other_cost_usd f \<and> 0 \<le> fill_adverse_fill_bps f
     \<and> fill_adverse_fill_bps f < 10000 \<and> 0 \<le> fill_quote_latency_ms f"

record position_record =
  pos_id :: string
  pos_token_mint :: string
  pos_open_fill_id :: string
  pos_entry_token_amount :: decimal
  pos_entry_cost_usd :: decimal
  pos_open_ratio :: decimal
  pos_opened_at :: datetime
  pos_closed_at :: "datetime option"
  pos_locked_usd :: decimal
  pos_status :: position_status
  pos_remaining_token_amount :: decimal
  pos_remaining_cost_usd :: decimal
  pos_realized_pnl_usd :: decimal
  pos_peak_unrealized_usd :: decimal
  pos_mfe_pct :: decimal
  pos_mae_pct :: decimal
  pos_highest_executable_value_usd :: decimal
  pos_lowest_executable_value_usd :: "decimal option"
  pos_last_executable_value_usd :: decimal
  pos_tp1_taken :: bool
  pos_tp2_taken :: bool
  pos_last_new_high_at :: "datetime option"
  pos_final_exit_reason :: "string option"
  pos_candidate_id :: "string option"
  pos_pool_address :: "string option"
  pos_entry_score :: "decimal option"
  pos_entry_liquidity_usd :: "decimal option"
  pos_entry_pool_age_seconds :: "decimal option"
  pos_strategy_version :: "string option"

end
