(* ===== verification/Ledger.thy ===== *)
theory Ledger
  imports Models
begin

text \<open>
  The paper ledger (\<open>ledger.py\<close>): \<open>LedgerState\<close>, its JSON mirror on disk, and
  every operation of \<open>PaperLedger\<close>. The operations are functions from a ledger to a ledger;
  what they raise is the \<open>Inl\<close> of a sum. Values the code takes from outside (the clock,
  the id factory, the price dictionary, database rows) are arguments. Each operation runs under
  the ledger's lock, so one call is one step.
\<close>

section \<open>LedgerState\<close>

record ledger_state =
  ls_equity_usd :: decimal
  ls_peak_equity_usd :: decimal
  ls_realized_pnl_usd :: decimal
  ls_unrealized_pnl_usd :: decimal
  ls_locked_capital_usd :: decimal
  ls_strategy_version :: string
  ls_config_hash :: string
  ls_positions :: "(string, position_record) dict"
  ls_fills :: "fill_record list"
  ls_daily_pnl :: "(string, decimal) dict"
  ls_daily_equity_baseline :: "(string, decimal) dict"
  ls_halt_reason :: "string option"
  ls_pause_until :: "datetime option"
  ls_daily_halt_date :: "string option"
  ls_order_id_index :: "(string, string) dict"
  ls_close_order_id_index :: "(string, string) dict"
  ls_close_fill_id_index :: "(string, string) dict"
  ls_token_index :: "(string, string) dict"

definition ledger_state_init :: "decimal \<Rightarrow> string \<Rightarrow> string \<Rightarrow> ledger_state" where
  "ledger_state_init starting_equity_usd strategy_version config_hash = \<lparr>
     ls_equity_usd = starting_equity_usd,
     ls_peak_equity_usd = starting_equity_usd,
     ls_realized_pnl_usd = 0,
     ls_unrealized_pnl_usd = 0,
     ls_locked_capital_usd = 0,
     ls_strategy_version = strategy_version,
     ls_config_hash = config_hash,
     ls_positions = [],
     ls_fills = [],
     ls_daily_pnl = [],
     ls_daily_equity_baseline = [],
     ls_halt_reason = None,
     ls_pause_until = None,
     ls_daily_halt_date = None,
     ls_order_id_index = [],
     ls_close_order_id_index = [],
     ls_close_fill_id_index = [],
     ls_token_index = []\<rparr>"

definition open_positions :: "ledger_state \<Rightarrow> position_record list" where
  "open_positions s = filter (\<lambda>p. pos_status p = OPEN) (dict_values (ls_positions s))"

definition is_halted :: "ledger_state \<Rightarrow> bool" where
  "is_halted s \<longleftrightarrow> ls_halt_reason s \<noteq> None"

definition is_hard_halted :: "ledger_state \<Rightarrow> bool" where
  "is_hard_halted s \<longleftrightarrow> (case ls_halt_reason s of None \<Rightarrow> False | Some r \<Rightarrow> startswith r ''hard:'')"

definition state_set_halt :: "string \<Rightarrow> ledger_state \<Rightarrow> ledger_state" where
  "state_set_halt reason s = s\<lparr>ls_halt_reason := Some (''manual:'' @ reason)\<rparr>"

definition state_set_hard_halt :: "string \<Rightarrow> ledger_state \<Rightarrow> ledger_state" where
  "state_set_hard_halt reason s = s\<lparr>ls_halt_reason := Some (''hard:'' @ reason)\<rparr>"

definition state_clear_halt :: "bool \<Rightarrow> ledger_state \<Rightarrow> ledger_state \<times> bool" where
  "state_clear_halt force s =
     (if (case ls_halt_reason s of None \<Rightarrow> False
          | Some r \<Rightarrow> startswith r ''hard:'' \<or> startswith r ''daily:'') \<and> \<not> force
      then (s, False)
      else (s\<lparr>ls_halt_reason := None\<rparr>, True))"

definition state_clear_hard_halt :: "ledger_state \<Rightarrow> ledger_state \<times> bool" where
  "state_clear_hard_halt s = state_clear_halt True s"

definition total_exposure_usd :: "ledger_state \<Rightarrow> decimal" where
  "total_exposure_usd s = ls_locked_capital_usd s"

definition open_positions_count :: "ledger_state \<Rightarrow> nat" where
  "open_positions_count s = length (open_positions s)"

definition open_positions_notional_usd :: "ledger_state \<Rightarrow> decimal" where
  "open_positions_notional_usd s = dsum (map pos_remaining_cost_usd (open_positions s))"

section \<open>The JSON mirror\<close>

text \<open>
  One field of the parsed JSON document: the key is absent, its text is not a decimal, or it
  is a decimal. \<open>str\<close> and \<open>Decimal\<close> are inverse on finite decimals, so a written decimal
  comes back with its value.
\<close>

datatype 'a json_field = Missing | Malformed | Field 'a

record ledger_dict =
  jd_equity_usd :: "decimal json_field"
  jd_peak_equity_usd :: "decimal json_field"
  jd_realized_pnl_usd :: "decimal json_field"
  jd_unrealized_pnl_usd :: "decimal json_field"
  jd_locked_capital_usd :: "decimal json_field"
  jd_strategy_version :: "string option"
  jd_config_hash :: "string option"
  jd_positions :: "position_record option list"
  jd_fills :: "fill_record option list"
  jd_daily_pnl :: "(string, decimal json_field) dict"
  jd_daily_equity_baseline :: "(string, decimal json_field) dict"
  jd_halt_reason :: "string option"
  jd_pause_until :: "datetime option"
  jd_daily_halt_date :: "string option"
  jd_order_id_index :: "(string, string) dict"
  jd_close_order_id_index :: "(string, string) dict"
  jd_close_fill_id_index :: "(string, string) dict"
  jd_token_index :: "(string, string) dict"

definition to_dict :: "ledger_state \<Rightarrow> ledger_dict" where
  "to_dict s = \<lparr>
     jd_equity_usd = Field (ls_equity_usd s),
     jd_peak_equity_usd = Field (ls_peak_equity_usd s),
     jd_realized_pnl_usd = Field (ls_realized_pnl_usd s),
     jd_unrealized_pnl_usd = Field (ls_unrealized_pnl_usd s),
     jd_locked_capital_usd = Field (ls_locked_capital_usd s),
     jd_strategy_version = Some (ls_strategy_version s),
     jd_config_hash = Some (ls_config_hash s),
     jd_positions = map Some (dict_values (ls_positions s)),
     jd_fills = map Some (ls_fills s),
     jd_daily_pnl = map (map_prod id Field) (ls_daily_pnl s),
     jd_daily_equity_baseline = map (map_prod id Field) (ls_daily_equity_baseline s),
     jd_halt_reason = ls_halt_reason s,
     jd_pause_until = ls_pause_until s,
     jd_daily_halt_date = ls_daily_halt_date s,
     jd_order_id_index = ls_order_id_index s,
     jd_close_order_id_index = ls_close_order_id_index s,
     jd_close_fill_id_index = ls_close_fill_id_index s,
     jd_token_index = ls_token_index s\<rparr>"

text \<open>\<open>Decimal(data[k])\<close> and \<open>Decimal(data.get(k, default))\<close>.\<close>

fun required_decimal :: "decimal json_field \<Rightarrow> decimal result" where
  "required_decimal Missing = Inl KeyError"
| "required_decimal Malformed = Inl InvalidOperation"
| "required_decimal (Field x) = Inr x"

fun default_decimal :: "decimal \<Rightarrow> decimal json_field \<Rightarrow> decimal result" where
  "default_decimal d Missing = Inr d"
| "default_decimal d Malformed = Inl InvalidOperation"
| "default_decimal d (Field x) = Inr x"

fun decimal_entries :: "(string, decimal json_field) dict \<Rightarrow> (string, decimal) dict result" where
  "decimal_entries [] = Inr []"
| "decimal_entries ((k, v) # d) =
     rbind (required_decimal v) (\<lambda>x. rbind (decimal_entries d) (\<lambda>r. Inr ((k, x) # r)))"

text \<open>\<open>PositionRecord(**data)\<close> and \<open>FillRecord(**data)\<close>: a row that fails validation raises.\<close>

fun validate_rows :: "'a option list \<Rightarrow> 'a list result" where
  "validate_rows [] = Inr []"
| "validate_rows (None # xs) = Inl (ValueError ''validation error'')"
| "validate_rows (Some x # xs) = rbind (validate_rows xs) (\<lambda>r. Inr (x # r))"

definition positions_by_id :: "position_record list \<Rightarrow> (string, position_record) dict" where
  "positions_by_id ps = foldl (\<lambda>d p. dict_set d (pos_id p) p) [] ps"

definition opt_or :: "'a option \<Rightarrow> 'a \<Rightarrow> 'a" where
  "opt_or x d = (case x of None \<Rightarrow> d | Some y \<Rightarrow> y)"

definition from_dict :: "ledger_dict \<Rightarrow> ledger_state result" where
  "from_dict data =
     rbind (required_decimal (jd_equity_usd data)) (\<lambda>equity.
     rbind (default_decimal 0 (jd_peak_equity_usd data)) (\<lambda>peak.
     rbind (default_decimal 0 (jd_realized_pnl_usd data)) (\<lambda>realized.
     rbind (default_decimal 0 (jd_unrealized_pnl_usd data)) (\<lambda>unrealized.
     rbind (default_decimal 0 (jd_locked_capital_usd data)) (\<lambda>locked.
     rbind (decimal_entries (jd_daily_pnl data)) (\<lambda>daily_pnl.
     rbind (decimal_entries (jd_daily_equity_baseline data)) (\<lambda>baseline.
     rbind (validate_rows (jd_positions data)) (\<lambda>positions.
     rbind (validate_rows (jd_fills data)) (\<lambda>fills.
       Inr ((ledger_state_init equity (opt_or (jd_strategy_version data) [])
               (opt_or (jd_config_hash data) []))\<lparr>
         ls_peak_equity_usd := peak,
         ls_realized_pnl_usd := realized,
         ls_unrealized_pnl_usd := unrealized,
         ls_locked_capital_usd := locked,
         ls_halt_reason := jd_halt_reason data,
         ls_pause_until := jd_pause_until data,
         ls_daily_halt_date := jd_daily_halt_date data,
         ls_daily_pnl := daily_pnl,
         ls_daily_equity_baseline := baseline,
         ls_order_id_index := jd_order_id_index data,
         ls_close_order_id_index := jd_close_order_id_index data,
         ls_close_fill_id_index := jd_close_fill_id_index data,
         ls_token_index := jd_token_index data,
         ls_positions := positions_by_id positions,
         ls_fills := fills\<rparr>))))))))))"

section \<open>PaperLedger: construction and persistence\<close>

datatype storage_file = NoFile | UnreadableFile | JsonFile ledger_dict

record paper_ledger =
  pl_state :: ledger_state
  pl_storage :: storage_file
  pl_time_zone :: time_zone

text \<open>
  The exceptions \<open>_load_or_init\<close> catches: \<open>OSError\<close> and a JSON syntax error are the
  constructor \<open>UnreadableFile\<close>; \<open>ValueError\<close> and \<open>KeyError\<close> come from \<open>from_dict\<close>.
  \<open>decimal.InvalidOperation\<close> is an \<open>ArithmeticError\<close> and is not among them.
\<close>

fun load_catches :: "py_error \<Rightarrow> bool" where
  "load_catches (ValueError _) = True"
| "load_catches KeyError = True"
| "load_catches _ = False"

definition load_or_init :: "storage_file \<Rightarrow> decimal \<Rightarrow> string \<Rightarrow> string \<Rightarrow> ledger_state result" where
  "load_or_init storage starting_equity_usd strategy_version config_hash =
     (let fresh = Inr (ledger_state_init starting_equity_usd strategy_version config_hash) in
      case storage of
        NoFile \<Rightarrow> fresh
      | UnreadableFile \<Rightarrow> fresh
      | JsonFile raw \<Rightarrow>
          (case from_dict raw of
             Inr s \<Rightarrow> Inr (s\<lparr>ls_strategy_version := strategy_version, ls_config_hash := config_hash\<rparr>)
           | Inl e \<Rightarrow> if load_catches e then fresh else Inl e))"

definition paper_ledger_init ::
  "storage_file \<Rightarrow> decimal \<Rightarrow> string \<Rightarrow> string \<Rightarrow> time_zone \<Rightarrow> paper_ledger result" where
  "paper_ledger_init storage starting_equity_usd strategy_version config_hash tz =
     rbind (load_or_init storage starting_equity_usd strategy_version config_hash) (\<lambda>s.
       Inr \<lparr>pl_state = s, pl_storage = storage, pl_time_zone = tz\<rparr>)"

definition persist :: "paper_ledger \<Rightarrow> paper_ledger" where
  "persist L = L\<lparr>pl_storage := JsonFile (to_dict (pl_state L))\<rparr>"

abbreviation put_state :: "paper_ledger \<Rightarrow> ledger_state \<Rightarrow> paper_ledger" where
  "put_state L s \<equiv> persist (L\<lparr>pl_state := s\<rparr>)"

section \<open>Reads\<close>

definition cash_available_usd :: "paper_ledger \<Rightarrow> decimal" where
  "cash_available_usd L = dsub (dsub (ls_equity_usd (pl_state L)) (ls_unrealized_pnl_usd (pl_state L)))
     (ls_locked_capital_usd (pl_state L))"

definition realized_base_equity :: "ledger_state \<Rightarrow> decimal" where
  "realized_base_equity s = dsub (ls_equity_usd s) (ls_unrealized_pnl_usd s)"

definition daily_pnl :: "paper_ledger \<Rightarrow> string \<Rightarrow> decimal" where
  "daily_pnl L key = opt_or (dict_get (ls_daily_pnl (pl_state L)) key) 0"

definition can_open :: "paper_ledger \<Rightarrow> string \<Rightarrow> bool" where
  "can_open L token_mint \<longleftrightarrow> dict_get (ls_token_index (pl_state L)) token_mint = None"

definition get_fill_by_order :: "paper_ledger \<Rightarrow> string \<Rightarrow> fill_record option" where
  "get_fill_by_order L order_id = find (\<lambda>f. fill_order_id f = order_id) (rev (ls_fills (pl_state L)))"

text \<open>\<open>positions[position_id]\<close> raises \<open>KeyError\<close> when the index names an unknown position.\<close>

definition position_at :: "ledger_state \<Rightarrow> string \<Rightarrow> position_record result" where
  "position_at s pid = (case dict_get (ls_positions s) pid of None \<Rightarrow> Inl KeyError | Some p \<Rightarrow> Inr p)"

definition get_position_by_order :: "paper_ledger \<Rightarrow> string \<Rightarrow> position_record option result" where
  "get_position_by_order L order_id =
     (let s = pl_state L in
      if truthy (dict_get (ls_order_id_index s) order_id)
      then map_sum id Some (position_at s (the (dict_get (ls_order_id_index s) order_id)))
      else if truthy (dict_get (ls_close_order_id_index s) order_id)
      then map_sum id Some (position_at s (the (dict_get (ls_close_order_id_index s) order_id)))
      else Inr None)"

definition current_date_key :: "paper_ledger \<Rightarrow> datetime \<Rightarrow> string" where
  "current_date_key L at_time = date_key (pl_time_zone L) at_time"

definition day_bounds_utc :: "paper_ledger \<Rightarrow> datetime \<Rightarrow> datetime \<times> datetime" where
  "day_bounds_utc L at_time =
     (let start = day_start_wall (pl_time_zone L) at_time
      in (from_wall (pl_time_zone L) start, from_wall (pl_time_zone L) (start + day_usec)))"

definition drawdown_exceeded :: "paper_ledger \<Rightarrow> decimal \<Rightarrow> bool" where
  "drawdown_exceeded L drawdown_limit_pct =
     (let peak = ls_peak_equity_usd (pl_state L); current = ls_equity_usd (pl_state L) in
      if peak \<le> 0 then False
      else if peak \<le> current then False
      else dabs drawdown_limit_pct \<le> dmul (ddiv (dsub peak current) peak) 100)"

record reconciliation =
  rec_equity_usd :: decimal
  rec_realized_pnl_usd :: decimal
  rec_expected_realized_pnl_usd :: decimal
  rec_open_positions_count :: nat
  rec_open_positions_notional_usd :: decimal
  rec_total_exit_notional_usd :: decimal
  rec_is_reconciled :: bool

definition exit_fills :: "ledger_state \<Rightarrow> fill_record list" where
  "exit_fills s = filter (\<lambda>f. fill_kind f = EXIT) (ls_fills s)"

definition fill_realized :: "fill_record \<Rightarrow> decimal" where
  "fill_realized f = dsub (fill_usd_notional f) (dmul (fill_cost_basis_usd f) (fill_token_amount f))"

definition reconcile :: "paper_ledger \<Rightarrow> reconciliation" where
  "reconcile L =
     (let s = pl_state L; realized = dsum (map fill_realized (exit_fills s)) in \<lparr>
       rec_equity_usd = ls_equity_usd s,
       rec_realized_pnl_usd = ls_realized_pnl_usd s,
       rec_expected_realized_pnl_usd = realized,
       rec_open_positions_count = open_positions_count s,
       rec_open_positions_notional_usd = open_positions_notional_usd s,
       rec_total_exit_notional_usd = dsum (map fill_usd_notional (exit_fills s)),
       rec_is_reconciled = (realized = ls_realized_pnl_usd s)\<rparr>)"

section \<open>Controls: halts, pauses, baselines\<close>

definition set_pause_until :: "datetime option \<Rightarrow> paper_ledger \<Rightarrow> paper_ledger" where
  "set_pause_until until L = put_state L ((pl_state L)\<lparr>ls_pause_until := until\<rparr>)"

definition set_halt :: "string \<Rightarrow> bool \<Rightarrow> paper_ledger \<Rightarrow> paper_ledger" where
  "set_halt reason hard L =
     put_state L (if hard then state_set_hard_halt reason (pl_state L)
                  else state_set_halt reason (pl_state L))"

definition clear_halt :: "bool \<Rightarrow> paper_ledger \<Rightarrow> paper_ledger \<times> bool" where
  "clear_halt force L =
     (case state_clear_halt force (pl_state L) of (s, cleared) \<Rightarrow>
        if cleared then (put_state L s, True) else (L\<lparr>pl_state := s\<rparr>, False))"

definition set_daily_halt :: "string \<Rightarrow> string \<Rightarrow> paper_ledger \<Rightarrow> paper_ledger" where
  "set_daily_halt key reason L =
     put_state L ((pl_state L)\<lparr>ls_daily_halt_date := Some key,
       ls_halt_reason := Some (''daily:'' @ key @ '':'' @ reason)\<rparr>)"

definition clear_expired_daily_controls :: "string \<Rightarrow> datetime \<Rightarrow> paper_ledger \<Rightarrow> paper_ledger" where
  "clear_expired_daily_controls key now L =
     (let s0 = pl_state L;
          pause_over = (case ls_pause_until s0 of None \<Rightarrow> False | Some t \<Rightarrow> t \<le> now);
          s1 = (if pause_over then s0\<lparr>ls_pause_until := None\<rparr> else s0);
          day_over = (truthy (ls_daily_halt_date s1) \<and> ls_daily_halt_date s1 \<noteq> Some key);
          s2 = (if day_over then
                  (if (case ls_halt_reason s1 of None \<Rightarrow> False | Some r \<Rightarrow> startswith r ''daily:'')
                   then s1\<lparr>ls_halt_reason := None\<rparr> else s1)\<lparr>ls_daily_halt_date := None\<rparr>
                else s1)
      in if pause_over \<or> day_over then put_state L s2 else L)"

definition daily_loss_exceeded :: "decimal \<Rightarrow> datetime \<Rightarrow> paper_ledger \<Rightarrow> paper_ledger \<times> bool" where
  "daily_loss_exceeded limit at_time L =
     (let s = pl_state L;
          today = current_date_key L at_time;
          s' = s\<lparr>ls_daily_equity_baseline :=
                   dict_setdefault (ls_daily_equity_baseline s) today (ls_equity_usd s)\<rparr>;
          baseline = opt_or (dict_get (ls_daily_equity_baseline s') today) 0
      in (L\<lparr>pl_state := s'\<rparr>, dsub (ls_equity_usd s) baseline \<le> dneg (dabs limit)))"

definition set_daily_equity_baseline :: "string \<Rightarrow> decimal \<Rightarrow> paper_ledger \<Rightarrow> paper_ledger" where
  "set_daily_equity_baseline key equity L =
     put_state L ((pl_state L)\<lparr>ls_daily_equity_baseline :=
       dict_set (ls_daily_equity_baseline (pl_state L)) key equity\<rparr>)"

end
