(* ===== verification/Ledger_Ops.thy ===== *)
theory Ledger_Ops
  imports Ledger
begin

text \<open>
  The trading operations of \<open>PaperLedger\<close> (\<open>ledger.py\<close>): marking to market, opening and
  closing positions, and rebuilding the ledger from committed database rows.
\<close>

section \<open>Marking to market\<close>

text \<open>One priced open position of the loop: its new record and its unrealized PnL.\<close>

definition mark_position :: "decimal \<Rightarrow> datetime \<Rightarrow> position_record \<Rightarrow> position_record" where
  "mark_position price mark_time p =
     (let mark = dmul (pos_remaining_token_amount p) price;
          cost = pos_remaining_cost_usd p;
          p1 = p\<lparr>pos_last_executable_value_usd := mark,
                 pos_peak_unrealized_usd := max (pos_peak_unrealized_usd p) (dsub mark cost)\<rparr>;
          p2 = (if pos_highest_executable_value_usd p1 < mark
                then p1\<lparr>pos_highest_executable_value_usd := mark,
                        pos_last_new_high_at := Some mark_time\<rparr>
                else p1);
          p3 = p2\<lparr>pos_lowest_executable_value_usd :=
                    Some (case pos_lowest_executable_value_usd p2 of
                            None \<Rightarrow> mark | Some low \<Rightarrow> min low mark)\<rparr>
      in if 0 < cost then
           (let current_return = ddiv (dsub mark cost) cost
            in p3\<lparr>pos_mfe_pct := max (pos_mfe_pct p3) current_return,
                  pos_mae_pct := min (pos_mae_pct p3) current_return\<rparr>)
         else p3)"

definition marked_unrealized :: "decimal \<Rightarrow> position_record \<Rightarrow> decimal" where
  "marked_unrealized price p =
     dsub (dmul (pos_remaining_token_amount p) price) (pos_remaining_cost_usd p)"

fun mark_loop :: "(string, decimal) dict \<Rightarrow> datetime \<Rightarrow> (string, position_record) dict \<Rightarrow> decimal
    \<Rightarrow> (string, position_record) dict \<times> decimal" where
  "mark_loop prices mark_time [] unrealized = ([], unrealized)"
| "mark_loop prices mark_time ((k, p) # ps) unrealized =
     (if pos_status p \<noteq> OPEN then
        (case mark_loop prices mark_time ps unrealized of (qs, u) \<Rightarrow> ((k, p) # qs, u))
      else (case dict_get prices (pos_token_mint p) of
        None \<Rightarrow> (case mark_loop prices mark_time ps unrealized of (qs, u) \<Rightarrow> ((k, p) # qs, u))
      | Some price \<Rightarrow>
          (case mark_loop prices mark_time ps (dadd unrealized (marked_unrealized price p)) of
             (qs, u) \<Rightarrow> ((k, mark_position price mark_time p) # qs, u))))"

definition mark_to_market ::
  "(string, decimal) dict \<Rightarrow> datetime \<Rightarrow> paper_ledger \<Rightarrow> paper_ledger \<times> decimal \<times> decimal" where
  "mark_to_market prices mark_time L =
     (let s = pl_state L;
          realized_component = realized_base_equity s;
          today = current_date_key L mark_time;
          (ps, unrealized) = mark_loop prices mark_time (ls_positions s) 0;
          equity = dadd realized_component unrealized;
          s' = s\<lparr>ls_positions := ps,
                 ls_unrealized_pnl_usd := unrealized,
                 ls_equity_usd := equity,
                 ls_daily_equity_baseline :=
                   dict_setdefault (ls_daily_equity_baseline s) today equity,
                 ls_peak_equity_usd := max (ls_peak_equity_usd s) equity\<rparr>
      in (put_state L s', unrealized, equity))"

section \<open>Opening a position\<close>

record open_args =
  oa_token_mint :: string
  oa_usd_amount :: decimal
  oa_token_amount :: decimal
  oa_order_id :: string
  oa_quote_id :: string
  oa_position_id :: "string option"
  oa_fill_id :: "string option"
  oa_created_at :: "datetime option"
  oa_candidate_id :: "string option"
  oa_pool_address :: "string option"
  oa_entry_score :: "decimal option"
  oa_entry_liquidity_usd :: "decimal option"
  oa_entry_pool_age_seconds :: "decimal option"
  oa_strategy_version :: "string option"
  oa_price_impact_pct :: decimal
  oa_platform_fee_usd :: decimal
  oa_network_fee_usd :: decimal
  oa_other_cost_usd :: decimal
  oa_adverse_fill_bps :: int
  oa_quote_latency_ms :: int
  oa_round_trip_cost_pct :: "decimal option"

definition entry_fill :: "open_args \<Rightarrow> string \<Rightarrow> string \<Rightarrow> datetime \<Rightarrow> fill_record" where
  "entry_fill a pid fid now =
     (let entry_cost = dadd (oa_usd_amount a) (oa_network_fee_usd a) in \<lparr>
       fill_id = fid,
       fill_position_id = Some pid,
       fill_token_mint = oa_token_mint a,
       fill_order_id = oa_order_id a,
       fill_quote_id = oa_quote_id a,
       fill_kind = ENTRY,
       fill_token_amount = oa_token_amount a,
       fill_usd_notional = entry_cost,
       fill_cost_basis_usd =
         (if oa_token_amount a \<noteq> 0 then ddiv entry_cost (oa_token_amount a) else 0),
       fill_created_at = now,
       fill_exit_reason = None,
       fill_price_impact_pct = oa_price_impact_pct a,
       fill_platform_fee_usd = oa_platform_fee_usd a,
       fill_network_fee_usd = oa_network_fee_usd a,
       fill_other_cost_usd = oa_other_cost_usd a,
       fill_adverse_fill_bps = oa_adverse_fill_bps a,
       fill_quote_latency_ms = oa_quote_latency_ms a,
       fill_round_trip_cost_pct = oa_round_trip_cost_pct a\<rparr>)"

definition new_position :: "open_args \<Rightarrow> string \<Rightarrow> string \<Rightarrow> datetime \<Rightarrow> position_record" where
  "new_position a pid fid now =
     (let entry_cost = dadd (oa_usd_amount a) (oa_network_fee_usd a) in \<lparr>
       pos_id = pid,
       pos_token_mint = oa_token_mint a,
       pos_open_fill_id = fid,
       pos_entry_token_amount = oa_token_amount a,
       pos_entry_cost_usd = entry_cost,
       pos_open_ratio = fill_cost_basis_usd (entry_fill a pid fid now),
       pos_opened_at = now,
       pos_closed_at = None,
       pos_locked_usd = entry_cost,
       pos_status = OPEN,
       pos_remaining_token_amount = oa_token_amount a,
       pos_remaining_cost_usd = entry_cost,
       pos_realized_pnl_usd = 0,
       pos_peak_unrealized_usd = 0,
       pos_mfe_pct = 0,
       pos_mae_pct = 0,
       pos_highest_executable_value_usd = 0,
       pos_lowest_executable_value_usd = None,
       pos_last_executable_value_usd = 0,
       pos_tp1_taken = False,
       pos_tp2_taken = False,
       pos_last_new_high_at = None,
       pos_final_exit_reason = None,
       pos_candidate_id = oa_candidate_id a,
       pos_pool_address = oa_pool_address a,
       pos_entry_score = oa_entry_score a,
       pos_entry_liquidity_usd = oa_entry_liquidity_usd a,
       pos_entry_pool_age_seconds = oa_entry_pool_age_seconds a,
       pos_strategy_version = oa_strategy_version a\<rparr>)"

text \<open>
  \<open>pid0\<close> and \<open>fid0\<close> are what the id factory returns if it is called, \<open>clock\<close> what
  \<open>datetime.now\<close> returns if it is called.
\<close>

definition open_position ::
  "open_args \<Rightarrow> string \<Rightarrow> string \<Rightarrow> datetime \<Rightarrow> paper_ledger \<Rightarrow> (paper_ledger \<times> position_record) result" where
  "open_position a pid0 fid0 clock L =
     (let s = pl_state L in
      if oa_usd_amount a \<le> 0 then Inl (ValueError ''usd_amount must be positive'')
      else if oa_token_amount a \<le> 0 then Inl (ValueError ''token_amount must be positive'')
      else case dict_get (ls_order_id_index s) (oa_order_id a) of
        Some pid \<Rightarrow> rbind (position_at s pid) (\<lambda>p. Inr (L, p))
      | None \<Rightarrow>
          (if truthy (dict_get (ls_token_index s) (oa_token_mint a)) then
             rbind (position_at s (the (dict_get (ls_token_index s) (oa_token_mint a)))) (\<lambda>p. Inr (L, p))
           else
             (let pid = str_or (oa_position_id a) pid0;
                  now = opt_or (oa_created_at a) clock;
                  fid = str_or (oa_fill_id a) fid0;
                  entry_cost = dadd (oa_usd_amount a) (oa_network_fee_usd a);
                  fill = entry_fill a pid fid now;
                  position = new_position a pid fid now
              in if \<not> fill_valid fill then Inl (ValueError ''validation error'')
                 else Inr (put_state L (s\<lparr>
                        ls_fills := ls_fills s @ [fill],
                        ls_positions := dict_set (ls_positions s) pid position,
                        ls_order_id_index := dict_set (ls_order_id_index s) (oa_order_id a) pid,
                        ls_token_index := dict_set (ls_token_index s) (oa_token_mint a) pid,
                        ls_locked_capital_usd := dadd (ls_locked_capital_usd s) entry_cost\<rparr>),
                      position))))"

section \<open>Closing a position\<close>

record close_args =
  ca_token_mint :: string
  ca_usd_received :: decimal
  ca_token_closed :: decimal
  ca_order_id :: string
  ca_quote_id :: string
  ca_exit_reason :: "string option"
  ca_close_fill_id :: "string option"
  ca_created_at :: "datetime option"
  ca_price_impact_pct :: decimal
  ca_platform_fee_usd :: decimal
  ca_network_fee_usd :: decimal
  ca_other_cost_usd :: decimal
  ca_adverse_fill_bps :: int
  ca_quote_latency_ms :: int

definition net_received :: "close_args \<Rightarrow> decimal" where
  "net_received a = max 0 (dsub (ca_usd_received a) (ca_network_fee_usd a))"

definition close_fill :: "close_args \<Rightarrow> position_record \<Rightarrow> string \<Rightarrow> string \<Rightarrow> datetime \<Rightarrow> fill_record" where
  "close_fill a p pid fid now = \<lparr>
     fill_id = fid,
     fill_position_id = Some pid,
     fill_token_mint = ca_token_mint a,
     fill_order_id = ca_order_id a,
     fill_quote_id = ca_quote_id a,
     fill_kind = EXIT,
     fill_token_amount = ca_token_closed a,
     fill_usd_notional = net_received a,
     fill_cost_basis_usd =
       (if pos_remaining_token_amount p \<noteq> 0
        then ddiv (pos_remaining_cost_usd p) (pos_remaining_token_amount p) else 0),
     fill_created_at = now,
     fill_exit_reason = ca_exit_reason a,
     fill_price_impact_pct = ca_price_impact_pct a,
     fill_platform_fee_usd = ca_platform_fee_usd a,
     fill_network_fee_usd = ca_network_fee_usd a,
     fill_other_cost_usd = ca_other_cost_usd a,
     fill_adverse_fill_bps = ca_adverse_fill_bps a,
     fill_quote_latency_ms = ca_quote_latency_ms a,
     fill_round_trip_cost_pct = None\<rparr>"

definition closed_fraction :: "close_args \<Rightarrow> position_record \<Rightarrow> decimal" where
  "closed_fraction a p = ddiv (ca_token_closed a) (pos_remaining_token_amount p)"

definition proportional_cost :: "close_args \<Rightarrow> position_record \<Rightarrow> decimal" where
  "proportional_cost a p = dmul (pos_remaining_cost_usd p) (closed_fraction a p)"

definition realized_delta :: "close_args \<Rightarrow> position_record \<Rightarrow> decimal" where
  "realized_delta a p = dsub (net_received a) (proportional_cost a p)"

definition closed_unrealized :: "close_args \<Rightarrow> position_record \<Rightarrow> decimal" where
  "closed_unrealized a p =
     dmul (if 0 < pos_last_executable_value_usd p
           then dsub (pos_last_executable_value_usd p) (pos_remaining_cost_usd p) else 0)
          (closed_fraction a p)"

definition reduce_position :: "close_args \<Rightarrow> datetime \<Rightarrow> position_record \<Rightarrow> position_record" where
  "reduce_position a now p =
     (let remaining_fraction = dsub 1 (closed_fraction a p);
          p1 = p\<lparr>pos_remaining_cost_usd := dsub (pos_remaining_cost_usd p) (proportional_cost a p),
                 pos_remaining_token_amount := dsub (pos_remaining_token_amount p) (ca_token_closed a),
                 pos_realized_pnl_usd := dadd (pos_realized_pnl_usd p) (realized_delta a p),
                 pos_last_executable_value_usd := dmul (pos_last_executable_value_usd p) remaining_fraction,
                 pos_highest_executable_value_usd :=
                   dmul (pos_highest_executable_value_usd p) remaining_fraction,
                 pos_lowest_executable_value_usd :=
                   map_option (\<lambda>low. dmul low remaining_fraction) (pos_lowest_executable_value_usd p),
                 pos_peak_unrealized_usd := dmul (pos_peak_unrealized_usd p) remaining_fraction\<rparr>;
          p2 = (if ca_exit_reason a = Some ''TP1'' then p1\<lparr>pos_tp1_taken := True\<rparr>
                else if ca_exit_reason a = Some ''TP2'' then p1\<lparr>pos_tp2_taken := True\<rparr> else p1)
      in if pos_remaining_token_amount p2 \<le> 0
         then p2\<lparr>pos_status := CLOSED, pos_closed_at := Some now,
                 pos_final_exit_reason := Some (str_or (ca_exit_reason a) ''UNKNOWN_EXIT'')\<rparr>
         else p2)"

definition apply_close ::
  "time_zone \<Rightarrow> close_args \<Rightarrow> string \<Rightarrow> string \<Rightarrow> datetime \<Rightarrow> position_record \<Rightarrow> ledger_state \<Rightarrow> ledger_state" where
  "apply_close tz a pid fid now p s =
     (let p' = reduce_position a now p;
          equity = dadd (ls_equity_usd s) (dsub (realized_delta a p) (closed_unrealized a p));
          today = date_key tz now
      in s\<lparr>
        ls_fills := ls_fills s @ [close_fill a p pid fid now],
        ls_realized_pnl_usd := dadd (ls_realized_pnl_usd s) (realized_delta a p),
        ls_unrealized_pnl_usd := dsub (ls_unrealized_pnl_usd s) (closed_unrealized a p),
        ls_locked_capital_usd := dsub (ls_locked_capital_usd s) (proportional_cost a p),
        ls_token_index := (if pos_remaining_token_amount p' \<le> 0
                           then AList.delete (ca_token_mint a) (ls_token_index s)
                           else ls_token_index s),
        ls_equity_usd := equity,
        ls_daily_pnl := dict_set (ls_daily_pnl s) today
          (dadd (opt_or (dict_get (ls_daily_pnl s) today) 0) (realized_delta a p)),
        ls_peak_equity_usd := max (ls_peak_equity_usd s) equity,
        ls_positions := dict_set (ls_positions s) pid p',
        ls_close_order_id_index := dict_set (ls_close_order_id_index s) (ca_order_id a) pid,
        ls_close_fill_id_index := dict_set (ls_close_fill_id_index s) (ca_order_id a) fid\<rparr>)"

definition close_position ::
  "close_args \<Rightarrow> string \<Rightarrow> datetime \<Rightarrow> paper_ledger \<Rightarrow> (paper_ledger \<times> position_record) result" where
  "close_position a fid0 clock L =
     (let s = pl_state L in
      if ca_usd_received a < 0 \<or> ca_token_closed a < 0
        then Inl (ValueError ''usd_received and token_closed must be non-negative'')
      else if ca_token_closed a = 0 then Inl (ValueError ''token_closed must be positive'')
      else case dict_get (ls_close_order_id_index s) (ca_order_id a) of
        Some pid \<Rightarrow> rbind (position_at s pid) (\<lambda>p. Inr (L, p))
      | None \<Rightarrow>
          (if \<not> truthy (dict_get (ls_token_index s) (ca_token_mint a))
           then Inl (ValueError ''position not found for token'')
           else let pid = the (dict_get (ls_token_index s) (ca_token_mint a)) in
             rbind (position_at s pid) (\<lambda>p.
               if pos_status p \<noteq> OPEN then Inr (L, p)
               else if pos_remaining_token_amount p < ca_token_closed a
                 then Inl (ValueError ''token_closed exceeds remaining position amount'')
               else let now = opt_or (ca_created_at a) clock;
                        fid = str_or (ca_close_fill_id a) fid0
                 in if \<not> fill_valid (close_fill a p pid fid now)
                    then Inl (ValueError ''validation error'')
                    else Inr (put_state L (apply_close (pl_time_zone L) a pid fid now p s),
                              reduce_position a now p))))"

end
