(* ===== verification/Ledger_Inv.thy ===== *)
theory Ledger_Inv
  imports Ledger_Ops
begin

text \<open>
  The invariant of the ledger and its preservation by every operation: indexes and positions
  agree, at most one open position per mint, amounts stay between zero and the entry, and the
  recorded peak is never below the equity.
\<close>

section \<open>The invariant\<close>

definition pos_wf :: "position_record \<Rightarrow> bool" where
  "pos_wf p \<longleftrightarrow>
     dctx (pos_remaining_cost_usd p) = pos_remaining_cost_usd p \<and>
     dctx (pos_remaining_token_amount p) = pos_remaining_token_amount p \<and>
     0 \<le> pos_remaining_cost_usd p \<and> pos_remaining_cost_usd p \<le> pos_entry_cost_usd p \<and>
     0 \<le> pos_remaining_token_amount p \<and> pos_remaining_token_amount p \<le> pos_entry_token_amount p \<and>
     (pos_status p = OPEN \<longleftrightarrow> 0 < pos_remaining_token_amount p) \<and>
     (pos_status p = CLOSED \<longrightarrow> pos_remaining_cost_usd p = 0) \<and>
     pos_mae_pct p \<le> 0 \<and> 0 \<le> pos_mfe_pct p"

definition positions_wf :: "(string, position_record) dict \<Rightarrow> bool" where
  "positions_wf d \<longleftrightarrow> dict_wf d \<and> (\<forall>(k, p) \<in> set d. pos_id p = k \<and> k \<noteq> [] \<and> pos_wf p)"

definition token_index_wf :: "ledger_state \<Rightarrow> bool" where
  "token_index_wf s \<longleftrightarrow> (\<forall>m pid. dict_get (ls_token_index s) m = Some pid \<longleftrightarrow>
     (\<exists>p. dict_get (ls_positions s) pid = Some p \<and> pos_status p = OPEN \<and> pos_token_mint p = m))"

definition order_index_wf :: "ledger_state \<Rightarrow> bool" where
  "order_index_wf s \<longleftrightarrow>
     ran (dict_get (ls_order_id_index s)) \<subseteq> dom (dict_get (ls_positions s)) \<and>
     ran (dict_get (ls_close_order_id_index s)) \<subseteq> dom (dict_get (ls_positions s))"

definition ledger_wf :: "ledger_state \<Rightarrow> bool" where
  "ledger_wf s \<longleftrightarrow> positions_wf (ls_positions s) \<and> token_index_wf s \<and> order_index_wf s
     \<and> ls_equity_usd s \<le> ls_peak_equity_usd s"

lemmas ledger_wf_defs = ledger_wf_def token_index_wf_def order_index_wf_def

lemma ledger_wf_init: "ledger_wf (ledger_state_init eq sv ch)"
  by (simp add: ledger_wf_defs ledger_state_init_def positions_wf_def dict_wf_def)

lemma positions_wf_get:
  "positions_wf d \<Longrightarrow> dict_get d k = Some p \<Longrightarrow> pos_id p = k \<and> k \<noteq> [] \<and> pos_wf p"
  unfolding positions_wf_def by (auto dest: map_of_SomeD)

lemma positions_wf_set:
  assumes "positions_wf d" "pos_id p = k" "k \<noteq> []" "pos_wf p"
  shows "positions_wf (dict_set d k p)"
  using assms by (auto simp: positions_wf_def set_dict_set)

lemma token_index_wf_pos:
  assumes "ledger_wf s" "dict_get (ls_token_index s) m = Some pid"
  obtains p where "dict_get (ls_positions s) pid = Some p" "pos_status p = OPEN"
    "pos_token_mint p = m" "pos_wf p" "pid \<noteq> []" "pos_id p = pid"
  using assms positions_wf_get unfolding ledger_wf_def token_index_wf_def by blast

lemma order_index_pos:
  assumes "ledger_wf s"
  shows "dict_get (ls_order_id_index s) o1 = Some pid \<Longrightarrow> \<exists>p. dict_get (ls_positions s) pid = Some p"
    and "dict_get (ls_close_order_id_index s) o1 = Some pid \<Longrightarrow> \<exists>p. dict_get (ls_positions s) pid = Some p"
  using assms by (auto simp: ledger_wf_defs ran_def dom_def)

section \<open>Controls do not touch the books\<close>

definition books :: "ledger_state \<Rightarrow> _" where
  "books s = (ls_positions s, ls_token_index s, ls_order_id_index s, ls_close_order_id_index s,
              ls_equity_usd s, ls_peak_equity_usd s)"

lemma ledger_wf_books: "books s = books t \<Longrightarrow> ledger_wf s = ledger_wf t"
  by (simp add: books_def ledger_wf_defs)

lemma controls_books:
  "books (pl_state (set_pause_until u L)) = books (pl_state L)"
  "books (pl_state (set_halt r h L)) = books (pl_state L)"
  "books (pl_state (fst (clear_halt f L))) = books (pl_state L)"
  "books (pl_state (set_daily_halt k r L)) = books (pl_state L)"
  "books (pl_state (clear_expired_daily_controls k now L)) = books (pl_state L)"
  "books (pl_state (fst (daily_loss_exceeded x t L))) = books (pl_state L)"
  "books (pl_state (set_daily_equity_baseline k e L)) = books (pl_state L)"
  by (simp_all add: books_def set_pause_until_def set_halt_def clear_halt_def state_clear_halt_def
      set_daily_halt_def clear_expired_daily_controls_def daily_loss_exceeded_def persist_def
      set_daily_equity_baseline_def state_set_halt_def state_set_hard_halt_def Let_def)

lemmas controls_wf = controls_books [THEN ledger_wf_books]

section \<open>Marking\<close>

definition mark_one :: "(string, decimal) dict \<Rightarrow> datetime \<Rightarrow> position_record \<Rightarrow> position_record" where
  "mark_one prices t p = (if pos_status p \<noteq> OPEN then p else
     case dict_get prices (pos_token_mint p) of None \<Rightarrow> p | Some price \<Rightarrow> mark_position price t p)"

lemma mark_loop_positions:
  "fst (mark_loop prices t ps u) = map (\<lambda>(k, p). (k, mark_one prices t p)) ps"
  by (induction prices t ps u rule: mark_loop.induct)
     (auto simp: mark_one_def split: prod.splits option.splits)

definition priced :: "(string, decimal) dict \<Rightarrow> position_record \<Rightarrow> bool" where
  "priced prices p \<longleftrightarrow> pos_status p = OPEN \<and> dict_get prices (pos_token_mint p) \<noteq> None"

lemma mark_loop_unrealized:
  "snd (mark_loop prices t ps u) = foldl dadd u
     (map (\<lambda>p. marked_unrealized (the (dict_get prices (pos_token_mint p))) p)
        (filter (priced prices) (dict_values ps)))"
  by (induction prices t ps u rule: mark_loop.induct)
     (auto simp: priced_def split: prod.splits option.splits)

lemma mark_position_frame [simp]:
  "pos_id (mark_position pr t p) = pos_id p"
  "pos_token_mint (mark_position pr t p) = pos_token_mint p"
  "pos_status (mark_position pr t p) = pos_status p"
  "pos_remaining_cost_usd (mark_position pr t p) = pos_remaining_cost_usd p"
  "pos_remaining_token_amount (mark_position pr t p) = pos_remaining_token_amount p"
  "pos_entry_cost_usd (mark_position pr t p) = pos_entry_cost_usd p"
  "pos_entry_token_amount (mark_position pr t p) = pos_entry_token_amount p"
  by (simp_all add: mark_position_def Let_def)

lemma mark_position_excursions:
  "pos_mae_pct (mark_position pr t p) \<le> pos_mae_pct p"
  "pos_mfe_pct p \<le> pos_mfe_pct (mark_position pr t p)"
  by (simp_all add: mark_position_def Let_def)

lemma mark_one_frame [simp]:
  "pos_id (mark_one prices t p) = pos_id p"
  "pos_token_mint (mark_one prices t p) = pos_token_mint p"
  "pos_status (mark_one prices t p) = pos_status p"
  by (simp_all add: mark_one_def split: option.split)

lemma mark_position_wf: "pos_wf p \<Longrightarrow> pos_wf (mark_position pr t p)"
  using mark_position_excursions[where p = p and pr = pr and t = t] by (auto simp: pos_wf_def)

lemma mark_one_wf: "pos_wf p \<Longrightarrow> pos_wf (mark_one prices t p)"
  by (simp add: mark_one_def mark_position_wf split: option.split)

lemma map_of_map_values:
  "map_of (map (\<lambda>(k, p). (k, f p)) d) k = map_option f (map_of d k)"
  by (induction d) auto

lemma mark_to_market_state:
  "pl_state (fst (mark_to_market prices t L)) = (pl_state L)\<lparr>
     ls_positions := map (\<lambda>(k, p). (k, mark_one prices t p)) (ls_positions (pl_state L)),
     ls_unrealized_pnl_usd := fst (snd (mark_to_market prices t L)),
     ls_equity_usd := snd (snd (mark_to_market prices t L)),
     ls_daily_equity_baseline := dict_setdefault (ls_daily_equity_baseline (pl_state L))
       (current_date_key L t) (snd (snd (mark_to_market prices t L))),
     ls_peak_equity_usd := max (ls_peak_equity_usd (pl_state L)) (snd (snd (mark_to_market prices t L)))\<rparr>"
  using mark_loop_positions[of prices t "ls_positions (pl_state L)" 0]
  by (cases "mark_loop prices t (ls_positions (pl_state L)) 0")
     (simp add: mark_to_market_def Let_def persist_def)

lemma mark_to_market_wf:
  assumes "ledger_wf (pl_state L)"
  shows "ledger_wf (pl_state (fst (mark_to_market prices t L)))"
proof -
  let ?f = "\<lambda>(k, p). (k, mark_one prices t p)"
  let ?ps = "ls_positions (pl_state L)"
  have keys: "map fst (map ?f ?ps) = map fst ?ps" by (auto simp: comp_def split: prod.split)
  have "positions_wf (map ?f ?ps)"
    using assms keys by (auto simp: ledger_wf_def positions_wf_def dict_wf_def mark_one_wf
        intro: mark_one_wf simp del: map_map)
  then show ?thesis
    using assms unfolding ledger_wf_defs mark_to_market_state
    by (auto simp: map_of_map_values dom_def)
qed

section \<open>Closing\<close>

text \<open>What a close does to the position, for an amount within the remaining one.\<close>

definition closable :: "close_args \<Rightarrow> position_record \<Rightarrow> bool" where
  "closable a p \<longleftrightarrow> pos_wf p \<and> pos_status p = OPEN \<and> 0 < ca_token_closed a
     \<and> ca_token_closed a \<le> pos_remaining_token_amount p"

lemma closed_fraction_bounds:
  assumes "closable a p" shows "0 < closed_fraction a p" "closed_fraction a p \<le> 1"
  using assms by (auto simp: closable_def closed_fraction_def intro: ddiv_pos ddiv_le_1)

lemma proportional_cost_bounds:
  assumes "closable a p"
  shows "0 \<le> proportional_cost a p" "proportional_cost a p \<le> pos_remaining_cost_usd p"
  using assms closed_fraction_bounds[OF assms]
  by (auto simp: closable_def pos_wf_def proportional_cost_def intro: dmul_nonneg dmul_le_left)

lemma full_close_fraction:
  assumes "closable a p" "ca_token_closed a = pos_remaining_token_amount p"
  shows "closed_fraction a p = 1" "proportional_cost a p = pos_remaining_cost_usd p"
  using assms by (auto simp: closable_def pos_wf_def closed_fraction_def proportional_cost_def)

lemma dsub_le_left: "0 \<le> b \<Longrightarrow> dctx a = a \<Longrightarrow> dsub a b \<le> a"
  unfolding dsub_def by (rule dec.le_fixed) simp_all

lemma reduce_position_frame [simp]:
  "pos_id (reduce_position a now p) = pos_id p"
  "pos_token_mint (reduce_position a now p) = pos_token_mint p"
  "pos_entry_cost_usd (reduce_position a now p) = pos_entry_cost_usd p"
  "pos_entry_token_amount (reduce_position a now p) = pos_entry_token_amount p"
  "pos_mfe_pct (reduce_position a now p) = pos_mfe_pct p"
  "pos_mae_pct (reduce_position a now p) = pos_mae_pct p"
  by (simp_all add: reduce_position_def Let_def)

lemma reduce_position_amounts [simp]:
  "pos_remaining_cost_usd (reduce_position a now p)
     = dsub (pos_remaining_cost_usd p) (proportional_cost a p)"
  "pos_remaining_token_amount (reduce_position a now p)
     = dsub (pos_remaining_token_amount p) (ca_token_closed a)"
  by (simp_all add: reduce_position_def Let_def)

lemma reduce_position_status:
  "pos_status (reduce_position a now p) =
     (if pos_remaining_token_amount p \<le> ca_token_closed a then CLOSED else pos_status p)"
  using dec.nonpos_iff[of "pos_remaining_token_amount p - ca_token_closed a"]
  by (simp add: reduce_position_def Let_def dsub_def)

lemma reduce_position_wf:
  assumes "closable a p" shows "pos_wf (reduce_position a now p)"
proof -
  note c = proportional_cost_bounds[OF assms]
  have p: "pos_wf p" "pos_status p = OPEN" "0 < ca_token_closed a"
    "ca_token_closed a \<le> pos_remaining_token_amount p" using assms by (auto simp: closable_def)
  have "dsub (pos_remaining_cost_usd p) (proportional_cost a p) \<le> pos_remaining_cost_usd p"
    "dsub (pos_remaining_token_amount p) (ca_token_closed a) \<le> pos_remaining_token_amount p"
    using p c by (auto simp: pos_wf_def intro: dsub_le_left)
  moreover have "pos_remaining_token_amount p \<le> ca_token_closed a \<Longrightarrow>
      proportional_cost a p = pos_remaining_cost_usd p"
    using full_close_fraction[OF assms] p by simp
  ultimately show ?thesis
    using p c unfolding pos_wf_def reduce_position_status
    by (auto simp: dsub_nonneg_iff dsub_pos_iff not_le)
qed

lemma apply_close_wf:
  assumes wf: "ledger_wf s" and idx: "dict_get (ls_token_index s) (ca_token_mint a) = Some pid"
    and p: "dict_get (ls_positions s) pid = Some p" and cl: "closable a p"
  shows "ledger_wf (apply_close tz a pid fid now p s)"
proof -
  let ?p' = "reduce_position a now p" and ?s' = "apply_close tz a pid fid now p s"
  have mint: "pos_token_mint p = ca_token_mint a" "pos_status p = OPEN"
    using wf idx p by (auto simp: ledger_wf_defs)
  have pid: "pos_id p = pid" "pid \<noteq> []"
    using wf p positions_wf_get by (auto simp: ledger_wf_def)
  have "positions_wf (ls_positions ?s')"
    using wf pid reduce_position_wf[OF cl]
    by (auto simp: apply_close_def Let_def ledger_wf_def intro: positions_wf_set)
  moreover have "token_index_wf ?s'"
  proof -
    have tw: "dict_get (ls_token_index s) m = Some q \<longleftrightarrow>
       (\<exists>r. dict_get (ls_positions s) q = Some r \<and> pos_status r = OPEN \<and> pos_token_mint r = m)" for m q
      using wf by (simp add: ledger_wf_defs)
    have uniq: "q = pid" if "dict_get (ls_positions s) q = Some r" "pos_status r = OPEN"
        "pos_token_mint r = ca_token_mint a" for q r
      using tw[of "ca_token_mint a" q] idx that by auto
    have full: "dsub (pos_remaining_token_amount p) (ca_token_closed a) \<le> 0 \<longleftrightarrow>
        pos_remaining_token_amount p \<le> ca_token_closed a"
      by (simp add: dsub_def dec.nonpos_iff)
    show ?thesis
      using mint tw p idx
      by (auto simp: token_index_wf_def apply_close_def Let_def reduce_position_status full
          delete_conv' split: if_splits dest: uniq)
  qed
  moreover have "order_index_wf ?s'"
    using wf p by (auto simp: ledger_wf_defs apply_close_def Let_def ran_def dom_def)
  moreover have "ls_equity_usd ?s' \<le> ls_peak_equity_usd ?s'"
    by (simp add: apply_close_def Let_def)
  ultimately show ?thesis by (simp add: ledger_wf_def)
qed

lemma close_position_cases:
  assumes "close_position a fid0 clock L = Inr (L', p')"
  obtains (same) "L' = L" "\<exists>pid. dict_get (ls_positions (pl_state L)) pid = Some p'"
  | (closed) pid p where
      "dict_get (ls_close_order_id_index (pl_state L)) (ca_order_id a) = None"
      "dict_get (ls_token_index (pl_state L)) (ca_token_mint a) = Some pid" "pid \<noteq> []"
      "dict_get (ls_positions (pl_state L)) pid = Some p" "pos_status p = OPEN"
      "0 < ca_token_closed a" "ca_token_closed a \<le> pos_remaining_token_amount p"
      "0 \<le> ca_usd_received a"
      "L' = put_state L (apply_close (pl_time_zone L) a pid (str_or (ca_close_fill_id a) fid0)
              (opt_or (ca_created_at a) clock) p (pl_state L))"
      "p' = reduce_position a (opt_or (ca_created_at a) clock) p"
proof (cases "dict_get (ls_close_order_id_index (pl_state L)) (ca_order_id a)")
  case (Some pid)
  with assms show thesis
    by (intro same) (auto simp: close_position_def Let_def position_at_def split: if_splits option.splits)
next
  case None
  with assms obtain pid where pid: "dict_get (ls_token_index (pl_state L)) (ca_token_mint a) = Some pid"
      "pid \<noteq> []"
    by (cases "dict_get (ls_token_index (pl_state L)) (ca_token_mint a)")
       (auto simp: close_position_def Let_def split: if_splits)
  with None assms obtain p where p: "dict_get (ls_positions (pl_state L)) pid = Some p"
    by (auto simp: close_position_def Let_def position_at_def split: if_splits option.splits)
  show thesis
  proof (cases "pos_status p = OPEN")
    case True
    with None pid p assms show thesis
      by (intro closed) (auto simp: close_position_def Let_def position_at_def split: if_splits)
  next
    case False
    with None pid p assms show thesis
      by (intro same) (auto simp: close_position_def Let_def position_at_def split: if_splits)
  qed
qed

lemma persist_state [simp]: "pl_state (persist L) = pl_state L" "pl_time_zone (persist L) = pl_time_zone L"
  by (simp_all add: persist_def)

lemma close_position_wf:
  assumes "ledger_wf (pl_state L)" and "close_position a fid0 clock L = Inr (L', p')"
  shows "ledger_wf (pl_state L')"
  using assms(2)
proof (cases rule: close_position_cases)
  case (closed pid p)
  from assms(1) closed(2) have "pos_wf p"
    by (rule token_index_wf_pos) (use closed(4) in auto)
  with closed have "closable a p" by (simp add: closable_def)
  with closed assms(1) show ?thesis by (auto intro: apply_close_wf)
qed (use assms(1) in simp)

section \<open>Opening\<close>

text \<open>
  What the caller of \<open>open_position\<close> provides: an unused, non-empty position id (the id
  factory returns random UUIDs), a token amount that carries at most 28 digits (it is the result
  of a decimal multiplication in the broker).
\<close>

definition open_ok :: "open_args \<Rightarrow> string \<Rightarrow> ledger_state \<Rightarrow> bool" where
  "open_ok a pid0 s \<longleftrightarrow> str_or (oa_position_id a) pid0 \<noteq> [] \<and>
     dict_get (ls_positions s) (str_or (oa_position_id a) pid0) = None \<and>
     dctx (oa_token_amount a) = oa_token_amount a"

lemma new_position_simps [simp]:
  "pos_id (new_position a pid fid now) = pid"
  "pos_token_mint (new_position a pid fid now) = oa_token_mint a"
  "pos_status (new_position a pid fid now) = OPEN"
  "pos_remaining_cost_usd (new_position a pid fid now) = dadd (oa_usd_amount a) (oa_network_fee_usd a)"
  "pos_entry_cost_usd (new_position a pid fid now) = dadd (oa_usd_amount a) (oa_network_fee_usd a)"
  "pos_remaining_token_amount (new_position a pid fid now) = oa_token_amount a"
  "pos_entry_token_amount (new_position a pid fid now) = oa_token_amount a"
  "pos_mfe_pct (new_position a pid fid now) = 0" "pos_mae_pct (new_position a pid fid now) = 0"
  by (simp_all add: new_position_def Let_def)

lemma new_position_wf:
  assumes "0 < oa_usd_amount a" "0 < oa_token_amount a" "0 \<le> oa_network_fee_usd a"
    "dctx (oa_token_amount a) = oa_token_amount a"
  shows "pos_wf (new_position a pid fid now)"
  using assms by (simp add: pos_wf_def dadd_nonneg)

lemma open_position_cases:
  assumes "open_position a pid0 fid0 clock L = Inr (L', p')"
  obtains (same) "L' = L" "\<exists>pid. dict_get (ls_positions (pl_state L)) pid = Some p'"
  | (opened) pid fid now where
      "pid = str_or (oa_position_id a) pid0" "fid = str_or (oa_fill_id a) fid0"
      "now = opt_or (oa_created_at a) clock"
      "0 < oa_usd_amount a" "0 < oa_token_amount a"
      "dict_get (ls_order_id_index (pl_state L)) (oa_order_id a) = None"
      "\<not> truthy (dict_get (ls_token_index (pl_state L)) (oa_token_mint a))"
      "fill_valid (entry_fill a pid fid now)"
      "p' = new_position a pid fid now"
      "pl_state L' = (pl_state L)\<lparr>
         ls_fills := ls_fills (pl_state L) @ [entry_fill a pid fid now],
         ls_positions := dict_set (ls_positions (pl_state L)) pid p',
         ls_order_id_index := dict_set (ls_order_id_index (pl_state L)) (oa_order_id a) pid,
         ls_token_index := dict_set (ls_token_index (pl_state L)) (oa_token_mint a) pid,
         ls_locked_capital_usd := dadd (ls_locked_capital_usd (pl_state L))
           (dadd (oa_usd_amount a) (oa_network_fee_usd a))\<rparr>"
proof (cases "dict_get (ls_order_id_index (pl_state L)) (oa_order_id a)")
  case (Some pid)
  with assms show thesis
    by (intro same) (auto simp: open_position_def Let_def position_at_def split: if_splits option.splits)
next
  case None
  show thesis
  proof (cases "truthy (dict_get (ls_token_index (pl_state L)) (oa_token_mint a))")
    case True
    with None assms show thesis
      by (intro same) (auto simp: open_position_def Let_def position_at_def split: if_splits option.splits)
  next
    case False
    with None assms show thesis
      by (intro opened) (auto simp: open_position_def Let_def split: if_splits)
  qed
qed

lemma entry_fill_network_fee: "fill_valid (entry_fill a pid fid now) \<Longrightarrow> 0 \<le> oa_network_fee_usd a"
  by (simp add: fill_valid_def entry_fill_def Let_def)

lemma open_position_wf:
  assumes wf: "ledger_wf (pl_state L)" and ok: "open_ok a pid0 (pl_state L)"
    and op: "open_position a pid0 fid0 clock L = Inr (L', p')"
  shows "ledger_wf (pl_state L')"
  using op
proof (cases rule: open_position_cases)
  case (opened pid fid now)
  let ?s = "pl_state L"
  have pid: "pid \<noteq> []" "dict_get (ls_positions ?s) pid = None"
    using ok opened(1) by (simp_all add: open_ok_def)
  have "pos_wf p'"
    using opened ok entry_fill_network_fee by (auto simp: open_ok_def intro: new_position_wf)
  then have "positions_wf (dict_set (ls_positions ?s) pid p')"
    using wf pid opened(9) by (intro positions_wf_set) (simp_all add: ledger_wf_def)
  moreover have free: "dict_get (ls_token_index ?s) (oa_token_mint a) = None"
  proof (rule ccontr)
    assume "dict_get (ls_token_index ?s) (oa_token_mint a) \<noteq> None"
    then obtain q where q: "dict_get (ls_token_index ?s) (oa_token_mint a) = Some q" by auto
    from wf this have "q \<noteq> []" by (rule token_index_wf_pos)
    with q opened(7) show False by simp
  qed
  have tw: "dict_get (ls_token_index ?s) m = Some q \<longleftrightarrow>
       (\<exists>r. dict_get (ls_positions ?s) q = Some r \<and> pos_status r = OPEN \<and> pos_token_mint r = m)" for m q
    using wf by (simp add: ledger_wf_defs)
  have "token_index_wf (pl_state L')"
    using tw free pid opened(9) tw[of "oa_token_mint a"]
    by (auto simp: token_index_wf_def opened(10))
  ultimately show ?thesis
    using wf by (auto simp: ledger_wf_def order_index_wf_def opened(10) ran_def dom_def)
qed (use wf in simp)

section \<open>Reachable ledgers\<close>

inductive ledger_step :: "paper_ledger \<Rightarrow> paper_ledger \<Rightarrow> bool" where
  mark: "ledger_step L (fst (mark_to_market prices t L))"
| open_pos: "open_ok a pid0 (pl_state L) \<Longrightarrow> open_position a pid0 fid0 clock L = Inr (L', p) \<Longrightarrow>
     ledger_step L L'"
| close_pos: "close_position a fid0 clock L = Inr (L', p) \<Longrightarrow> ledger_step L L'"
| pausing: "ledger_step L (set_pause_until until L)"
| halting: "ledger_step L (set_halt reason hard L)"
| clearing: "ledger_step L (fst (clear_halt force L))"
| daily_halting: "ledger_step L (set_daily_halt key reason L)"
| expiring: "ledger_step L (clear_expired_daily_controls key now L)"
| loss_check: "ledger_step L (fst (daily_loss_exceeded limit t L))"
| rebasing: "ledger_step L (set_daily_equity_baseline key equity L)"

inductive_simps ledger_step_simps: "ledger_step L L'"

inductive ledger_reachable :: "decimal \<Rightarrow> string \<Rightarrow> string \<Rightarrow> paper_ledger \<Rightarrow> bool"
  for eq :: decimal and sv ch :: string where
  start: "paper_ledger_init NoFile eq sv ch tz = Inr L \<Longrightarrow> ledger_reachable eq sv ch L"
| step: "ledger_reachable eq sv ch L \<Longrightarrow> ledger_step L L' \<Longrightarrow> ledger_reachable eq sv ch L'"

lemma ledger_step_wf: "ledger_step L L' \<Longrightarrow> ledger_wf (pl_state L) \<Longrightarrow> ledger_wf (pl_state L')"
  by (induction rule: ledger_step.induct)
     (auto simp: controls_wf intro: mark_to_market_wf open_position_wf close_position_wf)

lemma reachable_wf: "ledger_reachable eq sv ch L \<Longrightarrow> ledger_wf (pl_state L)"
  by (induction rule: ledger_reachable.induct)
     (auto simp: paper_ledger_init_def load_or_init_def ledger_wf_init Let_def dest: ledger_step_wf)

end
