(* ===== verification/Ledger_Props.thy ===== *)
theory Ledger_Props
  imports Ledger_Inv
begin

text \<open>
  Correctness of the ledger: the mirror on disk restores the books after a restart, closes are
  idempotent and complete, and the accounting identities hold up to the rounding of the decimal
  context.
\<close>

lemma token_index_posD:
  assumes "ledger_wf s" "dict_get (ls_token_index s) m = Some pid" "dict_get (ls_positions s) pid = Some p"
  shows "pos_wf p \<and> pos_status p = OPEN \<and> pos_token_mint p = m \<and> pid \<noteq> []"
  using assms(1,2) by (rule token_index_wf_pos) (use assms(3) in auto)

text \<open>The effect of a close that finds an open position under a new order id.\<close>

lemma close_position_effect:
  assumes "ledger_wf (pl_state L)"
    and "dict_get (ls_close_order_id_index (pl_state L)) (ca_order_id a) = None"
    and "dict_get (ls_token_index (pl_state L)) (ca_token_mint a) = Some pid"
    and "dict_get (ls_positions (pl_state L)) pid = Some p"
    and "close_position a fid0 clock L = Inr (L', p')"
  shows "closable a p"
    and "p' = reduce_position a (opt_or (ca_created_at a) clock) p"
    and "L' = put_state L (apply_close (pl_time_zone L) a pid (str_or (ca_close_fill_id a) fid0)
              (opt_or (ca_created_at a) clock) p (pl_state L))"
  using assms(2-5) token_index_posD[OF assms(1,3,4)]
  by (auto simp: close_position_def position_at_def closable_def Let_def split: if_splits)

section \<open>Serialisation\<close>

lemma decimal_entries_Field [simp]: "decimal_entries (map (map_prod id Field) d) = Inr d"
  by (induction d) auto

lemma validate_rows_Some [simp]: "validate_rows (map Some xs) = Inr xs"
  by (induction xs) auto

lemma positions_by_id_aux:
  assumes "dict_wf (acc @ d)" "\<forall>(k, p) \<in> set d. pos_id p = k"
  shows "foldl (\<lambda>d p. dict_set d (pos_id p) p) acc (dict_values d) = acc @ d"
  using assms
proof (induction d arbitrary: acc)
  case (Cons kp d)
  obtain k p where kp: "kp = (k, p)" by force
  have "dict_get acc k = None"
    using Cons.prems kp by (auto simp: dict_wf_def map_of_eq_None_iff)
  then have "dict_set acc k p = acc @ [(k, p)]" by (rule dict_set_new)
  with Cons.IH[of "acc @ [(k, p)]"] Cons.prems kp show ?case by simp
qed simp

lemma positions_by_id_values: "positions_wf d \<Longrightarrow> positions_by_id (dict_values d) = d"
  using positions_by_id_aux[of "[]" d] by (auto simp: positions_by_id_def positions_wf_def)

lemma from_dict_to_dict: "positions_wf (ls_positions s) \<Longrightarrow> from_dict (to_dict s) = Inr s"
  by (simp add: from_dict_def to_dict_def opt_or_def positions_by_id_values ledger_state_init_def
      del: map_map)

section \<open>The mirror follows the books\<close>

text \<open>
  The state a restart finds on disk: everything but the daily equity baselines, which
  \<open>daily_loss_exceeded\<close> sets without writing the mirror.
\<close>

definition durable :: "ledger_state \<Rightarrow> ledger_state" where
  "durable s = s\<lparr>ls_daily_equity_baseline := []\<rparr>"

definition mirror_ok :: "decimal \<Rightarrow> string \<Rightarrow> string \<Rightarrow> paper_ledger \<Rightarrow> bool" where
  "mirror_ok eq sv ch L \<longleftrightarrow> ls_strategy_version (pl_state L) = sv \<and> ls_config_hash (pl_state L) = ch \<and>
     map_sum id durable (load_or_init (pl_storage L) eq sv ch) = Inr (durable (pl_state L))"

definition persisted :: "paper_ledger \<Rightarrow> bool" where
  "persisted L \<longleftrightarrow> pl_storage L = JsonFile (to_dict (pl_state L))"

abbreviation versions :: "ledger_state \<Rightarrow> string \<times> string" where
  "versions s \<equiv> (ls_strategy_version s, ls_config_hash s)"

lemma persist_persisted [simp]: "persisted (persist L)"
  by (simp add: persisted_def persist_def)

lemma mirror_ok_persisted:
  "persisted L \<Longrightarrow> ledger_wf (pl_state L) \<Longrightarrow> versions (pl_state L) = (sv, ch) \<Longrightarrow> mirror_ok eq sv ch L"
  using from_dict_to_dict[of "pl_state L"]
  by (auto simp: mirror_ok_def persisted_def load_or_init_def ledger_wf_def Let_def)

lemma mirror_ok_same_disk:
  assumes "mirror_ok eq sv ch L" "pl_storage L' = pl_storage L"
    "durable (pl_state L') = durable (pl_state L)" "versions (pl_state L') = versions (pl_state L)"
  shows "mirror_ok eq sv ch L'"
  using assms by (simp add: mirror_ok_def)

lemma open_position_durability:
  assumes "open_position a pid0 fid0 clock L = Inr (L', p)"
  shows "(persisted L' \<or> L' = L) \<and> versions (pl_state L') = versions (pl_state L)"
  using assms by (auto simp: open_position_def Let_def split: if_splits option.splits)

lemma close_position_durability:
  assumes "close_position a fid0 clock L = Inr (L', p)"
  shows "(persisted L' \<or> L' = L) \<and> versions (pl_state L') = versions (pl_state L)"
  using assms by (cases rule: close_position_cases) (auto simp: apply_close_def Let_def)

lemma mark_to_market_durability:
  "persisted (fst (mark_to_market prices t L))"
  "versions (pl_state (fst (mark_to_market prices t L))) = versions (pl_state L)"
  by (auto simp: mark_to_market_def Let_def split: prod.split)

lemma step_durability:
  "ledger_step L L' \<Longrightarrow>
     (persisted L' \<or> pl_storage L' = pl_storage L \<and> durable (pl_state L') = durable (pl_state L))
     \<and> versions (pl_state L') = versions (pl_state L)"
proof (induction rule: ledger_step.induct)
  case (mark L prices t)
  show ?case using mark_to_market_durability[of prices t L] by simp
next
  case (open_pos a pid0 L fid0 clock L' p)
  then show ?case using open_position_durability by blast
next
  case (close_pos a fid0 clock L L' p)
  then show ?case using close_position_durability by blast
qed (auto simp: set_pause_until_def set_halt_def clear_halt_def state_clear_halt_def
      set_daily_halt_def clear_expired_daily_controls_def daily_loss_exceeded_def durable_def
      set_daily_equity_baseline_def state_set_halt_def state_set_hard_halt_def Let_def)

lemma step_mirror_ok:
  assumes "ledger_step L L'" "ledger_wf (pl_state L)" "mirror_ok eq sv ch L"
  shows "mirror_ok eq sv ch L'"
proof -
  have wf': "ledger_wf (pl_state L')" using assms(1,2) by (rule ledger_step_wf)
  have v: "versions (pl_state L') = (sv, ch)"
    using step_durability[OF assms(1)] assms(3) by (simp add: mirror_ok_def)
  from step_durability[OF assms(1)] consider "persisted L'"
    | "pl_storage L' = pl_storage L" "durable (pl_state L') = durable (pl_state L)" by blast
  then show ?thesis
  proof cases
    case 1
    then show ?thesis using wf' v by (rule mirror_ok_persisted)
  next
    case 2
    then show ?thesis using assms(3) step_durability[OF assms(1)] by (auto intro: mirror_ok_same_disk)
  qed
qed

lemma reachable_mirror_ok: "ledger_reachable eq sv ch L \<Longrightarrow> mirror_ok eq sv ch L"
proof (induction rule: ledger_reachable.induct)
  case (start tz L)
  then show ?case
    by (auto simp: paper_ledger_init_def load_or_init_def mirror_ok_def ledger_state_init_def Let_def)
next
  case (step L L')
  then show ?case using reachable_wf step_mirror_ok by blast
qed

section \<open>Properties\<close>

text \<open>
  C1. In every reachable ledger the positions, the token index and the order indexes agree,
  remaining amounts lie between zero and the entry amounts, closed positions hold nothing, and
  the recorded peak equity is at least the equity.
\<close>

theorem reachable_ledger_wf:
  assumes "ledger_reachable eq sv ch L"
  shows "ledger_wf (pl_state L)"
  using assms by (rule reachable_wf)

lemma distinct_open_mints:
  assumes "ledger_wf s" shows "distinct (map pos_token_mint (open_positions s))"
proof -
  let ?ps = "filter (\<lambda>kp. pos_status (snd kp) = OPEN) (ls_positions s)"
  have open_eq: "map pos_token_mint (open_positions s) = map (pos_token_mint \<circ> snd) ?ps"
    by (simp add: open_positions_def filter_map comp_def)
  have dw: "dict_wf (ls_positions s)" using assms by (simp add: ledger_wf_def positions_wf_def)
  have "kp = kq" if "kp \<in> set ?ps" "kq \<in> set ?ps"
    "pos_token_mint (snd kp) = pos_token_mint (snd kq)" for kp kq
  proof -
    obtain k p j q where kp: "kp = (k, p)" "kq = (j, q)" by fastforce
    have "dict_get (ls_positions s) k = Some p" "dict_get (ls_positions s) j = Some q"
      using that kp dw by (auto simp: dict_wf_def)
    note got = this
    then have "dict_get (ls_token_index s) (pos_token_mint (snd kp)) = Some (fst kp)"
      "dict_get (ls_token_index s) (pos_token_mint (snd kp)) = Some (fst kq)"
      using assms that kp by (auto simp: ledger_wf_def token_index_wf_def)
    then have "fst kp = fst kq" by simp
    with got kp show ?thesis by simp
  qed
  then have "inj_on (pos_token_mint \<circ> snd) (set ?ps)" by (auto intro: inj_onI)
  moreover have "distinct ?ps" using dw by (simp add: dict_wf_def distinct_map)
  ultimately show ?thesis by (simp add: open_eq distinct_map)
qed


text \<open>
  C2. In every reachable ledger no two open positions hold the same mint.
\<close>

theorem reachable_one_position_per_mint:
  assumes "ledger_reachable eq sv ch L"
  shows "distinct (map pos_token_mint (open_positions (pl_state L)))"
  using assms by (intro distinct_open_mints reachable_wf)

text \<open>
  C5. At every point of every run, restarting from the mirror on disk succeeds and restores the
  whole state but the daily equity baselines.
\<close>

theorem restart_recovers_books:
  assumes "ledger_reachable eq sv ch L"
  shows "\<exists>s. load_or_init (pl_storage L) eq sv ch = Inr s \<and> durable s = durable (pl_state L)"
  using reachable_mirror_ok[OF assms]
  by (cases "load_or_init (pl_storage L) eq sv ch") (auto simp: mirror_ok_def)

lemma position_at_no_error:
  "dict_get (ls_positions s) pid = Some p \<Longrightarrow> position_at s pid = Inr p"
  by (simp add: position_at_def)

text \<open>
  In every reachable ledger the indexes never dangle: looking up an order, opening and
  closing never raise \<open>KeyError\<close>.
\<close>

theorem indexes_never_dangle:
  assumes "ledger_reachable eq sv ch L"
  shows "get_position_by_order L oid \<noteq> Inl KeyError
    \<and> open_position a pid0 fid0 clock L \<noteq> Inl KeyError
    \<and> close_position b fid0 clock L \<noteq> Inl KeyError"
proof -
  let ?s = "pl_state L"
  have wf: "ledger_wf ?s" using assms by (rule reachable_wf)
  have o: "dict_get (ls_positions ?s) pid \<noteq> None" if "dict_get (ls_order_id_index ?s) k = Some pid" for k pid
    using order_index_pos(1)[OF wf that] by simp
  have c: "dict_get (ls_positions ?s) pid \<noteq> None"
    if "dict_get (ls_close_order_id_index ?s) k = Some pid" for k pid
    using order_index_pos(2)[OF wf that] by simp
  have t: "dict_get (ls_positions ?s) pid \<noteq> None" if "dict_get (ls_token_index ?s) k = Some pid" for k pid
    using wf that by (metis token_index_wf_pos option.distinct(1))
  have "get_position_by_order L oid \<noteq> Inl KeyError"
    by (cases "dict_get (ls_order_id_index ?s) oid"; cases "dict_get (ls_close_order_id_index ?s) oid")
       (auto simp: get_position_by_order_def position_at_def Let_def dest: o c split: option.splits)
  moreover have "open_position a pid0 fid0 clock L \<noteq> Inl KeyError"
    by (cases "dict_get (ls_order_id_index ?s) (oa_order_id a)";
        cases "dict_get (ls_token_index ?s) (oa_token_mint a)")
       (auto simp: open_position_def position_at_def Let_def dest: o t split: option.splits)
  moreover have "close_position b fid0 clock L \<noteq> Inl KeyError"
    by (cases "dict_get (ls_close_order_id_index ?s) (ca_order_id b)";
        cases "dict_get (ls_token_index ?s) (ca_token_mint b)")
       (auto simp: close_position_def position_at_def Let_def dest: c t split: option.splits)
  ultimately show ?thesis by blast
qed

text \<open>
  Closing the whole remaining amount closes the position with nothing left, releases exactly
  its remaining cost from the locked capital and frees the mint for a new entry.
\<close>

theorem full_close:
  assumes "ledger_wf (pl_state L)"
    and "dict_get (ls_close_order_id_index (pl_state L)) (ca_order_id a) = None"
    and "dict_get (ls_token_index (pl_state L)) (ca_token_mint a) = Some pid"
    and "dict_get (ls_positions (pl_state L)) pid = Some p"
    and "ca_token_closed a = pos_remaining_token_amount p"
    and "close_position a fid0 clock L = Inr (L', p')"
  shows "pos_status p' = CLOSED \<and> pos_remaining_token_amount p' = 0 \<and> pos_remaining_cost_usd p' = 0
    \<and> ls_locked_capital_usd (pl_state L')
        = dsub (ls_locked_capital_usd (pl_state L)) (pos_remaining_cost_usd p)
    \<and> can_open L' (ca_token_mint a)
    \<and> dict_get (ls_positions (pl_state L')) pid = Some p'"
proof -
  note e = close_position_effect[OF assms(1-4,6)]
  note f = full_close_fraction[OF e(1) assms(5)]
  show ?thesis
    unfolding e(2,3) using f assms(5)
    by (auto simp: reduce_position_status apply_close_def can_open_def delete_conv' Let_def)
qed

text \<open>
  A close order is applied once: submitting the same order again, with any amounts, returns
  the position it closed and leaves the ledger as it is.
\<close>

theorem close_order_idempotent:
  assumes "ledger_wf (pl_state L)"
    and "dict_get (ls_close_order_id_index (pl_state L)) (ca_order_id a) = None"
    and "dict_get (ls_token_index (pl_state L)) (ca_token_mint a) \<noteq> None"
    and "close_position a fid0 clock L = Inr (L', p')"
    and "ca_order_id b = ca_order_id a" and "0 \<le> ca_usd_received b" and "0 < ca_token_closed b"
  shows "close_position b fid1 clock1 L' = Inr (L', p')"
proof -
  from assms(3) obtain pid where pid: "dict_get (ls_token_index (pl_state L)) (ca_token_mint a) = Some pid"
    by auto
  with assms(1) obtain p where "dict_get (ls_positions (pl_state L)) pid = Some p"
    by (rule token_index_wf_pos)
  note e = close_position_effect[OF assms(1,2) pid this assms(4)]
  show ?thesis
    unfolding e(2,3) using assms(5-7)
    by (simp add: close_position_def apply_close_def position_at_def Let_def)
qed

section \<open>Accounting up to rounding\<close>

text \<open>
  C7. A close moves exactly its realized PnL into the realized base of the account: the equity
  without unrealized PnL changes by the realized delta, and the locked capital by the cost of
  the closed part, up to half a unit in the 28th digit of each of the sums involved.
\<close>

theorem close_accounting:
  assumes "ledger_wf (pl_state L)"
    and "dict_get (ls_close_order_id_index (pl_state L)) (ca_order_id a) = None"
    and "dict_get (ls_token_index (pl_state L)) (ca_token_mint a) = Some pid"
    and "dict_get (ls_positions (pl_state L)) pid = Some p"
    and "close_position a fid0 clock L = Inr (L', p')"
  defines "E \<equiv> ls_equity_usd (pl_state L)" and "U \<equiv> ls_unrealized_pnl_usd (pl_state L)"
    and "K \<equiv> ls_locked_capital_usd (pl_state L)"
    and "R \<equiv> realized_delta a p" and "C \<equiv> closed_unrealized a p"
  shows "\<bar>(ls_equity_usd (pl_state L') - ls_unrealized_pnl_usd (pl_state L')) - ((E - U) + R)\<bar>
           \<le> 5 / 10 ^ 28 * (\<bar>E + dsub R C\<bar> + \<bar>R - C\<bar> + \<bar>U - C\<bar>)
    \<and> \<bar>ls_locked_capital_usd (pl_state L') - (K - proportional_cost a p)\<bar>
           \<le> 5 / 10 ^ 28 * \<bar>K - proportional_cost a p\<bar>"
proof -
  note e = close_position_effect[OF assms(1-5)]
  have s: "ls_equity_usd (pl_state L') = dctx (E + dsub R C)"
    "ls_unrealized_pnl_usd (pl_state L') = dctx (U - C)"
    "ls_locked_capital_usd (pl_state L') = dctx (K - proportional_cost a p)"
    unfolding e(3) E_def U_def K_def R_def C_def
    by (simp_all add: apply_close_def dadd_def dsub_def Let_def)
  have "\<bar>dctx (E + dsub R C) - (E + dsub R C)\<bar> \<le> 5 / 10 ^ 28 * \<bar>E + dsub R C\<bar>"
    "\<bar>dsub R C - (R - C)\<bar> \<le> 5 / 10 ^ 28 * \<bar>R - C\<bar>"
    "\<bar>dctx (U - C) - (U - C)\<bar> \<le> 5 / 10 ^ 28 * \<bar>U - C\<bar>"
    unfolding dsub_def by (rule dctx_rel_error)+
  then have "\<bar>(dctx (E + dsub R C) - dctx (U - C)) - ((E - U) + R)\<bar>
      \<le> 5 / 10 ^ 28 * \<bar>E + dsub R C\<bar> + 5 / 10 ^ 28 * \<bar>R - C\<bar> + 5 / 10 ^ 28 * \<bar>U - C\<bar>"
    by linarith
  then show ?thesis
    unfolding s by (simp only: distrib_left dctx_rel_error simp_thms)
qed

section \<open>A concrete run\<close>

text \<open>
  An account of 500 USDC opens a position of 3 tokens for 10 USDC and closes it for 10 USDC;
  the witnesses below evaluate the properties on it.
\<close>

definition demo_start :: paper_ledger where
  "demo_start = \<lparr>pl_state = ledger_state_init 500 [] [], pl_storage = NoFile, pl_time_zone = utc\<rparr>"

definition demo_open :: open_args where
  "demo_open = \<lparr>oa_token_mint = ''m1'', oa_usd_amount = 10, oa_token_amount = 3, oa_order_id = ''o1'',
     oa_quote_id = ''q1'', oa_position_id = Some ''p1'', oa_fill_id = Some ''f1'', oa_created_at = Some 0,
     oa_candidate_id = None, oa_pool_address = None, oa_entry_score = None,
     oa_entry_liquidity_usd = None, oa_entry_pool_age_seconds = None, oa_strategy_version = None,
     oa_price_impact_pct = 0, oa_platform_fee_usd = 0, oa_network_fee_usd = 0, oa_other_cost_usd = 0,
     oa_adverse_fill_bps = 0, oa_quote_latency_ms = 0, oa_round_trip_cost_pct = None\<rparr>"

definition demo_close :: close_args where
  "demo_close = \<lparr>ca_token_mint = ''m1'', ca_usd_received = 10, ca_token_closed = 3, ca_order_id = ''o2'',
     ca_quote_id = ''q2'', ca_exit_reason = Some ''TP2'', ca_close_fill_id = Some ''f2'',
     ca_created_at = Some 5, ca_price_impact_pct = 0, ca_platform_fee_usd = 0,
     ca_network_fee_usd = 0, ca_other_cost_usd = 0, ca_adverse_fill_bps = 0, ca_quote_latency_ms = 0\<rparr>"

definition demo_position :: position_record where
  "demo_position = new_position demo_open ''p1'' ''f1'' 0"

definition demo_opened :: paper_ledger where
  "demo_opened = fst (projr (open_position demo_open ''x'' ''y'' 0 demo_start))"

definition demo_closed :: paper_ledger where
  "demo_closed = fst (projr (close_position demo_close ''z'' 0 demo_opened))"

lemmas demo_defs = demo_start_def demo_open_def demo_close_def ledger_state_init_def

lemma demo_open_result:
  "open_position demo_open ''x'' ''y'' 0 demo_start = Inr (demo_opened, demo_position)"
  by (simp add: demo_opened_def demo_position_def demo_defs open_position_def Let_def fill_valid_def
      entry_fill_def opt_or_def)

lemma demo_opened_state:
  "pl_state demo_opened = (ledger_state_init 500 [] [])\<lparr>
     ls_fills := [entry_fill demo_open ''p1'' ''f1'' 0],
     ls_positions := [(''p1'', demo_position)],
     ls_order_id_index := [(''o1'', ''p1'')],
     ls_token_index := [(''m1'', ''p1'')],
     ls_locked_capital_usd := dadd 0 (dadd 10 0)\<rparr>"
  by (simp add: demo_opened_def demo_position_def demo_defs open_position_def Let_def fill_valid_def
      entry_fill_def opt_or_def)

lemma demo_token_amount: "pos_remaining_token_amount demo_position = 3" "pos_status demo_position = OPEN"
  by (simp_all add: demo_position_def demo_open_def)

lemma demo_close_result:
  "close_position demo_close ''z'' 0 demo_opened = Inr (demo_closed, reduce_position demo_close 5 demo_position)"
  by (simp add: demo_closed_def close_position_def demo_opened_state position_at_def demo_token_amount
      fill_valid_def close_fill_def opt_or_def Let_def demo_close_def ledger_state_init_def)

lemma demo_opened_zone [simp]: "pl_time_zone demo_opened = utc"
  by (simp add: demo_opened_def demo_defs open_position_def Let_def fill_valid_def entry_fill_def)

lemma demo_start_reachable: "ledger_reachable 500 [] [] demo_start"
  by (rule ledger_reachable.start[of _ _ _ utc])
     (simp add: paper_ledger_init_def load_or_init_def demo_start_def)

lemma dctx_3 [simp]: "dctx 3 = 3" "dctx 10 = 10"
  using dctx_exact[of 3 0] dctx_exact[of 10 0] by simp_all

lemma demo_opened_reachable: "ledger_reachable 500 [] [] demo_opened"
  by (rule ledger_reachable.step[OF demo_start_reachable ledger_step.open_pos[OF _ demo_open_result]])
     (simp add: open_ok_def demo_defs)

lemma demo_closed_reachable: "ledger_reachable 500 [] [] demo_closed"
  by (rule ledger_reachable.step[OF demo_opened_reachable ledger_step.close_pos[OF demo_close_result]])

lemma demo_opened_lookups:
  "dict_get (ls_close_order_id_index (pl_state demo_opened)) (ca_order_id demo_close) = None"
  "dict_get (ls_token_index (pl_state demo_opened)) (ca_token_mint demo_close) = Some ''p1''"
  "dict_get (ls_positions (pl_state demo_opened)) ''p1'' = Some demo_position"
  "ca_token_closed demo_close = pos_remaining_token_amount demo_position"
  by (simp_all add: demo_opened_state demo_defs demo_token_amount)

theorem reachable_ledger_wf_witness: "ledger_reachable 500 [] [] demo_closed \<and> ledger_wf (pl_state demo_closed)"
  using demo_closed_reachable reachable_ledger_wf[OF demo_closed_reachable] by simp

theorem reachable_one_position_per_mint_witness:
  "ledger_reachable 500 [] [] demo_opened
   \<and> distinct (map pos_token_mint (open_positions (pl_state demo_opened)))"
  using demo_opened_reachable reachable_one_position_per_mint[OF demo_opened_reachable] by simp

theorem restart_recovers_books_witness:
  "\<exists>s. load_or_init (pl_storage demo_closed) 500 [] [] = Inr s \<and> durable s = durable (pl_state demo_closed)"
  by (rule restart_recovers_books[OF demo_closed_reachable])

theorem indexes_never_dangle_witness:
  "get_position_by_order demo_closed ''o1'' \<noteq> Inl KeyError
   \<and> open_position demo_open ''x'' ''y'' 0 demo_closed \<noteq> Inl KeyError
   \<and> close_position demo_close ''y'' 0 demo_closed \<noteq> Inl KeyError"
  by (rule indexes_never_dangle[OF demo_closed_reachable])

theorem full_close_witness: "can_open demo_closed ''m1''"
  using full_close[OF reachable_wf[OF demo_opened_reachable] demo_opened_lookups demo_close_result]
  by (simp add: demo_close_def)

theorem close_order_idempotent_witness:
  "close_position demo_close ''w'' 9 demo_closed = Inr (demo_closed, reduce_position demo_close 5 demo_position)"
  by (rule close_order_idempotent[OF reachable_wf[OF demo_opened_reachable] demo_opened_lookups(1) _
        demo_close_result])
     (simp_all add: demo_opened_state demo_close_def)

theorem close_accounting_witness:
  "\<bar>ls_locked_capital_usd (pl_state demo_closed)
     - (ls_locked_capital_usd (pl_state demo_opened) - proportional_cost demo_close demo_position)\<bar>
   \<le> 5 / 10 ^ 28 * \<bar>ls_locked_capital_usd (pl_state demo_opened) - proportional_cost demo_close demo_position\<bar>"
  using close_accounting[OF reachable_wf[OF demo_opened_reachable] demo_opened_lookups(1-3) demo_close_result]
  by simp

section \<open>Behaviour worth knowing\<close>


text \<open>
  A mirror whose equity is not a decimal stops the start-up: the \<open>InvalidOperation\<close> of the
  decimal constructor is not among the exceptions that fall back to a fresh ledger, while a
  missing equity does fall back.
\<close>

theorem malformed_mirror_stops_startup:
  "load_or_init (JsonFile ((to_dict s)\<lparr>jd_equity_usd := Malformed\<rparr>)) eq sv ch = Inl InvalidOperation
   \<and> load_or_init (JsonFile ((to_dict s)\<lparr>jd_equity_usd := Missing\<rparr>)) eq sv ch
       = Inr (ledger_state_init eq sv ch)"
  by (simp add: load_or_init_def from_dict_def)



lemma mark_position_last:
  "pos_last_executable_value_usd (mark_position pr t p) = dmul (pos_remaining_token_amount p) pr"
  by (simp add: mark_position_def Let_def)

lemma mark_position_high:
  "pos_last_executable_value_usd (mark_position pr t p) \<le> pos_highest_executable_value_usd (mark_position pr t p)"
  by (simp add: mark_position_def Let_def)

lemma mark_unrealized:
  "ls_unrealized_pnl_usd (pl_state (fst (mark_to_market prices t L)))
     = snd (mark_loop prices t (ls_positions (pl_state L)) 0)"
  by (simp add: mark_to_market_def Let_def split: prod.split)

text \<open>
  Marking with a price for every open position: the unrealized PnL of the account is the
  sum of marked value minus remaining cost over the open positions, the equity is the realized
  base plus it, and the recorded peak and the highest value of each position are not below the
  new equity and the new value.
\<close>

theorem complete_mark:
  assumes "\<forall>p \<in> set (open_positions (pl_state L)). dict_get prices (pos_token_mint p) \<noteq> None"
  shows "let L' = fst (mark_to_market prices t L); s' = pl_state L' in
     ls_unrealized_pnl_usd s' = dsum (map (\<lambda>p. dsub (pos_last_executable_value_usd p)
         (pos_remaining_cost_usd p)) (open_positions s'))
     \<and> ls_equity_usd s' = dadd (realized_base_equity (pl_state L)) (ls_unrealized_pnl_usd s')
     \<and> ls_equity_usd s' \<le> ls_peak_equity_usd s'
     \<and> (\<forall>p \<in> set (open_positions s').
          pos_last_executable_value_usd p \<le> pos_highest_executable_value_usd p)"
proof -
  let ?s = "pl_state L" and ?s' = "pl_state (fst (mark_to_market prices t L))"
  have opened: "open_positions ?s' = map (mark_one prices t) (open_positions ?s)"
    unfolding open_positions_def mark_to_market_state
    by (simp add: comp_def case_prod_beta filter_map)
  have "map (\<lambda>p. dsub (pos_last_executable_value_usd p) (pos_remaining_cost_usd p)) (open_positions ?s')
      = map (\<lambda>p. marked_unrealized (the (dict_get prices (pos_token_mint p))) p) (open_positions ?s)"
    unfolding opened map_map comp_def using assms
    by (intro map_cong refl)
       (auto simp: open_positions_def mark_one_def mark_position_last marked_unrealized_def)
  moreover have "filter (priced prices) (dict_values (ls_positions ?s)) = open_positions ?s"
    unfolding open_positions_def using assms
    by (intro filter_cong refl) (auto simp: priced_def open_positions_def)
  ultimately have u: "ls_unrealized_pnl_usd ?s' = dsum (map (\<lambda>p. dsub (pos_last_executable_value_usd p)
         (pos_remaining_cost_usd p)) (open_positions ?s'))"
    using mark_loop_unrealized[of prices t "ls_positions ?s" 0] by (simp add: mark_unrealized dsum_def)
  have "\<forall>p \<in> set (open_positions ?s').
      pos_last_executable_value_usd p \<le> pos_highest_executable_value_usd p"
    unfolding opened using assms
    by (auto simp: open_positions_def mark_one_def mark_position_high)
  moreover have "ls_equity_usd ?s' = dadd (realized_base_equity ?s) (ls_unrealized_pnl_usd ?s')"
    "ls_equity_usd ?s' \<le> ls_peak_equity_usd ?s'"
    by (simp_all add: mark_to_market_def Let_def split: prod.split)
  ultimately show ?thesis using u by (simp add: Let_def)
qed

theorem complete_mark_witness:
  "ls_unrealized_pnl_usd (pl_state (fst (mark_to_market [(''m1'', 4)] 7 demo_opened)))
     = dsum (map (\<lambda>p. dsub (pos_last_executable_value_usd p) (pos_remaining_cost_usd p))
         (open_positions (pl_state (fst (mark_to_market [(''m1'', 4)] 7 demo_opened)))))"
proof -
  have "\<forall>p \<in> set (open_positions (pl_state demo_opened)).
      dict_get [(''m1'', 4 :: decimal)] (pos_token_mint p) \<noteq> None"
    by (simp add: open_positions_def demo_opened_state demo_position_def demo_open_def)
  from complete_mark[OF this, of 7] show ?thesis by (simp add: Let_def)
qed

end
