(* ===== verification/Sizing.thy ===== *)
theory Sizing
  imports Decimal_Arith
begin

text \<open>
  Risk-budget position sizing (\<open>sizing.py\<close>). The constraints of the pydantic fields are the
  predicate \<open>sizing_input_valid\<close>: an input that violates one is never built.
\<close>

section \<open>Definitions\<close>

datatype sizing_reject_reason =
    POSITION_TOO_SMALL_AFTER_COSTS | NO_DAILY_RISK_BUDGET | INVALID_EFFECTIVE_LOSS

record position_sizing_input =
  si_current_equity_usd :: decimal
  si_daily_pnl_usd :: decimal
  si_quote_liquidity_usd :: decimal
  si_estimated_round_trip_cost_pct :: decimal
  si_score :: decimal
  si_hard_stop_pct :: decimal
  si_adverse_execution_buffer_pct :: decimal
  si_daily_loss_limit_usd :: decimal
  si_maximum_position_usd :: decimal
  si_minimum_position_usd :: decimal

definition sizing_input_valid :: "position_sizing_input \<Rightarrow> bool" where
  "sizing_input_valid v \<longleftrightarrow> 0 < si_current_equity_usd v \<and> 0 < si_quote_liquidity_usd v
     \<and> 0 \<le> si_estimated_round_trip_cost_pct v \<and> 0 \<le> si_score v \<and> si_score v \<le> 100"

record position_sizing_result =
  sr_allowed :: bool
  sr_position_size_usd :: decimal
  sr_risk_budget_usd :: decimal
  sr_effective_loss_pct :: decimal
  sr_score_multiplier :: decimal
  sr_reject_reason :: "sizing_reject_reason option"

definition score_multiplier :: "decimal \<Rightarrow> decimal" where
  "score_multiplier score =
     (if 92 \<le> score then 1 else if 85 \<le> score then 9/10 else if 80 \<le> score then 3/4 else 0)"

definition remaining_daily :: "position_sizing_input \<Rightarrow> decimal" where
  "remaining_daily v = max 0 (dadd (si_daily_loss_limit_usd v) (min (si_daily_pnl_usd v) 0))"

definition risk_budget :: "position_sizing_input \<Rightarrow> decimal" where
  "risk_budget v = min (dmul (si_current_equity_usd v) (5/1000)) (remaining_daily v)"

definition effective_loss :: "position_sizing_input \<Rightarrow> decimal" where
  "effective_loss v = dadd (dadd (si_hard_stop_pct v) (si_estimated_round_trip_cost_pct v))
     (si_adverse_execution_buffer_pct v)"

definition base_size :: "position_sizing_input \<Rightarrow> decimal" where
  "base_size v = min (min (min (ddiv (risk_budget v) (effective_loss v))
     (dmul (si_current_equity_usd v) (4/100))) (dmul (si_quote_liquidity_usd v) (25/10000)))
     (si_maximum_position_usd v)"

definition calculate_position_size :: "position_sizing_input \<Rightarrow> position_sizing_result result" where
  "calculate_position_size v =
     (let budget = risk_budget v; loss = effective_loss v; multiplier = score_multiplier (si_score v);
          answer = (\<lambda>ok size reason. \<lparr>sr_allowed = ok, sr_position_size_usd = size,
            sr_risk_budget_usd = budget, sr_effective_loss_pct = loss,
            sr_score_multiplier = multiplier, sr_reject_reason = reason\<rparr>)
      in if budget \<le> 0 then Inr (answer False 0 (Some NO_DAILY_RISK_BUDGET))
         else if loss \<le> 0 then Inr (answer False 0 (Some INVALID_EFFECTIVE_LOSS))
         else rbind (quantize round_down 2 (dmul (base_size v) multiplier)) (\<lambda>size.
           if size < si_minimum_position_usd v
           then Inr (answer False size (Some POSITION_TOO_SMALL_AFTER_COSTS))
           else Inr (answer True size None)))"

section \<open>Properties\<close>

lemma score_multiplier_bounds: "0 \<le> score_multiplier s" "score_multiplier s \<le> 1"
  by (simp_all add: score_multiplier_def)

lemma base_size_nonneg:
  assumes "sizing_input_valid v" "0 \<le> risk_budget v" "0 \<le> effective_loss v" "0 \<le> si_maximum_position_usd v"
  shows "0 \<le> base_size v"
  using assms by (simp add: base_size_def sizing_input_valid_def ddiv_nonneg dmul_nonneg)

lemma base_size_fixed:
  "dctx (si_maximum_position_usd v) = si_maximum_position_usd v \<Longrightarrow> dctx (base_size v) = base_size v"
  by (simp add: base_size_def min_def)

lemma sized_le_base:
  assumes "0 \<le> base_size v" "dctx (base_size v) = base_size v"
  shows "quantize_value round_down 2 (dmul (base_size v) (score_multiplier s)) \<le> base_size v"
proof -
  have "0 \<le> dmul (base_size v) (score_multiplier s)"
    using assms(1) score_multiplier_bounds by (intro dmul_nonneg)
  then have "quantize_value round_down 2 (dmul (base_size v) (score_multiplier s))
      \<le> dmul (base_size v) (score_multiplier s)" by (rule quantize_down_le)
  also have "\<dots> \<le> base_size v"
    using assms score_multiplier_bounds by (intro dmul_le_left)
  finally show ?thesis .
qed

lemma ddiv_upper: "0 < a \<Longrightarrow> 0 < b \<Longrightarrow> ddiv a b * b \<le> a * (1 + 5 / 10 ^ 28)"
proof -
  assume ab: "0 < a" "0 < b"
  have "dctx (a / b) \<le> a / b + 5 / 10 ^ 28 * (a / b)"
    using dctx_rel_error[of "a / b"] ab by (simp add: abs_le_iff)
  then have "ddiv a b * b \<le> (a / b + 5 / 10 ^ 28 * (a / b)) * b"
    using ab unfolding ddiv_def by (intro mult_right_mono) auto
  also have "\<dots> = a * (1 + 5 / 10 ^ 28)" using ab by (simp add: field_simps)
  finally show ?thesis .
qed

text \<open>
  C12. An allowed size lies between the minimum and maximum position, is within 4 per cent of the
  equity and 0.25 per cent of the pool's quote liquidity, and losing the hard stop plus all
  costs on it stays within the risk budget (half a per cent of the equity and what is left of
  the daily loss limit), up to one unit in the 28th digit.
\<close>

theorem allowed_size_within_risk:
  assumes "sizing_input_valid v" and "0 \<le> si_maximum_position_usd v"
    and "dctx (si_maximum_position_usd v) = si_maximum_position_usd v"
    and "calculate_position_size v = Inr r" and "sr_allowed r"
  shows "si_minimum_position_usd v \<le> sr_position_size_usd r
    \<and> sr_position_size_usd r \<le> si_maximum_position_usd v
    \<and> sr_position_size_usd r \<le> dmul (si_current_equity_usd v) (4/100)
    \<and> sr_position_size_usd r \<le> dmul (si_quote_liquidity_usd v) (25/10000)
    \<and> sr_position_size_usd r * effective_loss v \<le> risk_budget v * (1 + 5 / 10 ^ 28)
    \<and> risk_budget v \<le> remaining_daily v
    \<and> (0 < sr_position_size_usd r \<longrightarrow> 80 \<le> si_score v)"
proof -
  let ?q = "quantize_value round_down 2 (dmul (base_size v) (score_multiplier (si_score v)))"
  have size: "sr_position_size_usd r = ?q" "si_minimum_position_usd v \<le> ?q"
    and pos: "0 < risk_budget v" "0 < effective_loss v"
    using assms(4,5) by (auto simp: calculate_position_size_def Let_def quantize_def split: if_splits)
  have base: "0 \<le> base_size v" using assms(1,2) pos by (intro base_size_nonneg) simp_all
  have le: "?q \<le> base_size v" using base base_size_fixed[OF assms(3)] by (rule sized_le_base)
  have "?q * effective_loss v \<le> ddiv (risk_budget v) (effective_loss v) * effective_loss v"
    using le pos by (intro mult_right_mono) (simp_all add: base_size_def)
  also have "\<dots> \<le> risk_budget v * (1 + 5 / 10 ^ 28)" using pos by (rule ddiv_upper)
  finally have risk: "?q * effective_loss v \<le> risk_budget v * (1 + 5 / 10 ^ 28)" .
  have low: "?q = 0" if "si_score v < 80"
    using that by (simp add: score_multiplier_def quantize_value_def round_down_def)
  have "base_size v \<le> si_maximum_position_usd v" "base_size v \<le> dmul (si_current_equity_usd v) (4/100)"
    "base_size v \<le> dmul (si_quote_liquidity_usd v) (25/10000)" by (simp_all add: base_size_def)
  note caps = this[THEN order_trans[OF le]]
  have "risk_budget v \<le> remaining_daily v" by (simp add: risk_budget_def)
  with size caps risk low show ?thesis by (metis less_irrefl not_le)
qed

lemma quantize_down_2_returns:
  assumes "0 \<le> x" "x \<le> 10 ^ 25"
  shows "\<exists>q. quantize round_down 2 x = Inr q"
proof -
  have "x * 100 < 10 ^ 28" using assms(2) by simp
  then have "\<lfloor>x * 100\<rfloor> < 10 ^ 28" by (simp add: floor_less_iff)
  moreover have "round_down (x * 100) = \<lfloor>x * 100\<rfloor>" "0 \<le> \<lfloor>x * 100\<rfloor>"
    using assms(1) by (simp_all add: round_down_def)
  ultimately have "\<not> 10 ^ 28 \<le> \<bar>round_down (x * 10 ^ 2)\<bar>" by simp
  then show ?thesis unfolding quantize_def by auto
qed

text \<open>
  Sizing returns an answer for every valid input whose maximum position is below \<open>10 ^ 25\<close>:
  the \<open>quantize\<close> never runs out of digits.
\<close>

theorem sizing_never_raises:
  assumes "sizing_input_valid v" and "0 \<le> si_maximum_position_usd v"
    and "si_maximum_position_usd v \<le> 10 ^ 25"
    and "dctx (si_maximum_position_usd v) = si_maximum_position_usd v"
  shows "\<exists>r. calculate_position_size v = Inr r"
proof (cases "0 < risk_budget v \<and> 0 < effective_loss v")
  case True
  let ?x = "dmul (base_size v) (score_multiplier (si_score v))"
  have base: "0 \<le> base_size v" using assms(1,2) True by (intro base_size_nonneg) simp_all
  have x: "0 \<le> ?x" "?x \<le> base_size v"
    using base base_size_fixed[OF assms(4)] score_multiplier_bounds
    by (auto intro: dmul_nonneg dmul_le_left)
  have "base_size v \<le> si_maximum_position_usd v" by (simp add: base_size_def)
  then have "?x \<le> 10 ^ 25" using x(2) assms(3) by (meson order_trans)
  then obtain q where "quantize round_down 2 ?x = Inr q"
    using quantize_down_2_returns[OF x(1)] by blast
  with True show ?thesis
    unfolding calculate_position_size_def Let_def rbind_def by auto
next
  case False
  then show ?thesis by (auto simp: calculate_position_size_def Let_def not_less)
qed

section \<open>Witnesses\<close>

definition demo_sizing :: position_sizing_input where
  "demo_sizing = \<lparr>si_current_equity_usd = 500, si_daily_pnl_usd = - 2, si_quote_liquidity_usd = 60000,
     si_estimated_round_trip_cost_pct = 3/100, si_score = 86, si_hard_stop_pct = 15/100,
     si_adverse_execution_buffer_pct = 1/100, si_daily_loss_limit_usd = 10,
     si_maximum_position_usd = 20, si_minimum_position_usd = 8\<rparr>"

lemma demo_sizing_result:
  "\<not> isl (calculate_position_size demo_sizing)" "sr_allowed (projr (calculate_position_size demo_sizing))"
  by code_simp+

lemma demo_sizing_ok: "sizing_input_valid demo_sizing" "0 \<le> si_maximum_position_usd demo_sizing"
  "dctx (si_maximum_position_usd demo_sizing) = si_maximum_position_usd demo_sizing"
  "si_maximum_position_usd demo_sizing \<le> 10 ^ 25"
     apply code_simp
    apply code_simp
   apply code_simp
  apply (simp add: demo_sizing_def)
  done

theorem allowed_size_within_risk_witness:
  "sr_allowed (projr (calculate_position_size demo_sizing)) \<and> sr_position_size_usd (projr (calculate_position_size demo_sizing)) * effective_loss demo_sizing
     \<le> risk_budget demo_sizing * (1 + 5 / 10 ^ 28)"
  using allowed_size_within_risk[OF demo_sizing_ok(1-3) sum.collapse(2)[OF demo_sizing_result(1), symmetric]
      demo_sizing_result(2)] demo_sizing_result(2)
  by blast

theorem sizing_never_raises_witness: "\<exists>r. calculate_position_size demo_sizing = Inr r"
  by (rule sizing_never_raises[OF demo_sizing_ok(1,2,4,3)])

end
