(* ===== verification/Exit_Engine.thy ===== *)
theory Exit_Engine
  imports Ledger_Ops
begin

text \<open>
  The exit policy (\<open>exit_engine.py\<close>): one pure function from a position, its executable
  price and the time to a decision, and how it interacts with the flags the ledger keeps.
\<close>

section \<open>Definitions\<close>

datatype exit_reason =
    NO_EXIT | TP1 | TP2 | STOP_LOSS | TRAILING_STOP | MOMENTUM_EXIT | TIME_STOP | EMERGENCY

fun exit_reason_value :: "exit_reason \<Rightarrow> string" where
  "exit_reason_value NO_EXIT = ''NO_EXIT''"
| "exit_reason_value TP1 = ''TP1''"
| "exit_reason_value TP2 = ''TP2''"
| "exit_reason_value STOP_LOSS = ''STOP_LOSS''"
| "exit_reason_value TRAILING_STOP = ''TRAILING_STOP''"
| "exit_reason_value MOMENTUM_EXIT = ''MOMENTUM_EXIT''"
| "exit_reason_value TIME_STOP = ''TIME_STOP''"
| "exit_reason_value EMERGENCY = ''EMERGENCY''"

record exit_decision =
  ed_should_exit :: bool
  ed_reason :: exit_reason
  ed_executable_pnl_usd :: decimal
  ed_executable_return_pct :: decimal
  ed_close_fraction :: decimal

record exit_policy =
  ep_tp1_return :: decimal
  ep_tp1_size :: decimal
  ep_tp2_return :: decimal
  ep_tp2_size_of_initial :: decimal
  ep_stop_loss_return :: decimal
  ep_trailing_stop_pct :: decimal
  ep_max_hold_seconds :: "int option"
  ep_no_new_high_seconds :: "int option"

definition default_exit_policy :: exit_policy where
  "default_exit_policy = \<lparr>
     ep_tp1_return = 30/100, ep_tp1_size = 50/100,
     ep_tp2_return = 60/100, ep_tp2_size_of_initial = 25/100,
     ep_stop_loss_return = - (15/100), ep_trailing_stop_pct = 15/100,
     ep_max_hold_seconds = Some 600, ep_no_new_high_seconds = Some 120\<rparr>"

definition executable_mark :: "position_record \<Rightarrow> decimal \<Rightarrow> decimal" where
  "executable_mark p price = dmul (pos_remaining_token_amount p) price"

definition executable_pnl :: "position_record \<Rightarrow> decimal \<Rightarrow> decimal" where
  "executable_pnl p price = dsub (executable_mark p price) (pos_remaining_cost_usd p)"

definition executable_return :: "position_record \<Rightarrow> decimal \<Rightarrow> decimal" where
  "executable_return p price = ddiv (executable_pnl p price) (pos_remaining_cost_usd p)"

text \<open>\<open>min(1, max(0, x))\<close>\<close>

definition clamp01 :: "decimal \<Rightarrow> decimal" where
  "clamp01 x = min 1 (max 0 x)"

definition tp2_fraction :: "exit_policy \<Rightarrow> position_record \<Rightarrow> decimal" where
  "tp2_fraction policy p =
     (let remaining_of_initial =
            (if 0 < pos_entry_token_amount p
             then ddiv (pos_remaining_token_amount p) (pos_entry_token_amount p) else 1)
      in clamp01 (ddiv (ep_tp2_size_of_initial policy) (max remaining_of_initial (1/100000000))))"

definition trailing_floor :: "exit_policy \<Rightarrow> position_record \<Rightarrow> decimal" where
  "trailing_floor policy p =
     (let executable_high = max (pos_highest_executable_value_usd p)
            (dadd (pos_remaining_cost_usd p) (pos_peak_unrealized_usd p))
      in max (pos_remaining_cost_usd p)
             (dmul executable_high (dsub 1 (ep_trailing_stop_pct policy))))"

definition trailing_hit :: "exit_policy \<Rightarrow> position_record \<Rightarrow> decimal \<Rightarrow> bool" where
  "trailing_hit policy p price \<longleftrightarrow> pos_tp1_taken p
     \<and> (0 < pos_highest_executable_value_usd p \<or> 0 < pos_peak_unrealized_usd p)
     \<and> executable_mark p price \<le> trailing_floor policy p"

definition aged :: "int option \<Rightarrow> datetime option \<Rightarrow> datetime \<Rightarrow> bool" where
  "aged bound since now = (case bound of None \<Rightarrow> False
     | Some n \<Rightarrow> (case since of None \<Rightarrow> False | Some t \<Rightarrow> n \<le> int_seconds (now - t)))"

definition evaluate_exit ::
  "position_record \<Rightarrow> decimal \<Rightarrow> datetime \<Rightarrow> exit_policy option \<Rightarrow> bool \<Rightarrow> bool \<Rightarrow> exit_decision" where
  "evaluate_exit p price now policy0 momentum_exit emergency_exit =
     (let policy = opt_or policy0 default_exit_policy;
          pnl = executable_pnl p price;
          ret = executable_return p price;
          exit_with = (\<lambda>reason fraction. \<lparr>ed_should_exit = True, ed_reason = reason,
            ed_executable_pnl_usd = pnl, ed_executable_return_pct = ret, ed_close_fraction = fraction\<rparr>);
          hold = (\<lambda>a b. \<lparr>ed_should_exit = False, ed_reason = NO_EXIT,
            ed_executable_pnl_usd = a, ed_executable_return_pct = b, ed_close_fraction = 0\<rparr>)
      in if pos_status p \<noteq> OPEN then hold 0 0
         else if pos_remaining_cost_usd p \<le> 0 then hold 0 0
         else if emergency_exit then exit_with EMERGENCY 1
         else if ret \<le> ep_stop_loss_return policy then exit_with STOP_LOSS 1
         else if \<not> pos_tp1_taken p \<and> ep_tp1_return policy \<le> ret
           then exit_with TP1 (clamp01 (ep_tp1_size policy))
         else if pos_tp1_taken p \<and> \<not> pos_tp2_taken p \<and> ep_tp2_return policy \<le> ret
           then exit_with TP2 (tp2_fraction policy p)
         else if trailing_hit policy p price then exit_with TRAILING_STOP 1
         else if momentum_exit then exit_with MOMENTUM_EXIT 1
         else if aged (ep_max_hold_seconds policy) (Some (pos_opened_at p)) now then exit_with TIME_STOP 1
         else if aged (ep_no_new_high_seconds policy) (pos_last_new_high_at p) now then exit_with TIME_STOP 1
         else hold pnl ret)"

section \<open>Shared lemmas\<close>

lemma clamp01_bounds [simp]: "0 \<le> clamp01 x" "clamp01 x \<le> 1"
  by (simp_all add: clamp01_def)

lemma tp2_fraction_bounds [simp]: "0 \<le> tp2_fraction policy p" "tp2_fraction policy p \<le> 1"
  by (simp_all add: tp2_fraction_def Let_def)

text \<open>\<open>live\<close> positions are the ones the policy looks at.\<close>

definition live :: "position_record \<Rightarrow> bool" where
  "live p \<longleftrightarrow> pos_status p = OPEN \<and> 0 < pos_remaining_cost_usd p"

lemmas exit_cases = evaluate_exit_def live_def Let_def

lemma aged_iff:
  "0 < n \<Longrightarrow> aged (Some n) (Some t) now \<longleftrightarrow> seconds n \<le> now - t"
  by (simp add: aged_def int_seconds_ge)

section \<open>Properties\<close>

text \<open>
  The policy holds a live position exactly when no exit condition applies: no emergency or
  momentum signal, the return above the stop, below the first target (or below the second
  once the first is taken), the mark above the trailing floor, and both clocks within their
  limits. A closed or cost-free position is never exited.
\<close>

theorem hold_iff_no_condition:
  "ed_should_exit (evaluate_exit p price now (Some policy) momentum emergency) \<longleftrightarrow>
     live p \<and> (emergency \<or> momentum
       \<or> executable_return p price \<le> ep_stop_loss_return policy
       \<or> (\<not> pos_tp1_taken p \<and> ep_tp1_return policy \<le> executable_return p price)
       \<or> (pos_tp1_taken p \<and> \<not> pos_tp2_taken p \<and> ep_tp2_return policy \<le> executable_return p price)
       \<or> trailing_hit policy p price
       \<or> aged (ep_max_hold_seconds policy) (Some (pos_opened_at p)) now
       \<or> aged (ep_no_new_high_seconds policy) (pos_last_new_high_at p) now)"
  by (auto simp: exit_cases opt_or_def)

text \<open>
  The decision is well formed: it exits exactly when its reason is not \<open>NO_EXIT\<close>, the
  fraction lies between 0 and 1, protective exits close the whole position, and a stop loss
  wins over every profit target.
\<close>

theorem exit_decision_shape:
  "(let d = evaluate_exit p price now policy momentum emergency in
     (ed_should_exit d \<longleftrightarrow> ed_reason d \<noteq> NO_EXIT)
     \<and> 0 \<le> ed_close_fraction d \<and> ed_close_fraction d \<le> 1
     \<and> (ed_reason d \<notin> {NO_EXIT, TP1, TP2} \<longrightarrow> ed_close_fraction d = 1)
     \<and> (\<not> ed_should_exit d \<longrightarrow> ed_close_fraction d = 0)
     \<and> (live p \<and> executable_return p price \<le> ep_stop_loss_return (opt_or policy default_exit_policy)
          \<longrightarrow> ed_reason d \<in> {EMERGENCY, STOP_LOSS}))"
  by (auto simp: exit_cases)

section \<open>The targets and the ledger's flags\<close>

text \<open>What the ledger does to one position: marks and partial closes.\<close>

datatype position_event = Mark decimal datetime | Close close_args datetime

fun position_step :: "position_record \<Rightarrow> position_event \<Rightarrow> position_record" where
  "position_step p (Mark price t) = mark_position price t p"
| "position_step p (Close a t) = reduce_position a t p"

lemma flags_kept:
  "pos_tp1_taken p \<Longrightarrow> pos_tp1_taken (position_step p e)"
  "pos_tp2_taken p \<Longrightarrow> pos_tp2_taken (position_step p e)"
  by (cases e; simp add: mark_position_def reduce_position_def Let_def)+

lemma flags_kept_fold:
  "pos_tp1_taken p \<Longrightarrow> pos_tp1_taken (foldl position_step p es)"
  "pos_tp2_taken p \<Longrightarrow> pos_tp2_taken (foldl position_step p es)"
  by (induction es arbitrary: p) (auto intro: flags_kept)

lemma taken_flags_set:
  "ca_exit_reason a = Some ''TP1'' \<Longrightarrow> pos_tp1_taken (reduce_position a t p)"
  "ca_exit_reason a = Some ''TP2'' \<Longrightarrow> pos_tp2_taken (reduce_position a t p)"
  by (simp_all add: reduce_position_def Let_def)

lemma reason_needs_flag:
  "ed_reason (evaluate_exit p price now policy m e) = TP1 \<Longrightarrow> \<not> pos_tp1_taken p"
  "ed_reason (evaluate_exit p price now policy m e) = TP2 \<Longrightarrow> pos_tp1_taken p \<and> \<not> pos_tp2_taken p"
  by (auto simp: exit_cases split: if_splits)

text \<open>
  C18. Each target fires at most once: after a close that carries the decision's reason \<open>TP1\<close>
  (\<open>TP2\<close>), whatever marks and closes follow, the policy never decides that target again.
\<close>

theorem targets_fire_once:
  assumes "r = TP1 \<or> r = TP2" and "ca_exit_reason a = Some (exit_reason_value r)"
  shows "ed_reason (evaluate_exit (foldl position_step (reduce_position a t p) es) price now policy m e) \<noteq> r"
  using assms taken_flags_set flags_kept_fold reason_needs_flag by (metis exit_reason_value.simps(2,3))

section \<open>Witnesses\<close>

definition exit_demo_position :: position_record where
  "exit_demo_position = \<lparr>pos_id = ''p1'', pos_token_mint = ''M'', pos_open_fill_id = ''f1'',
     pos_entry_token_amount = 100, pos_entry_cost_usd = 20, pos_open_ratio = 1/5, pos_opened_at = 0,
     pos_closed_at = None, pos_locked_usd = 20, pos_status = OPEN, pos_remaining_token_amount = 100,
     pos_remaining_cost_usd = 20, pos_realized_pnl_usd = 0, pos_peak_unrealized_usd = 0, pos_mfe_pct = 0,
     pos_mae_pct = 0, pos_highest_executable_value_usd = 0, pos_lowest_executable_value_usd = None,
     pos_last_executable_value_usd = 0, pos_tp1_taken = False, pos_tp2_taken = False,
     pos_last_new_high_at = None, pos_final_exit_reason = None, pos_candidate_id = None,
     pos_pool_address = None, pos_entry_score = None, pos_entry_liquidity_usd = None,
     pos_entry_pool_age_seconds = None, pos_strategy_version = None\<rparr>"

definition demo_tp1 :: close_args where
  "demo_tp1 = \<lparr>ca_token_mint = ''M'', ca_usd_received = 20, ca_token_closed = 50, ca_order_id = ''x1'',
     ca_quote_id = ''q1'', ca_exit_reason = Some ''TP1'', ca_close_fill_id = None, ca_created_at = None,
     ca_price_impact_pct = 0, ca_platform_fee_usd = 0, ca_network_fee_usd = 0, ca_other_cost_usd = 0,
     ca_adverse_fill_bps = 50, ca_quote_latency_ms = 10\<rparr>"

theorem targets_fire_once_witness:
  "ed_reason (evaluate_exit (foldl position_step (reduce_position demo_tp1 5 exit_demo_position) [Mark 2 9]) 3 10 None False False)
     \<noteq> TP1"
  by (rule targets_fire_once) (simp_all add: demo_tp1_def)

lemma exit_demo_position_stop:
  "live exit_demo_position" "executable_return exit_demo_position (3/20) \<le> ep_stop_loss_return (opt_or None default_exit_policy)"
  by code_simp+

theorem exit_decision_shape_witness:
  "ed_reason (evaluate_exit exit_demo_position (3/20) 5 None False False) \<in> {EMERGENCY, STOP_LOSS}"
  using exit_decision_shape[of exit_demo_position "3/20" 5 None False False] exit_demo_position_stop
  unfolding Let_def by blast

theorem hold_iff_no_condition_witness:
  "ed_should_exit (evaluate_exit exit_demo_position (3/20) 5 (Some default_exit_policy) False True)"
  using hold_iff_no_condition[of exit_demo_position "3/20" 5 default_exit_policy False True] exit_demo_position_stop(1)
  by blast

end
