(* ===== verification/Risk.thy ===== *)
theory Risk
  imports Ledger_Props
begin

text \<open>
  Risk checks for paper entries (\<open>risk.py\<close>), with the paper ledger as the \<open>AnyLedger\<close>: its
  methods exist, so the \<open>hasattr\<close> fallbacks for other ledgers do not occur. Each read of the
  clock is an argument of its own, since the day may change between two reads.
\<close>

section \<open>Definitions\<close>

datatype risk_decision = ALLOW | BLOCK

record risk_decision_result =
  rd_decision :: risk_decision
  rd_reason :: "string option"

record atomic_entry_limits =
  ael_max_position_usdc :: decimal
  ael_max_exposure_usdc :: decimal
  ael_max_open_positions :: int
  ael_daily_loss_limit_usdc :: decimal
  ael_max_trades_per_day :: int
  ael_day_key :: string
  ael_day_start :: datetime
  ael_day_end :: datetime

record risk_config =
  rc_risk_per_trade_pct :: decimal
  rc_hard_stop_pct :: decimal
  rc_max_position_usdc :: decimal
  rc_min_position_usdc :: decimal
  rc_max_exposure_usdc :: decimal
  rc_max_open_positions :: int
  rc_daily_loss_limit_usdc :: decimal
  rc_all_time_drawdown_limit_pct :: decimal
  rc_max_trades_per_day :: int
  rc_max_consecutive_losses :: int
  rc_daily_halt_after_consecutive_losses :: int
  rc_pause_minutes :: int
  rc_adverse_fill_bps :: int

definition allowed :: risk_decision_result where
  "allowed = \<lparr>rd_decision = ALLOW, rd_reason = None\<rparr>"

definition blocked :: "string \<Rightarrow> risk_decision_result" where
  "blocked r = \<lparr>rd_decision = BLOCK, rd_reason = Some r\<rparr>"

definition trades_today :: "paper_ledger \<Rightarrow> string \<Rightarrow> int" where
  "trades_today L target =
     int (length (filter (\<lambda>f. fill_kind f = ENTRY \<and> current_date_key L (fill_created_at f) = target)
       (ls_fills (pl_state L))))"

text \<open>The loop over the reversed fills: entries are skipped, the first exit that is not a loss stops it.\<close>

fun losses_loop :: "fill_record list \<Rightarrow> int \<Rightarrow> int" where
  "losses_loop [] consecutive = consecutive"
| "losses_loop (f # fs) consecutive =
     (if fill_kind f \<noteq> EXIT then losses_loop fs consecutive
      else if fill_realized f < 0 then losses_loop fs (consecutive + 1)
      else consecutive)"

definition consecutive_losses :: "paper_ledger \<Rightarrow> int" where
  "consecutive_losses L = losses_loop (rev (ls_fills (pl_state L))) 0"

definition risk_set_halt :: "string \<Rightarrow> paper_ledger \<Rightarrow> paper_ledger" where
  "risk_set_halt reason L = set_halt reason False L"

definition set_hard_halt :: "string \<Rightarrow> paper_ledger \<Rightarrow> paper_ledger" where
  "set_hard_halt reason L = set_halt reason True L"

definition risk_clear_halt :: "paper_ledger \<Rightarrow> paper_ledger \<times> bool" where
  "risk_clear_halt L = clear_halt False L"

definition atomic_entry_limits_of :: "risk_config \<Rightarrow> paper_ledger \<Rightarrow> datetime \<Rightarrow> atomic_entry_limits" where
  "atomic_entry_limits_of risk L at_time =
     (let (day_start, day_end) = day_bounds_utc L at_time in \<lparr>
       ael_max_position_usdc = rc_max_position_usdc risk,
       ael_max_exposure_usdc = rc_max_exposure_usdc risk,
       ael_max_open_positions = rc_max_open_positions risk,
       ael_daily_loss_limit_usdc = rc_daily_loss_limit_usdc risk,
       ael_max_trades_per_day = rc_max_trades_per_day risk,
       ael_day_key = current_date_key L at_time,
       ael_day_start = day_start,
       ael_day_end = day_end\<rparr>)"

definition paused :: "ledger_state \<Rightarrow> datetime \<Rightarrow> bool" where
  "paused s now = (case ls_pause_until s of None \<Rightarrow> False | Some u \<Rightarrow> now < u)"

text \<open>
  \<open>now\<close> is the first read of the clock, \<open>now_loss\<close> the one in \<open>daily_loss_exceeded\<close> and
  \<open>now_trades\<close> the one in \<open>trades_today\<close>.
\<close>

definition evaluate_entry ::
  "risk_config \<Rightarrow> datetime \<Rightarrow> datetime \<Rightarrow> datetime \<Rightarrow> decimal \<Rightarrow> string option \<Rightarrow> paper_ledger
     \<Rightarrow> (paper_ledger \<times> risk_decision_result) result" where
  "evaluate_entry risk now now_loss now_trades notional_usdc token_mint L =
     (if notional_usdc \<le> 0 then Inl (ExecutionBlockedError ''notional must be positive'') else Inr (
      let today = current_date_key L now;
          L1 = clear_expired_daily_controls today now L;
          s1 = pl_state L1 in
      if is_halted s1 then (L1, blocked ''HALTED_BY_RISK_MANAGER'')
      else if paused s1 now then (L1, blocked ''CONSECUTIVE_LOSS_PAUSE'')
      else if rc_max_position_usdc risk < notional_usdc then (L1, blocked ''MAX_POSITION_LIMIT'')
      else if rc_max_exposure_usdc risk < dadd (total_exposure_usd s1) notional_usdc
        then (L1, blocked ''MAX_EXPOSURE_LIMIT'')
      else if rc_max_open_positions risk \<le> int (length (open_positions s1))
        then (L1, blocked ''MAX_OPEN_POSITIONS_LIMIT'')
      else if cash_available_usd L1 < notional_usdc then (L1, blocked ''INSUFFICIENT_CASH'')
      else case daily_loss_exceeded (rc_daily_loss_limit_usdc risk) now_loss L1 of (L2, loss) \<Rightarrow>
      if loss then (set_daily_halt today ''DAILY_LOSS_LIMIT'' L2, blocked ''DAILY_LOSS_LIMIT'')
      else if rc_max_trades_per_day risk \<le> trades_today L2 (current_date_key L2 now_trades)
        then (L2, blocked ''MAX_TRADES_PER_DAY'')
      else if drawdown_exceeded L2 (rc_all_time_drawdown_limit_pct risk)
        then (set_hard_halt ''ALL_TIME_DRAWDOWN_LIMIT'' L2, blocked ''ALL_TIME_DRAWDOWN_LIMIT'')
      else let losses = consecutive_losses L2 in
      if rc_daily_halt_after_consecutive_losses risk \<le> losses
        then (set_daily_halt today ''CONSECUTIVE_LOSSES'' L2, blocked ''CONSECUTIVE_LOSS_DAILY_HALT'')
      else if rc_max_consecutive_losses risk \<le> losses
        then (set_pause_until (Some (now + seconds (60 * rc_pause_minutes risk))) L2,
              blocked ''CONSECUTIVE_LOSSES'')
      else (case token_mint of None \<Rightarrow> (L2, allowed)
            | Some m \<Rightarrow> if \<not> can_open L2 m then (L2, blocked ''DUPLICATE_TOKEN'') else (L2, allowed))))"

section \<open>Control operations keep the financial state\<close>

definition financials :: "ledger_state \<Rightarrow> ledger_state" where
  "financials s = s\<lparr>ls_halt_reason := None, ls_pause_until := None, ls_daily_halt_date := None,
     ls_daily_equity_baseline := []\<rparr>"

lemma financials_sel:
  "ls_positions (financials s) = ls_positions s"
  "ls_fills (financials s) = ls_fills s"
  "ls_equity_usd (financials s) = ls_equity_usd s"
  "ls_peak_equity_usd (financials s) = ls_peak_equity_usd s"
  "ls_unrealized_pnl_usd (financials s) = ls_unrealized_pnl_usd s"
  "ls_locked_capital_usd (financials s) = ls_locked_capital_usd s"
  "ls_token_index (financials s) = ls_token_index s"
  "ls_order_id_index (financials s) = ls_order_id_index s"
  "ls_close_order_id_index (financials s) = ls_close_order_id_index s"
  "ls_realized_pnl_usd (financials s) = ls_realized_pnl_usd s"
  by (simp_all add: financials_def)

lemma financials_eqD:
  assumes "financials s = financials t"
  shows "ls_positions s = ls_positions t"
    "ls_fills s = ls_fills t"
    "ls_equity_usd s = ls_equity_usd t"
    "ls_peak_equity_usd s = ls_peak_equity_usd t"
    "ls_unrealized_pnl_usd s = ls_unrealized_pnl_usd t"
    "ls_locked_capital_usd s = ls_locked_capital_usd t"
    "ls_token_index s = ls_token_index t"
    "ls_order_id_index s = ls_order_id_index t"
    "ls_close_order_id_index s = ls_close_order_id_index t"
    "ls_realized_pnl_usd s = ls_realized_pnl_usd t"
  by (metis assms financials_sel(1),
      metis assms financials_sel(2),
      metis assms financials_sel(3),
      metis assms financials_sel(4),
      metis assms financials_sel(5),
      metis assms financials_sel(6),
      metis assms financials_sel(7),
      metis assms financials_sel(8),
      metis assms financials_sel(9),
      metis assms financials_sel(10))

text \<open>
  The interface between the risk manager and the ledger's controls: a control operation keeps
  the financial state and the zone. What the risk checks read is then the same before and after.
\<close>

locale control_op =
  fixes op :: "paper_ledger \<Rightarrow> paper_ledger"
  assumes keeps: "financials (pl_state (op L)) = financials (pl_state L)"
    and zone: "pl_time_zone (op L) = pl_time_zone L"
begin

lemmas parts = financials_eqD[OF keeps]

lemma wf: "ledger_wf (pl_state (op L)) = ledger_wf (pl_state L)"
  by (rule ledger_wf_books) (simp add: books_def parts)

lemma reads:
  "open_positions (pl_state (op L)) = open_positions (pl_state L)"
  "total_exposure_usd (pl_state (op L)) = total_exposure_usd (pl_state L)"
  "cash_available_usd (op L) = cash_available_usd L"
  "can_open (op L) m = can_open L m"
  "drawdown_exceeded (op L) x = drawdown_exceeded L x"
  "consecutive_losses (op L) = consecutive_losses L"
  "trades_today (op L) k = trades_today L k"
  "current_date_key (op L) t = current_date_key L t"
  by (simp_all add: open_positions_def total_exposure_usd_def cash_available_usd_def can_open_def
      drawdown_exceeded_def consecutive_losses_def trades_today_def current_date_key_def parts zone)

end

interpretation pause_op: control_op "set_pause_until u"
  by unfold_locales (simp_all add: financials_def set_pause_until_def)

interpretation halt_op: control_op "set_halt r h"
  by unfold_locales (simp_all add: financials_def set_halt_def state_set_halt_def state_set_hard_halt_def)

interpretation daily_halt_op: control_op "set_daily_halt k r"
  by unfold_locales (simp_all add: financials_def set_daily_halt_def)

interpretation expire_op: control_op "clear_expired_daily_controls k now"
  by unfold_locales (simp_all add: financials_def clear_expired_daily_controls_def Let_def)

interpretation loss_op: control_op "\<lambda>L. fst (daily_loss_exceeded x t L)"
  by unfold_locales (simp_all add: financials_def daily_loss_exceeded_def Let_def)

section \<open>Properties\<close>

lemma losses_loop_eq:
  "losses_loop fs n = n + int (length (takeWhile (\<lambda>f. fill_realized f < 0) (filter (\<lambda>f. fill_kind f = EXIT) fs)))"
  by (induction fs n rule: losses_loop.induct) auto

text \<open>
  The loss streak is the number of most recent exits with a negative result: entries do
  not interrupt it, the first exit that is not a loss ends it.
\<close>

theorem consecutive_losses_spec:
  "consecutive_losses L = int (length (takeWhile (\<lambda>f. fill_realized f < 0) (rev (exit_fills (pl_state L)))))"
  by (simp add: consecutive_losses_def losses_loop_eq exit_fills_def rev_filter)

lemma daily_loss_fst_snd:
  "daily_loss_exceeded x t L = (fst (daily_loss_exceeded x t L), snd (daily_loss_exceeded x t L))"
  by simp

lemmas read_simps = expire_op.reads loss_op.reads[simplified]

lemma allow_limits:
  assumes "evaluate_entry risk now now_loss now_trades notional (Some m) L = Inr (L', d)"
    and "rd_decision d = ALLOW"
  shows "\<not> is_halted (pl_state (clear_expired_daily_controls (current_date_key L now) now L))
    \<and> \<not> paused (pl_state (clear_expired_daily_controls (current_date_key L now) now L)) now
    \<and> 0 < notional \<and> notional \<le> rc_max_position_usdc risk
    \<and> dadd (total_exposure_usd (pl_state L)) notional \<le> rc_max_exposure_usdc risk
    \<and> int (length (open_positions (pl_state L))) < rc_max_open_positions risk
    \<and> notional \<le> cash_available_usd L
    \<and> \<not> snd (daily_loss_exceeded (rc_daily_loss_limit_usdc risk) now_loss
          (clear_expired_daily_controls (current_date_key L now) now L))
    \<and> trades_today L (current_date_key L now_trades) < rc_max_trades_per_day risk
    \<and> \<not> drawdown_exceeded L (rc_all_time_drawdown_limit_pct risk)
    \<and> consecutive_losses L < rc_daily_halt_after_consecutive_losses risk
    \<and> consecutive_losses L < rc_max_consecutive_losses risk
    \<and> can_open L m \<and> d = allowed"
  using assms
  by (auto simp: evaluate_entry_def Let_def read_simps blocked_def case_prod_beta
      split: if_splits)

lemma evaluate_entry_financials:
  assumes "evaluate_entry risk now now_loss now_trades notional m L = Inr (L', d)"
  shows "financials (pl_state L') = financials (pl_state L)"
  using assms
  by (auto simp: evaluate_entry_def Let_def case_prod_beta set_hard_halt_def
      expire_op.keeps loss_op.keeps[simplified] halt_op.keeps daily_halt_op.keeps pause_op.keeps
      split: if_splits option.splits)


lemma hard_halt_blocks:
  assumes "is_hard_halted (pl_state L)"
  shows "is_hard_halted (pl_state (clear_expired_daily_controls k now L))"
proof -
  obtain r where r: "ls_halt_reason (pl_state L) = Some r" "startswith r ''hard:''"
    using assms by (auto simp: is_hard_halted_def split: option.splits)
  then have "\<not> startswith r ''daily:''" by (auto simp: startswith_iff)
  with r show ?thesis
    by (auto simp: clear_expired_daily_controls_def is_hard_halted_def Let_def split: option.split)
qed

text \<open>
  A drawdown breach is final: once an entry was blocked for the all-time drawdown, every
  later evaluation is blocked as halted, at any time and for any notional, until the halt is
  cleared by force.
\<close>

theorem drawdown_block_is_sticky:
  assumes "evaluate_entry risk now now_loss now_trades notional m L = Inr (L', d)"
    and "d = blocked ''ALL_TIME_DRAWDOWN_LIMIT''" and "0 < notional'"
  shows "\<exists>L''. evaluate_entry risk' now' now_loss' now_trades' notional' m' L'
             = Inr (L'', blocked ''HALTED_BY_RISK_MANAGER'')
         \<and> snd (risk_clear_halt L') = False"
proof -
  have hard: "is_hard_halted (pl_state L')"
    using assms(1,2)
    by (auto simp: evaluate_entry_def Let_def case_prod_beta blocked_def allowed_def set_hard_halt_def
        set_halt_def state_set_hard_halt_def is_hard_halted_def startswith_def
        split: if_splits option.splits)
  have "is_halted (pl_state (clear_expired_daily_controls k t L'))" for k t
    using hard_halt_blocks[OF hard, of k t]
    by (auto simp: is_hard_halted_def is_halted_def split: option.splits)
  then show ?thesis
    using assms(3) hard
    by (auto simp: evaluate_entry_def Let_def risk_clear_halt_def clear_halt_def state_clear_halt_def
        is_hard_halted_def split: option.splits)
qed

section \<open>Witnesses\<close>

definition demo_risk :: risk_config where
  "demo_risk = \<lparr>rc_risk_per_trade_pct = 5/1000, rc_hard_stop_pct = 15/100, rc_max_position_usdc = 20,
     rc_min_position_usdc = 8, rc_max_exposure_usdc = 60, rc_max_open_positions = 3,
     rc_daily_loss_limit_usdc = 10, rc_all_time_drawdown_limit_pct = 10, rc_max_trades_per_day = 20,
     rc_max_consecutive_losses = 3, rc_daily_halt_after_consecutive_losses = 5, rc_pause_minutes = 60,
     rc_adverse_fill_bps = 50\<rparr>"

definition demo_drawdown :: paper_ledger where
  "demo_drawdown = demo_start\<lparr>pl_state := (pl_state demo_start)\<lparr>ls_equity_usd := 400\<rparr>\<rparr>"

lemma Inr_projr: "\<not> isl x \<Longrightarrow> x = Inr (fst (projr x), snd (projr x))"
  by (cases x) auto

lemma demo_entry_allowed:
  "\<not> isl (evaluate_entry demo_risk 0 0 0 20 (Some ''m9'') demo_start)"
  "rd_decision (snd (projr (evaluate_entry demo_risk 0 0 0 20 (Some ''m9'') demo_start))) = ALLOW"
  by code_simp+

lemma demo_entry_drawdown:
  "\<not> isl (evaluate_entry demo_risk 0 0 0 20 (Some ''m9'') demo_drawdown)"
  "snd (projr (evaluate_entry demo_risk 0 0 0 20 (Some ''m9'') demo_drawdown))
     = blocked ''ALL_TIME_DRAWDOWN_LIMIT''"
  by code_simp+


theorem drawdown_block_is_sticky_witness:
  "\<exists>L''. evaluate_entry demo_risk 9 9 9 5 None
       (fst (projr (evaluate_entry demo_risk 0 0 0 20 (Some ''m9'') demo_drawdown)))
     = Inr (L'', blocked ''HALTED_BY_RISK_MANAGER'')"
  using drawdown_block_is_sticky[OF Inr_projr[OF demo_entry_drawdown(1)] demo_entry_drawdown(2), of 5]
  by auto

end
