(* ===== verification/Py_Float.thy ===== *)
theory Py_Float
  imports Prelude "HOL-Library.Log_Nat" Decimal_Arith
begin

text \<open>
  Python's \<open>float\<close> where the program adds durations: a finite binary64 number is its value, a
  rational, and an operation rounds its exact result to 53 significant bits, half to even.
  Overflow and subnormal numbers are not part of the model: the durations of the program are
  between a millisecond and days.
\<close>

definition ilog2 :: "rat \<Rightarrow> int" where
  "ilog2 x = (case quotient_of x of (n, d) \<Rightarrow>
     let e = bitlen n - bitlen d in if 2 powi e \<le> x then e else e - 1)"

definition fl :: "rat \<Rightarrow> rat" where
  "fl x = (if x = 0 then 0 else
     let q = 2 powi (ilog2 \<bar>x\<bar> - 52) in of_int (round_half_even (x / q)) * q)"

lemma fl_0 [simp]: "fl 0 = 0"
  by (simp add: fl_def)

lemma ilog2_le:
  assumes "0 < x" shows "2 powi ilog2 x \<le> x"
proof -
  obtain n d where nd: "quotient_of x = (n, d)" by force
  then have d: "0 < d" and x: "x = of_int n / of_int d"
    by (simp_all add: quotient_of_denom_pos quotient_of_div)
  with assms have n: "0 < n" by (simp add: zero_less_divide_iff)
  have pos: "1 \<le> bitlen n" "1 \<le> bitlen d"
    using n d bitlen_eq_zero_iff[of n] bitlen_eq_zero_iff[of d] bitlen_nonneg[of n] bitlen_nonneg[of d]
    by linarith+
  have "2 powi (bitlen n - bitlen d - 1) \<le> x"
  proof -
    have "2 ^ nat (bitlen n - 1) \<le> n" using bitlen_bounds[OF n] by simp
    then have "of_int (2 ^ nat (bitlen n - 1)) \<le> (of_int n :: rat)" by (simp only: of_int_le_iff)
    then have lo: "(2::rat) powi (bitlen n - 1) \<le> of_int n"
      using pos(1) by (simp add: power_int_def)
    have "d \<le> 2 ^ nat (bitlen d)" using bitlen_bounds[OF d] by simp
    then have "(of_int d :: rat) \<le> of_int (2 ^ nat (bitlen d))" by (simp only: of_int_le_iff)
    then have hi: "of_int d \<le> (2::rat) powi bitlen d"
      using pos(2) by (simp add: power_int_def)
    have "(2::rat) powi (bitlen n - bitlen d - 1) = 2 powi (bitlen n - 1) / 2 powi bitlen d"
      by (simp add: power_int_diff)
    also have "\<dots> \<le> of_int n / of_int d"
      using lo hi d n by (intro frac_le) simp_all
    finally show ?thesis by (simp add: x)
  qed
  then show ?thesis by (simp add: ilog2_def nd Let_def)
qed

lemma fl_lower:
  assumes "0 < x" shows "x - x / 2 ^ 53 \<le> fl x"
proof -
  let ?q = "(2::rat) powi (ilog2 x - 52)"
  have q: "0 < ?q" by simp
  have "of_int (round_half_even (x / ?q)) \<ge> x / ?q - 1/2"
    using round_half_even_error[of "x / ?q"] by linarith
  then have "(x / ?q - 1/2) * ?q \<le> of_int (round_half_even (x / ?q)) * ?q"
    using q by (intro mult_right_mono) simp_all
  moreover have "(x / ?q - 1/2) * ?q = x - ?q / 2"
    using q by (simp add: left_diff_distrib)
  moreover have "fl x = of_int (round_half_even (x / ?q)) * ?q"
    using assms by (simp add: fl_def Let_def)
  ultimately have "x - ?q / 2 \<le> fl x" by simp
  moreover have "?q / 2 = 2 powi ilog2 x / 2 ^ 53" by (simp add: power_int_diff)
  moreover have "2 powi ilog2 x / 2 ^ 53 \<le> x / 2 ^ 53"
    using ilog2_le[OF assms] by (intro divide_right_mono) simp_all
  ultimately show ?thesis by linarith
qed

text \<open>Adding a positive step to a float that is not too large makes it grow by at least half the step.\<close>

lemma fl_add_grows:
  assumes "0 \<le> e" "0 < i" "e \<le> i * 2 ^ 51"
  shows "e + i / 2 \<le> fl (e + i)"
proof -
  have "(e + i) / 2 ^ 53 \<le> i / 2" using assms by simp
  with fl_lower[of "e + i"] assms show ?thesis by linarith
qed

end
