(* ===== verification/Broker.thy ===== *)
theory Broker
  imports Risk Py_Float
begin

text \<open>
  The paper broker (\<open>broker.py\<close>) over the paper ledger and the risk manager. What the code gets
  from outside is an argument: the answers of the quote provider, the ids of the id factory,
  the clock, the database's answer to a commit, and what other tasks do to the ledger while
  the handler awaits (\<open>others\<close>). A handler returns the ledger with the result or the
  exception, since the ledger keeps what was done before a raise.
\<close>

section \<open>Data\<close>

record paper_execution_result =
  per_position_id :: string
  per_order_id :: string
  per_token_mint :: string
  per_fill_id :: string
  per_usd_notional :: decimal
  per_token_amount :: decimal
  per_direction :: string

record paper_broker =
  pb_risk :: risk_config
  pb_base_quote_mint :: string
  pb_execution_delay_seconds :: rat
  pb_adverse_factor :: decimal
  pb_adverse_fill_bps :: int
  pb_has_database :: bool
  pb_account_id :: string
  pb_strategy_version :: string
  pb_config_hash :: string
  pb_exit_retry_interval_seconds :: rat
  pb_exit_retry_timeout_seconds :: int

definition adverse_factor :: "int \<Rightarrow> decimal" where
  "adverse_factor bps = dsub 1 (ddiv (of_int bps) 10000)"

definition paper_broker_init ::
  "risk_config \<Rightarrow> string \<Rightarrow> int \<Rightarrow> int \<Rightarrow> bool \<Rightarrow> string \<Rightarrow> string \<Rightarrow> string \<Rightarrow> int \<Rightarrow> int
     \<Rightarrow> paper_broker result" where
  "paper_broker_init risk base_quote_mint execution_delay_ms adverse_fill_bps has_database account_id
     strategy_version config_hash exit_retry_interval_ms exit_retry_timeout_seconds =
     (if execution_delay_ms < 0 then Inl (ValueError ''execution_delay_ms must be non-negative'')
      else if adverse_fill_bps < 0 \<or> 10000 \<le> adverse_fill_bps
        then Inl (ValueError ''adverse_fill_bps must be in range 0..9999'')
      else Inr \<lparr>pb_risk = risk, pb_base_quote_mint = base_quote_mint,
        pb_execution_delay_seconds = fl (of_int execution_delay_ms / 1000),
        pb_adverse_factor = adverse_factor adverse_fill_bps,
        pb_adverse_fill_bps = adverse_fill_bps,
        pb_has_database = has_database, pb_account_id = account_id,
        pb_strategy_version = strategy_version, pb_config_hash = config_hash,
        pb_exit_retry_interval_seconds = fl (of_int (max 0 exit_retry_interval_ms) / 1000),
        pb_exit_retry_timeout_seconds = max 0 exit_retry_timeout_seconds\<rparr>)"

text \<open>The keyword arguments of the two database commits and the rows they answer with.\<close>

record entry_commit =
  ec_account_id :: string
  ec_strategy_version_id :: string
  ec_config_hash :: string
  ec_candidate_id :: string
  ec_pool_address :: string
  ec_mint :: string
  ec_order_id :: string
  ec_position_id :: string
  ec_fill_id :: string
  ec_quote :: quote_response
  ec_requested_usd :: decimal
  ec_filled_token_amount :: decimal
  ec_adverse_fill_bps :: int
  ec_filled_at :: datetime
  ec_limits :: atomic_entry_limits

record exit_commit =
  xc_account_id :: string
  xc_strategy_version_id :: string
  xc_config_hash :: string
  xc_mint :: string
  xc_order_id :: string
  xc_fill_id :: string
  xc_token_amount :: decimal
  xc_usd_received :: decimal
  xc_quote :: "quote_response option"
  xc_adverse_fill_bps :: int
  xc_exit_reason :: string
  xc_filled_at :: datetime

record committed =
  cm_position_id :: string
  cm_fill_id :: string
  cm_quote_id :: string
  cm_filled_at :: datetime

record broker_env =
  be_now :: datetime
  be_now_loss :: datetime
  be_now_trades :: datetime
  be_order_id :: string
  be_position_id :: string
  be_fill_id :: string
  be_ledger_position_id :: string
  be_ledger_fill_id :: string
  be_filled_at :: datetime
  be_others :: "paper_ledger \<Rightarrow> paper_ledger"
  be_others_commit :: "paper_ledger \<Rightarrow> paper_ledger"
  be_entry_commit :: "entry_commit \<Rightarrow> committed result"
  be_exit_commit :: "exit_commit \<Rightarrow> committed result"

record open_request =
  or_token_mint :: string
  or_usdc_amount :: decimal
  or_order_id :: "string option"
  or_candidate_id :: "string option"
  or_pool_address :: "string option"
  or_entry_score :: "decimal option"
  or_entry_liquidity_usd :: "decimal option"
  or_entry_pool_age_seconds :: "decimal option"
  or_round_trip_cost_pct :: "decimal option"

section \<open>Idempotent replay of an order\<close>

definition replay_result :: "string \<Rightarrow> string \<Rightarrow> string \<Rightarrow> fill_record \<Rightarrow> position_record \<Rightarrow> paper_execution_result" where
  "replay_result order_id token_mint direction f p = \<lparr>
     per_position_id = pos_id p, per_order_id = order_id, per_token_mint = token_mint,
     per_fill_id = fill_id f, per_usd_notional = fill_usd_notional f,
     per_token_amount = fill_token_amount f, per_direction = direction\<rparr>"

text \<open>\<open>None\<close>: the order is new; otherwise the answer for the order as it stands in the ledger.\<close>

definition existing_order ::
  "paper_ledger \<Rightarrow> string option \<Rightarrow> fill_type \<Rightarrow> string \<Rightarrow> string \<Rightarrow> paper_execution_result result option" where
  "existing_order L order_id kind token_mint direction =
     (case order_id of None \<Rightarrow> None
      | Some oid \<Rightarrow> (case get_fill_by_order L oid of None \<Rightarrow> None
         | Some f \<Rightarrow> if fill_kind f = kind then
             Some (rbind (get_position_by_order L oid) (\<lambda>found. case found of
               None \<Rightarrow> Inl (ExecutionBlockedError ''inconsistent ledger state for idempotent order'')
             | Some p \<Rightarrow> Inr (replay_result oid token_mint direction f p)))
           else None))"

section \<open>open\<close>

definition entry_commit_of ::
  "paper_broker \<Rightarrow> broker_env \<Rightarrow> open_request \<Rightarrow> string \<Rightarrow> quote_response \<Rightarrow> paper_ledger \<Rightarrow> entry_commit" where
  "entry_commit_of b env r order_id q L = \<lparr>
     ec_account_id = pb_account_id b, ec_strategy_version_id = pb_strategy_version b,
     ec_config_hash = pb_config_hash b, ec_candidate_id = opt_or (or_candidate_id r) [],
     ec_pool_address = opt_or (or_pool_address r) [], ec_mint = or_token_mint r,
     ec_order_id = order_id, ec_position_id = be_position_id env, ec_fill_id = be_fill_id env,
     ec_quote = q, ec_requested_usd = or_usdc_amount r,
     ec_filled_token_amount = dmul (quote_out_amount q) (pb_adverse_factor b),
     ec_adverse_fill_bps = pb_adverse_fill_bps b, ec_filled_at = be_filled_at env,
     ec_limits = atomic_entry_limits_of (pb_risk b) L (be_filled_at env)\<rparr>"

text \<open>\<open>except RuntimeError\<close>: a risk limit of the transaction becomes an \<open>ExecutionBlockedError\<close>.\<close>

fun blocked_by_limit :: "py_error \<Rightarrow> py_error" where
  "blocked_by_limit (RuntimeError m) =
     (if startswith m ''risk limit:'' then ExecutionBlockedError m else RuntimeError m)"
| "blocked_by_limit e = e"

definition commit_entry ::
  "paper_broker \<Rightarrow> broker_env \<Rightarrow> open_request \<Rightarrow> string \<Rightarrow> quote_response \<Rightarrow> paper_ledger \<Rightarrow> committed result" where
  "commit_entry b env r order_id q L =
     (if \<not> pb_has_database b then
        Inr \<lparr>cm_position_id = be_position_id env, cm_fill_id = be_fill_id env,
             cm_quote_id = ''quote-'' @ order_id, cm_filled_at = be_filled_at env\<rparr>
      else if \<not> truthy (or_candidate_id r) \<or> \<not> truthy (or_pool_address r) \<or> pb_strategy_version b = []
        then Inl (ExecutionBlockedError ''persistent paper entry context is incomplete'')
      else map_sum blocked_by_limit id (be_entry_commit env (entry_commit_of b env r order_id q L)))"

definition broker_open_args ::
  "paper_broker \<Rightarrow> open_request \<Rightarrow> string \<Rightarrow> quote_response \<Rightarrow> committed \<Rightarrow> open_args" where
  "broker_open_args b r order_id q c = \<lparr>
     oa_token_mint = or_token_mint r, oa_usd_amount = or_usdc_amount r,
     oa_token_amount = dmul (quote_out_amount q) (pb_adverse_factor b),
     oa_order_id = order_id, oa_quote_id = cm_quote_id c,
     oa_position_id = Some (cm_position_id c), oa_fill_id = Some (cm_fill_id c),
     oa_created_at = Some (cm_filled_at c),
     oa_candidate_id = or_candidate_id r, oa_pool_address = or_pool_address r,
     oa_entry_score = or_entry_score r, oa_entry_liquidity_usd = or_entry_liquidity_usd r,
     oa_entry_pool_age_seconds = or_entry_pool_age_seconds r,
     oa_strategy_version = Some (pb_strategy_version b),
     oa_price_impact_pct = quote_price_impact_pct q,
     oa_platform_fee_usd = quote_platform_fee_usd q,
     oa_network_fee_usd = quote_estimated_network_fee_usd q,
     oa_other_cost_usd = ddiv (dmul (or_usdc_amount r) (of_int (pb_adverse_fill_bps b))) 10000,
     oa_adverse_fill_bps = pb_adverse_fill_bps b,
     oa_quote_latency_ms = quote_latency_ms q,
     oa_round_trip_cost_pct = or_round_trip_cost_pct r\<rparr>"

definition broker_open ::
  "paper_broker \<Rightarrow> broker_env \<Rightarrow> quote_response result \<Rightarrow> open_request \<Rightarrow> paper_ledger
     \<Rightarrow> paper_ledger \<times> paper_execution_result result" where
  "broker_open b env buy_quote r L =
     (case existing_order L (or_order_id r) ENTRY (or_token_mint r) ''entry'' of
        Some answer \<Rightarrow> (L, answer)
      | None \<Rightarrow>
     (case evaluate_entry (pb_risk b) (be_now env) (be_now_loss env) (be_now_trades env)
             (or_usdc_amount r) (Some (or_token_mint r)) L of
        Inl e \<Rightarrow> (L, Inl e)
      | Inr (L1, d) \<Rightarrow>
        if rd_decision d \<noteq> ALLOW then (L1, Inl (ExecutionBlockedError (str_or (rd_reason d) ''blocked'')))
        else let L2 = be_others env L1 in
     (case buy_quote of
        Inl e \<Rightarrow> (L2, Inl e)
      | Inr q \<Rightarrow>
        let order_id = str_or (or_order_id r) (be_order_id env) in
     (case commit_entry b env r order_id q L2 of
        Inl e \<Rightarrow> (L2, Inl e)
      | Inr c \<Rightarrow>
        let L3 = (if pb_has_database b then be_others_commit env L2 else L2) in
     (case open_position (broker_open_args b r order_id q c) (be_ledger_position_id env)
             (be_ledger_fill_id env) (be_filled_at env) L3 of
        Inl e \<Rightarrow> (L3, Inl e)
      | Inr (L4, p) \<Rightarrow> (L4, Inr \<lparr>
          per_position_id = pos_id p, per_order_id = order_id, per_token_mint = or_token_mint r,
          per_fill_id = cm_fill_id c, per_usd_notional = or_usdc_amount r,
          per_token_amount = dmul (quote_out_amount q) (pb_adverse_factor b),
          per_direction = ''entry''\<rparr>))))))"

section \<open>close\<close>

text \<open>
  The retry loop: \<open>answers n\<close> is what attempt \<open>n\<close> returns or raises. The loop may run for
  ever, so it is a partial function: \<open>None\<close> stands for not returning.
\<close>

partial_function (option) sell_quote_loop ::
  "(nat \<Rightarrow> quote_response result) \<Rightarrow> rat \<Rightarrow> int \<Rightarrow> nat \<Rightarrow> rat \<Rightarrow> (quote_response option) result option" where
  "sell_quote_loop answers interval timeout n elapsed =
     (case answers n of
        Inr q \<Rightarrow> Some (Inr (Some q))
      | Inl e \<Rightarrow>
          if e = CancelledError then Some (Inl CancelledError)
          else if of_int timeout \<le> elapsed then Some (Inr None)
          else sell_quote_loop answers interval timeout (n + 1) (fl (elapsed + interval)))"

definition quoted_usd_of :: "quote_response option \<Rightarrow> decimal" where
  "quoted_usd_of quote = (case quote of None \<Rightarrow> 0
     | Some q \<Rightarrow> (case quote_out_amount_usd q of None \<Rightarrow> quote_out_amount q
         | Some u \<Rightarrow> if u \<noteq> 0 \<and> 0 < u then u else quote_out_amount q))"

definition final_reason_of :: "quote_response option \<Rightarrow> string option \<Rightarrow> string" where
  "final_reason_of quote exit_reason =
     (if quote = None then ''UNRECOVERABLE'' else str_or exit_reason ''UNKNOWN_EXIT'')"

definition commit_exit ::
  "paper_broker \<Rightarrow> broker_env \<Rightarrow> string \<Rightarrow> decimal \<Rightarrow> string \<Rightarrow> string \<Rightarrow> decimal \<Rightarrow> quote_response option
     \<Rightarrow> committed result" where
  "commit_exit b env token_mint token_amount order_id reason sell_price_usd quote =
     (if \<not> pb_has_database b then
        Inr \<lparr>cm_position_id = [], cm_fill_id = be_fill_id env,
             cm_quote_id = ''quote-'' @ order_id, cm_filled_at = be_filled_at env\<rparr>
      else be_exit_commit env \<lparr>
        xc_account_id = pb_account_id b, xc_strategy_version_id = pb_strategy_version b,
        xc_config_hash = pb_config_hash b, xc_mint = token_mint, xc_order_id = order_id,
        xc_fill_id = be_fill_id env, xc_token_amount = token_amount,
        xc_usd_received = sell_price_usd, xc_quote = quote,
        xc_adverse_fill_bps = pb_adverse_fill_bps b, xc_exit_reason = reason,
        xc_filled_at = be_filled_at env\<rparr>)"

definition broker_close_args ::
  "paper_broker \<Rightarrow> string \<Rightarrow> decimal \<Rightarrow> string \<Rightarrow> string \<Rightarrow> quote_response option \<Rightarrow> committed \<Rightarrow> close_args" where
  "broker_close_args b token_mint token_amount order_id reason quote c =
     (let quoted_usd = quoted_usd_of quote;
          sell_price_usd = dmul quoted_usd (pb_adverse_factor b);
          from_quote = (\<lambda>f d. case quote of None \<Rightarrow> d | Some q \<Rightarrow> f q)
      in \<lparr>
       ca_token_mint = token_mint, ca_usd_received = sell_price_usd, ca_token_closed = token_amount,
       ca_order_id = order_id, ca_quote_id = cm_quote_id c, ca_exit_reason = Some reason,
       ca_close_fill_id = Some (cm_fill_id c), ca_created_at = Some (cm_filled_at c),
       ca_price_impact_pct = from_quote quote_price_impact_pct 1,
       ca_platform_fee_usd = from_quote quote_platform_fee_usd 0,
       ca_network_fee_usd = from_quote quote_estimated_network_fee_usd 0,
       ca_other_cost_usd = max 0 (dsub quoted_usd sell_price_usd),
       ca_adverse_fill_bps = pb_adverse_fill_bps b,
       ca_quote_latency_ms = (case quote of None \<Rightarrow> 0 | Some q \<Rightarrow> quote_latency_ms q)\<rparr>)"

text \<open>What \<open>close\<close> does once the retry loop is over.\<close>

definition finish_close ::
  "paper_broker \<Rightarrow> broker_env \<Rightarrow> string \<Rightarrow> decimal \<Rightarrow> string option \<Rightarrow> string option
     \<Rightarrow> quote_response option \<Rightarrow> paper_ledger \<Rightarrow> paper_ledger \<times> paper_execution_result result" where
  "finish_close b env token_mint token_amount order_id0 exit_reason quote L =
     (let sell_price_usd = dmul (quoted_usd_of quote) (pb_adverse_factor b);
          order_id = str_or order_id0 (be_order_id env);
          reason = final_reason_of quote exit_reason
      in case commit_exit b env token_mint token_amount order_id reason sell_price_usd quote of
           Inl e \<Rightarrow> (L, Inl e)
         | Inr c \<Rightarrow>
             let L' = (if pb_has_database b then be_others_commit env L else L) in
             (case close_position (broker_close_args b token_mint token_amount order_id reason quote c)
                     (be_ledger_fill_id env) (be_filled_at env) L' of
                Inl e \<Rightarrow> (L', Inl e)
              | Inr (L'', p) \<Rightarrow> (L'', Inr \<lparr>
                  per_position_id = pos_id p, per_order_id = order_id, per_token_mint = token_mint,
                  per_fill_id = cm_fill_id c, per_usd_notional = sell_price_usd,
                  per_token_amount = token_amount, per_direction = ''exit''\<rparr>)))"

definition positions_of_mint :: "paper_ledger \<Rightarrow> string \<Rightarrow> position_record list" where
  "positions_of_mint L token_mint = filter (\<lambda>p. pos_token_mint p = token_mint) (open_positions (pl_state L))"

definition broker_close ::
  "paper_broker \<Rightarrow> broker_env \<Rightarrow> (nat \<Rightarrow> quote_response result) \<Rightarrow> string \<Rightarrow> decimal \<Rightarrow> string option
     \<Rightarrow> string option \<Rightarrow> paper_ledger \<Rightarrow> (paper_ledger \<times> paper_execution_result result) option" where
  "broker_close b env answers token_mint token_amount order_id exit_reason L =
     (if token_amount \<le> 0 then Some (L, Inl (ValueError ''token_amount must be greater 0''))
      else case existing_order L order_id EXIT token_mint ''exit'' of
        Some answer \<Rightarrow> Some (L, answer)
      | None \<Rightarrow>
     (case positions_of_mint L token_mint of
        [] \<Rightarrow> Some (L, Inl (ValueError ''no position to close''))
      | position # _ \<Rightarrow>
        if pos_remaining_token_amount position < token_amount
        then Some (L, Inl (ValueError ''token_amount exceeds remaining position''))
        else (case sell_quote_loop answers (pb_exit_retry_interval_seconds b)
                     (pb_exit_retry_timeout_seconds b) 0 0 of
                None \<Rightarrow> None
              | Some (Inl e) \<Rightarrow> Some (be_others env L, Inl e)
              | Some (Inr quote) \<Rightarrow>
                  Some (finish_close b env token_mint token_amount order_id exit_reason quote
                          (be_others env L)))))"

definition close_half ::
  "paper_broker \<Rightarrow> broker_env \<Rightarrow> (nat \<Rightarrow> quote_response result) \<Rightarrow> string \<Rightarrow> string option
     \<Rightarrow> string option \<Rightarrow> paper_ledger \<Rightarrow> (paper_ledger \<times> paper_execution_result result) option" where
  "close_half b env answers token_mint order_id exit_reason L =
     (case positions_of_mint L token_mint of
        [] \<Rightarrow> Some (L, Inl (ValueError ''no position to close''))
      | position # _ \<Rightarrow> broker_close b env answers token_mint (ddiv (pos_remaining_token_amount position) 2)
          order_id exit_reason L)"

end
