(* ===== verification/Broker_Props.thy ===== *)
theory Broker_Props
  imports Broker
begin

text \<open>
  Properties of the paper broker: its retry loop returns, its handlers are runs of the ledger's
  operations, an accepted entry keeps the limits, and an order is filled once.
\<close>

section \<open>The retry loop\<close>

lemma loop_returns_within:
  assumes "0 < interval" "of_int timeout \<le> interval * 2 ^ 51"
  shows "0 \<le> elapsed \<Longrightarrow> of_int timeout - elapsed \<le> of_nat k * (interval / 2) \<Longrightarrow>
    \<exists>r. sell_quote_loop answers interval timeout n elapsed = Some r"
proof (induction k arbitrary: elapsed n)
  case 0
  then show ?case by (subst sell_quote_loop.simps) (auto split: sum.split)
next
  case (Suc k)
  show ?case
  proof (cases "of_int timeout \<le> elapsed")
    case True
    then show ?thesis by (subst sell_quote_loop.simps) (auto split: sum.split)
  next
    case False
    with assms have "elapsed \<le> interval * 2 ^ 51" by linarith
    with Suc.prems(1) assms(1) have g: "elapsed + interval / 2 \<le> fl (elapsed + interval)"
      by (intro fl_add_grows)
    have "of_nat (Suc k) * (interval / 2) = of_nat k * (interval / 2) + interval / 2"
      by (simp add: algebra_simps)
    with g Suc.prems assms(1) have "0 \<le> fl (elapsed + interval)"
      "of_int timeout - fl (elapsed + interval) \<le> of_nat k * (interval / 2)" by linarith+
    then have "\<exists>r. sell_quote_loop answers interval timeout (n + 1) (fl (elapsed + interval)) = Some r"
      by (rule Suc.IH)
    then show ?thesis by (subst sell_quote_loop.simps) (auto split: sum.split)
  qed
qed

lemma loop_returns:
  assumes "0 < interval" "of_int timeout \<le> interval * 2 ^ 51"
  shows "\<exists>r. sell_quote_loop answers interval timeout 0 0 = Some r"
proof -
  obtain k :: nat where "of_int timeout / (interval / 2) < of_nat k" using reals_Archimedean2 by blast
  then have "of_int timeout - 0 \<le> of_nat k * (interval / 2)"
    using assms(1) by (simp add: pos_divide_less_eq)
  with assms show ?thesis by (intro loop_returns_within) simp_all
qed

definition always_failing :: "(nat \<Rightarrow> quote_response result) \<Rightarrow> bool" where
  "always_failing answers \<longleftrightarrow> (\<forall>n. \<exists>s. answers n = Inl (RuntimeError s))"

lemma always_failingE:
  assumes "always_failing answers" obtains s where "answers n = Inl (RuntimeError s)"
  using assms by (auto simp: always_failing_def)

definition spinning :: "(nat \<Rightarrow> quote_response result) \<Rightarrow> rat \<Rightarrow> int \<Rightarrow> rat \<Rightarrow> bool" where
  "spinning answers interval timeout elapsed \<longleftrightarrow>
     interval = 0 \<and> elapsed = 0 \<and> 0 < timeout \<and> always_failing answers"

lemma spinning_step:
  assumes "spinning answers interval timeout elapsed"
  shows "(case answers n of Inr q \<Rightarrow> Some (Inr (Some q))
      | Inl e \<Rightarrow> if e = CancelledError then Some (Inl CancelledError)
          else if of_int timeout \<le> elapsed then Some (Inr None)
          else loop answers interval timeout (n + 1) (fl (elapsed + interval)))
    = loop answers interval timeout (n + 1) elapsed"
  using assms by (auto simp: spinning_def elim: always_failingE[of _ n])

lemma loop_spins_aux:
  assumes "sell_quote_loop answers interval timeout n elapsed = Some r"
  shows "\<not> spinning answers interval timeout elapsed"
  by (rule sell_quote_loop.raw_induct[OF _ assms,
        where P = "\<lambda>answers interval timeout n elapsed r. \<not> spinning answers interval timeout elapsed"])
     (metis spinning_step)

lemma loop_spins:
  assumes "0 < timeout" "always_failing answers"
  shows "sell_quote_loop answers 0 timeout 0 0 = None"
  using assms loop_spins_aux[of answers 0 timeout 0 0]
  by (cases "sell_quote_loop answers 0 timeout 0 0") (auto simp: spinning_def)

lemma retry_interval_lower:
  assumes "0 < ms" shows "1/2000 \<le> fl (of_int (max 0 ms) / 1000)"
proof -
  have "of_int (max 0 ms) / (1000::rat) \<ge> 1/1000" using assms by (simp add: divide_le_cancel)
  moreover have "fl (of_int (max 0 ms) / 1000) \<ge> of_int (max 0 ms) / 1000 - of_int (max 0 ms) / 1000 / 2 ^ 53"
    using assms by (intro fl_lower) simp
  ultimately show ?thesis by (simp add: field_simps)
qed

text \<open>
  With a positive retry interval an exit always comes to an end, whatever the quote provider
  answers: the loop over the failing quotes returns for every timeout up to \<open>10 ^ 12\<close> seconds.
\<close>

theorem close_returns:
  assumes "paper_broker_init risk base delay_ms bps db account sv ch interval_ms timeout = Inr b"
    and "0 < interval_ms" and "timeout \<le> 10 ^ 12"
  shows "\<exists>r. broker_close b env answers token_mint token_amount order_id exit_reason L = Some r"
proof -
  have b: "pb_exit_retry_interval_seconds b = fl (of_int (max 0 interval_ms) / 1000)"
    "pb_exit_retry_timeout_seconds b = max 0 timeout"
    using assms(1) by (auto simp: paper_broker_init_def split: if_splits)
  have i: "1/2000 \<le> pb_exit_retry_interval_seconds b" using retry_interval_lower[OF assms(2)] b by simp
  have "(of_int (max 0 timeout) :: rat) \<le> of_int (10 ^ 12)"
    using assms(3) by (simp only: of_int_le_iff) simp
  also have "\<dots> \<le> 1/2000 * 2 ^ 51" by simp
  also have "\<dots> \<le> pb_exit_retry_interval_seconds b * 2 ^ 51" using i by (intro mult_right_mono) simp_all
  finally have "of_int (pb_exit_retry_timeout_seconds b) \<le> pb_exit_retry_interval_seconds b * 2 ^ 51"
    by (simp add: b)
  moreover have "0 < pb_exit_retry_interval_seconds b" using i by linarith
  ultimately obtain r where "sell_quote_loop answers (pb_exit_retry_interval_seconds b)
      (pb_exit_retry_timeout_seconds b) 0 0 = Some r"
    using loop_returns by blast
  then show ?thesis by (simp add: broker_close_def split: option.split list.split sum.split)
qed

text \<open>
  With a retry interval of zero, which the constructor accepts, an exit whose quotes keep
  failing never returns: the elapsed time stays at zero and never reaches the timeout.
\<close>

theorem zero_interval_never_returns:
  assumes "paper_broker_init risk base delay_ms bps db account sv ch 0 timeout = Inr b"
    and "0 < timeout" and "always_failing answers"
    and "positions_of_mint L token_mint = p # ps"
    and "0 < token_amount" and "token_amount \<le> pos_remaining_token_amount p"
  shows "broker_close b env answers token_mint token_amount None exit_reason L = None"
proof -
  have b: "pb_exit_retry_interval_seconds b = 0" "pb_exit_retry_timeout_seconds b = timeout"
    using assms(1,2) by (auto simp: paper_broker_init_def split: if_splits)
  with loop_spins[OF assms(2,3)] assms(4-6) show ?thesis by (simp add: broker_close_def existing_order_def)
qed

section \<open>Broker handlers as runs of the ledger\<close>

abbreviation ledger_run :: "paper_ledger \<Rightarrow> paper_ledger \<Rightarrow> bool" where
  "ledger_run \<equiv> ledger_step\<^sup>*\<^sup>*"

lemma run_reachable:
  "ledger_run L L' \<Longrightarrow> ledger_reachable eq sv ch L \<Longrightarrow> ledger_reachable eq sv ch L'"
  by (induction rule: rtranclp_induct) (auto intro: ledger_reachable.step)

lemma evaluate_entry_run:
  assumes "evaluate_entry risk now nl nt x m L = Inr (L', d)"
  shows "ledger_run L L'"
proof -
  let ?L1 = "clear_expired_daily_controls (current_date_key L now) now L"
  let ?L2 = "fst (daily_loss_exceeded (rc_daily_loss_limit_usdc risk) nl ?L1)"
  have r1: "ledger_run L ?L1" by (intro r_into_rtranclp ledger_step.expiring)
  then have r2: "ledger_run L ?L2" by (rule rtranclp.rtrancl_into_rtrancl) (rule ledger_step.loss_check)
  have r3: "ledger_run L (set_daily_halt k r ?L2)" "ledger_run L (set_hard_halt r ?L2)"
    "ledger_run L (set_pause_until u ?L2)" for k r u
    unfolding set_hard_halt_def
    by (rule rtranclp.rtrancl_into_rtrancl[OF r2], rule ledger_step.daily_halting ledger_step.halting ledger_step.pausing)+
  from assms r1 r2 r3 show ?thesis
    by (auto simp: evaluate_entry_def Let_def case_prod_beta split: if_splits option.splits)
qed

text \<open>Other tasks touch the ledger through its operations only.\<close>

definition tasks_use_ledger :: "broker_env \<Rightarrow> bool" where
  "tasks_use_ledger env \<longleftrightarrow>
     (\<forall>L. ledger_run L (be_others env L)) \<and> (\<forall>L. ledger_run L (be_others_commit env L))"

text \<open>The ledger as it is when \<open>open\<close> books the fill.\<close>

definition ledger_at_fill :: "paper_broker \<Rightarrow> broker_env \<Rightarrow> open_request \<Rightarrow> paper_ledger \<Rightarrow> paper_ledger" where
  "ledger_at_fill b env r L =
     (let L1 = (case evaluate_entry (pb_risk b) (be_now env) (be_now_loss env) (be_now_trades env)
                  (or_usdc_amount r) (Some (or_token_mint r)) L of Inl e \<Rightarrow> L | Inr (L1, d) \<Rightarrow> L1);
          L2 = be_others env L1
      in if pb_has_database b then be_others_commit env L2 else L2)"

text \<open>The position id the fill is booked under is new in that ledger.\<close>

definition fresh_position_id :: "paper_broker \<Rightarrow> broker_env \<Rightarrow> open_request \<Rightarrow> quote_response result \<Rightarrow> paper_ledger \<Rightarrow> bool" where
  "fresh_position_id b env r buy_quote L \<longleftrightarrow>
     (\<forall>q c L2. buy_quote = Inr q \<longrightarrow>
        commit_entry b env r (str_or (or_order_id r) (be_order_id env)) q L2 = Inr c \<longrightarrow>
        cm_position_id c \<noteq> [] \<and>
        dict_get (ls_positions (pl_state (ledger_at_fill b env r L))) (cm_position_id c) = None)"

lemma rtranclp_step2: "r\<^sup>*\<^sup>* x y \<Longrightarrow> r\<^sup>*\<^sup>* y z \<Longrightarrow> r\<^sup>*\<^sup>* x z"
  by (rule rtranclp_trans)

lemma broker_open_run:
  assumes "tasks_use_ledger env" "fresh_position_id b env r buy_quote L"
  shows "ledger_run L (fst (broker_open b env buy_quote r L))"
proof (cases "existing_order L (or_order_id r) ENTRY (or_token_mint r) ''entry''")
  case None
  note existing = None
  show ?thesis
  proof (cases "evaluate_entry (pb_risk b) (be_now env) (be_now_loss env) (be_now_trades env)
      (or_usdc_amount r) (Some (or_token_mint r)) L")
    case (Inl e)
    with existing show ?thesis by (simp add: broker_open_def)
  next
    case (Inr x)
    obtain L1 d where x: "x = (L1, d)" by force
    note ev = Inr[unfolded x]
    have r1: "ledger_run L L1" using ev by (rule evaluate_entry_run)
    let ?L2 = "be_others env L1"
    let ?L3 = "ledger_at_fill b env r L"
    let ?oid = "str_or (or_order_id r) (be_order_id env)"
    have L3: "?L3 = (if pb_has_database b then be_others_commit env ?L2 else ?L2)"
      by (simp add: ledger_at_fill_def ev)
    have r2: "ledger_run L ?L2"
      using assms(1) r1 by (auto simp: tasks_use_ledger_def intro: rtranclp_trans)
    then have r3: "ledger_run L ?L3"
      using assms(1) by (auto simp: L3 tasks_use_ledger_def intro: rtranclp_trans)
    have r4: "ledger_run L L4"
      if q: "buy_quote = Inr q" and c: "commit_entry b env r ?oid q ?L2 = Inr c"
        and op: "open_position (broker_open_args b r ?oid q c) i j k ?L3 = Inr (L4, p)" for q c i j k L4 p
    proof -
      have "open_ok (broker_open_args b r ?oid q c) i (pl_state ?L3)"
        using assms(2) q c by (auto simp: fresh_position_id_def open_ok_def broker_open_args_def)
      then have "ledger_step ?L3 L4" using op by (rule ledger_step.open_pos)
      with r3 show ?thesis by (rule rtranclp.rtrancl_into_rtrancl)
    qed
    have "fst (broker_open b env buy_quote r L) = (if rd_decision d \<noteq> ALLOW then L1
        else (case buy_quote of Inl e \<Rightarrow> ?L2 | Inr q \<Rightarrow>
          (case commit_entry b env r ?oid q ?L2 of Inl e \<Rightarrow> ?L2 | Inr c \<Rightarrow>
            (case open_position (broker_open_args b r ?oid q c) (be_ledger_position_id env)
               (be_ledger_fill_id env) (be_filled_at env) ?L3 of Inl e \<Rightarrow> ?L3 | Inr y \<Rightarrow> fst y))))"
      unfolding L3 by (simp add: broker_open_def existing ev Let_def split: sum.split prod.split)
    then show ?thesis using r1 r2 r3 r4 by (auto split: sum.splits)
  qed
qed (simp add: broker_open_def)

lemma finish_close_run:
  assumes "tasks_use_ledger env"
  shows "ledger_run L (fst (finish_close b env m x oid r q L))"
proof -
  have r1: "ledger_run L (if pb_has_database b then be_others_commit env L else L)"
    using assms by (simp add: tasks_use_ledger_def)
  then have "ledger_run L L''"
    if "close_position a i j (if pb_has_database b then be_others_commit env L else L) = Inr (L'', p)"
    for a i j L'' p
    using ledger_step.close_pos[OF that] by (rule rtranclp.rtrancl_into_rtrancl)
  with r1 show ?thesis
    by (auto simp: finish_close_def Let_def simp del: if_split split: sum.splits prod.splits)
qed

text \<open>
  The broker's handlers are runs of ledger operations, on every path, errors included:
  started in a reachable ledger they leave a reachable ledger, with everything that holds there,
  provided other tasks use the ledger's operations and new positions get new ids.
\<close>

theorem broker_keeps_ledger_reachable:
  assumes "ledger_reachable eq sv ch L" and "tasks_use_ledger env"
    and "fresh_position_id b env r buy_quote L"
  shows "ledger_reachable eq sv ch (fst (broker_open b env buy_quote r L))
    \<and> (case broker_close b env answers m x oid reason L of None \<Rightarrow> True
        | Some out \<Rightarrow> ledger_reachable eq sv ch (fst out))"
proof -
  have oth: "ledger_run L (be_others env L)" using assms(2) by (simp add: tasks_use_ledger_def)
  then have "ledger_run L (fst (finish_close b env m x oid reason q (be_others env L)))" for q
    using finish_close_run[OF assms(2)] by (rule rtranclp_trans)
  then have "ledger_run L L'" if "finish_close b env m x oid reason q (be_others env L) = (L', a)" for q L' a
    using that by (metis fst_conv)
  with oth have "case broker_close b env answers m x oid reason L of None \<Rightarrow> True | Some out \<Rightarrow> ledger_run L (fst out)"
    by (auto simp: broker_close_def split: option.split list.split sum.split)
  then show ?thesis
    using broker_open_run[OF assms(2,3)] assms(1)
    by (auto intro: run_reachable split: option.splits)
qed

section \<open>What an accepted entry books\<close>

text \<open>No other task runs while the handler awaits.\<close>

definition quiet :: "broker_env \<Rightarrow> bool" where
  "quiet env \<longleftrightarrow> (\<forall>L. be_others env L = L) \<and> (\<forall>L. be_others_commit env L = L)"

lemma broker_open_success:
  assumes "quiet env" "existing_order L (or_order_id r) ENTRY (or_token_mint r) ''entry'' = None"
    and "broker_open b env buy_quote r L = (L', Inr res)"
  obtains q c L1 d p where "buy_quote = Inr q"
    "evaluate_entry (pb_risk b) (be_now env) (be_now_loss env) (be_now_trades env)
       (or_usdc_amount r) (Some (or_token_mint r)) L = Inr (L1, d)" "rd_decision d = ALLOW"
    "commit_entry b env r (str_or (or_order_id r) (be_order_id env)) q L1 = Inr c"
    "open_position (broker_open_args b r (str_or (or_order_id r) (be_order_id env)) q c)
       (be_ledger_position_id env) (be_ledger_fill_id env) (be_filled_at env) L1 = Inr (L', p)"
    "per_position_id res = pos_id p" "per_order_id res = str_or (or_order_id r) (be_order_id env)"
    "per_fill_id res = cm_fill_id c" "per_usd_notional res = or_usdc_amount r"
    "per_token_amount res = dmul (quote_out_amount q) (pb_adverse_factor b)"
    "ledger_at_fill b env r L = L1"
  using assms
  by (auto simp: broker_open_def quiet_def ledger_at_fill_def Let_def split: sum.splits if_splits)

lemma broker_open_books:
  assumes q: "quiet env" and ex: "existing_order L (or_order_id r) ENTRY (or_token_mint r) ''entry'' = None"
    and op: "broker_open b env buy_quote r L = (L', Inr res)"
    and new: "dict_get (ls_order_id_index (pl_state L)) (str_or (or_order_id r) (be_order_id env)) = None"
    and fresh: "fresh_position_id b env r buy_quote L"
  obtains quote c p fid where "buy_quote = Inr quote"
    "p = new_position (broker_open_args b r (per_order_id res) quote c) (cm_position_id c) fid (cm_filled_at c)"
    "fid = str_or (Some (per_fill_id res)) (be_ledger_fill_id env)" "cm_position_id c \<noteq> []"
    "per_position_id res = cm_position_id c" "per_fill_id res = cm_fill_id c"
    "per_order_id res = str_or (or_order_id r) (be_order_id env)"
    "per_token_amount res = dmul (quote_out_amount quote) (pb_adverse_factor b)"
    "ls_fills (pl_state L') = ls_fills (pl_state L)
       @ [entry_fill (broker_open_args b r (per_order_id res) quote c) (cm_position_id c) fid (cm_filled_at c)]"
    "ls_positions (pl_state L') = ls_positions (pl_state L) @ [(cm_position_id c, p)]"
    "dict_get (ls_positions (pl_state L')) (cm_position_id c) = Some p"
    "ls_order_id_index (pl_state L') = dict_set (ls_order_id_index (pl_state L)) (per_order_id res) (cm_position_id c)"
    "ls_locked_capital_usd (pl_state L') = dadd (ls_locked_capital_usd (pl_state L))
       (dadd (or_usdc_amount r) (quote_estimated_network_fee_usd quote))"
    "dadd (total_exposure_usd (pl_state L)) (or_usdc_amount r) \<le> rc_max_exposure_usdc (pb_risk b)"
    "int (length (open_positions (pl_state L))) < rc_max_open_positions (pb_risk b)"
proof (rule broker_open_success[OF q ex op])
  fix quote c L1 d p
  let ?oid = "str_or (or_order_id r) (be_order_id env)"
  let ?a = "broker_open_args b r ?oid quote c"
  assume a: "buy_quote = Inr quote"
    "evaluate_entry (pb_risk b) (be_now env) (be_now_loss env) (be_now_trades env)
       (or_usdc_amount r) (Some (or_token_mint r)) L = Inr (L1, d)" "rd_decision d = ALLOW"
    "commit_entry b env r ?oid quote L1 = Inr c"
    "open_position ?a (be_ledger_position_id env) (be_ledger_fill_id env) (be_filled_at env) L1 = Inr (L', p)"
    "per_position_id res = pos_id p" "per_order_id res = ?oid" "per_fill_id res = cm_fill_id c"
    "per_token_amount res = dmul (quote_out_amount quote) (pb_adverse_factor b)"
    "ledger_at_fill b env r L = L1"
  note parts = financials_eqD[OF evaluate_entry_financials[OF a(2)]]
  note lims = allow_limits[OF a(2,3)]
  have c: "cm_position_id c \<noteq> []" "dict_get (ls_positions (pl_state L)) (cm_position_id c) = None"
    using fresh a(1,4,10) by (auto simp: fresh_position_id_def parts)
  have free: "dict_get (ls_order_id_index (pl_state L1)) (oa_order_id ?a) = None"
    "\<not> truthy (dict_get (ls_token_index (pl_state L1)) (oa_token_mint ?a))"
    using new lims by (simp_all add: parts can_open_def broker_open_args_def)
  have opened: "p = new_position ?a (cm_position_id c) (str_or (Some (cm_fill_id c)) (be_ledger_fill_id env)) (cm_filled_at c)"
    "pl_state L' = (pl_state L1)\<lparr>
         ls_fills := ls_fills (pl_state L1) @ [entry_fill ?a (cm_position_id c)
           (str_or (Some (cm_fill_id c)) (be_ledger_fill_id env)) (cm_filled_at c)],
         ls_positions := dict_set (ls_positions (pl_state L1)) (cm_position_id c) p,
         ls_order_id_index := dict_set (ls_order_id_index (pl_state L1)) ?oid (cm_position_id c),
         ls_token_index := dict_set (ls_token_index (pl_state L1)) (or_token_mint r) (cm_position_id c),
         ls_locked_capital_usd := dadd (ls_locked_capital_usd (pl_state L1))
           (dadd (or_usdc_amount r) (quote_estimated_network_fee_usd quote))\<rparr>"
    using a(5) free c(1)
    by (auto simp: open_position_def Let_def broker_open_args_def opt_or_def split: if_splits)
  have p: "dict_set (ls_positions (pl_state L)) (cm_position_id c) p = ls_positions (pl_state L) @ [(cm_position_id c, p)]"
    using c(2) by (rule dict_set_new)
  then have get: "dict_get (ls_positions (pl_state L) @ [(cm_position_id c, p)]) (cm_position_id c) = Some p"
    by (metis dict_get_set fun_upd_same)
  show thesis
    by (rule that[of quote p c "str_or (Some (cm_fill_id c)) (be_ledger_fill_id env)"])
       (use a opened c lims p get in \<open>simp_all add: parts\<close>)
qed



section \<open>Witnesses\<close>

definition demo_quote :: quote_response where
  "demo_quote = \<lparr>quote_request_id = ''r'', quote_requested_at = 0, quote_received_at = 0, quote_latency_ms = 5,
     quote_token_in = ''SOL'', quote_token_out = ''m9'', quote_in_amount = 20, quote_out_amount = 1000,
     quote_in_amount_usd = None, quote_out_amount_usd = None, quote_price_impact_pct = 0,
     quote_platform_fee_usd = 0, quote_estimated_network_fee_usd = 1/10, quote_expires_at = None\<rparr>"

definition demo_env :: broker_env where
  "demo_env = \<lparr>be_now = 0, be_now_loss = 0, be_now_trades = 0, be_order_id = ''o9'', be_position_id = ''p9'',
     be_fill_id = ''f9'', be_ledger_position_id = ''x'', be_ledger_fill_id = ''y'', be_filled_at = 1200000,
     be_others = (\<lambda>L. L), be_others_commit = (\<lambda>L. L),
     be_entry_commit = (\<lambda>e. Inl (RuntimeError ''no database'')),
     be_exit_commit = (\<lambda>e. Inl (RuntimeError ''no database''))\<rparr>"

definition demo_broker :: "int \<Rightarrow> paper_broker" where
  "demo_broker interval_ms = projr (paper_broker_init demo_risk ''SOL'' 1200 50 False ''paper-main'' ''v1'' ''h''
     interval_ms 30)"

definition demo_request :: open_request where
  "demo_request = \<lparr>or_token_mint = ''m9'', or_usdc_amount = 20, or_order_id = Some ''o9'', or_candidate_id = None,
     or_pool_address = None, or_entry_score = None, or_entry_liquidity_usd = None,
     or_entry_pool_age_seconds = None, or_round_trip_cost_pct = None\<rparr>"

definition demo_broker_open :: "paper_ledger \<times> paper_execution_result result" where
  "demo_broker_open = broker_open (demo_broker 1000) demo_env (Inr demo_quote) demo_request demo_start"

lemma demo_broker_init:
  "paper_broker_init demo_risk ''SOL'' 1200 50 False ''paper-main'' ''v1'' ''h'' i 30 = Inr (demo_broker i)"
  by (simp add: demo_broker_def paper_broker_init_def)

lemma demo_quiet: "quiet demo_env" "tasks_use_ledger demo_env"
  by (simp_all add: quiet_def tasks_use_ledger_def demo_env_def)

lemma demo_broker_open_answer:
  "case snd demo_broker_open of Inr res \<Rightarrow> per_fill_id res = ''f9'' \<and> per_order_id res = ''o9'' | _ \<Rightarrow> False"
  by code_simp

lemma demo_broker_open_ok:
  "\<not> isl (snd demo_broker_open)" "per_fill_id (projr (snd demo_broker_open)) = ''f9''"
  "per_order_id (projr (snd demo_broker_open)) = ''o9''"
  using demo_broker_open_answer by (auto split: sum.splits)

lemma demo_broker_open_result:
  "broker_open (demo_broker 1000) demo_env (Inr demo_quote) demo_request demo_start
     = (fst demo_broker_open, Inr (projr (snd demo_broker_open)))"
  using demo_broker_open_ok(1) by (simp add: demo_broker_open_def prod_eq_iff)

lemma demo_order_new:
  "existing_order demo_start (or_order_id demo_request) ENTRY (or_token_mint demo_request) ''entry'' = None"
  "dict_get (ls_order_id_index (pl_state demo_start)) (str_or (or_order_id demo_request) (be_order_id demo_env)) = None"
  by code_simp+

lemma demo_fresh: "fresh_position_id (demo_broker 1000) demo_env demo_request (Inr demo_quote) demo_start"
proof -
  have db: "\<not> pb_has_database (demo_broker 1000)" by (simp add: demo_broker_def paper_broker_init_def)
  have "dict_get (ls_positions (pl_state (ledger_at_fill (demo_broker 1000) demo_env demo_request demo_start))) ''p9'' = None"
    by code_simp
  with db show ?thesis by (auto simp: fresh_position_id_def commit_entry_def demo_env_def)
qed

theorem close_returns_witness:
  "\<exists>r. broker_close (demo_broker 1000) demo_env (\<lambda>n. Inl (RuntimeError ''429'')) ''m1'' 3 None None demo_opened = Some r"
  by (rule close_returns[OF demo_broker_init]) simp_all

theorem zero_interval_never_returns_witness:
  "broker_close (demo_broker 0) demo_env (\<lambda>n. Inl (RuntimeError ''429'')) ''m1'' 3 None None demo_opened = None"
  by (rule zero_interval_never_returns[OF demo_broker_init, of _ _ _ demo_position "[]"])
     (simp_all add: always_failing_def positions_of_mint_def open_positions_def demo_opened_state
        demo_token_amount, simp add: demo_position_def demo_open_def)

theorem broker_keeps_ledger_reachable_witness:
  "ledger_reachable 500 [] [] (fst demo_broker_open)"
  using broker_keeps_ledger_reachable[OF demo_start_reachable demo_quiet(2) demo_fresh]
  by (simp add: demo_broker_open_def)



end
