(* ===== verification/Features.thy ===== *)
theory Features
  imports Ledger "HOL-Library.Multiset" "HOL-Library.Product_Lexorder"
begin

text \<open>
  Event-time feature windows (\<open>features.py\<close>): observations, the engine's ordered event lists with
  their binary-search insertion, and the feature snapshot. Time-zone aware datetimes are
  instants, so the checks for naive datetimes do not occur.
\<close>

section \<open>Observations\<close>

datatype trade_side = BUY | SELL

record trade_observation =
  tr_event_id :: string
  tr_pool_address :: string
  tr_event_time :: datetime
  tr_side :: trade_side
  tr_wallet :: string
  tr_volume_usd :: decimal
  tr_price_usd :: decimal
  tr_external :: bool
  tr_same_funder_cluster :: bool

definition trade_valid :: "trade_observation \<Rightarrow> bool" where
  "trade_valid e \<longleftrightarrow> 0 \<le> tr_volume_usd e \<and> 0 < tr_price_usd e"

record liquidity_observation =
  lq_event_id :: string
  lq_pool_address :: string
  lq_event_time :: datetime
  lq_quote_liquidity_usd :: decimal
  lq_market_cap_usd :: "decimal option"

record holder_observation =
  ho_event_id :: string
  ho_pool_address :: string
  ho_event_time :: datetime
  ho_holder_count :: int
  ho_top_10_holders_pct :: decimal
  ho_dev_cluster_holding_pct :: decimal
  ho_largest_related_cluster_pct :: decimal

type_synonym event_key = "datetime \<times> string"

definition tr_key :: "trade_observation \<Rightarrow> event_key" where
  "tr_key e = (tr_event_time e, tr_event_id e)"

definition lq_key :: "liquidity_observation \<Rightarrow> event_key" where
  "lq_key e = (lq_event_time e, lq_event_id e)"

definition ho_key :: "holder_observation \<Rightarrow> event_key" where
  "ho_key e = (ho_event_time e, ho_event_id e)"

section \<open>Ordered insertion\<close>

text \<open>\<open>bisect.bisect_right\<close> with a key function: the binary search of the library.\<close>

function bisect_right :: "('e \<Rightarrow> 'k::linorder) \<Rightarrow> 'e list \<Rightarrow> 'k \<Rightarrow> nat \<Rightarrow> nat \<Rightarrow> nat" where
  "bisect_right key events x lo hi =
     (if lo < hi then
        let mid = (lo + hi) div 2 in
        if x < key (events ! mid) then bisect_right key events x lo mid
        else bisect_right key events x (mid + 1) hi
      else lo)"
  by pat_completeness auto
termination by (relation "measure (\<lambda>(key, events, x, lo, hi). hi - lo)") auto

declare bisect_right.simps [simp del]

definition insert_ordered :: "('e \<Rightarrow> 'k::linorder) \<Rightarrow> 'e list \<Rightarrow> 'e \<Rightarrow> 'e list" where
  "insert_ordered key events event =
     (if events = [] \<or> key (last events) \<le> key event then events @ [event]
      else let index = bisect_right key events (key event) 0 (length events)
           in take index events @ [event] @ drop index events)"

section \<open>The engine\<close>

record feature_engine =
  fe_pool_created :: "(string, datetime) dict"
  fe_trades :: "(string, trade_observation list) dict"
  fe_liquidity :: "(string, liquidity_observation list) dict"
  fe_holders :: "(string, holder_observation list) dict"
  fe_seen :: "string set"

definition feature_engine_init :: feature_engine where
  "feature_engine_init = \<lparr>fe_pool_created = [], fe_trades = [], fe_liquidity = [], fe_holders = [],
     fe_seen = {}\<rparr>"

definition register_pool :: "string \<Rightarrow> datetime \<Rightarrow> feature_engine \<Rightarrow> feature_engine" where
  "register_pool pool_address created g =
     (case dict_get (fe_pool_created g) pool_address of
        None \<Rightarrow> g\<lparr>fe_pool_created := dict_set (fe_pool_created g) pool_address created\<rparr>
      | Some current \<Rightarrow> if created < current
          then g\<lparr>fe_pool_created := dict_set (fe_pool_created g) pool_address created\<rparr> else g)"

definition accept :: "string \<Rightarrow> feature_engine \<Rightarrow> feature_engine \<times> bool" where
  "accept event_id g = (if event_id \<in> fe_seen g then (g, False)
     else (g\<lparr>fe_seen := insert event_id (fe_seen g)\<rparr>, True))"

text \<open>\<open>d.setdefault(k, [])\<close> followed by the in-place insertion.\<close>

definition insert_at :: "('e \<Rightarrow> event_key) \<Rightarrow> string \<Rightarrow> 'e \<Rightarrow> (string, 'e list) dict \<Rightarrow> (string, 'e list) dict" where
  "insert_at key pool event d = dict_set d pool (insert_ordered key (opt_or (dict_get d pool) []) event)"

definition ingest_trade :: "trade_observation \<Rightarrow> feature_engine \<Rightarrow> feature_engine \<times> bool" where
  "ingest_trade event g = (case accept (tr_event_id event) g of (g1, ok) \<Rightarrow>
     if \<not> ok then (g1, False)
     else (g1\<lparr>fe_trades := insert_at tr_key (tr_pool_address event) event (fe_trades g1)\<rparr>, True))"

definition trades :: "feature_engine \<Rightarrow> string \<Rightarrow> datetime option \<Rightarrow> trade_observation list" where
  "trades g pool_address at_time =
     (let events = opt_or (dict_get (fe_trades g) pool_address) []
      in case at_time of None \<Rightarrow> events | Some t \<Rightarrow> filter (\<lambda>e. tr_event_time e \<le> t) events)"

definition ingest_liquidity :: "liquidity_observation \<Rightarrow> feature_engine \<Rightarrow> feature_engine \<times> bool" where
  "ingest_liquidity event g = (case accept (lq_event_id event) g of (g1, ok) \<Rightarrow>
     if \<not> ok then (g1, False)
     else (g1\<lparr>fe_liquidity := insert_at lq_key (lq_pool_address event) event (fe_liquidity g1)\<rparr>, True))"

definition ingest_holders :: "holder_observation \<Rightarrow> feature_engine \<Rightarrow> feature_engine \<times> bool" where
  "ingest_holders event g = (case accept (ho_event_id event) g of (g1, ok) \<Rightarrow>
     if \<not> ok then (g1, False)
     else (g1\<lparr>fe_holders := insert_at ho_key (ho_pool_address event) event (fe_holders g1)\<rparr>, True))"

section \<open>Feature formulas\<close>

definition volume_of :: "trade_observation list \<Rightarrow> decimal" where
  "volume_of events = dsum (map tr_volume_usd events)"

definition vwap :: "trade_observation list \<Rightarrow> decimal" where
  "vwap events = (if volume_of events \<le> 0 then 0
     else ddiv (dsum (map (\<lambda>e. dmul (tr_price_usd e) (tr_volume_usd e)) events)) (volume_of events))"

definition change :: "decimal \<Rightarrow> decimal \<Rightarrow> decimal" where
  "change current previous = (if 0 < previous then dsub (ddiv current previous) 1 else 0)"

definition ratio :: "decimal \<Rightarrow> decimal \<Rightarrow> decimal" where
  "ratio numerator denominator = (if 0 < denominator then ddiv numerator denominator else 0)"

text \<open>\<open>next((e for e in reversed(events) if e.event_time <= cutoff), events[0])\<close> on a non-empty list.\<close>

definition previous_event :: "('e \<Rightarrow> datetime) \<Rightarrow> 'e list \<Rightarrow> datetime \<Rightarrow> 'e" where
  "previous_event time events cutoff =
     (case find (\<lambda>e. time e \<le> cutoff) (rev events) of Some e \<Rightarrow> e | None \<Rightarrow> hd events)"

definition liquidity_change :: "liquidity_observation list \<Rightarrow> datetime \<Rightarrow> int \<Rightarrow> decimal" where
  "liquidity_change events at_time secs = (if events = [] then 0
     else change (lq_quote_liquidity_usd (last events))
            (lq_quote_liquidity_usd (previous_event lq_event_time events (at_time - seconds secs))))"

definition price_return :: "trade_observation list \<Rightarrow> datetime \<Rightarrow> int \<Rightarrow> decimal" where
  "price_return events at_time secs = (if events = [] then 0
     else change (tr_price_usd (last events))
            (tr_price_usd (previous_event tr_event_time events (at_time - seconds secs))))"

definition holder_growth :: "holder_observation list \<Rightarrow> datetime \<Rightarrow> int \<Rightarrow> int" where
  "holder_growth events at_time secs = (if events = [] then 0
     else ho_holder_count (last events)
            - ho_holder_count (previous_event ho_event_time events (at_time - seconds secs)))"

definition window :: "datetime \<Rightarrow> trade_observation list \<Rightarrow> int \<Rightarrow> trade_observation list" where
  "window at_time events secs =
     filter (\<lambda>e. at_time - seconds secs < tr_event_time e \<and> tr_event_time e \<le> at_time) events"

text \<open>\<open>len({e.wallet for e in events})\<close>\<close>

definition unique_wallets :: "trade_observation list \<Rightarrow> int" where
  "unique_wallets events = int (length (remdups (map tr_wallet events)))"

definition buyer_volumes :: "trade_observation list \<Rightarrow> (string, decimal) dict" where
  "buyer_volumes events = foldl (\<lambda>d e. dict_set d (tr_wallet e)
     (dadd (opt_or (dict_get d (tr_wallet e)) 0) (tr_volume_usd e))) [] events"

definition first_buy_by_wallet :: "trade_observation list \<Rightarrow> (string, datetime) dict" where
  "first_buy_by_wallet events = foldl (\<lambda>d e. dict_setdefault d (tr_wallet e) (tr_event_time e)) [] events"

definition new_buyers :: "datetime \<Rightarrow> trade_observation list \<Rightarrow> int \<Rightarrow> int" where
  "new_buyers at_time buys secs = int (length (filter
     (\<lambda>t. at_time - seconds secs < t \<and> t \<le> at_time) (dict_values (first_buy_by_wallet buys))))"

definition max_or :: "decimal \<Rightarrow> decimal list \<Rightarrow> decimal" where
  "max_or d xs = (case xs of [] \<Rightarrow> d | x # ys \<Rightarrow> foldl max x ys)"

section \<open>The snapshot\<close>

record feature_snapshot =
  fs_feature_version :: string
  fs_pool_address :: string
  fs_snapshot_time :: datetime
  fs_pool_age_seconds :: decimal
  fs_buy_transactions_15s :: int
  fs_buy_transactions_30s :: int
  fs_buy_transactions_60s :: int
  fs_unique_buyers_15s :: int
  fs_unique_buyers_30s :: int
  fs_unique_buyers_60s :: int
  fs_new_buyers_15s :: int
  fs_new_buyers_30s :: int
  fs_sell_transactions_15s :: int
  fs_sell_transactions_30s :: int
  fs_sell_transactions_60s :: int
  fs_unique_sellers_15s :: int
  fs_unique_sellers_30s :: int
  fs_unique_sellers_60s :: int
  fs_external_successful_sellers :: int
  fs_buy_volume_usd_15s :: decimal
  fs_buy_volume_usd_30s :: decimal
  fs_buy_volume_usd_60s :: decimal
  fs_sell_volume_usd_15s :: decimal
  fs_sell_volume_usd_30s :: decimal
  fs_sell_volume_usd_60s :: decimal
  fs_net_buy_volume_usd_30s :: decimal
  fs_net_buy_volume_usd_60s :: decimal
  fs_top_1_buyer_volume_share :: decimal
  fs_top_5_buyer_volume_share :: decimal
  fs_buyer_volume_hhi :: decimal
  fs_same_funder_buy_share :: decimal
  fs_transactions_per_trader :: decimal
  fs_unique_buyer_ratio :: decimal
  fs_buyer_acceleration :: decimal
  fs_buy_sell_volume_ratio :: decimal
  fs_quote_liquidity_usd :: decimal
  fs_quote_liquidity_change_10s :: decimal
  fs_quote_liquidity_change_30s :: decimal
  fs_quote_liquidity_change_since_pool_creation :: decimal
  fs_volume_to_quote_liquidity_30s :: decimal
  fs_volume_to_quote_liquidity_60s :: decimal
  fs_market_cap_to_quote_liquidity :: decimal
  fs_current_price_usd :: decimal
  fs_return_since_pool_creation :: decimal
  fs_return_15s :: decimal
  fs_return_30s :: decimal
  fs_return_60s :: decimal
  fs_rolling_vwap_30s :: decimal
  fs_rolling_vwap_60s :: decimal
  fs_local_high :: decimal
  fs_drawdown_from_local_high :: decimal
  fs_distance_from_vwap_30s :: decimal
  fs_holder_count :: int
  fs_holder_growth_30s :: int
  fs_holder_growth_60s :: int
  fs_top_10_holders_pct :: decimal
  fs_dev_cluster_holding_pct :: decimal
  fs_largest_related_cluster_pct :: decimal

text \<open>
  The snapshot is a function of the pool's creation time and of the three event lists up to
  \<open>at_time\<close>; \<open>snapshot\<close> below reads them from the engine.
\<close>

definition snapshot_of :: "string \<Rightarrow> datetime \<Rightarrow> datetime \<Rightarrow> trade_observation list
    \<Rightarrow> liquidity_observation list \<Rightarrow> holder_observation list \<Rightarrow> feature_snapshot" where
  "snapshot_of pool_address at_time created all_trades liquidity_events holder_events =
     (let buys = filter (\<lambda>e. tr_side e = BUY) all_trades;
          sells = filter (\<lambda>e. tr_side e = SELL) all_trades;
          buy15 = window at_time buys 15; buy30 = window at_time buys 30; buy60 = window at_time buys 60;
          sell15 = window at_time sells 15; sell30 = window at_time sells 30; sell60 = window at_time sells 60;
          all60 = window at_time all_trades 60;
          previous_buyers = unique_wallets (filter (\<lambda>e. at_time - seconds 60 < tr_event_time e
            \<and> tr_event_time e \<le> at_time - seconds 30) buys);
          current_buyers = unique_wallets buy30;
          ranked_buy_volume = rev (sort (dict_values (buyer_volumes buy60)));
          buy_total60 = volume_of buy60;
          shares = (if 0 < buy_total60 then map (\<lambda>a. ddiv a buy_total60) ranked_buy_volume else []);
          quote_liquidity = (if liquidity_events = [] then 0 else lq_quote_liquidity_usd (last liquidity_events));
          initial_liquidity = (if liquidity_events = [] then 0 else lq_quote_liquidity_usd (hd liquidity_events));
          market_cap = (if liquidity_events = [] then None else lq_market_cap_usd (last liquidity_events));
          price_current = (if all_trades = [] then 0 else tr_price_usd (last all_trades));
          price_initial = (if all_trades = [] then 0 else tr_price_usd (hd all_trades));
          high = max_or 0 (map tr_price_usd all_trades);
          vwap30 = vwap (window at_time all_trades 30);
          buy_volume30 = volume_of buy30;
          sell_volume30 = volume_of sell30; sell_volume60 = volume_of sell60;
          from_holders = (\<lambda>f. if holder_events = [] then 0 else f (last holder_events))
      in \<lparr>
       fs_feature_version = ''confirmation-v1'',
       fs_pool_address = pool_address,
       fs_snapshot_time = at_time,
       fs_pool_age_seconds = max 0 (seconds_of (at_time - created)),
       fs_buy_transactions_15s = int (length buy15),
       fs_buy_transactions_30s = int (length buy30),
       fs_buy_transactions_60s = int (length buy60),
       fs_unique_buyers_15s = unique_wallets buy15,
       fs_unique_buyers_30s = current_buyers,
       fs_unique_buyers_60s = unique_wallets buy60,
       fs_new_buyers_15s = new_buyers at_time buys 15,
       fs_new_buyers_30s = new_buyers at_time buys 30,
       fs_sell_transactions_15s = int (length sell15),
       fs_sell_transactions_30s = int (length sell30),
       fs_sell_transactions_60s = int (length sell60),
       fs_unique_sellers_15s = unique_wallets sell15,
       fs_unique_sellers_30s = unique_wallets sell30,
       fs_unique_sellers_60s = unique_wallets sell60,
       fs_external_successful_sellers = unique_wallets (filter tr_external sells),
       fs_buy_volume_usd_15s = volume_of buy15,
       fs_buy_volume_usd_30s = buy_volume30,
       fs_buy_volume_usd_60s = buy_total60,
       fs_sell_volume_usd_15s = volume_of sell15,
       fs_sell_volume_usd_30s = sell_volume30,
       fs_sell_volume_usd_60s = sell_volume60,
       fs_net_buy_volume_usd_30s = dsub buy_volume30 sell_volume30,
       fs_net_buy_volume_usd_60s = dsub buy_total60 sell_volume60,
       fs_top_1_buyer_volume_share = (if shares = [] then 0 else hd shares),
       fs_top_5_buyer_volume_share = dsum (take 5 shares),
       fs_buyer_volume_hhi = dsum (map (\<lambda>s. dmul s s) shares),
       fs_same_funder_buy_share = (if 0 < buy_total60
         then ddiv (volume_of (filter tr_same_funder_cluster buy60)) buy_total60 else 0),
       fs_transactions_per_trader = ddiv (of_nat (length all60)) (of_int (max (unique_wallets all60) 1)),
       fs_unique_buyer_ratio = ddiv (of_int (unique_wallets buy60)) (of_int (max (int (length buy60)) 1)),
       fs_buyer_acceleration = ddiv (of_int current_buyers) (of_int (max previous_buyers 1)),
       fs_buy_sell_volume_ratio = ddiv buy_total60 (max sell_volume60 (1/100)),
       fs_quote_liquidity_usd = quote_liquidity,
       fs_quote_liquidity_change_10s = liquidity_change liquidity_events at_time 10,
       fs_quote_liquidity_change_30s = liquidity_change liquidity_events at_time 30,
       fs_quote_liquidity_change_since_pool_creation = change quote_liquidity initial_liquidity,
       fs_volume_to_quote_liquidity_30s = ratio (dadd buy_volume30 sell_volume30) quote_liquidity,
       fs_volume_to_quote_liquidity_60s = ratio (dadd buy_total60 sell_volume60) quote_liquidity,
       fs_market_cap_to_quote_liquidity = ratio (opt_or market_cap 0) quote_liquidity,
       fs_current_price_usd = price_current,
       fs_return_since_pool_creation = change price_current price_initial,
       fs_return_15s = price_return all_trades at_time 15,
       fs_return_30s = price_return all_trades at_time 30,
       fs_return_60s = price_return all_trades at_time 60,
       fs_rolling_vwap_30s = vwap30,
       fs_rolling_vwap_60s = vwap all60,
       fs_local_high = high,
       fs_drawdown_from_local_high = (if 0 < high then dsub 1 (ddiv price_current high) else 0),
       fs_distance_from_vwap_30s = (if 0 < vwap30 then dsub (ddiv price_current vwap30) 1 else 0),
       fs_holder_count = (if holder_events = [] then 0 else ho_holder_count (last holder_events)),
       fs_holder_growth_30s = holder_growth holder_events at_time 30,
       fs_holder_growth_60s = holder_growth holder_events at_time 60,
       fs_top_10_holders_pct = from_holders ho_top_10_holders_pct,
       fs_dev_cluster_holding_pct = from_holders ho_dev_cluster_holding_pct,
       fs_largest_related_cluster_pct = from_holders ho_largest_related_cluster_pct\<rparr>)"

definition snapshot :: "feature_engine \<Rightarrow> string \<Rightarrow> datetime \<Rightarrow> feature_snapshot" where
  "snapshot g pool_address at_time =
     snapshot_of pool_address at_time
       (opt_or (dict_get (fe_pool_created g) pool_address) at_time)
       (trades g pool_address (Some at_time))
       (filter (\<lambda>e. lq_event_time e \<le> at_time) (opt_or (dict_get (fe_liquidity g) pool_address) []))
       (filter (\<lambda>e. ho_event_time e \<le> at_time) (opt_or (dict_get (fe_holders g) pool_address) []))"

end
