(* ===== verification/Features_Props.thy ===== *)
theory Features_Props
  imports Features
begin

text \<open>
  Properties of the feature engine: its binary-search insertion keeps the event lists ordered,
  so that a snapshot depends neither on the order in which events arrive nor on events after
  its time, and the figures of a snapshot are consistent with each other.
\<close>

section \<open>Binary search\<close>

lemma bisect_right_bounds:
  assumes "sorted (map key es)" "lo \<le> hi" "hi \<le> length es"
    and "\<forall>i<lo. key (es ! i) \<le> x" "\<forall>i. hi \<le> i \<and> i < length es \<longrightarrow> x < key (es ! i)"
  shows "bisect_right key es x lo hi \<le> length es
    \<and> (\<forall>i<bisect_right key es x lo hi. key (es ! i) \<le> x)
    \<and> (\<forall>i. bisect_right key es x lo hi \<le> i \<and> i < length es \<longrightarrow> x < key (es ! i))"
  using assms
proof (induction key es x lo hi rule: bisect_right.induct)
  case (1 key es x lo hi)
  have le: "key (es ! i) \<le> key (es ! j)" if "i \<le> j" "j < length es" for i j
    using sorted_nth_mono[OF "1.prems"(1), of i j] that by simp
  show ?case
  proof (cases "lo < hi")
    case False
    then have "bisect_right key es x lo hi = lo" by (subst bisect_right.simps) simp
    with "1.prems" False show ?thesis by auto
  next
    case True
    let ?m = "(lo + hi) div 2"
    have m: "lo \<le> ?m" "?m < hi" "?m < length es" using True "1.prems"(3) by auto
    show ?thesis
    proof (cases "x < key (es ! ?m)")
      case right: True
      have up: "\<forall>i. ?m \<le> i \<and> i < length es \<longrightarrow> x < key (es ! i)"
        using right le by (blast intro: less_le_trans)
      have eq: "bisect_right key es x lo hi = bisect_right key es x lo ?m"
        using True right by (subst bisect_right.simps) (simp add: Let_def)
      show ?thesis unfolding eq
        by (rule "1.IH"(1)[OF True refl right "1.prems"(1) m(1) less_imp_le[OF m(3)] "1.prems"(4) up])
    next
      case left: False
      have low: "\<forall>i<?m + 1. key (es ! i) \<le> x"
      proof (intro allI impI)
        fix i assume "i < ?m + 1"
        then have "key (es ! i) \<le> key (es ! ?m)" using m(3) by (intro le) simp_all
        with left show "key (es ! i) \<le> x" by simp
      qed
      have eq: "bisect_right key es x lo hi = bisect_right key es x (?m + 1) hi"
        using True left by (subst bisect_right.simps) (simp add: Let_def)
      have m': "?m + 1 \<le> hi" using m(2) by simp
      show ?thesis unfolding eq
        by (rule "1.IH"(2)[OF True refl left "1.prems"(1) m' "1.prems"(3) low "1.prems"(5)])
    qed
  qed
qed

lemma bisect_right_spec:
  assumes "sorted (map key es)"
  shows "bisect_right key es x 0 (length es) \<le> length es"
    "\<forall>i<bisect_right key es x 0 (length es). key (es ! i) \<le> x"
    "\<forall>i. bisect_right key es x 0 (length es) \<le> i \<and> i < length es \<longrightarrow> x < key (es ! i)"
proof -
  have "\<forall>i. length es \<le> i \<and> i < length es \<longrightarrow> x < key (es ! i)" by auto
  from bisect_right_bounds[OF assms _ _ _ this]
  show "bisect_right key es x 0 (length es) \<le> length es"
    "\<forall>i<bisect_right key es x 0 (length es). key (es ! i) \<le> x"
    "\<forall>i. bisect_right key es x 0 (length es) \<le> i \<and> i < length es \<longrightarrow> x < key (es ! i)" by blast+
qed

lemma insert_ordered_mset: "mset (insert_ordered key es e) = add_mset e (mset es)"
proof -
  have "mset (take n es) + mset (drop n es) = mset es" for n
    by (metis append_take_drop_id mset_append)
  then show ?thesis by (simp add: insert_ordered_def Let_def)
qed

lemma insert_ordered_sorted:
  assumes "sorted (map key es)" shows "sorted (map key (insert_ordered key es e))"
proof (cases "es = [] \<or> key (last es) \<le> key e")
  case True
  have "key a \<le> key e" if "a \<in> set es" for a
  proof -
    from that obtain i where i: "i < length es" "a = es ! i" by (auto simp: in_set_conv_nth)
    then have "last es = es ! (length es - 1)" by (intro last_conv_nth) auto
    moreover have "map key es ! i \<le> map key es ! (length es - 1)"
      using i by (intro sorted_nth_mono[OF assms]) auto
    ultimately have "key a \<le> key (last es)" using i by simp
    with True that show ?thesis by auto
  qed
  with assms True show ?thesis by (auto simp: insert_ordered_def sorted_append)
next
  case False
  let ?n = "bisect_right key es (key e) 0 (length es)"
  have n: "?n \<le> length es" "\<forall>i<?n. key (es ! i) \<le> key e"
    "\<forall>i. ?n \<le> i \<and> i < length es \<longrightarrow> key e < key (es ! i)"
    by (rule bisect_right_spec[OF assms])+
  have lo: "key a \<le> key e" if "a \<in> set (take ?n es)" for a
    using that n(2) by (auto simp: in_set_conv_nth)
  have hi: "key e \<le> key a" if "a \<in> set (drop ?n es)" for a
  proof -
    from that obtain i where "i < length es - ?n" "a = es ! (?n + i)" by (auto simp: in_set_conv_nth)
    with n(3) show ?thesis by (simp add: less_imp_le)
  qed
  have "sorted (map key (take ?n es @ drop ?n es))" using assms by simp
  then have "sorted (map key (take ?n es))" "sorted (map key (drop ?n es))"
    by (simp_all only: map_append sorted_append)
  with lo hi False show ?thesis
    by (auto simp: insert_ordered_def Let_def sorted_append intro: order_trans)
qed

section \<open>Ordered stores\<close>

text \<open>
  What the engine relies on: insertion keeps a list ordered by its key and adds one element.
  A store filled this way depends only on which elements went in, as long as keys differ.
\<close>

locale ordered_store =
  fixes key :: "'e \<Rightarrow> 'k::linorder" and ins :: "'e list \<Rightarrow> 'e \<Rightarrow> 'e list"
  assumes ins_sorted: "sorted (map key es) \<Longrightarrow> sorted (map key (ins es e))"
    and ins_mset: "mset (ins es e) = add_mset e (mset es)"
begin

lemma fold_mset: "mset (foldl ins acc es) = mset acc + mset es"
  by (induction es arbitrary: acc) (simp_all add: ins_mset)

lemma fold_sorted: "sorted (map key acc) \<Longrightarrow> sorted (map key (foldl ins acc es))"
  by (induction es arbitrary: acc) (simp_all add: ins_sorted)

lemma sorted_unique:
  assumes "sorted (map key xs)" "sorted (map key ys)" "mset xs = mset ys" "inj_on key (set xs)"
  shows "xs = ys"
proof -
  have "mset (map key xs) = mset (map key ys)" using assms(3) by simp
  with assms(1,2) have "map key xs = map key ys" by (metis sorted_sort_id properties_for_sort)
  moreover have "set xs = set ys" using assms(3) by (rule mset_eq_setD)
  ultimately show ?thesis using assms(4) by (metis map_inj_on Un_absorb)
qed

lemma fold_set: "set (foldl ins [] xs) = set xs"
  using fold_mset[of "[]" xs] by (metis add.left_neutral mset.simps(1) mset_eq_setD)

lemma filter_fold_filter [simp]: "filter P (foldl ins [] (filter P xs)) = foldl ins [] (filter P xs)"
  by (simp add: filter_id_conv fold_set)

lemma order_independent:
  assumes "mset xs = mset ys" "inj_on key (set xs)"
  shows "foldl ins [] xs = foldl ins [] ys"
proof (rule sorted_unique)
  show "inj_on key (set (foldl ins [] xs))"
    using assms(2) by (simp add: fold_set)
qed (simp_all add: fold_sorted fold_mset assms(1))

lemma filter_fold:
  assumes "inj_on key (set xs)"
  shows "filter P (foldl ins [] xs) = foldl ins [] (filter P xs)"
proof (rule sorted_unique)
  show "inj_on key (set (filter P (foldl ins [] xs)))"
    using assms by (auto simp: fold_set intro: inj_on_subset)
  show "sorted (map key (filter P (foldl ins [] xs)))"
    using fold_sorted[of "[]" xs] by (simp add: sorted_filter)
qed (simp_all add: fold_sorted fold_mset)

end

interpretation trade_store: ordered_store tr_key "insert_ordered tr_key"
  by unfold_locales (simp_all add: insert_ordered_sorted insert_ordered_mset)

interpretation liquidity_store: ordered_store lq_key "insert_ordered lq_key"
  by unfold_locales (simp_all add: insert_ordered_sorted insert_ordered_mset)

interpretation holder_store: ordered_store ho_key "insert_ordered ho_key"
  by unfold_locales (simp_all add: insert_ordered_sorted insert_ordered_mset)

section \<open>Runs of the engine\<close>

datatype feature_event =
    Register string datetime
  | Trade trade_observation
  | Liquidity liquidity_observation
  | Holders holder_observation

fun feature_step :: "feature_engine \<Rightarrow> feature_event \<Rightarrow> feature_engine" where
  "feature_step g (Register pool created) = register_pool pool created g"
| "feature_step g (Trade e) = fst (ingest_trade e g)"
| "feature_step g (Liquidity e) = fst (ingest_liquidity e g)"
| "feature_step g (Holders e) = fst (ingest_holders e g)"

definition feature_run :: "feature_event list \<Rightarrow> feature_engine" where
  "feature_run es = foldl feature_step feature_engine_init es"

fun event_ids :: "feature_event list \<Rightarrow> string list" where
  "event_ids [] = []"
| "event_ids (Register p c # es) = event_ids es"
| "event_ids (Trade e # es) = tr_event_id e # event_ids es"
| "event_ids (Liquidity e # es) = lq_event_id e # event_ids es"
| "event_ids (Holders e # es) = ho_event_id e # event_ids es"

fun occurs_by :: "datetime \<Rightarrow> feature_event \<Rightarrow> bool" where
  "occurs_by t (Register p c) = True"
| "occurs_by t (Trade e) = (tr_event_time e \<le> t)"
| "occurs_by t (Liquidity e) = (lq_event_time e \<le> t)"
| "occurs_by t (Holders e) = (ho_event_time e \<le> t)"

text \<open>What a run put into the lists of one pool.\<close>

fun trades_in :: "string \<Rightarrow> feature_event \<Rightarrow> trade_observation list" where
  "trades_in p (Trade e) = (if tr_pool_address e = p then [e] else [])"
| "trades_in p _ = []"

fun liquidity_in :: "string \<Rightarrow> feature_event \<Rightarrow> liquidity_observation list" where
  "liquidity_in p (Liquidity e) = (if lq_pool_address e = p then [e] else [])"
| "liquidity_in p _ = []"

fun holders_in :: "string \<Rightarrow> feature_event \<Rightarrow> holder_observation list" where
  "holders_in p (Holders e) = (if ho_pool_address e = p then [e] else [])"
| "holders_in p _ = []"

fun created_in :: "string \<Rightarrow> feature_event \<Rightarrow> datetime list" where
  "created_in p (Register q c) = (if q = p then [c] else [])"
| "created_in p _ = []"

definition earliest :: "datetime list \<Rightarrow> datetime option" where
  "earliest ts = (if ts = [] then None else Some (Min (set ts)))"

lemma earliest_snoc:
  "earliest (ts @ [t]) = Some (case earliest ts of None \<Rightarrow> t | Some c \<Rightarrow> min c t)"
  by (simp add: earliest_def min.commute)

lemma event_ids_append: "event_ids (es @ fs) = event_ids es @ event_ids fs"
  by (induction es rule: event_ids.induct) auto

definition run_inv :: "feature_event list \<Rightarrow> feature_engine \<Rightarrow> bool" where
  "run_inv es g \<longleftrightarrow> fe_seen g = set (event_ids es)
     \<and> (\<forall>p. dict_get (fe_pool_created g) p = earliest (concat (map (created_in p) es)))
     \<and> (\<forall>p. opt_or (dict_get (fe_trades g) p) [] = foldl (insert_ordered tr_key) [] (concat (map (trades_in p) es)))
     \<and> (\<forall>p. opt_or (dict_get (fe_liquidity g) p) [] = foldl (insert_ordered lq_key) [] (concat (map (liquidity_in p) es)))
     \<and> (\<forall>p. opt_or (dict_get (fe_holders g) p) [] = foldl (insert_ordered ho_key) [] (concat (map (holders_in p) es)))"

lemma opt_or_simps [simp]: "opt_or None d = d" "opt_or (Some x) d = x"
  by (simp_all add: opt_or_def)

lemma run_inv_step:
  assumes "run_inv es g" "distinct (event_ids (es @ [e]))"
  shows "run_inv (es @ [e]) (feature_step g e)"
proof (cases e)
  case (Register q c)
  with assms(1) show ?thesis
    by (auto simp: run_inv_def event_ids_append register_pool_def earliest_snoc min_def split: option.split)
next
  case (Trade t)
  with assms show ?thesis
    by (auto simp: run_inv_def event_ids_append ingest_trade_def accept_def insert_at_def)
next
  case (Liquidity t)
  with assms show ?thesis
    by (auto simp: run_inv_def event_ids_append ingest_liquidity_def accept_def insert_at_def)
next
  case (Holders t)
  with assms show ?thesis
    by (auto simp: run_inv_def event_ids_append ingest_holders_def accept_def insert_at_def)
qed

lemma run_inv_run: "distinct (event_ids es) \<Longrightarrow> run_inv es (feature_run es)"
proof (induction es rule: rev_induct)
  case Nil
  then show ?case by (simp add: run_inv_def feature_run_def feature_engine_init_def earliest_def)
next
  case (snoc e es)
  then show ?case by (simp add: feature_run_def run_inv_step event_ids_append)
qed

lemma snapshot_run:
  assumes "distinct (event_ids es)"
  shows "snapshot (feature_run es) p t = snapshot_of p t (opt_or (earliest (concat (map (created_in p) es))) t)
    (filter (\<lambda>e. tr_event_time e \<le> t) (foldl (insert_ordered tr_key) [] (concat (map (trades_in p) es))))
    (filter (\<lambda>e. lq_event_time e \<le> t) (foldl (insert_ordered lq_key) [] (concat (map (liquidity_in p) es))))
    (filter (\<lambda>e. ho_event_time e \<le> t) (foldl (insert_ordered ho_key) [] (concat (map (holders_in p) es))))"
  using run_inv_run[OF assms] by (simp add: snapshot_def trades_def run_inv_def)

lemma event_id_sets:
  "set (map tr_event_id (concat (map (trades_in p) es))) \<subseteq> set (event_ids es)"
  "set (map lq_event_id (concat (map (liquidity_in p) es))) \<subseteq> set (event_ids es)"
  "set (map ho_event_id (concat (map (holders_in p) es))) \<subseteq> set (event_ids es)"
  "set (event_ids (filter P es)) \<subseteq> set (event_ids es)"
     apply (induction es rule: event_ids.induct; force)
    apply (induction es rule: event_ids.induct; force)
   apply (induction es rule: event_ids.induct; force)
  apply (induction es rule: event_ids.induct; auto)
  done

lemma distinct_ids:
  "distinct (event_ids es) \<Longrightarrow> distinct (map tr_event_id (concat (map (trades_in p) es)))"
  "distinct (event_ids es) \<Longrightarrow> distinct (map lq_event_id (concat (map (liquidity_in p) es)))"
  "distinct (event_ids es) \<Longrightarrow> distinct (map ho_event_id (concat (map (holders_in p) es)))"
  "distinct (event_ids es) \<Longrightarrow> distinct (event_ids (filter P es))"
     apply (induction es rule: event_ids.induct; use event_id_sets(1) in force)
    apply (induction es rule: event_ids.induct; use event_id_sets(2) in force)
   apply (induction es rule: event_ids.induct; use event_id_sets(3) in force)
  apply (induction es rule: event_ids.induct; use event_id_sets(4) in auto)
  done

lemma inj_on_key: "distinct (map f xs) \<Longrightarrow> (\<And>e. snd (key e) = f e) \<Longrightarrow> inj_on key (set xs)"
  by (metis distinct_map inj_onD inj_onI)

lemma distinct_event_keys:
  "distinct (event_ids es) \<Longrightarrow> inj_on tr_key (set (concat (map (trades_in p) es)))"
  "distinct (event_ids es) \<Longrightarrow> inj_on lq_key (set (concat (map (liquidity_in p) es)))"
  "distinct (event_ids es) \<Longrightarrow> inj_on ho_key (set (concat (map (holders_in p) es)))"
  by (rule inj_on_key[OF distinct_ids(1)], assumption, simp add: tr_key_def,
      rule inj_on_key[OF distinct_ids(2)], assumption, simp add: lq_key_def,
      rule inj_on_key[OF distinct_ids(3)], assumption, simp add: ho_key_def)

lemma mset_concat_map: "mset es = mset es' \<Longrightarrow> mset (concat (map f es)) = mset (concat (map f es'))"
  by (simp add: mset_concat) (metis mset_map sum_mset_sum_list)

lemma mset_event_ids: "mset (event_ids es) = mset (concat (map (\<lambda>e. event_ids [e]) es))"
  by (induction es rule: event_ids.induct) auto

lemma earliest_mset: "mset ts = mset ts' \<Longrightarrow> earliest ts = earliest ts'"
  by (metis earliest_def mset_eq_setD mset_zero_iff)

text \<open>
  C25. Arrival order does not matter: two runs over the same events, in any order and with
  pairwise different event ids, give the same snapshot of every pool at every time.
\<close>

theorem snapshot_order_independent:
  assumes "mset es = mset es'" and "distinct (event_ids es)"
  shows "snapshot (feature_run es) p t = snapshot (feature_run es') p t"
proof -
  have "mset (event_ids es) = mset (event_ids es')"
    unfolding mset_event_ids by (rule mset_concat_map[OF assms(1)])
  with assms(2) have d': "distinct (event_ids es')" by (metis mset_eq_imp_distinct_iff)
  note m = mset_concat_map[OF assms(1)]
  have "earliest (concat (map (created_in p) es)) = earliest (concat (map (created_in p) es'))"
    by (rule earliest_mset[OF m])
  moreover note trade_store.order_independent[OF m[of "trades_in p"] distinct_event_keys(1)[OF assms(2)]]
    liquidity_store.order_independent[OF m[of "liquidity_in p"] distinct_event_keys(2)[OF assms(2)]]
    holder_store.order_independent[OF m[of "holders_in p"] distinct_event_keys(3)[OF assms(2)]]
  ultimately show ?thesis by (simp only: snapshot_run[OF assms(2)] snapshot_run[OF d'])
qed

lemma filter_occurs_by:
  "concat (map (trades_in p) (filter (occurs_by t) es)) = filter (\<lambda>e. tr_event_time e \<le> t) (concat (map (trades_in p) es))"
  "concat (map (liquidity_in p) (filter (occurs_by t) es)) = filter (\<lambda>e. lq_event_time e \<le> t) (concat (map (liquidity_in p) es))"
  "concat (map (holders_in p) (filter (occurs_by t) es)) = filter (\<lambda>e. ho_event_time e \<le> t) (concat (map (holders_in p) es))"
  "concat (map (created_in p) (filter (occurs_by t) es)) = concat (map (created_in p) es)"
  by (induction es rule: event_ids.induct) auto

text \<open>
  C26. No look-ahead: the snapshot at a time is the one of a run that never saw the trades,
  liquidity and holder observations after that time.
\<close>

theorem snapshot_no_lookahead:
  assumes "distinct (event_ids es)"
  shows "snapshot (feature_run es) p t = snapshot (feature_run (filter (occurs_by t) es)) p t"
  unfolding snapshot_run[OF assms] snapshot_run[OF distinct_ids(4)[OF assms]] filter_occurs_by
    trade_store.filter_fold[OF distinct_event_keys(1)[OF assms]]
    liquidity_store.filter_fold[OF distinct_event_keys(2)[OF assms]]
    holder_store.filter_fold[OF distinct_event_keys(3)[OF assms]]
  by (simp only: trade_store.filter_fold_filter liquidity_store.filter_fold_filter holder_store.filter_fold_filter)

section \<open>Consistency of a snapshot\<close>

lemma unique_wallets_card: "unique_wallets es = int (card (tr_wallet ` set es))"
  by (simp add: unique_wallets_def length_remdups_card_conv)

lemma unique_wallets_mono: "set es \<subseteq> set fs \<Longrightarrow> unique_wallets es \<le> unique_wallets fs"
  by (simp add: unique_wallets_card card_mono image_mono)

lemma unique_wallets_le: "unique_wallets es \<le> int (length es)"
  using length_remdups_leq[of "map tr_wallet es"] by (simp add: unique_wallets_def)

lemma window_mono: "a \<le> b \<Longrightarrow> window t es a = filter (\<lambda>e. t - seconds a < tr_event_time e) (window t es b)"
  by (auto simp: window_def seconds_def usec_def intro!: filter_cong)

lemma length_window_mono: "a \<le> b \<Longrightarrow> length (window t es a) \<le> length (window t es b)"
  by (simp add: window_mono)

lemma unique_window_mono: "a \<le> b \<Longrightarrow> unique_wallets (window t es a) \<le> unique_wallets (window t es b)"
  by (intro unique_wallets_mono) (auto simp: window_mono)

lemma first_buy_entries:
  "dict_wf (first_buy_by_wallet es)
   \<and> (\<forall>(w, time) \<in> set (first_buy_by_wallet es). \<exists>e \<in> set es. tr_wallet e = w \<and> tr_event_time e = time)"
proof (induction es rule: rev_induct)
  case Nil
  then show ?case by (simp add: first_buy_by_wallet_def dict_wf_def)
next
  case (snoc e es)
  have step: "first_buy_by_wallet (es @ [e])
      = dict_setdefault (first_buy_by_wallet es) (tr_wallet e) (tr_event_time e)"
    by (simp add: first_buy_by_wallet_def)
  show ?case
  proof (cases "dict_get (first_buy_by_wallet es) (tr_wallet e)")
    case None
    then have "first_buy_by_wallet (es @ [e]) = first_buy_by_wallet es @ [(tr_wallet e, tr_event_time e)]"
      by (simp add: step dict_setdefault_def dict_set_new)
    moreover have "dict_wf (first_buy_by_wallet (es @ [e]))" using snoc step by simp
    ultimately show ?thesis using snoc by (auto split: prod.splits)
  next
    case (Some _)
    with snoc step show ?thesis by (auto simp: dict_setdefault_def split: prod.splits)
  qed
qed

lemma new_buyers_le: "new_buyers t es a \<le> unique_wallets (window t es a)"
proof -
  let ?d = "filter (\<lambda>(w, time). t - seconds a < time \<and> time \<le> t) (first_buy_by_wallet es)"
  have "new_buyers t es a = int (length ?d)"
    by (simp add: new_buyers_def filter_map comp_def case_prod_unfold)
  also have "length ?d = length (map fst ?d)" by simp
  also have "\<dots> = card (set (map fst ?d))"
    using first_buy_entries[of es] by (intro distinct_card[symmetric]) (auto simp: dict_wf_def distinct_map intro: inj_on_subset)
  also have "\<dots> \<le> card (tr_wallet ` set (window t es a))"
    using first_buy_entries[of es] by (intro card_mono) (force simp: window_def)+
  finally show ?thesis by (simp add: unique_wallets_card)
qed

lemma new_buyers_mono: "a \<le> b \<Longrightarrow> new_buyers t es a \<le> new_buyers t es b"
proof -
  assume "a \<le> b"
  then have sub: "filter (\<lambda>x. t - seconds a < x \<and> x \<le> t) xs
    = filter (\<lambda>x. t - seconds a < x) (filter (\<lambda>x. t - seconds b < x \<and> x \<le> t) xs)" for xs
    by (auto simp: seconds_def usec_def intro!: filter_cong)
  have "length (filter (\<lambda>x. t - seconds a < x \<and> x \<le> t) xs) \<le> length (filter (\<lambda>x. t - seconds b < x \<and> x \<le> t) xs)" for xs
    unfolding sub by (rule length_filter_le)
  then show ?thesis unfolding new_buyers_def by (simp only: of_nat_le_iff)
qed

lemma foldl_max: "x \<le> foldl max x ys \<and> (\<forall>y \<in> set ys. y \<le> foldl max x ys)" for x :: decimal
proof (induction ys arbitrary: x)
  case (Cons y ys)
  show ?case using Cons[of "max x y"] by auto
qed simp

lemma max_or_ge: "x \<in> set xs \<Longrightarrow> x \<le> max_or d xs"
  using foldl_max by (cases xs) (auto simp: max_or_def)

lemma volume_nonneg: "(\<And>e. e \<in> set es \<Longrightarrow> trade_valid e) \<Longrightarrow> 0 \<le> volume_of es"
  unfolding volume_of_def by (rule dsum_nonneg) (auto simp: trade_valid_def)

lemma price_below_high:
  assumes "\<And>e. e \<in> set es \<Longrightarrow> trade_valid e"
  shows "0 \<le> (if es = [] then 0 else tr_price_usd (last es))"
    "(if es = [] then 0 else tr_price_usd (last es)) \<le> max_or 0 (map tr_price_usd es)"
  using assms[of "last es"] max_or_ge[of "tr_price_usd (last es)" "map tr_price_usd es" 0]
  by (auto simp: trade_valid_def max_or_def)

lemma drawdown_bounds:
  assumes "0 \<le> price" "price \<le> high"
  shows "0 \<le> (if 0 < high then dsub 1 (ddiv price high) else 0)"
    "(if 0 < high then dsub 1 (ddiv price high) else 0) \<le> 1"
proof -
  have "0 \<le> ddiv price high \<and> ddiv price high \<le> 1" if "0 < high"
    using assms that by (auto intro: ddiv_nonneg ddiv_le_1)
  then show "0 \<le> (if 0 < high then dsub 1 (ddiv price high) else 0)"
    "(if 0 < high then dsub 1 (ddiv price high) else 0) \<le> 1"
    using dec.mono[of "1 - ddiv price high" 1] dsub_nonneg_iff[of 1 "ddiv price high"]
    by (auto simp: dsub_def)
qed

text \<open>
  The figures of a snapshot over valid trades are consistent: in each window the new buyers
  are at most the unique buyers and these at most the buy transactions, wider windows count no
  less, the current price is at most the local high, and the drawdown and the unique-buyer
  ratio are fractions between 0 and 1.
\<close>

theorem snapshot_consistent:
  assumes "\<forall>e \<in> set (trades g p None). trade_valid e" and "s = snapshot g p t"
  shows "fs_new_buyers_15s s \<le> fs_unique_buyers_15s s \<and> fs_new_buyers_30s s \<le> fs_unique_buyers_30s s
    \<and> fs_unique_buyers_15s s \<le> fs_buy_transactions_15s s \<and> fs_unique_buyers_60s s \<le> fs_buy_transactions_60s s
    \<and> fs_new_buyers_15s s \<le> fs_new_buyers_30s s
    \<and> fs_buy_transactions_15s s \<le> fs_buy_transactions_30s s \<and> fs_buy_transactions_30s s \<le> fs_buy_transactions_60s s
    \<and> fs_unique_sellers_15s s \<le> fs_unique_sellers_30s s \<and> fs_unique_sellers_30s s \<le> fs_unique_sellers_60s s
    \<and> 0 \<le> fs_buy_volume_usd_60s s \<and> 0 \<le> fs_pool_age_seconds s
    \<and> fs_current_price_usd s \<le> fs_local_high s
    \<and> 0 \<le> fs_drawdown_from_local_high s \<and> fs_drawdown_from_local_high s \<le> 1
    \<and> 0 \<le> fs_unique_buyer_ratio s \<and> fs_unique_buyer_ratio s \<le> 1"
proof -
  let ?es = "trades g p (Some t)"
  let ?buys = "filter (\<lambda>e. tr_side e = BUY) ?es"
  have valid: "trade_valid e" if "e \<in> set ?es" for e
    using assms(1) that by (auto simp: trades_def Let_def)
  note price = price_below_high[of ?es, OF valid]
  have vol: "0 \<le> volume_of (window t ?buys 60)" using valid by (intro volume_nonneg) (auto simp: window_def)
  have u: "0 \<le> unique_wallets (window t ?buys 60)" by (simp add: unique_wallets_def)
  have ratio: "0 \<le> ddiv (of_int (unique_wallets (window t ?buys 60))) (of_int (max (int (length (window t ?buys 60))) 1))"
    "ddiv (of_int (unique_wallets (window t ?buys 60))) (of_int (max (int (length (window t ?buys 60))) 1)) \<le> 1"
    using u unique_wallets_le[of "window t ?buys 60"]
    by (intro ddiv_nonneg ddiv_le_1; simp only: of_int_le_iff of_int_0_le_iff of_int_0_less_iff; linarith)+
  show ?thesis
    unfolding assms(2) snapshot_def snapshot_of_def Let_def feature_snapshot.simps
    using price drawdown_bounds[OF price] vol ratio
      new_buyers_le[of t ?buys 15] new_buyers_le[of t ?buys 30] new_buyers_mono[of 15 30 t ?buys]
      unique_wallets_le[of "window t ?buys 15"] unique_wallets_le[of "window t ?buys 60"]
      length_window_mono[of 15 30 t ?buys] length_window_mono[of 30 60 t ?buys]
      unique_window_mono[of 15 30 t] unique_window_mono[of 30 60 t]
    by (intro conjI) simp_all
qed

section \<open>Witnesses\<close>

definition demo_trade :: "string \<Rightarrow> datetime \<Rightarrow> string \<Rightarrow> trade_observation" where
  "demo_trade i t w = \<lparr>tr_event_id = i, tr_pool_address = ''P'', tr_event_time = t, tr_side = BUY, tr_wallet = w,
     tr_volume_usd = 10, tr_price_usd = 2, tr_external = True, tr_same_funder_cluster = False\<rparr>"

definition demo_events :: "feature_event list" where
  "demo_events = [Register ''P'' 0, Trade (demo_trade ''a'' 5 ''w1''), Trade (demo_trade ''b'' 3 ''w2''),
     Trade (demo_trade ''c'' 9 ''w1'')]"

lemma demo_events_distinct: "distinct (event_ids demo_events)"
  by (simp add: demo_events_def demo_trade_def)

theorem snapshot_order_independent_witness:
  "snapshot (feature_run demo_events) ''P'' 7 = snapshot (feature_run (rev demo_events)) ''P'' 7"
  by (rule snapshot_order_independent[OF _ demo_events_distinct]) simp

theorem snapshot_no_lookahead_witness:
  "snapshot (feature_run demo_events) ''P'' 7
     = snapshot (feature_run [Register ''P'' 0, Trade (demo_trade ''a'' 5 ''w1''), Trade (demo_trade ''b'' 3 ''w2'')]) ''P'' 7"
  using snapshot_no_lookahead[OF demo_events_distinct, of "''P''" 7] by (simp add: demo_events_def demo_trade_def)

theorem snapshot_consistent_witness:
  "fs_drawdown_from_local_high (snapshot (feature_run demo_events) ''P'' 7) \<le> 1"
proof -
  have "\<forall>e \<in> set (trades (feature_run demo_events) ''P'' None). trade_valid e" by code_simp
  from snapshot_consistent[OF this refl, of 7] show ?thesis by blast
qed

end
