(* ===== verification/Scoring.thy ===== *)
theory Scoring
  imports Features
begin

text \<open>
  The 0 to 100 score with its category caps (\<open>scoring.py\<close>). The texts of the explanations are
  the rounded values themselves; \<open>str\<close> only prints them.
\<close>

section \<open>Definitions\<close>

record developer_history =
  dh_known :: bool
  dh_previous_rugs :: int
  dh_previous_dev_dumps_5m :: int
  dh_tokens_created_7d :: int
  dh_successful_tokens :: int

record score_context =
  sc_features :: feature_snapshot
  sc_round_trip_loss_pct :: decimal
  sc_buy_price_impact_pct :: decimal
  sc_sell_price_impact_pct :: decimal
  sc_sell_route_reliability :: decimal
  sc_developer_history :: developer_history
  sc_vwap_reclaimed :: bool

definition score_context_valid :: "score_context \<Rightarrow> bool" where
  "score_context_valid c \<longleftrightarrow> 0 \<le> sc_round_trip_loss_pct c \<and> 0 \<le> sc_buy_price_impact_pct c
     \<and> 0 \<le> sc_sell_price_impact_pct c \<and> 0 \<le> sc_sell_route_reliability c \<and> sc_sell_route_reliability c \<le> 1"

type_synonym parts = "(string \<times> decimal) list"

record score_breakdown =
  sb_total_score :: decimal
  sb_organic_score :: decimal
  sb_distribution_score :: decimal
  sb_execution_score :: decimal
  sb_liquidity_score :: decimal
  sb_developer_score :: decimal
  sb_price_structure_score :: decimal
  sb_explanations :: "(string \<times> parts) list"

definition score_breakdown_valid :: "score_breakdown \<Rightarrow> bool" where
  "score_breakdown_valid b \<longleftrightarrow>
     0 \<le> sb_total_score b \<and> sb_total_score b \<le> 100
     \<and> 0 \<le> sb_organic_score b \<and> sb_organic_score b \<le> 25
     \<and> 0 \<le> sb_distribution_score b \<and> sb_distribution_score b \<le> 20
     \<and> 0 \<le> sb_execution_score b \<and> sb_execution_score b \<le> 20
     \<and> 0 \<le> sb_liquidity_score b \<and> sb_liquidity_score b \<le> 15
     \<and> 0 \<le> sb_developer_score b \<and> sb_developer_score b \<le> 10
     \<and> 0 \<le> sb_price_structure_score b \<and> sb_price_structure_score b \<le> 10"

definition clamp :: "decimal \<Rightarrow> decimal \<Rightarrow> decimal \<Rightarrow> decimal" where
  "clamp value low high = max low (min value high)"

definition linear :: "decimal \<Rightarrow> decimal \<Rightarrow> decimal \<Rightarrow> decimal \<Rightarrow> decimal result" where
  "linear value low high maximum =
     (if high \<le> low then Inl (ValueError ''linear score high must exceed low'')
      else Inr (clamp (dmul (ddiv (dsub value low) (dsub high low)) maximum) 0 maximum))"

definition inverse_score :: "decimal \<Rightarrow> decimal \<Rightarrow> decimal \<Rightarrow> decimal \<Rightarrow> decimal result" where
  "inverse_score value good bad maximum =
     (if bad \<le> good then Inl (ValueError ''inverse score bad must exceed good'')
      else Inr (clamp (dmul (ddiv (dsub bad value) (dsub bad good)) maximum) 0 maximum))"

definition sum_cap :: "parts \<Rightarrow> decimal \<Rightarrow> decimal" where
  "sum_cap ps maximum = min (dsum (map snd ps)) maximum"

definition q_score :: "decimal \<Rightarrow> decimal result" where
  "q_score value = quantize round_half_even 2 value"

fun explain :: "parts \<Rightarrow> parts result" where
  "explain [] = Inr []"
| "explain ((name, value) # ps) = rbind (q_score value) (\<lambda>v. rbind (explain ps) (\<lambda>r. Inr ((name, v) # r)))"

definition developer_score :: "developer_history \<Rightarrow> decimal" where
  "developer_score h =
     (if \<not> dh_known h then 5
      else if 2 \<le> dh_previous_rugs h then 0
      else let score = dadd 5 (min (of_int (dh_successful_tokens h)) 3);
               score = dsub score (min (of_int (dh_previous_dev_dumps_5m h * 2)) 4);
               score = (if 10 \<le> dh_tokens_created_7d h then dsub score 3 else score)
           in clamp score 0 10)"

text \<open>A dictionary display whose values may raise, evaluated in order.\<close>

fun parts_of :: "(string \<times> decimal result) list \<Rightarrow> parts result" where
  "parts_of [] = Inr []"
| "parts_of ((name, r) # rs) = rbind r (\<lambda>v. rbind (parts_of rs) (\<lambda>ps. Inr ((name, v) # ps)))"

definition organic_parts :: "feature_snapshot \<Rightarrow> parts result" where
  "organic_parts f = parts_of [
     (''unique_buyers_60s'', linear (of_int (fs_unique_buyers_60s f)) 5 25 8),
     (''buyer_acceleration'', linear (fs_buyer_acceleration f) (8/10) (15/10) 6),
     (''unique_buyer_ratio'', linear (fs_unique_buyer_ratio f) (2/10) (75/100) 4),
     (''buy_sell_volume_ratio'', linear (fs_buy_sell_volume_ratio f) 1 3 4),
     (''transactions_per_trader'', inverse_score (fs_transactions_per_trader f) 2 6 3)]"

definition distribution_parts :: "feature_snapshot \<Rightarrow> parts result" where
  "distribution_parts f = parts_of [
     (''top_10_holders'', inverse_score (fs_top_10_holders_pct f) (15/100) (30/100) 6),
     (''largest_related_cluster'', inverse_score (fs_largest_related_cluster_pct f) (5/100) (15/100) 6),
     (''dev_cluster'', inverse_score (fs_dev_cluster_holding_pct f) (2/100) (5/100) 4),
     (''top_5_buyers_share'', inverse_score (fs_top_5_buyer_volume_share f) (35/100) (70/100) 4)]"

definition execution_parts :: "score_context \<Rightarrow> parts result" where
  "execution_parts c = parts_of [
     (''round_trip_loss'', inverse_score (sc_round_trip_loss_pct c) (3/100) (8/100) 8),
     (''price_impact'', inverse_score (max (sc_buy_price_impact_pct c) (sc_sell_price_impact_pct c))
        (1/100) (35/1000) 6),
     (''sell_route_reliability'', Inr (dmul (sc_sell_route_reliability c) 6))]"

definition liquidity_parts :: "feature_snapshot \<Rightarrow> parts result" where
  "liquidity_parts f = parts_of [
     (''quote_liquidity'', linear (fs_quote_liquidity_usd f) 40000 100000 5),
     (''liquidity_stability'', linear (fs_quote_liquidity_change_30s f) (- (3/100)) 0 6),
     (''market_cap_to_liquidity'', inverse_score (fs_market_cap_to_quote_liquidity f) 5 15 4)]"

definition price_parts :: "score_context \<Rightarrow> parts" where
  "price_parts c = (let f = sc_features c in [
     (''controlled_pullback'', if 10/100 \<le> fs_drawdown_from_local_high f \<and> fs_drawdown_from_local_high f \<le> 25/100
        then 4 else 0),
     (''vwap_reclaim'', if sc_vwap_reclaimed c then 4 else 0),
     (''not_overextended'', if fs_return_since_pool_creation f \<le> 25/10 then 2 else 0)])"

text \<open>The rounding of the seven scores and the constraints of \<open>ScoreBreakdown\<close>.\<close>

definition breakdown_of :: "decimal \<Rightarrow> decimal \<Rightarrow> decimal \<Rightarrow> decimal \<Rightarrow> decimal \<Rightarrow> decimal
    \<Rightarrow> (string \<times> parts) list \<Rightarrow> score_breakdown result" where
  "breakdown_of organic distribution execution liquidity developer price explanations =
     (let total = dadd (dadd (dadd (dadd (dadd organic distribution) execution) liquidity) developer) price in
      rbind (q_score total) (\<lambda>t. rbind (q_score organic) (\<lambda>o'. rbind (q_score distribution) (\<lambda>d'. rbind (q_score execution) (\<lambda>e'.
      rbind (q_score liquidity) (\<lambda>l'. rbind (q_score developer) (\<lambda>v'. rbind (q_score price) (\<lambda>p'.
        let b = \<lparr>sb_total_score = t, sb_organic_score = o', sb_distribution_score = d', sb_execution_score = e',
                 sb_liquidity_score = l', sb_developer_score = v', sb_price_structure_score = p',
                 sb_explanations = explanations\<rparr>
        in if score_breakdown_valid b then Inr b else Inl (ValueError ''validation error'')))))))))"

definition score :: "score_context \<Rightarrow> score_breakdown result" where
  "score c = (let f = sc_features c in
     rbind (organic_parts f) (\<lambda>organic.
     rbind (distribution_parts f) (\<lambda>distribution.
     rbind (execution_parts c) (\<lambda>execution.
     rbind (liquidity_parts f) (\<lambda>liquidity.
     let developer = [(''history'', developer_score (sc_developer_history c))]; price = price_parts c in
     rbind (explain organic) (\<lambda>xo. rbind (explain distribution) (\<lambda>xd. rbind (explain execution) (\<lambda>xe.
     rbind (explain liquidity) (\<lambda>xl. rbind (explain developer) (\<lambda>xv. rbind (explain price) (\<lambda>xp.
       breakdown_of (sum_cap organic 25) (sum_cap distribution 20) (sum_cap execution 20)
         (sum_cap liquidity 15) (sum_cap developer 10) (sum_cap price 10)
         [(''organic'', xo), (''distribution'', xd), (''execution'', xe), (''liquidity'', xl),
          (''developer'', xv), (''price_structure'', xp)])))))))))))"

section \<open>Bounds\<close>

text \<open>Parts with values between 0 and a small bound: their sum and their explanation exist.\<close>

definition small_parts :: "parts \<Rightarrow> bool" where
  "small_parts ps \<longleftrightarrow> (\<forall>(n, v) \<in> set ps. 0 \<le> v \<and> v \<le> 100)"

lemma dctx_int: "\<bar>n\<bar> \<le> 100 \<Longrightarrow> dctx (of_int n) = of_int n"
  using dctx_exact[of n 0] by simp

lemma clamp_bounds: "low \<le> high \<Longrightarrow> low \<le> clamp v low high \<and> clamp v low high \<le> high"
  by (simp add: clamp_def)

lemma linear_Inr: "low < high \<Longrightarrow> linear v low high m = Inr (clamp (dmul (ddiv (dsub v low) (dsub high low)) m) 0 m)"
  by (simp add: linear_def)

lemma inverse_Inr: "good < bad \<Longrightarrow> inverse_score v good bad m = Inr (clamp (dmul (ddiv (dsub bad v) (dsub bad good)) m) 0 m)"
  by (simp add: inverse_score_def)

lemma q_score_small:
  assumes "0 \<le> v" "v \<le> of_int n" "n \<le> 100"
  obtains x where "q_score v = Inr x" "0 \<le> x" "x \<le> of_int n"
proof -
  let ?r = "round_half_even (v * 10 ^ 2)"
  have "of_int 0 \<le> v * 10 ^ 2" "v * 10 ^ 2 \<le> of_int (n * 100)" using assms by simp_all
  then have r: "0 \<le> ?r" "?r \<le> n * 100" using round_half_even_mono round_half_even_of_int by metis+
  then have "?r \<le> 10000" using assms(3) by simp
  then have "q_score v = Inr (quantize_value round_half_even 2 v)" using r(1) by (simp add: q_score_def quantize_def)
  moreover have "0 \<le> quantize_value round_half_even 2 v" using r(1) by (simp add: quantize_value_def)
  moreover have "(of_int ?r :: rat) \<le> of_int (n * 100)" using r(2) by (simp only: of_int_le_iff)
  then have "quantize_value round_half_even 2 v \<le> of_int n" by (simp add: quantize_value_def)
  ultimately show thesis using that by blast
qed

lemma explain_small: "small_parts ps \<Longrightarrow> \<exists>r. explain ps = Inr r"
proof (induction ps rule: explain.induct)
  case (2 name x ps)
  then have "0 \<le> x" "x \<le> of_int 100" by (simp_all add: small_parts_def)
  then obtain v where "q_score x = Inr v" by (rule q_score_small) simp
  with 2 show ?case by (auto simp: small_parts_def)
qed simp

lemma sum_cap_bounds:
  assumes "small_parts ps" "0 \<le> m" shows "0 \<le> sum_cap ps m" "sum_cap ps m \<le> m"
proof -
  have "0 \<le> dsum (map snd ps)" using assms(1) by (intro dsum_nonneg) (auto simp: small_parts_def)
  with assms(2) show "0 \<le> sum_cap ps m" "sum_cap ps m \<le> m" by (simp_all add: sum_cap_def)
qed

lemma dadd_cap:
  assumes "0 \<le> a \<and> a \<le> of_int m" "0 \<le> b \<and> b \<le> of_int n" "m + n \<le> 100"
  shows "0 \<le> dadd a b \<and> dadd a b \<le> of_int (m + n)"
proof -
  have "0 \<le> m" "0 \<le> n" using assms(1,2) by (metis of_int_0_le_iff order_trans)+
  then have "dctx (of_int (m + n)) = of_int (m + n)" using assms(3) by (intro dctx_int) simp
  moreover have "a + b \<le> of_int (m + n)" using assms by simp
  ultimately show ?thesis using assms dec.le_fixed by (auto simp: dadd_def intro: dec.nonneg)
qed

lemma breakdown_of_capped:
  assumes "0 \<le> organic \<and> organic \<le> of_int 25" "0 \<le> distribution \<and> distribution \<le> of_int 20"
    "0 \<le> execution \<and> execution \<le> of_int 20" "0 \<le> liquidity \<and> liquidity \<le> of_int 15"
    "0 \<le> developer \<and> developer \<le> of_int 10" "0 \<le> price \<and> price \<le> of_int 10"
  shows "\<exists>b. breakdown_of organic distribution execution liquidity developer price x = Inr b
    \<and> score_breakdown_valid b \<and> q_score organic = Inr (sb_organic_score b) \<and> q_score developer = Inr (sb_developer_score b)"
proof -
  let ?total = "dadd (dadd (dadd (dadd (dadd organic distribution) execution) liquidity) developer) price"
  have "0 \<le> ?total \<and> ?total \<le> of_int (25 + 20 + 20 + 15 + 10 + 10)"
    using assms by (intro dadd_cap) simp_all
  then obtain t where t: "q_score ?total = Inr t" "0 \<le> t" "t \<le> of_int 100"
    using q_score_small[of ?total 100] by auto
  obtain a where a: "q_score organic = Inr a" "0 \<le> a" "a \<le> of_int 25" using q_score_small[of organic 25] assms(1) by auto
  obtain b where b: "q_score distribution = Inr b" "0 \<le> b" "b \<le> of_int 20" using q_score_small[of distribution 20] assms(2) by auto
  obtain c where c: "q_score execution = Inr c" "0 \<le> c" "c \<le> of_int 20" using q_score_small[of execution 20] assms(3) by auto
  obtain d where d: "q_score liquidity = Inr d" "0 \<le> d" "d \<le> of_int 15" using q_score_small[of liquidity 15] assms(4) by auto
  obtain e where e: "q_score developer = Inr e" "0 \<le> e" "e \<le> of_int 10" using q_score_small[of developer 10] assms(5) by auto
  obtain f where f: "q_score price = Inr f" "0 \<le> f" "f \<le> of_int 10" using q_score_small[of price 10] assms(6) by auto
  from t a b c d e f show ?thesis by (simp add: breakdown_of_def score_breakdown_valid_def Let_def)
qed

lemma parts_small:
  assumes "score_context_valid c"
  shows "\<exists>ps. organic_parts (sc_features c) = Inr ps \<and> small_parts ps"
    "\<exists>ps. distribution_parts (sc_features c) = Inr ps \<and> small_parts ps"
    "\<exists>ps. execution_parts c = Inr ps \<and> small_parts ps"
    "\<exists>ps. liquidity_parts (sc_features c) = Inr ps \<and> small_parts ps"
    "small_parts (price_parts c)" "small_parts [(''history'', developer_score h)]"
proof -
  have b: "0 \<le> clamp v 0 m" "m \<le> 100 \<Longrightarrow> clamp v 0 m \<le> 100" if "0 \<le> m" for v m
    using clamp_bounds[of 0 m v] that by linarith+
  have r: "0 \<le> dmul (sc_sell_route_reliability c) 6 \<and> dmul (sc_sell_route_reliability c) 6 \<le> 100"
  proof -
    have "dctx (of_int 6) = of_int 6" by (rule dctx_int) simp
    then have "dmul 6 (sc_sell_route_reliability c) \<le> 6"
      using assms by (intro dmul_le_left) (simp_all add: score_context_valid_def)
    moreover have "dmul 6 (sc_sell_route_reliability c) = dmul (sc_sell_route_reliability c) 6"
      by (simp add: dmul_def mult.commute)
    ultimately show ?thesis using assms dmul_nonneg[of "sc_sell_route_reliability c" 6]
      by (simp add: score_context_valid_def)
  qed
  show "\<exists>ps. organic_parts (sc_features c) = Inr ps \<and> small_parts ps"
    "\<exists>ps. distribution_parts (sc_features c) = Inr ps \<and> small_parts ps"
    "\<exists>ps. execution_parts c = Inr ps \<and> small_parts ps"
    "\<exists>ps. liquidity_parts (sc_features c) = Inr ps \<and> small_parts ps"
    using r by (simp_all add: organic_parts_def distribution_parts_def execution_parts_def liquidity_parts_def
        linear_Inr inverse_Inr small_parts_def b)
  show "small_parts (price_parts c)" "small_parts [(''history'', developer_score h)]"
    by (simp_all add: price_parts_def small_parts_def Let_def developer_score_def b)
qed

text \<open>
  Scoring never fails: for every valid context it returns a breakdown in which each category
  lies between 0 and its cap and the total between 0 and 100; a developer with two known rugs
  scores 0 in the developer category.
\<close>

theorem score_within_caps:
  assumes "score_context_valid c"
  shows "\<exists>b. score c = Inr b \<and> score_breakdown_valid b
    \<and> (dh_known (sc_developer_history c) \<and> 2 \<le> dh_previous_rugs (sc_developer_history c)
         \<longrightarrow> sb_developer_score b = 0)"
proof -
  let ?d = "[(''history'', developer_score (sc_developer_history c))]"
  obtain o' d' e' l' where p: "organic_parts (sc_features c) = Inr o'" "distribution_parts (sc_features c) = Inr d'"
    "execution_parts c = Inr e'" "liquidity_parts (sc_features c) = Inr l'"
    and s: "small_parts o'" "small_parts d'" "small_parts e'" "small_parts l'" "small_parts (price_parts c)" "small_parts ?d"
    using parts_small[OF assms] by metis
  obtain xo xd xe xl xv xp where x: "explain o' = Inr xo" "explain d' = Inr xd" "explain e' = Inr xe"
    "explain l' = Inr xl" "explain ?d = Inr xv" "explain (price_parts c) = Inr xp"
    using s explain_small by metis
  have caps: "0 \<le> sum_cap o' 25 \<and> sum_cap o' 25 \<le> of_int 25" "0 \<le> sum_cap d' 20 \<and> sum_cap d' 20 \<le> of_int 20"
    "0 \<le> sum_cap e' 20 \<and> sum_cap e' 20 \<le> of_int 20" "0 \<le> sum_cap l' 15 \<and> sum_cap l' 15 \<le> of_int 15"
    "0 \<le> sum_cap ?d 10 \<and> sum_cap ?d 10 \<le> of_int 10"
    "0 \<le> sum_cap (price_parts c) 10 \<and> sum_cap (price_parts c) 10 \<le> of_int 10"
    using s by (simp_all add: sum_cap_bounds)
  obtain b where b: "score c = Inr b" "score_breakdown_valid b" "q_score (sum_cap ?d 10) = Inr (sb_developer_score b)"
  proof -
    let ?x = "[(''organic'', xo), (''distribution'', xd), (''execution'', xe), (''liquidity'', xl),
      (''developer'', xv), (''price_structure'', xp)]"
    obtain b where "breakdown_of (sum_cap o' 25) (sum_cap d' 20) (sum_cap e' 20) (sum_cap l' 15) (sum_cap ?d 10)
        (sum_cap (price_parts c) 10) ?x = Inr b" "score_breakdown_valid b" "q_score (sum_cap ?d 10) = Inr (sb_developer_score b)"
      using breakdown_of_capped[OF caps, of ?x] by blast
    then show thesis using p x by (intro that) (simp_all add: score_def Let_def del: explain.simps)
  qed
  have "sb_developer_score b = 0"
    if "dh_known (sc_developer_history c) \<and> 2 \<le> dh_previous_rugs (sc_developer_history c)"
  proof -
    have "sum_cap ?d 10 = 0" using that by (simp add: sum_cap_def developer_score_def dsum_def)
    with b(3) show ?thesis by (simp add: q_score_def quantize_def quantize_value_def round_half_even_def split: if_splits)
  qed
  with b show ?thesis by blast
qed

definition demo_score :: score_context where
  "demo_score = \<lparr>sc_features = snapshot_of ''P'' 100 0 [] [] [], sc_round_trip_loss_pct = 4/100,
     sc_buy_price_impact_pct = 1/100, sc_sell_price_impact_pct = 2/100, sc_sell_route_reliability = 1,
     sc_developer_history = \<lparr>dh_known = True, dh_previous_rugs = 2, dh_previous_dev_dumps_5m = 0,
       dh_tokens_created_7d = 0, dh_successful_tokens = 3\<rparr>, sc_vwap_reclaimed = True\<rparr>"

theorem score_within_caps_witness:
  "\<exists>b. score demo_score = Inr b \<and> score_breakdown_valid b \<and> sb_developer_score b = 0"
  using score_within_caps[of demo_score] by (auto simp: demo_score_def score_context_valid_def)

end
