(* ===== verification/Bytes.thy ===== *)
theory Bytes
  imports Prelude "HOL-Library.Word" "HOL-Library.Log_Nat"
begin

text \<open>
  Bytes and positional numerals: what the program uses of \<open>int.from_bytes\<close>, \<open>int.to_bytes\<close>,
  \<open>int.bit_length\<close> and modular \<open>pow\<close>, with the digit lemmas behind the Base58 codec.
\<close>

type_synonym byte = "8 word"
type_synonym bytes = "byte list"

section \<open>Numerals\<close>

text \<open>Value of a big-endian digit list in base \<open>b\<close>, and the digits of a number without leading zeros.\<close>

definition undigits :: "nat \<Rightarrow> nat list \<Rightarrow> nat" where
  "undigits b ds = foldl (\<lambda>n d. n * b + d) 0 ds"

function digits :: "nat \<Rightarrow> nat \<Rightarrow> nat list" where
  "digits b n = (if n = 0 \<or> b < 2 then [] else digits b (n div b) @ [n mod b])"
  by pat_completeness auto
termination by (relation "measure snd") auto

declare digits.simps [simp del]

lemma digits_0 [simp]: "digits b 0 = []"
  by (subst digits.simps) simp

lemma digits_pos: "0 < n \<Longrightarrow> 2 \<le> b \<Longrightarrow> digits b n = digits b (n div b) @ [n mod b]"
  by (subst digits.simps) simp

lemma undigits_Nil [simp]: "undigits b [] = 0"
  by (simp add: undigits_def)

lemma undigits_snoc [simp]: "undigits b (ds @ [d]) = undigits b ds * b + d"
  by (simp add: undigits_def)

lemma undigits_digits: "2 \<le> b \<Longrightarrow> undigits b (digits b n) = n"
proof (induction b n rule: digits.induct)
  case (1 b n)
  show ?case
  proof (cases "n = 0")
    case False
    with 1 have "undigits b (digits b (n div b)) = n div b" by simp
    with False 1 show ?thesis by (simp add: digits_pos)
  qed simp
qed

lemma undigits_zero: "undigits b ds = 0 \<Longrightarrow> 0 < b \<Longrightarrow> d \<in> set ds \<Longrightarrow> d = 0"
  by (induction ds rule: rev_induct) auto

lemma digits_undigits:
  assumes "2 \<le> b" shows "\<forall>d \<in> set ds. d < b \<Longrightarrow> digits b (undigits b ds) = dropWhile (\<lambda>d. d = 0) ds"
proof (induction ds rule: rev_induct)
  case (snoc d ds)
  let ?n = "undigits b ds * b + d"
  have d: "d < b" using snoc.prems by simp
  show ?case
  proof (cases "?n = 0")
    case True
    then have "undigits b ds = 0" "d = 0" using assms by auto
    with undigits_zero[of b ds] assms have "\<forall>x \<in> set ds. x = 0" by auto
    with \<open>undigits b ds = 0\<close> \<open>d = 0\<close> show ?thesis by (simp add: dropWhile_append)
  next
    case False
    then have "digits b ?n = digits b (?n div b) @ [?n mod b]" using assms by (intro digits_pos) simp_all
    moreover have "?n div b = undigits b ds" "?n mod b = d" using d by simp_all
    ultimately have eq: "digits b ?n = dropWhile (\<lambda>d. d = 0) ds @ [d]" using snoc by simp
    have "dropWhile (\<lambda>d. d = 0) (ds @ [d]) = dropWhile (\<lambda>d. d = 0) ds @ [d]"
    proof (cases "\<exists>x \<in> set ds. x \<noteq> 0")
      case True
      then show ?thesis by (auto intro: dropWhile_append1)
    next
      case zero: False
      then have "undigits b ds = 0" by (induction ds rule: rev_induct) auto
      with False have "d \<noteq> 0" by simp
      moreover have "dropWhile (\<lambda>d. d = 0) ds = []" using zero by simp
      ultimately show ?thesis using zero by (subst dropWhile_append2) auto
    qed
    with eq show ?thesis by simp
  qed
qed simp

lemma digits_less: "2 \<le> b \<Longrightarrow> d \<in> set (digits b n) \<Longrightarrow> d < b"
proof (induction b n rule: digits.induct)
  case (1 b n)
  then show ?case by (cases "n = 0") (auto simp: digits_pos)
qed

lemma digits_hd: "2 \<le> b \<Longrightarrow> 0 < n \<Longrightarrow> digits b n \<noteq> [] \<and> hd (digits b n) \<noteq> 0"
proof (induction b n rule: digits.induct)
  case (1 b n)
  show ?case
  proof (cases "n div b = 0")
    case True
    then have "n < b" using 1 by (simp add: div_eq_0_iff)
    with True 1 show ?thesis by (simp add: digits_pos)
  next
    case False
    with 1 have "digits b (n div b) \<noteq> [] \<and> hd (digits b (n div b)) \<noteq> 0" by simp
    with 1 show ?thesis by (simp add: digits_pos)
  qed
qed

section \<open>Bytes\<close>

definition from_bytes_big :: "bytes \<Rightarrow> nat" where
  "from_bytes_big bs = undigits 256 (map unat bs)"

definition from_bytes_little :: "bytes \<Rightarrow> nat" where
  "from_bytes_little bs = from_bytes_big (rev bs)"

fun to_bytes_big :: "nat \<Rightarrow> nat \<Rightarrow> bytes" where
  "to_bytes_big 0 n = []"
| "to_bytes_big (Suc k) n = to_bytes_big k (n div 256) @ [word_of_nat (n mod 256)]"

definition bit_length :: "nat \<Rightarrow> nat" where
  "bit_length n = floorlog 2 n"

lemma unat_byte_less: "unat (b :: byte) < 256"
  using unsigned_less[of b] by simp

lemma unat_byte [simp]: "n < 256 \<Longrightarrow> unat (word_of_nat n :: byte) = n"
  by (simp add: unat_of_nat)

lemma byte_unat [simp]: "word_of_nat (unat b) = (b :: byte)"
  by simp

lemma bit_length_div: "0 < n div 2 ^ k \<Longrightarrow> bit_length n = bit_length (n div 2 ^ k) + k"
proof (induction k)
  case (Suc k)
  have half: "n div 2 ^ Suc k = (n div 2 ^ k) div 2" by (metis div_mult2_eq power_Suc2)
  with Suc.prems have "0 < n div 2 ^ k" by (metis div_0 gr0I less_irrefl)
  moreover from this have "bit_length (n div 2 ^ k) = bit_length ((n div 2 ^ k) div 2) + 1"
    unfolding bit_length_def by (subst compute_floorlog) simp
  ultimately show ?case using Suc.IH half by simp
qed simp

lemma byte_length_div:
  assumes "0 < n" shows "(bit_length n + 7) div 8 = Suc ((bit_length (n div 256) + 7) div 8)"
proof (cases "n div 256 = 0")
  case True
  then have "n < 256" by (simp add: div_eq_0_iff)
  then have "bit_length n \<le> 8" using floorlog_leI[of n 2 8] by (simp add: bit_length_def)
  moreover have "bit_length n \<noteq> 0" using assms floorlog_eq_zero_iff[of 2 n] by (simp add: bit_length_def)
  moreover have "bit_length 0 = 0" by (simp add: bit_length_def floorlog_def)
  ultimately have "(bit_length n + 7) div 8 = 1" by presburger
  with True \<open>bit_length 0 = 0\<close> show ?thesis by simp
next
  case False
  then have "bit_length n = bit_length (n div 2 ^ 8) + 8" by (intro bit_length_div) simp
  then show ?thesis by simp
qed

lemma to_bytes_minimal:
  "to_bytes_big ((bit_length n + 7) div 8) n = map word_of_nat (digits 256 n)"
proof (induction "256 :: nat" n rule: digits.induct)
  case (1 n)
  show ?case
  proof (cases "n = 0")
    case True
    then show ?thesis by (simp add: bit_length_def floorlog_def)
  next
    case False
    with 1 show ?thesis by (simp add: byte_length_div digits_pos)
  qed
qed

section \<open>Modular exponentiation\<close>

text \<open>\<open>pow(b, e, m)\<close> with three arguments.\<close>

function pow_mod :: "int \<Rightarrow> nat \<Rightarrow> int \<Rightarrow> int" where
  "pow_mod b e m = (if e = 0 then 1 mod m
     else let h = pow_mod (b * b mod m) (e div 2) m in if even e then h else h * b mod m)"
  by pat_completeness auto
termination by (relation "measure (\<lambda>(b, e, m). e)") auto

declare pow_mod.simps [simp del]

lemma pow_mod_eq: "pow_mod b e m = b ^ e mod m"
proof (induction b e m rule: pow_mod.induct)
  case (1 b e m)
  show ?case
  proof (cases "e = 0")
    case True
    then show ?thesis by (subst pow_mod.simps) simp
  next
    case False
    have sq: "pow_mod (b * b mod m) (e div 2) m = (b * b) ^ (e div 2) mod m"
      using 1[OF False] by (simp add: power_mod)
    have "b ^ e = b ^ (2 * (e div 2) + e mod 2)" by simp
    also have "\<dots> = (b ^ 2) ^ (e div 2) * b ^ (e mod 2)" by (simp only: power_add power_mult)
    also have "b ^ (e mod 2) = (if even e then 1 else b)" by (auto simp: even_iff_mod_2_eq_zero)
    finally have "b ^ e = (b * b) ^ (e div 2) * (if even e then 1 else b)"
      by (simp only: power2_eq_square)
    with False sq show ?thesis
      by (subst pow_mod.simps) (simp add: Let_def mod_mult_left_eq)
  qed
qed

end
