(* ===== verification/Security.thy ===== *)
theory Security
  imports Features_Props Bytes
begin

text \<open>
  Token, holder, execution and data-quality checks (\<open>security.py\<close>) and the pool orientation
  constants they take from \<open>registry.py\<close>. Addresses are strings, decoded addresses bytes;
  the checks for naive datetimes do not occur, since datetimes are instants.
\<close>

section \<open>Constants\<close>

definition WSOL_MINT :: string where
  "WSOL_MINT = ''So11111111111111111111111111111111111111112''"

definition USDC_MINT :: string where
  "USDC_MINT = ''EPjFWdd5AufqSSqeM2qN1xzybapC8G4wEGGkZwyTDt1v''"

definition SUPPORTED_QUOTE_MINTS :: "string list" where
  "SUPPORTED_QUOTE_MINTS = [WSOL_MINT, USDC_MINT]"

definition target_mint_for_pool :: "string option \<Rightarrow> string option \<Rightarrow> string option" where
  "target_mint_for_pool base_mint quote_mint =
     (if \<not> truthy base_mint \<or> \<not> truthy quote_mint then None
      else let base_is_quote = the base_mint \<in> set SUPPORTED_QUOTE_MINTS;
               quote_is_quote = the quote_mint \<in> set SUPPORTED_QUOTE_MINTS
           in if base_is_quote = quote_is_quote then None
              else if base_is_quote then quote_mint else base_mint)"

definition SPL_TOKEN_PROGRAM_ID :: string where
  "SPL_TOKEN_PROGRAM_ID = ''TokenkegQfeZyiNwAJbNbGKPFXCWuBvf9Ss623VQ5DA''"

definition TOKEN_2022_PROGRAM_ID :: string where
  "TOKEN_2022_PROGRAM_ID = ''TokenzQdBNbLqP5VEhdkAS6EPFLC1PHnBqCXEpPxuEb''"

definition BURN_AND_SERVICE_ADDRESSES :: "string list" where
  "BURN_AND_SERVICE_ADDRESSES = [''11111111111111111111111111111111'',
     ''1nc1nerator11111111111111111111111111111111'', ''SysvarRent111111111111111111111111111111111'']"

definition BASE58_ALPHABET :: string where
  "BASE58_ALPHABET = ''123456789ABCDEFGHJKLMNPQRSTUVWXYZabcdefghijkmnopqrstuvwxyz''"

text \<open>\<open>_BASE58_VALUES\<close>: the index of a character of the alphabet.\<close>

definition base58_value :: "char \<Rightarrow> nat option" where
  "base58_value c = map_of (zip BASE58_ALPHABET [0..<58]) c"

definition ED25519_P :: int where
  "ED25519_P = 2 ^ 255 - 19"

definition ED25519_D :: int where
  "ED25519_D = (- 121665 * pow_mod 121666 (nat (ED25519_P - 2)) ED25519_P) mod ED25519_P"

definition ED25519_SQRT_M1 :: int where
  "ED25519_SQRT_M1 = pow_mod 2 (nat ((ED25519_P - 1) div 4)) ED25519_P"

section \<open>Data\<close>

datatype reject_reason =
    INVALID_TOKEN_PROGRAM | MINT_AUTHORITY_ACTIVE | FREEZE_AUTHORITY_ACTIVE | TOKEN_2022 | INVALID_SUPPLY
  | SUPPLY_CHANGED | INVALID_DECIMALS | UNSUPPORTED_QUOTE_MINT | LOW_QUOTE_LIQUIDITY | NO_BUY_ROUTE
  | NO_SELL_ROUTE | ROUND_TRIP_TOO_EXPENSIVE | HIGH_BUY_PRICE_IMPACT | HIGH_SELL_PRICE_IMPACT
  | INSUFFICIENT_EXTERNAL_SELLERS | HIGH_HOLDER_CONCENTRATION | DEV_CLUSTER_TOO_LARGE
  | RELATED_CLUSTER_TOO_LARGE | DEV_HOLDING_TOO_LARGE | UNKNOWN_OWNER_SUPPLY | HOLDER_DATA_UNAVAILABLE
  | HOLDER_DATA_STALE | DEV_SOLD | POOL_TOO_OLD | POOL_TOO_NEW | LIQUIDITY_DECLINING | STALE_DATA
  | STALE_QUOTE | UNKNOWN_PROTOCOL_LAYOUT | API_UNAVAILABLE | PREVIOUS_RUGS | WASH_TRADING_PATTERN
  | OVEREXTENDED_PRICE | SCORE_TOO_LOW | ENTRY_WINDOW_EXPIRED | DAILY_RISK_LIMIT | MAX_OPEN_POSITIONS
  | POSITION_TOO_SMALL_AFTER_COSTS | RISK_MANAGER_BLOCKED

record mint_info =
  mi_mint :: string
  mi_token_program :: string
  mi_decimals :: int
  mi_total_supply_raw :: decimal
  mi_mint_authority :: "string option"
  mi_freeze_authority :: "string option"
  mi_observed_at :: datetime
  mi_supply_changed :: bool

record holder_balance =
  hb_token_account :: string
  hb_owner :: "string option"
  hb_amount_raw :: decimal
  hb_is_system :: bool

record holder_metrics =
  hm_largest_holder_pct :: decimal
  hm_top_5_holders_pct :: decimal
  hm_top_10_holders_pct :: decimal
  hm_dev_holding_pct :: decimal
  hm_dev_cluster_holding_pct :: decimal
  hm_early_buyers_holding_pct :: decimal
  hm_related_cluster_holding_pct :: decimal
  hm_unknown_owner_supply_pct :: decimal
  hm_holder_count :: int

record execution_checks =
  ex_buy_route_available :: bool
  ex_sell_route_available :: bool
  ex_round_trip_loss_pct :: decimal
  ex_buy_price_impact_pct :: decimal
  ex_sell_price_impact_pct :: decimal
  ex_quote_observed_at :: datetime

record security_context =
  cx_mint :: mint_info
  cx_holders :: "holder_metrics option"
  cx_holders_observed_at :: "datetime option"
  cx_execution :: execution_checks
  cx_quote_mint :: string
  cx_quote_liquidity_usd :: decimal
  cx_liquidity_change_30s :: decimal
  cx_pool_age_seconds :: decimal
  cx_external_successful_sellers :: int
  cx_stream_observed_at :: datetime
  cx_dev_sold :: bool
  cx_previous_rugs :: int
  cx_previous_dev_dumps_5m :: int
  cx_developer_tokens_created_7d :: int
  cx_developer_successful_tokens :: int
  cx_developer_history_known :: bool
  cx_protocol_layout_known :: bool
  cx_critical_api_available :: bool
  cx_wash_trading_pattern :: bool
  cx_return_since_pool_creation :: decimal

record security_result =
  sy_checked_at :: datetime
  sy_hard_reject :: bool
  sy_reject_reasons :: "reject_reason list"
  sy_holder_metrics :: "holder_metrics option"

section \<open>Address classification\<close>

fun base58_number :: "string \<Rightarrow> nat \<Rightarrow> nat option" where
  "base58_number [] number = Some number"
| "base58_number (c # cs) number =
     (case base58_value c of None \<Rightarrow> None | Some v \<Rightarrow> base58_number cs (number * 58 + v))"

definition decode_solana_address :: "string \<Rightarrow> bytes option" where
  "decode_solana_address v =
     (if v = [] then None
      else case base58_number v 0 of
        None \<Rightarrow> None
      | Some number \<Rightarrow>
          (let encoded = (if number \<noteq> 0 then to_bytes_big ((bit_length number + 7) div 8) number else []);
               leading_zeroes = length v - length (dropWhile (\<lambda>c. c = CHR ''1'') v);
               decoded = replicate leading_zeroes 0 @ encoded
           in if length decoded = 32 then Some decoded else None))"

text \<open>The argument has 32 bytes; \<open>value[31]\<close> is the last one.\<close>

definition is_ed25519_curve_point :: "bytes \<Rightarrow> bool" where
  "is_ed25519_curve_point v =
     (let y = int (from_bytes_little v) mod 2 ^ 255;
          sign = unat (v ! 31) div 128
      in if ED25519_P \<le> y then False
         else let y_squared = y * y mod ED25519_P;
                  denominator = (ED25519_D * y_squared + 1) mod ED25519_P
           in if denominator = 0 then False
              else let x_squared = (y_squared - 1) * pow_mod denominator (nat (ED25519_P - 2)) ED25519_P mod ED25519_P;
                       x0 = pow_mod x_squared (nat ((ED25519_P + 3) div 8)) ED25519_P;
                       x = (if x0 * x0 mod ED25519_P \<noteq> x_squared then x0 * ED25519_SQRT_M1 mod ED25519_P else x0)
                in if x * x mod ED25519_P \<noteq> x_squared then False
                   else \<not> (x = 0 \<and> sign = 1))"

definition is_program_or_burn_owner :: "string option \<Rightarrow> bool" where
  "is_program_or_burn_owner owner = (case owner of None \<Rightarrow> False
     | Some w \<Rightarrow> if w \<in> set BURN_AND_SERVICE_ADDRESSES then True
         else (case decode_solana_address w of None \<Rightarrow> False | Some d \<Rightarrow> \<not> is_ed25519_curve_point d))"

section \<open>Holder aggregation\<close>

text \<open>
  \<open>skipped\<close> is the test at the top of the loop. The owner test is an argument of the loop, so
  that it can be evaluated on its own; \<open>aggregate_holders\<close> passes \<open>is_program_or_burn_owner\<close>.
\<close>

definition skipped :: "(string option \<Rightarrow> bool) \<Rightarrow> string list \<Rightarrow> holder_balance \<Rightarrow> bool" where
  "skipped is_service excluded a \<longleftrightarrow> hb_is_system a \<or> hb_token_account a \<in> set excluded
     \<or> (case hb_owner a of None \<Rightarrow> False | Some w \<Rightarrow> w \<in> set excluded) \<or> is_service (hb_owner a)"

fun balances_loop :: "(string option \<Rightarrow> bool) \<Rightarrow> string list \<Rightarrow> holder_balance list \<Rightarrow> (string, decimal) dict \<Rightarrow> decimal
    \<Rightarrow> (string, decimal) dict \<times> decimal" where
  "balances_loop is_service excluded [] balances unknown = (balances, unknown)"
| "balances_loop is_service excluded (a # rest) balances unknown =
     (if skipped is_service excluded a then balances_loop is_service excluded rest balances unknown
      else case hb_owner a of
        None \<Rightarrow> balances_loop is_service excluded rest balances (dadd unknown (hb_amount_raw a))
      | Some w \<Rightarrow> balances_loop is_service excluded rest
          (dict_set balances w (dadd (opt_or (dict_get balances w) 0) (hb_amount_raw a))) unknown)"

text \<open>The sets of wallets are iterated in some order: lists without duplicates here.\<close>

definition wallet_share :: "(string, decimal) dict \<Rightarrow> decimal \<Rightarrow> string list \<Rightarrow> decimal" where
  "wallet_share balances supply wallets = ddiv (dsum (map (\<lambda>w. opt_or (dict_get balances w) 0) wallets)) supply"

definition aggregate_with ::
  "(string option \<Rightarrow> bool) \<Rightarrow> holder_balance list \<Rightarrow> decimal \<Rightarrow> string option \<Rightarrow> string list \<Rightarrow> string list \<Rightarrow> string list
     \<Rightarrow> string list \<Rightarrow> holder_metrics result" where
  "aggregate_with is_service holders total_supply_raw dev_wallet dev_cluster related_cluster early_buyers system_addresses =
     (if total_supply_raw \<le> 0 then Inl (ValueError ''total supply must be positive'')
      else case balances_loop is_service system_addresses holders [] 0 of (balances, unknown) \<Rightarrow>
        (let ranked = rev (sort (dict_values balances));
             share = (\<lambda>amount. ddiv amount total_supply_raw)
         in Inr \<lparr>
           hm_largest_holder_pct = (if ranked = [] then 0 else share (hd ranked)),
           hm_top_5_holders_pct = share (dsum (take 5 ranked)),
           hm_top_10_holders_pct = share (dsum (take 10 ranked)),
           hm_dev_holding_pct = (if truthy dev_wallet
             then share (opt_or (dict_get balances (the dev_wallet)) 0) else 0),
           hm_dev_cluster_holding_pct = wallet_share balances total_supply_raw dev_cluster,
           hm_early_buyers_holding_pct = wallet_share balances total_supply_raw early_buyers,
           hm_related_cluster_holding_pct = wallet_share balances total_supply_raw related_cluster,
           hm_unknown_owner_supply_pct = share unknown,
           hm_holder_count = int (length (filter (\<lambda>a. 0 < a) (dict_values balances)))\<rparr>))"

definition aggregate_holders ::
  "holder_balance list \<Rightarrow> decimal \<Rightarrow> string option \<Rightarrow> string list \<Rightarrow> string list \<Rightarrow> string list
     \<Rightarrow> string list \<Rightarrow> holder_metrics result" where
  "aggregate_holders = aggregate_with is_program_or_burn_owner"

section \<open>The engine\<close>

record security_engine =
  se_minimum_quote_liquidity_usd :: decimal
  se_minimum_pool_age_seconds :: decimal
  se_maximum_pool_age_seconds :: decimal
  se_maximum_round_trip_loss_pct :: decimal
  se_maximum_buy_price_impact_pct :: decimal
  se_maximum_sell_price_impact_pct :: decimal
  se_minimum_external_sellers :: int
  se_maximum_largest_holder_pct :: decimal
  se_maximum_top_5_pct :: decimal
  se_maximum_top_10_pct :: decimal
  se_maximum_dev_holding_pct :: decimal
  se_maximum_dev_cluster_pct :: decimal
  se_maximum_related_cluster_pct :: decimal
  se_maximum_unknown_supply_pct :: decimal
  se_maximum_liquidity_drop_pct :: decimal
  se_maximum_return_since_creation :: decimal
  se_maximum_stream_age_seconds :: decimal
  se_maximum_quote_age_seconds :: decimal

definition default_security_engine :: security_engine where
  "default_security_engine = \<lparr>se_minimum_quote_liquidity_usd = 40000, se_minimum_pool_age_seconds = 45,
     se_maximum_pool_age_seconds = 180, se_maximum_round_trip_loss_pct = 8/100,
     se_maximum_buy_price_impact_pct = 25/1000, se_maximum_sell_price_impact_pct = 35/1000,
     se_minimum_external_sellers = 5, se_maximum_largest_holder_pct = 7/100, se_maximum_top_5_pct = 22/100,
     se_maximum_top_10_pct = 30/100, se_maximum_dev_holding_pct = 2/100, se_maximum_dev_cluster_pct = 5/100,
     se_maximum_related_cluster_pct = 15/100, se_maximum_unknown_supply_pct = 5/100,
     se_maximum_liquidity_drop_pct = 3/100, se_maximum_return_since_creation = 250/100,
     se_maximum_stream_age_seconds = 3, se_maximum_quote_age_seconds = 15/10\<rparr>"

definition age :: "datetime \<Rightarrow> datetime \<Rightarrow> decimal" where
  "age now observed_at = max 0 (seconds_of (now - observed_at))"

text \<open>\<open>list(dict.fromkeys(xs))\<close> keeps the first occurrence of each element.\<close>

definition dict_fromkeys :: "'a list \<Rightarrow> 'a list" where
  "dict_fromkeys xs = rev (remdups (rev xs))"

text \<open>\<open>if cond: reasons.append(reason)\<close>\<close>

abbreviation append_if :: "bool \<Rightarrow> reject_reason \<Rightarrow> reject_reason list" where
  "append_if c r \<equiv> (if c then [r] else [])"

definition mint_reasons :: "mint_info \<Rightarrow> reject_reason list" where
  "mint_reasons m =
     (if mi_token_program m = TOKEN_2022_PROGRAM_ID then [TOKEN_2022]
      else append_if (mi_token_program m \<noteq> SPL_TOKEN_PROGRAM_ID) INVALID_TOKEN_PROGRAM)
     @ append_if (mi_mint_authority m \<noteq> None) MINT_AUTHORITY_ACTIVE
     @ append_if (mi_freeze_authority m \<noteq> None) FREEZE_AUTHORITY_ACTIVE
     @ append_if (mi_total_supply_raw m \<le> 0) INVALID_SUPPLY
     @ append_if (mi_supply_changed m) SUPPLY_CHANGED
     @ append_if (mi_decimals m < 0 \<or> 18 < mi_decimals m) INVALID_DECIMALS"

definition execution_reasons :: "security_engine \<Rightarrow> security_context \<Rightarrow> reject_reason list" where
  "execution_reasons se c = (let x = cx_execution c in
     append_if (cx_quote_mint c \<notin> set SUPPORTED_QUOTE_MINTS) UNSUPPORTED_QUOTE_MINT
     @ append_if (cx_quote_liquidity_usd c < se_minimum_quote_liquidity_usd se) LOW_QUOTE_LIQUIDITY
     @ append_if (\<not> ex_buy_route_available x) NO_BUY_ROUTE
     @ append_if (\<not> ex_sell_route_available x) NO_SELL_ROUTE
     @ append_if (se_maximum_round_trip_loss_pct se < ex_round_trip_loss_pct x) ROUND_TRIP_TOO_EXPENSIVE
     @ append_if (se_maximum_buy_price_impact_pct se < ex_buy_price_impact_pct x) HIGH_BUY_PRICE_IMPACT
     @ append_if (se_maximum_sell_price_impact_pct se < ex_sell_price_impact_pct x) HIGH_SELL_PRICE_IMPACT
     @ append_if (cx_external_successful_sellers c < se_minimum_external_sellers se) INSUFFICIENT_EXTERNAL_SELLERS)"

definition holder_reasons :: "security_engine \<Rightarrow> security_context \<Rightarrow> datetime \<Rightarrow> reject_reason list" where
  "holder_reasons se c now = (case cx_holders c of
     None \<Rightarrow> [HOLDER_DATA_UNAVAILABLE]
   | Some h \<Rightarrow>
       append_if (case cx_holders_observed_at c of None \<Rightarrow> True | Some t \<Rightarrow> 15 < age now t) HOLDER_DATA_STALE
       @ append_if (se_maximum_largest_holder_pct se < hm_largest_holder_pct h
           \<or> se_maximum_top_5_pct se < hm_top_5_holders_pct h
           \<or> se_maximum_top_10_pct se < hm_top_10_holders_pct h) HIGH_HOLDER_CONCENTRATION
       @ append_if (se_maximum_dev_holding_pct se < hm_dev_holding_pct h) DEV_HOLDING_TOO_LARGE
       @ append_if (se_maximum_dev_cluster_pct se < hm_dev_cluster_holding_pct h) DEV_CLUSTER_TOO_LARGE
       @ append_if (se_maximum_related_cluster_pct se < hm_related_cluster_holding_pct h) RELATED_CLUSTER_TOO_LARGE
       @ append_if (se_maximum_unknown_supply_pct se < hm_unknown_owner_supply_pct h) UNKNOWN_OWNER_SUPPLY)"

definition quality_reasons :: "security_engine \<Rightarrow> security_context \<Rightarrow> datetime \<Rightarrow> reject_reason list" where
  "quality_reasons se c now =
     append_if (cx_dev_sold c) DEV_SOLD
     @ append_if (cx_pool_age_seconds c < se_minimum_pool_age_seconds se) POOL_TOO_NEW
     @ append_if (se_maximum_pool_age_seconds se < cx_pool_age_seconds c) POOL_TOO_OLD
     @ append_if (cx_liquidity_change_30s c < dneg (se_maximum_liquidity_drop_pct se)) LIQUIDITY_DECLINING
     @ append_if (se_maximum_stream_age_seconds se < age now (cx_stream_observed_at c)) STALE_DATA
     @ append_if (se_maximum_quote_age_seconds se < age now (ex_quote_observed_at (cx_execution c))) STALE_QUOTE
     @ append_if (\<not> cx_protocol_layout_known c) UNKNOWN_PROTOCOL_LAYOUT
     @ append_if (\<not> cx_critical_api_available c) API_UNAVAILABLE
     @ append_if (2 \<le> cx_previous_rugs c) PREVIOUS_RUGS
     @ append_if (cx_wash_trading_pattern c) WASH_TRADING_PATTERN
     @ append_if (se_maximum_return_since_creation se < cx_return_since_pool_creation c) OVEREXTENDED_PRICE"

definition security_evaluate :: "security_engine \<Rightarrow> security_context \<Rightarrow> datetime \<Rightarrow> security_result" where
  "security_evaluate se c now =
     (let reasons = mint_reasons (cx_mint c) @ execution_reasons se c @ holder_reasons se c now
            @ quality_reasons se c now;
          unique_reasons = dict_fromkeys reasons
      in \<lparr>sy_checked_at = now, sy_hard_reject = (unique_reasons \<noteq> []),
          sy_reject_reasons = unique_reasons, sy_holder_metrics = cx_holders c\<rparr>)"

end
