(* ===== verification/Security_Props.thy ===== *)
theory Security_Props
  imports Security
begin

text \<open>
  Properties of the security checks: a token passes exactly when every check passes, rejections
  always carry a reason, and the holder shares are ordered and ignore service accounts.
\<close>

lemma dict_fromkeys_simps [simp]:
  "set (dict_fromkeys xs) = set xs" "distinct (dict_fromkeys xs)" "dict_fromkeys xs = [] \<longleftrightarrow> xs = []"
  by (simp_all add: dict_fromkeys_def)

section \<open>Fail-closed evaluation\<close>

definition mint_ok :: "mint_info \<Rightarrow> bool" where
  "mint_ok m \<longleftrightarrow> mi_token_program m = SPL_TOKEN_PROGRAM_ID \<and> mi_mint_authority m = None
     \<and> mi_freeze_authority m = None \<and> 0 < mi_total_supply_raw m \<and> \<not> mi_supply_changed m
     \<and> 0 \<le> mi_decimals m \<and> mi_decimals m \<le> 18"

definition execution_ok :: "security_engine \<Rightarrow> security_context \<Rightarrow> bool" where
  "execution_ok se c \<longleftrightarrow> cx_quote_mint c \<in> {WSOL_MINT, USDC_MINT}
     \<and> se_minimum_quote_liquidity_usd se \<le> cx_quote_liquidity_usd c
     \<and> ex_buy_route_available (cx_execution c) \<and> ex_sell_route_available (cx_execution c)
     \<and> ex_round_trip_loss_pct (cx_execution c) \<le> se_maximum_round_trip_loss_pct se
     \<and> ex_buy_price_impact_pct (cx_execution c) \<le> se_maximum_buy_price_impact_pct se
     \<and> ex_sell_price_impact_pct (cx_execution c) \<le> se_maximum_sell_price_impact_pct se
     \<and> se_minimum_external_sellers se \<le> cx_external_successful_sellers c"

definition holders_ok :: "security_engine \<Rightarrow> security_context \<Rightarrow> datetime \<Rightarrow> bool" where
  "holders_ok se c now \<longleftrightarrow> (\<exists>h t. cx_holders c = Some h \<and> cx_holders_observed_at c = Some t \<and> age now t \<le> 15
     \<and> hm_largest_holder_pct h \<le> se_maximum_largest_holder_pct se
     \<and> hm_top_5_holders_pct h \<le> se_maximum_top_5_pct se \<and> hm_top_10_holders_pct h \<le> se_maximum_top_10_pct se
     \<and> hm_dev_holding_pct h \<le> se_maximum_dev_holding_pct se
     \<and> hm_dev_cluster_holding_pct h \<le> se_maximum_dev_cluster_pct se
     \<and> hm_related_cluster_holding_pct h \<le> se_maximum_related_cluster_pct se
     \<and> hm_unknown_owner_supply_pct h \<le> se_maximum_unknown_supply_pct se)"

definition quality_ok :: "security_engine \<Rightarrow> security_context \<Rightarrow> datetime \<Rightarrow> bool" where
  "quality_ok se c now \<longleftrightarrow> \<not> cx_dev_sold c \<and> se_minimum_pool_age_seconds se \<le> cx_pool_age_seconds c
     \<and> cx_pool_age_seconds c \<le> se_maximum_pool_age_seconds se
     \<and> dneg (se_maximum_liquidity_drop_pct se) \<le> cx_liquidity_change_30s c
     \<and> age now (cx_stream_observed_at c) \<le> se_maximum_stream_age_seconds se
     \<and> age now (ex_quote_observed_at (cx_execution c)) \<le> se_maximum_quote_age_seconds se
     \<and> cx_protocol_layout_known c \<and> cx_critical_api_available c \<and> cx_previous_rugs c < 2
     \<and> \<not> cx_wash_trading_pattern c \<and> cx_return_since_pool_creation c \<le> se_maximum_return_since_creation se"

lemma no_reasons_iff:
  "mint_reasons m = [] \<longleftrightarrow> mint_ok m"
  "execution_reasons se c = [] \<longleftrightarrow> execution_ok se c"
  "holder_reasons se c now = [] \<longleftrightarrow> holders_ok se c now"
  "quality_reasons se c now = [] \<longleftrightarrow> quality_ok se c now"
proof -
  have "TOKEN_2022_PROGRAM_ID \<noteq> SPL_TOKEN_PROGRAM_ID"
    by (simp add: TOKEN_2022_PROGRAM_ID_def SPL_TOKEN_PROGRAM_ID_def)
  then show "mint_reasons m = [] \<longleftrightarrow> mint_ok m" by (auto simp: mint_reasons_def mint_ok_def)
  show "execution_reasons se c = [] \<longleftrightarrow> execution_ok se c"
    by (auto simp: execution_reasons_def execution_ok_def Let_def SUPPORTED_QUOTE_MINTS_def)
  show "holder_reasons se c now = [] \<longleftrightarrow> holders_ok se c now"
    by (auto simp: holder_reasons_def holders_ok_def split: option.split)
  show "quality_reasons se c now = [] \<longleftrightarrow> quality_ok se c now"
    by (auto simp: quality_reasons_def quality_ok_def)
qed

lemma hard_reject_iff_reasons:
  "sy_hard_reject (security_evaluate se c now) \<longleftrightarrow> sy_reject_reasons (security_evaluate se c now) \<noteq> []"
  by (simp add: security_evaluate_def Let_def)

text \<open>
  The evaluation fails closed: a token passes exactly when every check of the mint, the
  execution, the holders (which must be known and fresh) and the data quality passes. A
  rejection always names a reason, and no reason twice.
\<close>

theorem security_passes_iff:
  "(\<not> sy_hard_reject (security_evaluate se c now) \<longleftrightarrow>
      mint_ok (cx_mint c) \<and> execution_ok se c \<and> holders_ok se c now \<and> quality_ok se c now)
   \<and> (sy_hard_reject (security_evaluate se c now) \<longleftrightarrow> sy_reject_reasons (security_evaluate se c now) \<noteq> [])
   \<and> distinct (sy_reject_reasons (security_evaluate se c now))"
  by (auto simp: security_evaluate_def Let_def no_reasons_iff)

section \<open>Holder shares\<close>

definition balances_ok :: "(string, decimal) dict \<Rightarrow> bool" where
  "balances_ok d \<longleftrightarrow> dict_wf d \<and> (\<forall>(w, x) \<in> set d. 0 \<le> x \<and> dctx x = x)"

lemma balances_loop_ok:
  assumes "\<forall>a \<in> set hs. 0 \<le> hb_amount_raw a" "balances_ok d" "0 \<le> u"
  shows "balances_ok (fst (balances_loop sv ex hs d u)) \<and> 0 \<le> snd (balances_loop sv ex hs d u)"
  using assms
proof (induction hs arbitrary: d u)
  case (Cons a hs)
  have "0 \<le> opt_or (dict_get d w) 0" for w
    using Cons.prems(2) by (auto simp: balances_ok_def opt_or_def dest: map_of_SomeD split: option.split)
  then have "0 \<le> dadd (opt_or (dict_get d w) 0) (hb_amount_raw a)" for w
    using Cons.prems(1) by (intro dadd_nonneg) simp_all
  then have "balances_ok (dict_set d w (dadd (opt_or (dict_get d w) 0) (hb_amount_raw a)))" for w
    using Cons.prems(2) by (auto simp: balances_ok_def set_dict_set)
  moreover have "0 \<le> dadd u (hb_amount_raw a)" using Cons.prems by (intro dadd_nonneg) simp_all
  ultimately show ?case using Cons by (auto split: option.split)
qed simp

lemma dsum_prefix_le: "\<forall>y \<in> set ys. 0 \<le> y \<Longrightarrow> dsum xs \<le> dsum (xs @ ys)"
proof (induction ys rule: rev_induct)
  case (snoc y ys)
  then have "dsum xs \<le> dsum (xs @ ys)" by simp
  also have "\<dots> \<le> dadd (dsum (xs @ ys)) y"
    using snoc.prems dec.ge_fixed[of "dsum (xs @ ys)" "dsum (xs @ ys) + y"] by (simp add: dadd_def)
  also have "\<dots> = dsum (xs @ ys @ [y])" using dsum_snoc[of "xs @ ys" y] by simp
  finally show ?case .
qed simp

lemma dsum_take_mono:
  assumes "\<forall>y \<in> set xs. 0 \<le> y" "m \<le> n" shows "dsum (take m xs) \<le> dsum (take n xs)"
proof -
  have "take n xs = take m xs @ take (n - m) (drop m xs)" using assms(2) by (metis le_add_diff_inverse take_add)
  moreover have "\<forall>y \<in> set (take (n - m) (drop m xs)). 0 \<le> y"
    using assms(1) by (meson in_set_dropD in_set_takeD)
  ultimately show ?thesis using dsum_prefix_le by metis
qed

lemma ddiv_mono: "a \<le> b \<Longrightarrow> 0 < s \<Longrightarrow> ddiv a s \<le> ddiv b s"
  unfolding ddiv_def by (intro dec.mono divide_right_mono) simp_all

lemma balances_skip: "balances_loop sv ex (filter (\<lambda>a. \<not> skipped sv ex a) hs) d u = balances_loop sv ex hs d u"
  by (induction hs arbitrary: d u) (auto split: option.split)

text \<open>
  The holder shares are ordered, from the largest holder over the top five to the top ten,
  and not negative; accounts of programs, burn addresses and excluded owners have no effect.
\<close>

theorem holder_shares_ordered:
  assumes "\<forall>a \<in> set hs. 0 \<le> hb_amount_raw a"
    and "aggregate_holders hs supply dev dev_cluster related early system = Inr m"
  shows "0 \<le> hm_largest_holder_pct m \<and> hm_largest_holder_pct m \<le> hm_top_5_holders_pct m
    \<and> hm_top_5_holders_pct m \<le> hm_top_10_holders_pct m \<and> 0 \<le> hm_unknown_owner_supply_pct m
    \<and> aggregate_holders (filter (\<lambda>a. \<not> skipped is_program_or_burn_owner system a) hs)
        supply dev dev_cluster related early system = Inr m"
proof -
  let ?d = "fst (balances_loop is_program_or_burn_owner system hs [] 0)"
  let ?u = "snd (balances_loop is_program_or_burn_owner system hs [] 0)"
  let ?r = "rev (sort (dict_values ?d))"
  have ok: "balances_ok ?d" "0 \<le> ?u"
    using balances_loop_ok[OF assms(1), of "[]" 0 is_program_or_burn_owner system] by (simp_all add: balances_ok_def dict_wf_def)
  have sup: "0 < supply" using assms(2) by (simp add: aggregate_holders_def aggregate_with_def split: if_splits)
  have r: "\<forall>y \<in> set ?r. 0 \<le> y \<and> dctx y = y" using ok(1) by (auto simp: balances_ok_def)
  have m: "hm_largest_holder_pct m = (if ?r = [] then 0 else ddiv (hd ?r) supply)"
    "hm_top_5_holders_pct m = ddiv (dsum (take 5 ?r)) supply"
    "hm_top_10_holders_pct m = ddiv (dsum (take 10 ?r)) supply"
    "hm_unknown_owner_supply_pct m = ddiv ?u supply"
    using assms(2) sup by (auto simp: aggregate_holders_def aggregate_with_def Let_def case_prod_beta)
  have le: "dsum (take 5 ?r) \<le> dsum (take 10 ?r)" using r by (intro dsum_take_mono) auto
  have "hm_largest_holder_pct m \<le> hm_top_5_holders_pct m \<and> 0 \<le> hm_largest_holder_pct m"
  proof (cases ?r)
    case (Cons x xs)
    have x: "0 \<le> x" "dctx x = x" using r by (simp_all add: Cons)
    have "dsum (take 1 ?r) \<le> dsum (take 5 ?r)" using r by (intro dsum_take_mono) auto
    moreover have "dsum (take 1 ?r) = x" using x dsum_snoc[of "[]" x] by (simp add: Cons)
    ultimately have "ddiv x supply \<le> ddiv (dsum (take 5 ?r)) supply" using sup by (intro ddiv_mono) simp_all
    then show ?thesis using x sup m(1,2) by (simp add: Cons ddiv_nonneg)
  next
    case Nil
    then show ?thesis using m(1,2) by (simp del: rev_is_Nil_conv)
  qed
  moreover have "hm_top_5_holders_pct m \<le> hm_top_10_holders_pct m" using le sup m by (simp add: ddiv_mono)
  moreover have "0 \<le> hm_unknown_owner_supply_pct m" using ok(2) sup m by (simp add: ddiv_nonneg)
  moreover have "aggregate_holders (filter (\<lambda>a. \<not> skipped is_program_or_burn_owner system a) hs)
      supply dev dev_cluster related early system = Inr m"
    using assms(2) unfolding aggregate_holders_def aggregate_with_def balances_skip .
  ultimately show ?thesis by blast
qed

definition demo_holders :: "holder_balance list" where
  "demo_holders = [\<lparr>hb_token_account = ''t1'', hb_owner = Some ''11111111111111111111111111111111'', hb_amount_raw = 500,
     hb_is_system = False\<rparr>, \<lparr>hb_token_account = ''t2'', hb_owner = None, hb_amount_raw = 30, hb_is_system = False\<rparr>,
     \<lparr>hb_token_account = ''t3'', hb_owner = Some ''not an address'', hb_amount_raw = 70, hb_is_system = False\<rparr>]"

theorem holder_shares_ordered_witness:
  "\<exists>m. aggregate_holders demo_holders 1000 None [] [] [] [] = Inr m \<and> hm_top_5_holders_pct m \<le> hm_top_10_holders_pct m"
proof -
  have "\<not> isl (aggregate_holders demo_holders 1000 None [] [] [] [])"
    by (simp add: aggregate_holders_def aggregate_with_def Let_def case_prod_beta)
  then obtain m where m: "aggregate_holders demo_holders 1000 None [] [] [] [] = Inr m"
    by (cases "aggregate_holders demo_holders 1000 None [] [] [] []") auto
  have "\<forall>a \<in> set demo_holders. 0 \<le> hb_amount_raw a" by (simp add: demo_holders_def)
  from holder_shares_ordered[OF this m] m show ?thesis by blast
qed

end
