(* ===== verification/Candidates.thy ===== *)
theory Candidates
  imports Scoring Security_Props
begin

text \<open>
  The candidate life cycle (\<open>candidates.py\<close>): the transition table, the timed evaluation of a
  feature snapshot, score confirmations and remembered prices.
\<close>

section \<open>Definitions\<close>

datatype candidate_state =
    DISCOVERED | COLLECTING | SECURITY_CHECK | ELIGIBLE | WAITING_PULLBACK | ARMED | ENTRY_PENDING
  | POSITION_OPEN | POSITION_PARTIAL | EXIT_PENDING | RETRYING_EXIT | CLOSED | REJECTED

fun allowed_targets :: "candidate_state \<Rightarrow> candidate_state list" where
  "allowed_targets DISCOVERED = [COLLECTING, REJECTED]"
| "allowed_targets COLLECTING = [SECURITY_CHECK, REJECTED]"
| "allowed_targets SECURITY_CHECK = [ELIGIBLE, REJECTED]"
| "allowed_targets ELIGIBLE = [WAITING_PULLBACK, REJECTED]"
| "allowed_targets WAITING_PULLBACK = [ARMED, REJECTED]"
| "allowed_targets ARMED = [ENTRY_PENDING, REJECTED]"
| "allowed_targets ENTRY_PENDING = [POSITION_OPEN, REJECTED]"
| "allowed_targets POSITION_OPEN = [POSITION_PARTIAL, EXIT_PENDING]"
| "allowed_targets POSITION_PARTIAL = [EXIT_PENDING]"
| "allowed_targets EXIT_PENDING = [POSITION_PARTIAL, RETRYING_EXIT, candidate_state.CLOSED]"
| "allowed_targets RETRYING_EXIT = [EXIT_PENDING, candidate_state.CLOSED]"
| "allowed_targets candidate_state.CLOSED = []"
| "allowed_targets REJECTED = []"

record candidate =
  cd_candidate_id :: string
  cd_mint :: string
  cd_pool_address :: string
  cd_state :: candidate_state
  cd_detected_at :: datetime
  cd_updated_at :: datetime
  cd_eligible_at :: "datetime option"
  cd_armed_at :: "datetime option"
  cd_expired_at :: "datetime option"
  cd_rejected_at :: "datetime option"
  cd_reject_reason :: "reject_reason option"
  cd_strategy_version :: string
  cd_config_hash :: string
  cd_score_confirmations :: "datetime list"
  cd_entry_signal_emitted :: bool
  cd_previous_price :: "decimal option"
  cd_previous_vwap :: "decimal option"
  cd_pullback_local_high :: "decimal option"

record state_machine =
  sm_collect_seconds :: int
  sm_expiry_seconds :: int
  sm_minimum_score :: decimal
  sm_required_confirmations :: int
  sm_score_window_seconds :: int
  sm_minimum_pullback :: decimal
  sm_maximum_pullback :: decimal
  sm_maximum_liquidity_drop :: decimal
  sm_minimum_buyer_acceleration :: decimal

definition default_state_machine :: state_machine where
  "default_state_machine = \<lparr>sm_collect_seconds = 45, sm_expiry_seconds = 600, sm_minimum_score = 80,
     sm_required_confirmations = 2, sm_score_window_seconds = 5, sm_minimum_pullback = 10/100,
     sm_maximum_pullback = 25/100, sm_maximum_liquidity_drop = 3/100, sm_minimum_buyer_acceleration = 13/10\<rparr>"

definition transition ::
  "candidate \<Rightarrow> candidate_state \<Rightarrow> datetime \<Rightarrow> reject_reason option \<Rightarrow> candidate result" where
  "transition c target at_time reject_reason =
     (if target \<notin> set (allowed_targets (cd_state c)) then Inl (ValueError ''invalid candidate transition'')
      else if target = REJECTED \<and> reject_reason = None
        then Inl (ValueError ''rejected candidate requires a machine-readable reason'')
      else let c1 = c\<lparr>cd_state := target, cd_updated_at := at_time\<rparr>;
               c2 = (if target = ELIGIBLE then c1\<lparr>cd_eligible_at := Some at_time\<rparr> else c1);
               c3 = (if target = ARMED then c2\<lparr>cd_armed_at := Some at_time\<rparr> else c2);
               c4 = (if target = REJECTED then c3\<lparr>cd_rejected_at := Some at_time,
                        cd_reject_reason := reject_reason\<rparr> else c3)
           in Inr c4)"

text \<open>\<open>reject_reasons[0]\<close>\<close>

definition first_reason :: "security_result \<Rightarrow> reject_reason result" where
  "first_reason r = (case sy_reject_reasons r of [] \<Rightarrow> Inl IndexError | x # _ \<Rightarrow> Inr x)"

text \<open>\<open>xs[-n:]\<close>: all of the list when \<open>n\<close> is 0, and \<open>xs[k:]\<close> for \<open>n = - k\<close>.\<close>

definition last_slice :: "int \<Rightarrow> 'a list \<Rightarrow> 'a list" where
  "last_slice n xs = (if 0 < n then drop (length xs - nat n) xs else drop (nat (- n)) xs)"

definition record_score :: "state_machine \<Rightarrow> candidate \<Rightarrow> score_breakdown option \<Rightarrow> datetime \<Rightarrow> candidate" where
  "record_score sm c sb at_time =
     (let confirmations = cd_score_confirmations c;
          updated =
            (if (case sb of None \<Rightarrow> True | Some s \<Rightarrow> sb_total_score s < sm_minimum_score sm) then []
             else if confirmations = [] then [at_time]
             else let delta = seconds_of (at_time - last confirmations);
                      minimum_delta = max 0 (sm_score_window_seconds sm - 1);
                      maximum_delta = sm_score_window_seconds sm + 1
               in if of_int minimum_delta \<le> delta \<and> delta \<le> of_int maximum_delta
                  then last_slice (sm_required_confirmations sm) (confirmations @ [at_time])
                  else if of_int maximum_delta < delta then [at_time] else confirmations)
      in c\<lparr>cd_score_confirmations := updated, cd_updated_at := at_time\<rparr>)"

definition remember_prices :: "candidate \<Rightarrow> feature_snapshot \<Rightarrow> datetime \<Rightarrow> candidate" where
  "remember_prices c s at_time = c\<lparr>cd_previous_price := Some (fs_current_price_usd s),
     cd_previous_vwap := Some (fs_rolling_vwap_30s s), cd_updated_at := at_time\<rparr>"

definition never_expires :: "candidate_state list" where
  "never_expires = [POSITION_OPEN, POSITION_PARTIAL, EXIT_PENDING, RETRYING_EXIT, candidate_state.CLOSED]"

definition pullback_ready :: "state_machine \<Rightarrow> candidate \<Rightarrow> feature_snapshot \<Rightarrow> bool \<Rightarrow> bool" where
  "pullback_ready sm c s sell_route_available \<longleftrightarrow>
     sm_required_confirmations sm \<le> int (length (cd_score_confirmations c))
     \<and> sm_minimum_pullback sm \<le> fs_drawdown_from_local_high s
     \<and> fs_drawdown_from_local_high s \<le> sm_maximum_pullback sm
     \<and> dneg (sm_maximum_liquidity_drop sm) \<le> fs_quote_liquidity_change_30s s
     \<and> sm_minimum_buyer_acceleration sm \<le> fs_buyer_acceleration s
     \<and> sell_route_available"

definition crossed_vwap :: "candidate \<Rightarrow> feature_snapshot \<Rightarrow> bool" where
  "crossed_vwap c s = (case (cd_previous_price c, cd_previous_vwap c) of
     (Some p, Some v) \<Rightarrow> p \<le> v \<and> fs_rolling_vwap_30s s < fs_current_price_usd s
   | _ \<Rightarrow> False)"

definition broke_high :: "candidate \<Rightarrow> feature_snapshot \<Rightarrow> bool" where
  "broke_high c s = (case cd_pullback_local_high c of None \<Rightarrow> False | Some h \<Rightarrow> h < fs_current_price_usd s)"

definition candidate_evaluate ::
  "state_machine \<Rightarrow> candidate \<Rightarrow> feature_snapshot \<Rightarrow> security_result option \<Rightarrow> score_breakdown option \<Rightarrow> bool \<Rightarrow> bool
     \<Rightarrow> candidate result" where
  "candidate_evaluate sm c s security sb sell_route_available dev_sold =
     (let at_time = fs_snapshot_time s; elapsed = at_time - cd_detected_at c; st = cd_state c;
          hard = (case security of None \<Rightarrow> False | Some r \<Rightarrow> sy_hard_reject r)
      in if st \<notin> set never_expires \<and> seconds (sm_expiry_seconds sm) < elapsed
         then transition c REJECTED at_time (Some ENTRY_WINDOW_EXPIRED)
         else if hard \<and> st \<in> {ELIGIBLE, WAITING_PULLBACK, ARMED, ENTRY_PENDING}
         then rbind (first_reason (the security)) (\<lambda>r. transition c REJECTED at_time (Some r))
         else case st of
           DISCOVERED \<Rightarrow> transition c COLLECTING at_time None
         | COLLECTING \<Rightarrow>
             if of_int (sm_collect_seconds sm) \<le> seconds_of elapsed then transition c SECURITY_CHECK at_time None
             else Inr (remember_prices c s at_time)
         | SECURITY_CHECK \<Rightarrow>
             (case security of None \<Rightarrow> Inr c
              | Some r \<Rightarrow> if sy_hard_reject r
                  then rbind (first_reason r) (\<lambda>x. transition c REJECTED at_time (Some x))
                  else transition c ELIGIBLE at_time None)
         | ELIGIBLE \<Rightarrow> transition c WAITING_PULLBACK at_time None
         | WAITING_PULLBACK \<Rightarrow>
             (let c1 = record_score sm c sb at_time
              in if dev_sold then transition c1 REJECTED at_time (Some DEV_SOLD)
                 else if pullback_ready sm c1 s sell_route_available
                 then transition (c1\<lparr>cd_pullback_local_high := Some (fs_local_high s)\<rparr>) ARMED at_time None
                 else Inr (remember_prices c1 s at_time))
         | ARMED \<Rightarrow>
             if (crossed_vwap c s \<or> broke_high c s) \<and> \<not> cd_entry_signal_emitted c
             then transition (c\<lparr>cd_entry_signal_emitted := True\<rparr>) ENTRY_PENDING at_time None
             else Inr (remember_prices c s at_time)
         | _ \<Rightarrow> Inr c)"

end
