(* ===== verification/Candidates_Props.thy ===== *)
theory Candidates_Props
  imports Candidates
begin

text \<open>
  Properties of the candidate life cycle: steps follow the transition table, an entry signal is
  given at most once, final states stay, and the one case in which an evaluation raises.
\<close>

section \<open>Single steps\<close>

lemma transition_Inr:
  assumes "transition c target t r = Inr c'"
  shows "cd_state c' = target" "target \<in> set (allowed_targets (cd_state c))"
    "target = REJECTED \<Longrightarrow> cd_reject_reason c' = r \<and> r \<noteq> None \<and> cd_rejected_at c' = Some t"
    "target \<noteq> REJECTED \<Longrightarrow> cd_reject_reason c' = cd_reject_reason c"
    "cd_entry_signal_emitted c' = cd_entry_signal_emitted c" "cd_detected_at c' = cd_detected_at c"
  using assms by (auto simp: transition_def Let_def split: if_splits)

lemma transition_ok:
  assumes "target \<in> set (allowed_targets (cd_state c))" "target = REJECTED \<longrightarrow> r \<noteq> None"
  shows "\<exists>c'. transition c target t r = Inr c'"
  using assms by (auto simp: transition_def Let_def)

lemma reject_allowed: "st \<notin> set never_expires \<Longrightarrow> st \<noteq> REJECTED \<Longrightarrow> REJECTED \<in> set (allowed_targets st)"
  by (cases st) (simp_all add: never_expires_def)

text \<open>What the security engine promises to its client: a hard reject names a reason.\<close>

definition security_wf :: "security_result option \<Rightarrow> bool" where
  "security_wf s \<longleftrightarrow> (case s of None \<Rightarrow> True | Some r \<Rightarrow> sy_hard_reject r \<longrightarrow> sy_reject_reasons r \<noteq> [])"

locale security_check =
  fixes check :: "security_context \<Rightarrow> datetime \<Rightarrow> security_result"
  assumes names_reason: "sy_hard_reject (check x now) \<longleftrightarrow> sy_reject_reasons (check x now) \<noteq> []"
begin

lemma result_wf: "security_wf (Some (check x now))"
  by (simp add: security_wf_def names_reason)

lemma first_reason_ok: "sy_hard_reject (check x now) \<Longrightarrow> \<exists>r. first_reason (check x now) = Inr r"
  by (simp add: names_reason first_reason_def split: list.split)

end

interpretation engine_check: security_check "security_evaluate se"
  by unfold_locales (rule hard_reject_iff_reasons)

lemma first_reason_wf: "security_wf (Some r) \<Longrightarrow> sy_hard_reject r \<Longrightarrow> \<exists>x. first_reason r = Inr x"
  by (auto simp: security_wf_def first_reason_def split: list.split)

lemma record_score_state [simp]:
  "cd_state (record_score sm c s t) = cd_state c"
  "cd_entry_signal_emitted (record_score sm c s t) = cd_entry_signal_emitted c"
  "cd_reject_reason (record_score sm c s t) = cd_reject_reason c"
  by (simp_all add: record_score_def Let_def)

lemma remember_prices_state [simp]:
  "cd_state (remember_prices c s t) = cd_state c"
  "cd_entry_signal_emitted (remember_prices c s t) = cd_entry_signal_emitted c"
  "cd_reject_reason (remember_prices c s t) = cd_reject_reason c"
  by (simp_all add: remember_prices_def)

definition expired :: "state_machine \<Rightarrow> candidate \<Rightarrow> feature_snapshot \<Rightarrow> bool" where
  "expired sm c s \<longleftrightarrow> cd_state c \<notin> set never_expires
     \<and> seconds (sm_expiry_seconds sm) < fs_snapshot_time s - cd_detected_at c"

text \<open>
  An evaluation fails in exactly one case: a candidate that was rejected is evaluated again
  after its entry window. The check of the window tries to reject it a second time, which the
  transition table forbids. In every other case the evaluation returns a candidate.
\<close>

theorem evaluate_raises_iff:
  assumes "security_wf security"
  shows "isl (candidate_evaluate sm c s security sb route dev_sold) \<longleftrightarrow> cd_state c = REJECTED \<and> expired sm c s"
proof (cases "expired sm c s")
  case True
  then have ev: "candidate_evaluate sm c s security sb route dev_sold
      = transition c REJECTED (fs_snapshot_time s) (Some ENTRY_WINDOW_EXPIRED)"
    by (simp add: candidate_evaluate_def expired_def Let_def)
  show ?thesis
  proof (cases "cd_state c = REJECTED")
    case False
    with True have "REJECTED \<in> set (allowed_targets (cd_state c))" by (intro reject_allowed) (simp_all add: expired_def)
    then show ?thesis unfolding ev using False by (auto dest: transition_ok[of _ _ "Some ENTRY_WINDOW_EXPIRED" "fs_snapshot_time s"])
  qed (use True in \<open>simp add: ev transition_def\<close>)
next
  case False
  have "\<exists>c'. candidate_evaluate sm c s security sb route dev_sold = Inr c'"
  proof (cases "cd_state c")
    case SECURITY_CHECK
    then show ?thesis using False assms first_reason_wf transition_ok
      by (fastforce simp: candidate_evaluate_def expired_def Let_def security_wf_def first_reason_def transition_def
          split: option.split list.split)
  qed (use False assms in \<open>auto simp: candidate_evaluate_def expired_def Let_def transition_def security_wf_def
      first_reason_def split: option.split list.split\<close>)
  with False show ?thesis by auto
qed

section \<open>Runs\<close>

text \<open>
  One step of a candidate: an evaluation of a snapshot, or a transition the pipeline asks for
  (an entry that was filled or refused, an exit).
\<close>

inductive candidate_step :: "candidate \<Rightarrow> candidate \<Rightarrow> bool" where
  evaluated: "candidate_evaluate sm c s security sb route dev_sold = Inr c' \<Longrightarrow> candidate_step c c'"
| moved: "transition c target t r = Inr c' \<Longrightarrow> candidate_step c c'"

inductive_cases candidate_stepE: "candidate_step c c'"

text \<open>Where a state stands on the way to an entry; after the entry the table has cycles.\<close>

fun stage :: "candidate_state \<Rightarrow> nat" where
  "stage DISCOVERED = 0"
| "stage COLLECTING = 1"
| "stage SECURITY_CHECK = 2"
| "stage ELIGIBLE = 3"
| "stage WAITING_PULLBACK = 4"
| "stage ARMED = 5"
| "stage ENTRY_PENDING = 6"
| "stage _ = 7"

lemma allowed_stage: "st' \<in> set (allowed_targets st) \<Longrightarrow> stage st < stage st' \<or> stage st = 7 \<and> stage st' = 7"
  by (cases st) auto

lemma allowed_entry: "ENTRY_PENDING \<in> set (allowed_targets st) \<Longrightarrow> st = ARMED"
  by (cases st) auto

definition same_or_allowed :: "candidate \<Rightarrow> candidate \<Rightarrow> bool" where
  "same_or_allowed c c' \<longleftrightarrow>
     cd_state c' = cd_state c \<and> cd_reject_reason c' = cd_reject_reason c
     \<or> cd_state c' \<in> set (allowed_targets (cd_state c))
        \<and> (cd_state c' = REJECTED \<longrightarrow> cd_reject_reason c' \<noteq> None)"

lemma same_or_allowed_transition:
  "transition c1 target t r = Inr c' \<Longrightarrow> cd_state c1 = cd_state c \<Longrightarrow> same_or_allowed c c'"
  using transition_Inr[of c1 target t r c'] by (auto simp: same_or_allowed_def)

lemma step_same_or_allowed: "candidate_step c c' \<Longrightarrow> same_or_allowed c c'"
proof (induction rule: candidate_step.induct)
  case (evaluated sm c s security sb route dev_sold c')
  have stay: "same_or_allowed c (remember_prices c s t)" "same_or_allowed c c"
    "same_or_allowed c (remember_prices (record_score sm c sb t) s t)" for t
    by (simp_all add: same_or_allowed_def)
  show ?case
    using evaluated stay
    by (cases "cd_state c")
       (auto simp: candidate_evaluate_def Let_def split: if_splits option.splits
          intro: same_or_allowed_transition)
next
  case (moved c target t r c')
  then show ?case by (auto intro: same_or_allowed_transition)
qed

lemma step_stage: "candidate_step c c' \<Longrightarrow> cd_state c' = cd_state c
    \<or> stage (cd_state c) < stage (cd_state c') \<or> stage (cd_state c) = 7 \<and> stage (cd_state c') = 7"
  using step_same_or_allowed[of c c'] allowed_stage by (auto simp: same_or_allowed_def)

lemma steps_stage_mono: "candidate_step\<^sup>*\<^sup>* c c' \<Longrightarrow> stage (cd_state c) \<le> stage (cd_state c')"
  by (induction rule: rtranclp_induct) (auto dest: step_stage)

lemma final_stays:
  assumes "candidate_step\<^sup>*\<^sup>* c c'" "cd_state c \<in> {candidate_state.CLOSED, REJECTED}"
  shows "cd_state c' = cd_state c \<and> cd_reject_reason c' = cd_reject_reason c"
  using assms
proof (induction rule: rtranclp_induct)
  case (step d e)
  then have "allowed_targets (cd_state d) = []" by auto
  with step_same_or_allowed[OF step.hyps(2)] step show ?case by (simp add: same_or_allowed_def)
qed simp

text \<open>
  C33. A run of a candidate follows the transition table: closed and rejected candidates keep
  their state and reason, a step into rejection carries a reason, an entry becomes pending only
  from the armed state, and once it has been pending and was left it is never pending again.
\<close>

theorem candidate_life_cycle:
  assumes "candidate_step c1 c2" and "candidate_step\<^sup>*\<^sup>* c2 c3"
  shows "(cd_state c1 \<in> {candidate_state.CLOSED, REJECTED} \<longrightarrow>
        cd_state c3 = cd_state c1 \<and> cd_reject_reason c3 = cd_reject_reason c1)
    \<and> (cd_state c1 \<noteq> REJECTED \<and> cd_state c2 = REJECTED \<longrightarrow> cd_reject_reason c2 \<noteq> None)
    \<and> (cd_state c1 \<noteq> ENTRY_PENDING \<and> cd_state c2 = ENTRY_PENDING \<longrightarrow> cd_state c1 = ARMED)
    \<and> (cd_state c1 = ENTRY_PENDING \<and> cd_state c2 \<noteq> ENTRY_PENDING \<longrightarrow> cd_state c3 \<noteq> ENTRY_PENDING)"
proof (intro conjI impI)
  note soa = step_same_or_allowed[OF assms(1), unfolded same_or_allowed_def]
  have run: "candidate_step\<^sup>*\<^sup>* c1 c3" using assms by (rule converse_rtranclp_into_rtranclp)
  show "cd_state c3 = cd_state c1" "cd_reject_reason c3 = cd_reject_reason c1"
    if "cd_state c1 \<in> {candidate_state.CLOSED, REJECTED}"
    using final_stays[OF run that] by simp_all
  show "cd_reject_reason c2 \<noteq> None" if "cd_state c1 \<noteq> REJECTED \<and> cd_state c2 = REJECTED"
    using soa that by metis
  show "cd_state c1 = ARMED" if "cd_state c1 \<noteq> ENTRY_PENDING \<and> cd_state c2 = ENTRY_PENDING"
    using soa that allowed_entry by metis
  show "cd_state c3 \<noteq> ENTRY_PENDING" if left: "cd_state c1 = ENTRY_PENDING \<and> cd_state c2 \<noteq> ENTRY_PENDING"
  proof
    assume "cd_state c3 = ENTRY_PENDING"
    then have "stage (cd_state c2) \<le> 6" using steps_stage_mono[OF assms(2)] by simp
    moreover have "stage (cd_state c1) = 6" using left by simp
    ultimately show False using step_stage[OF assms(1)] left by (metis leD zero_neq_numeral numeral_eq_iff semiring_norm(87,89))
  qed
qed

section \<open>Witnesses\<close>

definition demo_candidate :: candidate where
  "demo_candidate = \<lparr>cd_candidate_id = ''c'', cd_mint = ''M'', cd_pool_address = ''P'', cd_state = REJECTED,
     cd_detected_at = 0, cd_updated_at = 0, cd_eligible_at = None, cd_armed_at = None, cd_expired_at = None,
     cd_rejected_at = Some 0, cd_reject_reason = Some DEV_SOLD, cd_strategy_version = [], cd_config_hash = [],
     cd_score_confirmations = [], cd_entry_signal_emitted = False, cd_previous_price = None,
     cd_previous_vwap = None, cd_pullback_local_high = None\<rparr>"

theorem evaluate_raises_iff_witness:
  "isl (candidate_evaluate default_state_machine demo_candidate (snapshot_of ''P'' 601000000 0 [] [] []) None None False False)"
proof -
  have "fs_snapshot_time (snapshot_of ''P'' 601000000 0 [] [] []) = 601000000" by (simp add: snapshot_of_def Let_def)
  then show ?thesis
    using evaluate_raises_iff[of None default_state_machine demo_candidate "snapshot_of ''P'' 601000000 0 [] [] []" None False False]
    by (simp add: security_wf_def expired_def never_expires_def demo_candidate_def default_state_machine_def
        seconds_def usec_def)
qed

theorem candidate_life_cycle_witness:
  "\<exists>c2. candidate_step (demo_candidate\<lparr>cd_state := ENTRY_PENDING\<rparr>) c2 \<and> cd_state c2 = POSITION_OPEN"
proof -
  let ?c = "demo_candidate\<lparr>cd_state := ENTRY_PENDING\<rparr>"
  obtain c2 where t: "transition ?c POSITION_OPEN 5 None = Inr c2" by (simp add: transition_def)
  then have s: "candidate_step ?c c2" by (rule candidate_step.moved)
  have st: "cd_state c2 = POSITION_OPEN" by (rule transition_Inr(1)[OF t])
  have "cd_state c2 \<noteq> ENTRY_PENDING" using candidate_life_cycle[OF s rtranclp.rtrancl_refl] st by simp
  with s st show ?thesis by blast
qed

end
