(* ===== verification/Sha256.thy ===== *)
theory Sha256
  imports Bytes
begin

text \<open>
  \<open>hashlib.sha256\<close> on bytes and \<open>hexdigest\<close>, as the standard defines them, and the text of
  integers. Identifiers of events and archive segments are digests.
\<close>

unbundle bit_operations_syntax

section \<open>Text of integers\<close>

definition nat_str :: "nat \<Rightarrow> string" where
  "nat_str n = (if n = 0 then ''0'' else map (\<lambda>d. char_of (48 + d)) (digits 10 n))"

definition int_str :: "int \<Rightarrow> string" where
  "int_str i = (if i < 0 then CHR ''-'' # nat_str (nat (- i)) else nat_str (nat i))"

text \<open>Zero padding of \<open>f"{n:020d}"\<close> for a non-negative number.\<close>

definition zfill :: "nat \<Rightarrow> string \<Rightarrow> string" where
  "zfill k s = replicate (k - length s) (CHR ''0'') @ s"

lemma zero_char: "CHR ''0'' = char_of (48 :: nat)"
  by code_simp

lemma nat_str_digits: "c \<in> set (nat_str n) \<Longrightarrow> \<exists>d<10. c = char_of (48 + d :: nat)"
proof (cases "n = 0")
  case True
  moreover assume "c \<in> set (nat_str n)"
  ultimately show ?thesis by (intro exI[of _ 0]) (simp add: nat_str_def zero_char)
next
  case False
  moreover assume "c \<in> set (nat_str n)"
  ultimately show ?thesis using digits_less[of 10 _ n] by (auto simp: nat_str_def)
qed

lemma digit_char_neq:
  assumes "d < (10 :: nat)"
  shows "char_of (48 + d) \<noteq> CHR '':''" "char_of (48 + d) \<noteq> CHR ''/''" "char_of (48 + d) \<noteq> CHR ''-''"
  using assms by (auto simp: char_of_eq_iff take_bit_eq_mod)

lemma int_str_chars: "c \<in> set (int_str i) \<Longrightarrow> c \<noteq> CHR '':'' \<and> c \<noteq> CHR ''/''"
  using nat_str_digits digit_char_neq by (fastforce simp: int_str_def split: if_splits)

lemma nat_str_inj: "nat_str m = nat_str n \<Longrightarrow> m = n"
proof -
  have dec: "undigits 10 (map (\<lambda>c. of_char c - 48) (nat_str k)) = k" for k
  proof (cases "k = 0")
    case False
    have "(48 + d) mod 256 - 48 = d" if "d \<in> set (digits 10 k)" for d
      using digits_less[OF _ that] by simp
    then have "map (\<lambda>c. of_char c - 48) (nat_str k) = digits 10 k"
      using False by (auto simp: nat_str_def comp_def intro!: map_idI)
    then show ?thesis by (simp add: undigits_digits)
  qed (simp add: nat_str_def undigits_def)
  assume "nat_str m = nat_str n"
  then show "m = n" by (metis dec)
qed

lemma nat_str_no_minus: "nat_str n \<noteq> CHR ''-'' # s"
proof
  assume "nat_str n = CHR ''-'' # s"
  then have "CHR ''-'' \<in> set (nat_str n)" by simp
  then show False using nat_str_digits digit_char_neq(3) by metis
qed

lemma int_str_inj: "int_str i = int_str j \<Longrightarrow> i = j"
  using nat_str_no_minus[of "nat i"] nat_str_no_minus[of "nat j"] nat_str_no_minus[of "nat i", symmetric]
    nat_str_inj[of "nat i" "nat j"] nat_str_inj[of "nat (- i)" "nat (- j)"]
  by (auto simp: int_str_def split: if_splits dest: sym)

section \<open>The hash function\<close>

definition round_constants :: "32 word list" where
  "round_constants = [
    0x428a2f98, 0x71374491, 0xb5c0fbcf, 0xe9b5dba5, 0x3956c25b, 0x59f111f1, 0x923f82a4, 0xab1c5ed5,
    0xd807aa98, 0x12835b01, 0x243185be, 0x550c7dc3, 0x72be5d74, 0x80deb1fe, 0x9bdc06a7, 0xc19bf174,
    0xe49b69c1, 0xefbe4786, 0x0fc19dc6, 0x240ca1cc, 0x2de92c6f, 0x4a7484aa, 0x5cb0a9dc, 0x76f988da,
    0x983e5152, 0xa831c66d, 0xb00327c8, 0xbf597fc7, 0xc6e00bf3, 0xd5a79147, 0x06ca6351, 0x14292967,
    0x27b70a85, 0x2e1b2138, 0x4d2c6dfc, 0x53380d13, 0x650a7354, 0x766a0abb, 0x81c2c92e, 0x92722c85,
    0xa2bfe8a1, 0xa81a664b, 0xc24b8b70, 0xc76c51a3, 0xd192e819, 0xd6990624, 0xf40e3585, 0x106aa070,
    0x19a4c116, 0x1e376c08, 0x2748774c, 0x34b0bcb5, 0x391c0cb3, 0x4ed8aa4a, 0x5b9cca4f, 0x682e6ff3,
    0x748f82ee, 0x78a5636f, 0x84c87814, 0x8cc70208, 0x90befffa, 0xa4506ceb, 0xbef9a3f7, 0xc67178f2]"

definition initial_hash :: "32 word list" where
  "initial_hash = [0x6a09e667, 0xbb67ae85, 0x3c6ef372, 0xa54ff53a, 0x510e527f, 0x9b05688c, 0x1f83d9ab, 0x5be0cd19]"

definition rotr :: "nat \<Rightarrow> 32 word \<Rightarrow> 32 word" where
  "rotr k w = word_rotr k w"

definition pad_message :: "bytes \<Rightarrow> bytes" where
  "pad_message bs = bs @ [0x80] @ replicate ((119 - length bs mod 64) mod 64) 0 @ to_bytes_big 8 (8 * length bs)"

definition be_word :: "bytes \<Rightarrow> 32 word" where
  "be_word bs = word_of_nat (from_bytes_big bs)"

fun chunks :: "nat \<Rightarrow> 'a list \<Rightarrow> 'a list list" where
  "chunks k [] = []"
| "chunks k (x # xs) = (if k = 0 then [] else take k (x # xs) # chunks k (drop k (x # xs)))"

text \<open>The message schedule, extended one word at a time.\<close>

fun schedule :: "nat \<Rightarrow> 32 word list \<Rightarrow> 32 word list" where
  "schedule 0 ws = ws"
| "schedule (Suc n) ws =
     (let t = length ws;
          a = ws ! (t - 15); b = ws ! (t - 2);
          s0 = xor (xor (rotr 7 a) (rotr 18 a)) (drop_bit 3 a);
          s1 = xor (xor (rotr 17 b) (rotr 19 b)) (drop_bit 10 b)
      in schedule n (ws @ [ws ! (t - 16) + s0 + ws ! (t - 7) + s1]))"

definition compress_round :: "32 word list \<Rightarrow> 32 word \<times> 32 word \<Rightarrow> 32 word list" where
  "compress_round st kw = (case st of [a, b, c, d, e, f, g, h] \<Rightarrow>
     (let s1 = xor (xor (rotr 6 e) (rotr 11 e)) (rotr 25 e);
          ch = xor (and e f) (and (not e) g);
          t1 = h + s1 + ch + fst kw + snd kw;
          s0 = xor (xor (rotr 2 a) (rotr 13 a)) (rotr 22 a);
          maj = xor (xor (and a b) (and a c)) (and b c)
      in [t1 + (s0 + maj), a, b, c, d + t1, e, f, g])
   | _ \<Rightarrow> st)"

definition compress_block :: "32 word list \<Rightarrow> bytes \<Rightarrow> 32 word list" where
  "compress_block hs block =
     map2 (+) hs (foldl compress_round hs (zip round_constants (schedule 48 (map be_word (chunks 4 block)))))"

definition sha256 :: "bytes \<Rightarrow> bytes" where
  "sha256 bs = concat (map (\<lambda>w. to_bytes_big 4 (unat w))
     (foldl compress_block initial_hash (chunks 64 (pad_message bs))))"

definition hex_digit :: "nat \<Rightarrow> char" where
  "hex_digit n = (if n < 10 then char_of (48 + n) else char_of (87 + n))"

definition hexdigest :: "bytes \<Rightarrow> string" where
  "hexdigest bs = concat (map (\<lambda>b. [hex_digit (unat b div 16), hex_digit (unat b mod 16)]) bs)"

text \<open>\<open>str.encode\<close> for the ASCII text the program hashes.\<close>

definition encode_ascii :: "string \<Rightarrow> bytes" where
  "encode_ascii s = map (\<lambda>c. word_of_nat (of_char c)) s"

definition sha256_hex :: "string \<Rightarrow> string" where
  "sha256_hex s = hexdigest (sha256 (encode_ascii s))"

end
