(* ===== verification/Events.thy ===== *)
theory Events
  imports Py_Time Ledger Sha256 "HOL-Library.Multiset"
begin

text \<open>
  Chain events (\<open>events.py\<close>): the event envelope with its canonical id, the bounded
  deduplicator, and the raw-event archive. JSON and zstd belong to other packages: the encoder
  from events to a segment's bytes and the decoder back are arguments. The file system below
  the archive's root is a map from paths (lists of components) to contents.
\<close>

section \<open>Payload values\<close>

text \<open>
  The values of a payload dictionary. \<open>PText\<close> is a string, \<open>POther\<close> a list or dictionary with
  the text \<open>str\<close> gives for it.
\<close>

datatype payload_value = PNone | PBool bool | PInt int | PText string | POther string

type_synonym payload = "(string, payload_value) dict"

definition payload_get :: "payload \<Rightarrow> string \<Rightarrow> payload_value" where
  "payload_get p k = opt_or (dict_get p k) PNone"

fun py_str :: "payload_value \<Rightarrow> string" where
  "py_str PNone = ''None''"
| "py_str (PBool b) = (if b then ''True'' else ''False'')"
| "py_str (PInt i) = int_str i"
| "py_str (PText s) = s"
| "py_str (POther s) = s"

text \<open>The truth value of a payload value; the empty list and dictionary print as two characters.\<close>

fun py_truth :: "payload_value \<Rightarrow> bool" where
  "py_truth PNone = False"
| "py_truth (PBool b) = b"
| "py_truth (PInt i) = (i \<noteq> 0)"
| "py_truth (PText s) = (s \<noteq> [])"
| "py_truth (POther s) = (s \<noteq> ''[]'' \<and> s \<noteq> ''{}'')"

text \<open>\<open>a or b\<close>\<close>

definition py_or :: "payload_value \<Rightarrow> payload_value \<Rightarrow> payload_value" where
  "py_or a b = (if py_truth a then a else b)"

definition is_space :: "char \<Rightarrow> bool" where
  "is_space c \<longleftrightarrow> of_char c \<in> {9, 10, 11, 12, 13, 28, 29, 30, 31, 32 :: nat}"

definition py_strip :: "string \<Rightarrow> string" where
  "py_strip s = rev (dropWhile is_space (rev (dropWhile is_space s)))"

definition text_of :: "payload_value \<Rightarrow> string option" where
  "text_of v = (if v = PNone then None
     else let r = py_strip (py_str v) in if r = [] then None else Some r)"

text \<open>\<open>Decimal(s)\<close> for a numeral: sign, digits, fraction, exponent. \<open>None\<close>: not a numeral.\<close>

definition is_digit :: "char \<Rightarrow> bool" where
  "is_digit c \<longleftrightarrow> 48 \<le> (of_char c :: nat) \<and> of_char c < (58 :: nat)"

definition digit_val :: "char \<Rightarrow> nat" where
  "digit_val c = of_char c - 48"

definition split_sign :: "string \<Rightarrow> bool \<times> string" where
  "split_sign s = (case s of c # r \<Rightarrow> if c = CHR ''-'' then (True, r) else if c = CHR ''+'' then (False, r) else (False, s)
     | [] \<Rightarrow> (False, []))"

definition parse_exponent :: "string \<Rightarrow> int option" where
  "parse_exponent s = (case s of [] \<Rightarrow> Some 0
     | c # r \<Rightarrow> if c = CHR ''e'' \<or> c = CHR ''E'' then
         (case split_sign r of (neg, ds) \<Rightarrow>
            if ds \<noteq> [] \<and> list_all is_digit ds
            then Some ((if neg then -1 else 1) * int (undigits 10 (map digit_val ds))) else None)
       else None)"

definition parse_decimal :: "string \<Rightarrow> decimal option" where
  "parse_decimal s0 =
     (case split_sign (filter (\<lambda>c. c \<noteq> CHR ''_'') (py_strip s0)) of (neg, r) \<Rightarrow>
      let whole = takeWhile is_digit r; r1 = dropWhile is_digit r;
          (frac, r2) = (case r1 of c # t \<Rightarrow> if c = CHR ''.'' then (takeWhile is_digit t, dropWhile is_digit t) else ([], r1)
                        | [] \<Rightarrow> ([], []))
      in if whole @ frac = [] then None
         else map_option (\<lambda>e. (if neg then -1 else 1) * of_nat (undigits 10 (map digit_val (whole @ frac)))
                * 10 powi (e - int (length frac))) (parse_exponent r2))"

section \<open>The envelope\<close>

datatype event_source = HELIUS_WSS | SOLANA_WSS | BASELINE_WSS | RPC_RECOVERY | REPLAY

datatype protocol = PUMP | PUMPSWAP

fun protocol_value :: "protocol \<Rightarrow> string" where
  "protocol_value PUMP = ''pump''"
| "protocol_value PUMPSWAP = ''pumpswap''"

datatype chain_event_type =
    TOKEN_CREATED | SWAP_BUY | SWAP_SELL | BONDING_CURVE_COMPLETED | MIGRATION | POOL_CREATED
  | LIQUIDITY_ADDED | LIQUIDITY_REMOVED | POOL_STATE_CHANGED | UNKNOWN

fun event_type_value :: "chain_event_type \<Rightarrow> string" where
  "event_type_value TOKEN_CREATED = ''token_created''"
| "event_type_value SWAP_BUY = ''swap_buy''"
| "event_type_value SWAP_SELL = ''swap_sell''"
| "event_type_value BONDING_CURVE_COMPLETED = ''bonding_curve_completed''"
| "event_type_value MIGRATION = ''migration''"
| "event_type_value POOL_CREATED = ''pool_created''"
| "event_type_value LIQUIDITY_ADDED = ''liquidity_added''"
| "event_type_value LIQUIDITY_REMOVED = ''liquidity_removed''"
| "event_type_value POOL_STATE_CHANGED = ''pool_state_changed''"
| "event_type_value UNKNOWN = ''unknown''"

record event_envelope =
  ev_event_id :: string
  ev_ingest_sequence :: "nat option"
  ev_source :: event_source
  ev_network :: string
  ev_protocol :: protocol
  ev_event_type :: chain_event_type
  ev_slot :: int
  ev_signature :: string
  ev_instruction_index :: int
  ev_inner_instruction_index :: int
  ev_block_time :: datetime
  ev_observed_at :: datetime
  ev_commitment :: string
  ev_mint :: "string option"
  ev_pool_address :: "string option"
  ev_payload :: payload

definition canonical_key :: "string \<Rightarrow> int \<Rightarrow> int \<Rightarrow> chain_event_type \<Rightarrow> string" where
  "canonical_key signature instruction_index inner_instruction_index event_type =
     signature @ '':'' @ int_str instruction_index @ '':'' @ int_str inner_instruction_index
       @ '':'' @ event_type_value event_type"

definition make_event_id :: "string \<Rightarrow> int \<Rightarrow> int \<Rightarrow> chain_event_type \<Rightarrow> string" where
  "make_event_id signature instruction_index inner_instruction_index event_type =
     sha256_hex (canonical_key signature instruction_index inner_instruction_index event_type)"

text \<open>The field constraints and \<open>populate_and_validate_event_id\<close>: validation of a new envelope.\<close>

definition validate_envelope :: "event_envelope \<Rightarrow> event_envelope result" where
  "validate_envelope e =
     (let expected = make_event_id (ev_signature e) (ev_instruction_index e)
            (ev_inner_instruction_index e) (ev_event_type e)
      in if ev_ingest_sequence e = Some 0 \<or> ev_slot e < 0 \<or> ev_signature e = []
           \<or> ev_instruction_index e < 0 \<or> ev_inner_instruction_index e < - 1
         then Inl (ValueError ''validation error'')
         else if ev_event_id e \<noteq> [] \<and> ev_event_id e \<noteq> expected
         then Inl (ValueError ''event_id does not match canonical deduplication key'')
         else Inr (e\<lparr>ev_event_id := expected\<rparr>))"

section \<open>The deduplicator\<close>

record deduplicator =
  dd_capacity :: nat
  dd_seen :: "string list"
  dd_duplicates_total :: nat

definition deduplicator_init :: "int \<Rightarrow> deduplicator result" where
  "deduplicator_init capacity =
     (if capacity \<le> 0 then Inl (ValueError ''dedupe capacity must be positive'')
      else Inr \<lparr>dd_capacity = nat capacity, dd_seen = [], dd_duplicates_total = 0\<rparr>)"

text \<open>The keys of the ordered dictionary, oldest first.\<close>

definition dedup_accept :: "string \<Rightarrow> deduplicator \<Rightarrow> deduplicator \<times> bool" where
  "dedup_accept event_id d =
     (if event_id \<in> set (dd_seen d) then
        (d\<lparr>dd_seen := remove1 event_id (dd_seen d) @ [event_id],
           dd_duplicates_total := dd_duplicates_total d + 1\<rparr>, False)
      else let seen = dd_seen d @ [event_id] in
        (d\<lparr>dd_seen := (if dd_capacity d < length seen then tl seen else seen)\<rparr>, True))"

definition dedup_forget :: "string \<Rightarrow> deduplicator \<Rightarrow> deduplicator" where
  "dedup_forget event_id d = d\<lparr>dd_seen := remove1 event_id (dd_seen d)\<rparr>"

section \<open>The archive\<close>

type_synonym path = "string list"
type_synonym files = "path \<rightharpoonup> bytes"

record raw_archive_segment =
  seg_path :: path
  seg_start_sequence :: nat
  seg_end_sequence :: nat
  seg_event_count :: nat
  seg_checksum_sha256 :: string
  seg_protocol :: protocol

text \<open>\<open>strftime("%Y-%m-%d")\<close> and \<open>strftime("%H")\<close> of a UTC time.\<close>

definition utc_day :: "datetime \<Rightarrow> string" where
  "utc_day t = date_key utc t"

definition utc_hour :: "datetime \<Rightarrow> string" where
  "utc_hour t = pad_digits 2 ((t mod day_usec) div (3600 * usec))"

definition segment_name :: "nat \<Rightarrow> nat \<Rightarrow> string" where
  "segment_name a b = zfill 20 (nat_str a) @ ''-'' @ zfill 20 (nat_str b) @ ''.ndjson.zst''"

definition path_for :: "event_envelope \<Rightarrow> path" where
  "path_for e = (let day = utc_day (ev_block_time e); hour = utc_hour (ev_block_time e) in
     case ev_ingest_sequence e of
       Some n \<Rightarrow> [day, hour, protocol_value (ev_protocol e), segment_name n n]
     | None \<Rightarrow> [day, protocol_value (ev_protocol e) @ ''-events-'' @ hour @ ''.ndjson.zst''])"

type_synonym group_key = "string \<times> string \<times> protocol"

definition group_key_of :: "event_envelope \<Rightarrow> group_key" where
  "group_key_of e = (utc_day (ev_block_time e), utc_hour (ev_block_time e), ev_protocol e)"

definition group_events :: "event_envelope list \<Rightarrow> (group_key, event_envelope list) dict" where
  "group_events es = foldl (\<lambda>d e. dict_set d (group_key_of e)
     (opt_or (dict_get d (group_key_of e)) [] @ [e])) [] es"

text \<open>\<open>int(event.ingest_sequence or 0)\<close>\<close>

definition sequence_of :: "event_envelope \<Rightarrow> nat" where
  "sequence_of e = opt_or (ev_ingest_sequence e) 0"

text \<open>The order and the target of one group.\<close>

definition plan_segment :: "group_key \<Rightarrow> event_envelope list \<Rightarrow> (event_envelope list \<times> nat \<times> nat \<times> path) result" where
  "plan_segment key events = (case key of (day, hour, proto) \<Rightarrow>
     if list_all (\<lambda>e. ev_ingest_sequence e \<noteq> None) events then
       (let ordered = sort_key sequence_of events;
            start_sequence = sequence_of (hd ordered);
            end_sequence = sequence_of (last ordered)
        in Inr (ordered, start_sequence, end_sequence,
                [day, hour, protocol_value proto, segment_name start_sequence end_sequence]))
     else if list_ex (\<lambda>e. ev_ingest_sequence e \<noteq> None) events
       then Inl (ValueError ''raw archive batch cannot mix sequenced and legacy events'')
     else (let identity = take 16 (sha256_hex (concat (map ev_event_id events)))
       in Inr (events, 0, 0,
               [day, protocol_value proto @ ''-events-'' @ hour @ ''-legacy-'' @ identity @ ''.ndjson.zst''])))"

text \<open>
  \<open>_write_atomic_segment\<close>: the temporary file and \<open>os.replace\<close> make the new content appear at
  once, so the effect on the map is one update.
\<close>

definition write_atomic_segment :: "path \<Rightarrow> bytes \<Rightarrow> string \<Rightarrow> files \<Rightarrow> files result" where
  "write_atomic_segment p content checksum fs =
     (case fs p of
        Some existing \<Rightarrow> if hexdigest (sha256 existing) \<noteq> checksum
          then Inl (RuntimeError ''raw archive segment identity collision'') else Inr fs
      | None \<Rightarrow> Inr (fs(p \<mapsto> content)))"

text \<open>
  The loop over the groups. \<open>encode\<close> is the JSON serialization followed by the compressor. The
  files written before a raise stay.
\<close>

fun write_groups :: "(event_envelope list \<Rightarrow> bytes) \<Rightarrow> (group_key \<times> event_envelope list) list \<Rightarrow> files
    \<Rightarrow> files \<times> raw_archive_segment list result" where
  "write_groups encode [] fs = (fs, Inr [])"
| "write_groups encode ((key, events) # groups) fs =
     (case plan_segment key events of
        Inl e \<Rightarrow> (fs, Inl e)
      | Inr (ordered, start_sequence, end_sequence, target) \<Rightarrow>
          (let content = encode ordered; checksum = hexdigest (sha256 content) in
           case write_atomic_segment target content checksum fs of
             Inl e \<Rightarrow> (fs, Inl e)
           | Inr fs' \<Rightarrow>
               (case write_groups encode groups fs' of (fs'', r) \<Rightarrow>
                  (fs'', map_sum id (\<lambda>segs. \<lparr>seg_path = target, seg_start_sequence = start_sequence,
                     seg_end_sequence = end_sequence, seg_event_count = length ordered,
                     seg_checksum_sha256 = checksum, seg_protocol = snd (snd key)\<rparr> # segs) r))))"

definition write_segments :: "(event_envelope list \<Rightarrow> bytes) \<Rightarrow> event_envelope list \<Rightarrow> files
    \<Rightarrow> files \<times> raw_archive_segment list result" where
  "write_segments encode events fs = write_groups encode (group_events events) fs"

definition record_many :: "(event_envelope list \<Rightarrow> bytes) \<Rightarrow> event_envelope list \<Rightarrow> files \<Rightarrow> files \<times> path list result" where
  "record_many encode events fs = map_prod id (map_sum id (map seg_path)) (write_segments encode events fs)"

text \<open>Reading a segment written by the recorder, with the decoder that inverts \<open>encode\<close>.\<close>

definition read_segment :: "(bytes \<Rightarrow> event_envelope list) \<Rightarrow> files \<Rightarrow> path \<Rightarrow> event_envelope list" where
  "read_segment decode fs p = (case fs p of None \<Rightarrow> [] | Some content \<Rightarrow> decode content)"

end
