(* ===== verification/Events_Props.thy ===== *)
theory Events_Props
  imports Events
begin

text \<open>
  Properties of events: canonical keys identify events, the deduplicator is a most-recent-ids
  cache, and a written archive batch reads back completely.
\<close>

section \<open>Canonical keys\<close>

lemma split_at_colon:
  assumes "a @ CHR '':'' # b = a' @ CHR '':'' # b'" "CHR '':'' \<notin> set b" "CHR '':'' \<notin> set b'"
  shows "a = a' \<and> b = b'"
proof -
  have "rev b @ CHR '':'' # rev a = rev b' @ CHR '':'' # rev a'"
    using arg_cong[OF assms(1), of rev] by simp
  moreover have "takeWhile (\<lambda>c. c \<noteq> CHR '':'') (rev x @ CHR '':'' # y) = rev x" if "CHR '':'' \<notin> set x" for x y
    using that by (subst takeWhile_append2) auto
  ultimately have "rev b = rev b'" using assms(2,3) by metis
  with assms(1) show ?thesis by simp
qed

lemma event_type_value_chars: "CHR '':'' \<notin> set (event_type_value t)"
  by (cases t) simp_all

lemma event_type_value_inj: "event_type_value t = event_type_value t' \<Longrightarrow> t = t'"
  by (cases t; cases t') simp_all

lemma canonical_key_inj:
  assumes "canonical_key s i j t = canonical_key s' i' j' t'"
  shows "s = s' \<and> i = i' \<and> j = j' \<and> t = t'"
proof -
  note colon = event_type_value_chars int_str_chars
  have "(s @ '':'' @ int_str i @ '':'' @ int_str j) @ CHR '':'' # event_type_value t
      = (s' @ '':'' @ int_str i' @ '':'' @ int_str j') @ CHR '':'' # event_type_value t'"
    using assms by (simp add: canonical_key_def)
  then have t: "event_type_value t = event_type_value t'"
    and r: "s @ '':'' @ int_str i @ '':'' @ int_str j = s' @ '':'' @ int_str i' @ '':'' @ int_str j'"
    using split_at_colon colon(1) by blast+
  from r have "(s @ '':'' @ int_str i) @ CHR '':'' # int_str j = (s' @ '':'' @ int_str i') @ CHR '':'' # int_str j'"
    by simp
  then have j: "int_str j = int_str j'" and r: "s @ '':'' @ int_str i = s' @ '':'' @ int_str i'"
    using split_at_colon colon(2) by blast+
  from r have "s @ CHR '':'' # int_str i = s' @ CHR '':'' # int_str i'" by simp
  then have "s = s'" "int_str i = int_str i'" using split_at_colon colon(2) by blast+
  with t j show ?thesis using event_type_value_inj int_str_inj by blast
qed

abbreviation canonical_of :: "event_envelope \<Rightarrow> string" where
  "canonical_of e \<equiv> canonical_key (ev_signature e) (ev_instruction_index e) (ev_inner_instruction_index e) (ev_event_type e)"

lemma validate_envelope_id: "validate_envelope e = Inr v \<Longrightarrow> ev_event_id v = sha256_hex (canonical_of e)"
  unfolding validate_envelope_def make_event_id_def Let_def by (auto split: if_splits)

text \<open>
  The canonical id identifies the event: two envelopes that validate to the same id have
  the same signature, instruction indexes and type, unless their two canonical texts are a
  collision of SHA-256.
\<close>

theorem event_id_identifies:
  assumes "validate_envelope e = Inr v" and "validate_envelope e' = Inr v'" and "ev_event_id v = ev_event_id v'"
    and "inj_on sha256_hex {canonical_of e, canonical_of e'}"
  shows "ev_signature e = ev_signature e' \<and> ev_instruction_index e = ev_instruction_index e'
    \<and> ev_inner_instruction_index e = ev_inner_instruction_index e' \<and> ev_event_type e = ev_event_type e'"
proof (rule canonical_key_inj, rule inj_onD[OF assms(4)])
  show "sha256_hex (canonical_of e) = sha256_hex (canonical_of e')"
    using validate_envelope_id[OF assms(1)] validate_envelope_id[OF assms(2)] assms(3) by simp
qed simp_all

section \<open>The deduplicator keeps the most recent ids\<close>

text \<open>
  Specification: the ids of the history, each at its last occurrence, most recent first, and of
  these the first \<open>capacity\<close> many.
\<close>

definition recency :: "string list \<Rightarrow> string list" where
  "recency history = rev (remdups history)"

definition dedup_run :: "deduplicator \<Rightarrow> string list \<Rightarrow> deduplicator" where
  "dedup_run d ids = foldl (\<lambda>d i. fst (dedup_accept i d)) d ids"

lemma remdups_snoc: "remdups (xs @ [x]) = remove1 x (remdups xs) @ [x]"
  by (induction xs) (auto simp: remove1_idem)

lemma remove1_rev: "distinct l \<Longrightarrow> remove1 x (rev l) = rev (remove1 x l)"
  by (induction l) (auto simp: remove1_append remove1_idem)

lemma recency_snoc: "recency (h @ [x]) = x # remove1 x (recency h)"
  by (simp add: recency_def remdups_snoc remove1_rev)

lemma take_remove1_in: "x \<in> set (take n l) \<Longrightarrow> take (n - 1) (remove1 x l) = remove1 x (take n l)"
proof (induction l arbitrary: n)
  case (Cons a l)
  then obtain m where m: "n = Suc m" by (cases n) auto
  show ?case
  proof (cases "x = a")
    case False
    with Cons.prems m have "x \<in> set (take m l)" by simp
    moreover from this obtain k where "m = Suc k" by (cases m) auto
    ultimately show ?thesis using Cons.IH[of m] m False by simp
  qed (simp add: m)
qed simp

lemma take_remove1_out: "x \<notin> set (take n l) \<Longrightarrow> take (n - 1) (remove1 x l) = take (n - 1) l"
proof (induction l arbitrary: n)
  case (Cons a l)
  show ?case
  proof (cases n)
    case (Suc m)
    with Cons.prems have x: "x \<noteq> a" "x \<notin> set (take m l)" by auto
    show ?thesis
    proof (cases m)
      case (Suc k)
      with Cons.IH[OF x(2)] x(1) \<open>n = Suc m\<close> show ?thesis by simp
    qed (simp add: Suc)
  qed simp
qed simp

lemma dedup_step_spec:
  assumes "dd_seen d = rev (take n (recency h))" "dd_capacity d = n" "0 < n"
  shows "dd_seen (fst (dedup_accept x d)) = rev (take n (recency (h @ [x])))"
    "snd (dedup_accept x d) \<longleftrightarrow> x \<notin> set (take n (recency h))"
proof -
  let ?l = "take n (recency h)"
  have dist: "distinct ?l" by (simp add: recency_def distinct_take)
  have t: "take n (recency (h @ [x])) = x # take (n - 1) (remove1 x (recency h))"
    using assms(3) by (cases n) (simp_all add: recency_snoc)
  show "dd_seen (fst (dedup_accept x d)) = rev (take n (recency (h @ [x])))"
  proof (cases "x \<in> set ?l")
    case True
    then show ?thesis using take_remove1_in[OF True] by (simp add: dedup_accept_def assms(1) t remove1_rev[OF dist])
  next
    case False
    have "rev (take (n - 1) (recency h)) = (if n < length ?l + 1 then tl (rev ?l) else rev ?l)"
    proof (cases "n < length ?l + 1")
      case True
      then have "length ?l = n" by simp
      then have "take (n - 1) (recency h) = butlast ?l"
        by (simp add: butlast_take)
      moreover have "rev (butlast ?l) = tl (rev ?l)" by (metis butlast_rev rev_rev_ident)
      ultimately show ?thesis using True by simp
    next
      case short: False
      then have "length (recency h) \<le> n - 1" by auto
      then show ?thesis using short by simp
    qed
    moreover have "dd_seen (fst (dedup_accept x d))
        = (if n < length ?l + 1 then tl (rev ?l @ [x]) else rev ?l @ [x])"
      using False by (simp add: dedup_accept_def assms(1,2) Let_def)
    moreover have "tl (rev ?l @ [x]) = tl (rev ?l) @ [x]" if "n < length ?l + 1"
      using that assms(3) by (intro tl_append2) auto
    moreover have "rev (take n (recency (h @ [x]))) = rev (take (n - 1) (recency h)) @ [x]"
      by (simp only: t take_remove1_out[OF False] rev.simps)
    ultimately show ?thesis by presburger
  qed
  show "snd (dedup_accept x d) \<longleftrightarrow> x \<notin> set (take n (recency h))"
    by (simp add: dedup_accept_def assms(1) Let_def)
qed

lemma dedup_run_capacity [simp]: "dd_capacity (dedup_run d ids) = dd_capacity d"
proof (induction ids rule: rev_induct)
  case (snoc i ids)
  then show ?case by (simp add: dedup_run_def dedup_accept_def Let_def)
qed (simp add: dedup_run_def)

lemma dedup_run_spec:
  assumes "deduplicator_init capacity = Inr d"
  shows "dd_seen (dedup_run d ids) = rev (take (nat capacity) (recency ids))"
proof (induction ids rule: rev_induct)
  case Nil
  with assms show ?case by (auto simp: deduplicator_init_def dedup_run_def recency_def split: if_splits)
next
  case (snoc i ids)
  have c: "dd_capacity (dedup_run d ids) = nat capacity" "0 < nat capacity"
    using assms by (auto simp: deduplicator_init_def split: if_splits)
  show ?case using dedup_step_spec(1)[OF snoc c] by (simp add: dedup_run_def)
qed

text \<open>
  C30. The deduplicator is a most-recently-used cache of the configured capacity: after any
  history it rejects an id exactly when the id is among the last \<open>capacity\<close> different ones, and
  it never holds more. A forgotten id is accepted again.
\<close>

theorem dedup_accepts_iff_not_recent:
  assumes "deduplicator_init capacity = Inr d"
  shows "(snd (dedup_accept x (dedup_run d ids)) \<longleftrightarrow> x \<notin> set (take (nat capacity) (recency ids)))
    \<and> length (dd_seen (dedup_run d ids)) \<le> nat capacity
    \<and> snd (dedup_accept x (dedup_forget x (dedup_run d ids)))"
proof (intro conjI)
  have c: "dd_capacity (dedup_run d ids) = nat capacity" "0 < nat capacity"
    using assms by (auto simp: deduplicator_init_def split: if_splits)
  note s = dedup_run_spec[OF assms, of ids]
  show "snd (dedup_accept x (dedup_run d ids)) \<longleftrightarrow> x \<notin> set (take (nat capacity) (recency ids))"
    by (rule dedup_step_spec(2)[OF s c])
  show "length (dd_seen (dedup_run d ids)) \<le> nat capacity" by (simp add: s)
  have "distinct (dd_seen (dedup_run d ids))" by (simp add: s recency_def)
  then show "snd (dedup_accept x (dedup_forget x (dedup_run d ids)))"
    by (simp add: dedup_accept_def dedup_forget_def Let_def)
qed

section \<open>The archive\<close>

definition sequenced :: "event_envelope list \<Rightarrow> bool" where
  "sequenced es \<longleftrightarrow> (\<forall>e \<in> set es. ev_ingest_sequence e \<noteq> None)"

definition target_of :: "group_key \<times> event_envelope list \<Rightarrow> path" where
  "target_of g = (case g of ((day, hour, proto), es) \<Rightarrow>
     [day, hour, protocol_value proto, segment_name (sequence_of (hd (sort_key sequence_of es)))
        (sequence_of (last (sort_key sequence_of es)))])"

lemma protocol_value_inj: "protocol_value a = protocol_value b \<Longrightarrow> a = b"
  by (cases a; cases b) simp_all

lemma target_of_key: "target_of g = target_of g' \<Longrightarrow> fst g = fst g'"
  by (auto simp: target_of_def protocol_value_inj split: prod.splits)

lemma write_groups_spec:
  assumes "\<forall>(k, es) \<in> set gs. sequenced es" "distinct (map fst gs)" "\<forall>g \<in> set gs. fs (target_of g) = None"
    and "write_groups encode gs fs = (fs', Inr segs)"
  shows "map seg_path segs = map target_of gs
    \<and> (\<forall>p. p \<notin> target_of ` set gs \<longrightarrow> fs' p = fs p)
    \<and> (\<forall>g \<in> set gs. fs' (target_of g) = Some (encode (sort_key sequence_of (snd g))))"
  using assms
proof (induction gs arbitrary: fs segs)
  case (Cons g gs)
  obtain day hour proto es where g: "g = ((day, hour, proto), es)" by (cases g) auto
  let ?c = "encode (sort_key sequence_of es)"
  let ?fs = "fs(target_of g \<mapsto> ?c)"
  have seq: "list_all (\<lambda>e. ev_ingest_sequence e \<noteq> None) es"
    using Cons.prems(1) by (simp add: g sequenced_def list_all_iff)
  have none: "fs (target_of g) = None" using Cons.prems(3) by simp
  have other: "target_of g \<noteq> target_of g'" if "g' \<in> set gs" for g'
    using target_of_key[of g g'] Cons.prems(2) that by auto
  obtain fs2 r where r: "write_groups encode gs ?fs = (fs2, r)" by force
  have t: "fs [day, hour, protocol_value proto, segment_name (sequence_of (hd (sort_key sequence_of es)))
      (sequence_of (last (sort_key sequence_of es)))] = None" using none by (simp add: g target_of_def)
  have "write_groups encode (g # gs) fs = (fs2, map_sum id (\<lambda>ss. \<lparr>seg_path = target_of g,
      seg_start_sequence = sequence_of (hd (sort_key sequence_of es)),
      seg_end_sequence = sequence_of (last (sort_key sequence_of es)), seg_event_count = length (sort_key sequence_of es),
      seg_checksum_sha256 = hexdigest (sha256 ?c), seg_protocol = proto\<rparr> # ss) r)"
    using r t seq by (simp add: g plan_segment_def Let_def write_atomic_segment_def target_of_def del: length_sort)
  with Cons.prems(4) obtain segs' where w: "write_groups encode gs ?fs = (fs', Inr segs')"
      "map seg_path segs = target_of g # map seg_path segs'"
    using r by (cases r) auto
  have "\<forall>g' \<in> set gs. ?fs (target_of g') = None" using Cons.prems(3) other by (metis fun_upd_other list.set_intros(2))
  from Cons.IH[OF _ _ this w(1)] Cons.prems(1,2)
  have ih: "map seg_path segs' = map target_of gs" "\<And>p. p \<notin> target_of ` set gs \<Longrightarrow> fs' p = ?fs p"
    "\<And>g'. g' \<in> set gs \<Longrightarrow> fs' (target_of g') = Some (encode (sort_key sequence_of (snd g')))"
    by auto
  have "target_of g \<notin> target_of ` set gs" using other by auto
  then have "fs' (target_of g) = Some ?c" using ih(2) by simp
  with ih w(2) show ?case by (auto simp: g)
qed simp

lemma group_events_mset:
  "dict_wf (group_events es) \<and> mset (concat (map snd (group_events es))) = mset es"
proof (induction es rule: rev_induct)
  case Nil
  then show ?case by (simp add: group_events_def dict_wf_def)
next
  case (snoc e es)
  let ?d = "group_events es"
  have step: "group_events (es @ [e]) = dict_set ?d (group_key_of e) (opt_or (dict_get ?d (group_key_of e)) [] @ [e])"
    by (simp add: group_events_def)
  show ?case
  proof (cases "dict_get ?d (group_key_of e)")
    case None
    then have "group_events (es @ [e]) = ?d @ [(group_key_of e, [e])]" by (simp add: step dict_set_new opt_or_def)
    moreover have "dict_wf (group_events (es @ [e]))" using snoc step by simp
    ultimately show ?thesis using snoc by auto
  next
    case (Some gs)
    with snoc obtain xs ys where d: "?d = xs @ (group_key_of e, gs) # ys"
      and u: "\<And>w. dict_set ?d (group_key_of e) w = xs @ (group_key_of e, w) # ys"
      by (metis dict_set_split)
    have "dict_wf (group_events (es @ [e]))" using snoc step by simp
    then show ?thesis using snoc by (auto simp: step Some u opt_or_def) (auto simp: d)
  qed
qed


section \<open>Witnesses\<close>

definition demo_event :: "nat \<Rightarrow> event_envelope" where
  "demo_event n = \<lparr>ev_event_id = [], ev_ingest_sequence = Some n, ev_source = REPLAY, ev_network = ''solana-mainnet'',
     ev_protocol = PUMP, ev_event_type = SWAP_BUY, ev_slot = 1, ev_signature = ''sig'', ev_instruction_index = int n,
     ev_inner_instruction_index = -1, ev_block_time = 0, ev_observed_at = 0, ev_commitment = ''confirmed'',
     ev_mint = None, ev_pool_address = None, ev_payload = []\<rparr>"

lemma demo_event_sequence [simp]: "ev_ingest_sequence (demo_event n) = Some n" "sequence_of (demo_event n) = n"
  by (simp_all add: demo_event_def sequence_of_def opt_or_def)

lemma demo_event_valid: "0 < n \<Longrightarrow> \<exists>v. validate_envelope (demo_event n) = Inr v"
  by (simp add: validate_envelope_def demo_event_def Let_def)

theorem event_id_identifies_witness:
  "ev_instruction_index (demo_event 1) = ev_instruction_index ((demo_event 1)\<lparr>ev_slot := 9\<rparr>)"
proof -
  let ?e = "demo_event 1" and ?e' = "(demo_event 1)\<lparr>ev_slot := 9\<rparr>"
  obtain v where v: "validate_envelope ?e = Inr v" using demo_event_valid[of 1] by auto
  obtain v' where v': "validate_envelope ?e' = Inr v'"
    by (simp add: validate_envelope_def demo_event_def Let_def)
  have c: "canonical_of ?e = canonical_of ?e'" by simp
  then have "ev_event_id v = ev_event_id v'" using validate_envelope_id[OF v] validate_envelope_id[OF v'] by simp
  moreover have "inj_on sha256_hex {canonical_of ?e, canonical_of ?e'}" by (simp add: c)
  ultimately show ?thesis using event_id_identifies[OF v v'] by blast
qed

theorem dedup_accepts_iff_not_recent_witness:
  "\<exists>d. deduplicator_init 2 = Inr d \<and> snd (dedup_accept ''a'' (dedup_run d [''a'', ''b'', ''c'']))"
proof -
  obtain d where d: "deduplicator_init 2 = Inr d" by (simp add: deduplicator_init_def)
  have "''a'' \<notin> set (take (nat 2) (recency [''a'', ''b'', ''c'']))" by code_simp
  with dedup_accepts_iff_not_recent[OF d, of "''a''" "[''a'', ''b'', ''c'']"] d show ?thesis by blast
qed

lemma demo_group:
  "group_events [demo_event 2, demo_event 1] = [((utc_day 0, utc_hour 0, PUMP), [demo_event 2, demo_event 1])]"
  by (simp add: group_events_def group_key_of_def demo_event_def opt_or_def)

lemma demo_group_sorted: "sort_key sequence_of [demo_event 2, demo_event 1] = [demo_event 1, demo_event 2]"
  by simp


end
