(* ===== verification/Registry.thy ===== *)
theory Registry
  imports Events Security
begin

text \<open>
  The token registry and the pool state tracker (\<open>registry.py\<close>). A raise in the middle of
  \<open>apply\<close> keeps the assignments made before it, so the tracker's operations return the new
  state together with the answer or the exception.
\<close>

section \<open>Reading payload values\<close>

definition decimal_or_none :: "payload_value \<Rightarrow> decimal option result" where
  "decimal_or_none v = (if v = PNone then Inr None
     else case parse_decimal (py_str v) of None \<Rightarrow> Inl InvalidOperation | Some d \<Rightarrow> Inr (Some d))"

definition required_text :: "payload \<Rightarrow> string \<Rightarrow> string result" where
  "required_text p key = (case text_of (payload_get p key) of
     None \<Rightarrow> Inl (ValueError (''pool event is missing '' @ key)) | Some s \<Rightarrow> Inr s)"

text \<open>\<open>int(s)\<close> for a string: surrounding blanks, a sign, digits with single underscores between them.\<close>

fun int_digits :: "bool \<Rightarrow> string \<Rightarrow> nat \<Rightarrow> nat option" where
  "int_digits after_digit [] n = (if after_digit then Some n else None)"
| "int_digits after_digit (c # cs) n =
     (if is_digit c then int_digits True cs (n * 10 + digit_val c)
      else if c = CHR ''_'' \<and> after_digit then int_digits False cs n else None)"

definition int_of_text :: "string \<Rightarrow> int option" where
  "int_of_text s = (case split_sign (py_strip s) of (neg, ds) \<Rightarrow>
     map_option (\<lambda>n. if neg then - int n else int n) (int_digits False ds 0))"

fun int_of_value :: "payload_value \<Rightarrow> int result" where
  "int_of_value PNone = Inl TypeError"
| "int_of_value (PBool b) = Inr (if b then 1 else 0)"
| "int_of_value (PInt i) = Inr i"
| "int_of_value (PText s) = (case int_of_text s of None \<Rightarrow> Inl (ValueError ''invalid literal for int()'') | Some i \<Rightarrow> Inr i)"
| "int_of_value (POther s) = Inl TypeError"

text \<open>\<open>int(payload[key])\<close>\<close>

definition required_int :: "payload \<Rightarrow> string \<Rightarrow> int result" where
  "required_int p key = (case dict_get p key of None \<Rightarrow> Inl KeyError | Some v \<Rightarrow> int_of_value v)"

section \<open>Tokens\<close>

text \<open>
  \<open>name\<close> and \<open>symbol\<close> may be any JSON value, because an enrichment is copied without validation.
\<close>

record token_record =
  tk_mint :: string
  tk_token_program :: "string option"
  tk_name :: payload_value
  tk_symbol :: payload_value
  tk_decimals :: "int option"
  tk_total_supply_raw :: "decimal option"
  tk_creator_address :: "string option"
  tk_creation_signature :: "string option"
  tk_creation_slot :: "int option"
  tk_creation_time :: "datetime option"
  tk_metadata_uri :: "string option"
  tk_metadata_mutable :: "bool option"
  tk_enrichment :: payload
  tk_enriched_at :: "datetime option"
  tk_bonding_curve_address :: "string option"
  tk_bonding_curve_complete :: bool
  tk_migration_time :: "datetime option"
  tk_first_pool_address :: "string option"
  tk_first_pool_time :: "datetime option"
  tk_updated_at :: datetime

type_synonym token_registry = "(string, token_record) dict"

definition empty_token :: "string \<Rightarrow> datetime \<Rightarrow> token_record" where
  "empty_token mint updated_at = \<lparr>tk_mint = mint, tk_token_program = None, tk_name = PNone, tk_symbol = PNone,
     tk_decimals = None, tk_total_supply_raw = None, tk_creator_address = None, tk_creation_signature = None,
     tk_creation_slot = None, tk_creation_time = None, tk_metadata_uri = None, tk_metadata_mutable = None,
     tk_enrichment = [], tk_enriched_at = None, tk_bonding_curve_address = None, tk_bonding_curve_complete = False,
     tk_migration_time = None, tk_first_pool_address = None, tk_first_pool_time = None, tk_updated_at = updated_at\<rparr>"

definition apply_enrichment :: "string \<Rightarrow> payload \<Rightarrow> datetime \<Rightarrow> token_registry \<Rightarrow> token_registry \<times> token_record option" where
  "apply_enrichment mint p observed_at tokens = (case dict_get tokens mint of
     None \<Rightarrow> (tokens, None)
   | Some t \<Rightarrow> let t' = t\<lparr>tk_name := py_or (tk_name t) (payload_get p ''name''),
         tk_symbol := py_or (tk_symbol t) (payload_get p ''symbol''), tk_enrichment := p,
         tk_enriched_at := Some observed_at, tk_updated_at := max (tk_updated_at t) observed_at\<rparr>
       in (dict_set tokens mint t', Some t'))"

definition apply_mint_state :: "string \<Rightarrow> string \<Rightarrow> int \<Rightarrow> decimal \<Rightarrow> datetime \<Rightarrow> token_registry
    \<Rightarrow> token_registry \<times> token_record option" where
  "apply_mint_state mint token_program decimals total_supply_raw observed_at tokens = (case dict_get tokens mint of
     None \<Rightarrow> (tokens, None)
   | Some t \<Rightarrow> let t' = t\<lparr>tk_token_program := Some token_program, tk_decimals := Some decimals,
         tk_total_supply_raw := Some total_supply_raw, tk_updated_at := max (tk_updated_at t) observed_at\<rparr>
       in (dict_set tokens mint t', Some t'))"

fun text_value :: "string option \<Rightarrow> payload_value" where
  "text_value None = PNone"
| "text_value (Some s) = PText s"

definition created_token :: "string \<Rightarrow> event_envelope \<Rightarrow> token_record result" where
  "created_token mint e = (let p = ev_payload e in
     rbind (decimal_or_none (payload_get p ''token_total_supply'')) (\<lambda>supply_raw.
     Inr ((empty_token mint (ev_observed_at e))\<lparr>tk_token_program := text_of (payload_get p ''token_program''),
       tk_name := text_value (text_of (payload_get p ''name'')),
       tk_symbol := text_value (text_of (payload_get p ''symbol'')),
       tk_total_supply_raw := supply_raw,
       tk_creator_address := text_of (py_or (payload_get p ''creator'') (payload_get p ''user'')),
       tk_creation_signature := Some (ev_signature e), tk_creation_slot := Some (ev_slot e),
       tk_creation_time := Some (ev_block_time e), tk_metadata_uri := text_of (payload_get p ''uri''),
       tk_bonding_curve_address := text_of (payload_get p ''bonding_curve'')\<rparr>)))"

definition token_update :: "event_envelope \<Rightarrow> token_record \<Rightarrow> token_record" where
  "token_update e t = (let t1 = t\<lparr>tk_updated_at := ev_observed_at e\<rparr> in
     if ev_event_type e = BONDING_CURVE_COMPLETED then t1\<lparr>tk_bonding_curve_complete := True\<rparr>
     else if ev_event_type e = MIGRATION then t1\<lparr>tk_migration_time := Some (ev_block_time e),
       tk_first_pool_address := text_of (payload_get (ev_payload e) ''pool''), tk_first_pool_time := Some (ev_block_time e)\<rparr>
     else if ev_event_type e = POOL_CREATED \<and> \<not> truthy (tk_first_pool_address t)
       then t1\<lparr>tk_first_pool_address := ev_pool_address e, tk_first_pool_time := Some (ev_block_time e)\<rparr>
     else t1)"

definition registry_apply :: "event_envelope \<Rightarrow> token_registry \<Rightarrow> (token_registry \<times> token_record option) result" where
  "registry_apply e tokens =
     (if ev_event_type e = TOKEN_CREATED \<and> truthy (ev_mint e) then
        rbind (created_token (the (ev_mint e)) e) (\<lambda>t. Inr (dict_set tokens (the (ev_mint e)) t, Some t))
      else case ev_mint e of None \<Rightarrow> Inr (tokens, None)
        | Some mint \<Rightarrow>
            let t = token_update e (opt_or (dict_get tokens mint) (empty_token mint (ev_observed_at e)))
            in Inr (dict_set tokens mint t, Some t))"

section \<open>Pools\<close>

record pool_record =
  po_pool_address :: string
  po_base_mint :: string
  po_quote_mint :: string
  po_protocol :: string
  po_base_vault :: "string option"
  po_quote_vault :: "string option"
  po_creation_signature :: string
  po_creation_slot :: int
  po_creation_time :: datetime
  po_migration_signature :: "string option"
  po_status :: string
  po_base_decimals :: int
  po_quote_decimals :: int
  po_source_orientation_reversed :: bool
  po_updated_at :: datetime

record pool_state =
  ps_pool_address :: string
  ps_base_mint :: string
  ps_quote_mint :: string
  ps_raw_base_reserves :: decimal
  ps_raw_quote_reserves :: decimal
  ps_virtual_base_reserves :: decimal
  ps_virtual_quote_reserves :: decimal
  ps_effective_base_reserves :: decimal
  ps_effective_quote_reserves :: decimal
  ps_quote_reserve_usd :: decimal
  ps_base_reserve_usd :: decimal
  ps_marginal_price_usd :: decimal
  ps_market_cap_estimate_usd :: "decimal option"
  ps_pool_age_seconds :: decimal
  ps_last_trade_time :: "datetime option"
  ps_last_update_time :: datetime
  ps_quote_price_updated_at :: datetime
  ps_base_supply_raw :: "decimal option"
  ps_source_orientation_reversed :: bool
  ps_data_quality_flags :: "string list"

record quote_asset_price =
  qa_mint :: string
  qa_price_usd :: decimal
  qa_observed_at :: datetime

text \<open>The field constraint \<open>gt=0\<close>.\<close>

definition quote_asset_price_valid :: "quote_asset_price \<Rightarrow> bool" where
  "quote_asset_price_valid p \<longleftrightarrow> 0 < qa_price_usd p"

definition price_is_stale :: "quote_asset_price \<Rightarrow> datetime \<Rightarrow> decimal \<Rightarrow> bool" where
  "price_is_stale p now max_age_seconds \<longleftrightarrow> max_age_seconds < seconds_of (now - qa_observed_at p)"

record pool_tracker =
  pt_pools :: "(string, pool_record) dict"
  pt_states :: "(string, pool_state) dict"
  pt_quote_prices :: "(string, quote_asset_price) dict"

definition pool_tracker_init :: pool_tracker where
  "pool_tracker_init = \<lparr>pt_pools = [], pt_states = [], pt_quote_prices = []\<rparr>"

definition set_quote_price :: "quote_asset_price \<Rightarrow> pool_tracker \<Rightarrow> pool_tracker" where
  "set_quote_price price t = t\<lparr>pt_quote_prices := dict_set (pt_quote_prices t) (qa_mint price) price\<rparr>"

text \<open>\<open>Decimal(10) ** n\<close> is exact; \<open>x / 10 ** n\<close> is \<open>scale_down\<close>.\<close>

definition scale_down :: "decimal \<Rightarrow> int \<Rightarrow> decimal" where
  "scale_down x n = ddiv x (10 powi n)"

definition apply_base_supply :: "string \<Rightarrow> decimal \<Rightarrow> pool_tracker \<Rightarrow> pool_tracker \<times> pool_state option" where
  "apply_base_supply pool_address total_supply_raw t =
     (case (dict_get (pt_states t) pool_address, dict_get (pt_pools t) pool_address) of
        (Some s, Some p) \<Rightarrow>
          (let market_cap = (if 0 < ps_marginal_price_usd s
                 then Some (dmul (scale_down total_supply_raw (po_base_decimals p)) (ps_marginal_price_usd s)) else None);
               s' = s\<lparr>ps_base_supply_raw := Some total_supply_raw, ps_market_cap_estimate_usd := market_cap\<rparr>
           in (t\<lparr>pt_states := dict_set (pt_states t) pool_address s'\<rparr>, Some s'))
      | _ \<Rightarrow> (t, None))"

definition supported :: "string \<Rightarrow> bool" where
  "supported m \<longleftrightarrow> m \<in> set SUPPORTED_QUOTE_MINTS"

definition create_pool :: "string \<Rightarrow> event_envelope \<Rightarrow> pool_record result" where
  "create_pool pool_address e = (let p = ev_payload e in
     rbind (required_text p ''base_mint'') (\<lambda>source_base_mint.
     rbind (required_text p ''quote_mint'') (\<lambda>source_quote_mint.
     let rev_or = supported source_base_mint \<and> \<not> supported source_quote_mint;
         pick = (\<lambda>a b. if rev_or then b else a)
     in rbind (required_int p (pick ''base_mint_decimals'' ''quote_mint_decimals'')) (\<lambda>base_decimals.
        rbind (required_int p (pick ''quote_mint_decimals'' ''base_mint_decimals'')) (\<lambda>quote_decimals.
        Inr \<lparr>po_pool_address = pool_address,
          po_base_mint = pick source_base_mint source_quote_mint,
          po_quote_mint = pick source_quote_mint source_base_mint,
          po_protocol = protocol_value (ev_protocol e),
          po_base_vault = text_of (payload_get p (pick ''base_vault'' ''quote_vault'')),
          po_quote_vault = text_of (payload_get p (pick ''quote_vault'' ''base_vault'')),
          po_creation_signature = ev_signature e, po_creation_slot = ev_slot e,
          po_creation_time = ev_block_time e, po_migration_signature = None, po_status = ''active'',
          po_base_decimals = base_decimals, po_quote_decimals = quote_decimals,
          po_source_orientation_reversed = rev_or, po_updated_at = ev_observed_at e\<rparr>)))))"

definition reserve_fields :: "chain_event_type \<Rightarrow> payload \<Rightarrow> bool \<Rightarrow> (decimal option \<times> decimal option) result" where
  "reserve_fields event_type p rev_or =
     (let (base_key, quote_key) = (if event_type = POOL_CREATED then (''pool_base_amount'', ''pool_quote_amount'')
            else (''pool_base_token_reserves'', ''pool_quote_token_reserves''))
      in rbind (decimal_or_none (payload_get p base_key)) (\<lambda>source_base.
         rbind (decimal_or_none (payload_get p quote_key)) (\<lambda>source_quote.
         Inr (if rev_or then (source_quote, source_base) else (source_base, source_quote)))))"

text \<open>
  The payload numbers one update needs: raw reserves, the virtual quote reserves of the source
  and the base supply. They are read before the state changes.
\<close>

definition read_reserves :: "event_envelope \<Rightarrow> bool
    \<Rightarrow> ((decimal option \<times> decimal option) \<times> decimal option \<times> decimal option) result" where
  "read_reserves e rev_or = (let p = ev_payload e in
     rbind (reserve_fields (ev_event_type e) p rev_or) (\<lambda>raw.
     rbind (decimal_or_none (payload_get p ''virtual_quote_reserves'')) (\<lambda>virtual_quote.
     rbind (if rev_or then Inr None else decimal_or_none (payload_get p ''base_supply'')) (\<lambda>base_supply.
     Inr (raw, virtual_quote, base_supply)))))"

text \<open>\<open>x if x is not None else previous.field\<close>, then \<open>or Decimal("0")\<close>.\<close>

definition carried :: "decimal option \<Rightarrow> ('a \<Rightarrow> decimal) \<Rightarrow> 'a option \<Rightarrow> decimal" where
  "carried x field previous = (case x of Some d \<Rightarrow> d
     | None \<Rightarrow> (case previous of None \<Rightarrow> 0 | Some s \<Rightarrow> field s))"

definition pool_flags :: "decimal \<Rightarrow> decimal \<Rightarrow> quote_asset_price option \<Rightarrow> datetime \<Rightarrow> string \<Rightarrow> string list" where
  "pool_flags effective_base effective_quote price observed_at quote_mint =
     (if effective_base < 0 then [''NEGATIVE_EFFECTIVE_BASE_RESERVES''] else [])
     @ (if effective_quote < 0 then [''NEGATIVE_EFFECTIVE_QUOTE_RESERVES''] else [])
     @ (case price of None \<Rightarrow> [''QUOTE_PRICE_UNAVAILABLE'']
        | Some q \<Rightarrow> if price_is_stale q observed_at 15 then [''STALE_QUOTE_ASSET_PRICE''] else [])
     @ (if supported quote_mint then [] else [''UNSUPPORTED_QUOTE_MINT''])"

text \<open>The reserves of the pool in the tracker's orientation: raw and virtual, base and quote.\<close>

record reserves =
  rv_raw_base :: decimal
  rv_raw_quote :: decimal
  rv_virtual_base :: decimal
  rv_virtual_quote :: decimal
  rv_base_supply :: "decimal option"

definition current_reserves :: "bool \<Rightarrow> pool_state option
    \<Rightarrow> (decimal option \<times> decimal option) \<times> decimal option \<times> decimal option \<Rightarrow> reserves" where
  "current_reserves rev_or previous numbers = (case numbers of ((base_in, quote_in), source_virtual_quote, supply_in) \<Rightarrow> \<lparr>
     rv_raw_base = carried base_in ps_raw_base_reserves previous,
     rv_raw_quote = carried quote_in ps_raw_quote_reserves previous,
     rv_virtual_base = (if rev_or then carried source_virtual_quote ps_virtual_base_reserves previous else 0),
     rv_virtual_quote = (if rev_or then 0 else carried source_virtual_quote ps_virtual_quote_reserves previous),
     rv_base_supply = (case supply_in of Some d \<Rightarrow> Some d
       | None \<Rightarrow> (case previous of None \<Rightarrow> None | Some s \<Rightarrow> ps_base_supply_raw s))\<rparr>)"

definition last_trade_of :: "event_envelope \<Rightarrow> pool_state option \<Rightarrow> datetime option" where
  "last_trade_of e previous = (if ev_event_type e = SWAP_BUY \<or> ev_event_type e = SWAP_SELL then Some (ev_block_time e)
     else case previous of None \<Rightarrow> None | Some s \<Rightarrow> ps_last_trade_time s)"

definition value_pool :: "string \<Rightarrow> event_envelope \<Rightarrow> pool_record \<Rightarrow> datetime option \<Rightarrow> quote_asset_price option
    \<Rightarrow> reserves \<Rightarrow> pool_state" where
  "value_pool pool_address e pool last_trade price r =
     (let effective_base = dadd (rv_raw_base r) (rv_virtual_base r);
          effective_quote = dadd (rv_raw_quote r) (rv_virtual_quote r);
          quote_usd = (case price of None \<Rightarrow> 0 | Some q \<Rightarrow> qa_price_usd q);
          price_time = (case price of None \<Rightarrow> 0 | Some q \<Rightarrow> qa_observed_at q);
          normalized_base = scale_down (max effective_base 0) (po_base_decimals pool);
          normalized_quote = scale_down (max effective_quote 0) (po_quote_decimals pool);
          marginal_price = (if 0 < normalized_base \<and> 0 < quote_usd
            then dmul (ddiv normalized_quote normalized_base) quote_usd else 0);
          market_cap = (case rv_base_supply r of None \<Rightarrow> None
            | Some d \<Rightarrow> if 0 < marginal_price
                then Some (dmul (scale_down d (po_base_decimals pool)) marginal_price) else None)
      in \<lparr>ps_pool_address = pool_address, ps_base_mint = po_base_mint pool, ps_quote_mint = po_quote_mint pool,
          ps_raw_base_reserves = rv_raw_base r, ps_raw_quote_reserves = rv_raw_quote r,
          ps_virtual_base_reserves = rv_virtual_base r, ps_virtual_quote_reserves = rv_virtual_quote r,
          ps_effective_base_reserves = effective_base, ps_effective_quote_reserves = effective_quote,
          ps_quote_reserve_usd = dmul normalized_quote quote_usd,
          ps_base_reserve_usd = dmul normalized_base marginal_price,
          ps_marginal_price_usd = marginal_price, ps_market_cap_estimate_usd = market_cap,
          ps_pool_age_seconds = max 0 (seconds_of (ev_block_time e - po_creation_time pool)),
          ps_last_trade_time = last_trade, ps_last_update_time = ev_block_time e,
          ps_quote_price_updated_at = price_time, ps_base_supply_raw = rv_base_supply r,
          ps_source_orientation_reversed = po_source_orientation_reversed pool,
          ps_data_quality_flags = pool_flags effective_base effective_quote price (ev_observed_at e) (po_quote_mint pool)\<rparr>)"

definition pool_state_of :: "string \<Rightarrow> event_envelope \<Rightarrow> pool_record \<Rightarrow> pool_state option \<Rightarrow> quote_asset_price option
    \<Rightarrow> (decimal option \<times> decimal option) \<times> decimal option \<times> decimal option \<Rightarrow> pool_state" where
  "pool_state_of pool_address e pool previous price numbers =
     value_pool pool_address e pool (last_trade_of e previous) price
       (current_reserves (po_source_orientation_reversed pool) previous numbers)"

text \<open>The part of \<open>apply\<close> after the creation of the pool record.\<close>

definition tracker_update :: "string \<Rightarrow> event_envelope \<Rightarrow> pool_tracker \<Rightarrow> pool_tracker \<times> pool_state option result" where
  "tracker_update pool_address e t =
     (case dict_get (pt_pools t) pool_address of
        None \<Rightarrow> (t, Inr None)
      | Some pool \<Rightarrow>
          (case read_reserves e (po_source_orientation_reversed pool) of
             Inl err \<Rightarrow> (t, Inl err)
           | Inr numbers \<Rightarrow>
               (let s = pool_state_of pool_address e pool (dict_get (pt_states t) pool_address)
                      (dict_get (pt_quote_prices t) (po_quote_mint pool)) numbers
                in (t\<lparr>pt_states := dict_set (pt_states t) pool_address s,
                      pt_pools := dict_set (pt_pools t) pool_address (pool\<lparr>po_updated_at := ev_observed_at e\<rparr>)\<rparr>,
                    Inr (Some s)))))"

definition tracker_apply :: "event_envelope \<Rightarrow> pool_tracker \<Rightarrow> pool_tracker \<times> pool_state option result" where
  "tracker_apply e t =
     (if \<not> truthy (ev_pool_address e) then (t, Inr None)
      else let pool_address = the (ev_pool_address e) in
        if ev_event_type e = POOL_CREATED then
          (case create_pool pool_address e of
             Inl err \<Rightarrow> (t, Inl err)
           | Inr pool \<Rightarrow> tracker_update pool_address e
               (t\<lparr>pt_pools := dict_set (pt_pools t) pool_address pool\<rparr>))
        else tracker_update pool_address e t)"

end
