(* ===== verification/Registry_Props.thy ===== *)
theory Registry_Props
  imports Registry
begin

text \<open>
  The pool tracker does not depend on the orientation in which a pool lists its two mints, and
  every pool state it stores is normalized and not negative.
\<close>

section \<open>Runs of the tracker\<close>

datatype tracker_op = Apply event_envelope | Price quote_asset_price | Supply string decimal

fun tracker_step :: "tracker_op \<Rightarrow> pool_tracker \<Rightarrow> pool_tracker" where
  "tracker_step (Apply e) t = fst (tracker_apply e t)"
| "tracker_step (Price q) t = set_quote_price q t"
| "tracker_step (Supply a s) t = fst (apply_base_supply a s t)"

definition tracker_run :: "tracker_op list \<Rightarrow> pool_tracker" where
  "tracker_run ops = foldl (\<lambda>t op. tracker_step op t) pool_tracker_init ops"

lemma tracker_run_simps [simp]:
  "tracker_run [] = pool_tracker_init" "tracker_run (ops @ [op]) = tracker_step op (tracker_run ops)"
  by (simp_all add: tracker_run_def)

section \<open>Values of a dictionary\<close>

definition map_values :: "('a \<Rightarrow> 'b) \<Rightarrow> ('k, 'a) dict \<Rightarrow> ('k, 'b) dict" where
  "map_values f d = map (\<lambda>(k, v). (k, f v)) d"

lemma map_values_simps [simp]:
  "map_values f [] = []" "dict_get (map_values f d) k = map_option f (dict_get d k)"
  "dict_set (map_values f d) k (f v) = map_values f (dict_set d k v)"
  by (induction d) (auto simp: map_values_def)

definition all_values :: "('a \<Rightarrow> bool) \<Rightarrow> ('k, 'a) dict \<Rightarrow> bool" where
  "all_values P d \<longleftrightarrow> (\<forall>k v. dict_get d k = Some v \<longrightarrow> P v)"

lemma all_values_Nil [simp]: "all_values P []"
  by (simp add: all_values_def)

lemma all_values_set [simp]: "all_values P d \<Longrightarrow> P v \<Longrightarrow> all_values P (dict_set d k v)"
  by (simp add: all_values_def)

lemma all_valuesD: "all_values P d \<Longrightarrow> dict_get d k = Some v \<Longrightarrow> P v"
  by (simp add: all_values_def)

section \<open>Mirrored pools\<close>

text \<open>The same pool with base and quote exchanged: the keys that come in pairs are swapped.\<close>

definition key_pairs :: "(string \<times> string) list" where
  "key_pairs = [(''base_mint'', ''quote_mint''), (''base_vault'', ''quote_vault''),
     (''base_mint_decimals'', ''quote_mint_decimals''), (''pool_base_amount'', ''pool_quote_amount''),
     (''pool_base_token_reserves'', ''pool_quote_token_reserves'')]"

definition mirror_key :: "string \<Rightarrow> string" where
  "mirror_key k = (case map_of key_pairs k of Some j \<Rightarrow> j
     | None \<Rightarrow> opt_or (map_of (map prod.swap key_pairs) k) k)"

definition mirror_payload :: "payload \<Rightarrow> payload" where
  "mirror_payload p = map (\<lambda>(k, v). (mirror_key k, v)) p"

definition mirror_event :: "event_envelope \<Rightarrow> event_envelope" where
  "mirror_event e = e\<lparr>ev_payload := mirror_payload (ev_payload e)\<rparr>"

lemma mirror_key_simps [simp]:
  "mirror_key ''base_mint'' = ''quote_mint''" "mirror_key ''quote_mint'' = ''base_mint''"
  "mirror_key ''base_vault'' = ''quote_vault''" "mirror_key ''quote_vault'' = ''base_vault''"
  "mirror_key ''base_mint_decimals'' = ''quote_mint_decimals''"
  "mirror_key ''quote_mint_decimals'' = ''base_mint_decimals''"
  "mirror_key ''pool_base_amount'' = ''pool_quote_amount''"
  "mirror_key ''pool_quote_amount'' = ''pool_base_amount''"
  "mirror_key ''pool_base_token_reserves'' = ''pool_quote_token_reserves''"
  "mirror_key ''pool_quote_token_reserves'' = ''pool_base_token_reserves''"
  "mirror_key ''virtual_quote_reserves'' = ''virtual_quote_reserves''"
  "mirror_key ''base_supply'' = ''base_supply''"
  by (simp_all add: mirror_key_def key_pairs_def opt_or_def)

lemma mirror_key_invol [simp]: "mirror_key (mirror_key k) = k"
proof (cases "k \<in> set (map fst key_pairs @ map snd key_pairs)")
  case True
  then show ?thesis by (auto simp: key_pairs_def simp del: mirror_key_def)
next
  case False
  then have "map_of key_pairs k = None" "map_of (map prod.swap key_pairs) k = None"
    by (auto simp: map_of_eq_None_iff image_iff)
  then show ?thesis by (simp add: mirror_key_def opt_or_def)
qed

lemma mirror_get: "dict_get (mirror_payload p) k = dict_get p (mirror_key k)"
proof (induction p)
  case (Cons kv p)
  obtain j v where kv: "kv = (j, v)" by (cases kv)
  have "k = mirror_key j \<longleftrightarrow> mirror_key k = j" by (metis mirror_key_invol)
  with Cons kv show ?case by (simp add: mirror_payload_def)
qed (simp add: mirror_payload_def)

lemma mirror_reads [simp]:
  "payload_get (mirror_payload p) k = payload_get p (mirror_key k)"
  "required_int (mirror_payload p) k = required_int p (mirror_key k)"
  by (simp_all add: payload_get_def required_int_def mirror_get)

lemma mirror_event_simps [simp]:
  "ev_payload (mirror_event e) = mirror_payload (ev_payload e)" "ev_event_type (mirror_event e) = ev_event_type e"
  "ev_pool_address (mirror_event e) = ev_pool_address e" "ev_protocol (mirror_event e) = ev_protocol e"
  "ev_signature (mirror_event e) = ev_signature e" "ev_slot (mirror_event e) = ev_slot e"
  "ev_block_time (mirror_event e) = ev_block_time e" "ev_observed_at (mirror_event e) = ev_observed_at e"
  by (simp_all add: mirror_event_def)

text \<open>
  The events the comparison covers: no virtual reserves and no supply in the payload (they have no
  mirrored key), and a created pool pairs one supported quote mint with one other mint.
\<close>

definition comparable :: "event_envelope \<Rightarrow> bool" where
  "comparable e \<longleftrightarrow> payload_get (ev_payload e) ''virtual_quote_reserves'' = PNone
     \<and> payload_get (ev_payload e) ''base_supply'' = PNone
     \<and> (ev_event_type e = POOL_CREATED \<longrightarrow>
         (case (text_of (payload_get (ev_payload e) ''base_mint''), text_of (payload_get (ev_payload e) ''quote_mint'')) of
            (Some b, Some q) \<Rightarrow> supported b \<noteq> supported q | _ \<Rightarrow> False))"

definition flip_pool :: "pool_record \<Rightarrow> pool_record" where
  "flip_pool p = p\<lparr>po_source_orientation_reversed := \<not> po_source_orientation_reversed p\<rparr>"

definition flip_state :: "pool_state \<Rightarrow> pool_state" where
  "flip_state s = s\<lparr>ps_source_orientation_reversed := \<not> ps_source_orientation_reversed s\<rparr>"

definition flip_tracker :: "pool_tracker \<Rightarrow> pool_tracker" where
  "flip_tracker t = t\<lparr>pt_pools := map_values flip_pool (pt_pools t), pt_states := map_values flip_state (pt_states t)\<rparr>"

definition no_virtual :: "pool_state \<Rightarrow> bool" where
  "no_virtual s \<longleftrightarrow> ps_virtual_base_reserves s = 0 \<and> ps_virtual_quote_reserves s = 0"

lemma flip_pool_simps [simp]:
  "po_source_orientation_reversed (flip_pool p) = (\<not> po_source_orientation_reversed p)"
  "po_quote_mint (flip_pool p) = po_quote_mint p" "po_base_decimals (flip_pool p) = po_base_decimals p"
  "(flip_pool p)\<lparr>po_updated_at := x\<rparr> = flip_pool (p\<lparr>po_updated_at := x\<rparr>)"
  by (simp_all add: flip_pool_def)

lemma create_pool_mirror:
  assumes "comparable e" "ev_event_type e = POOL_CREATED"
  shows "create_pool a (mirror_event e) = map_sum id flip_pool (create_pool a e)"
proof -
  obtain b q where bq: "text_of (payload_get (ev_payload e) ''base_mint'') = Some b"
      "text_of (payload_get (ev_payload e) ''quote_mint'') = Some q" "supported b \<noteq> supported q"
    using assms by (auto simp: comparable_def split: option.splits)
  then show ?thesis
    by (cases "supported b") (auto simp: create_pool_def required_text_def Let_def rbind_def flip_pool_def
        simp del: mirror_reads(1) split: sum.splits, simp_all)
qed

lemma decimal_or_none_error: "decimal_or_none v = Inl x \<Longrightarrow> x = InvalidOperation"
  by (auto simp: decimal_or_none_def split: if_splits option.splits)

lemma read_reserves_mirror:
  assumes "comparable e"
  shows "read_reserves (mirror_event e) (\<not> r) = read_reserves e r"
  using assms decimal_or_none_error
  by (cases "ev_event_type e = POOL_CREATED"; cases r)
    (auto simp: read_reserves_def reserve_fields_def comparable_def Let_def rbind_def decimal_or_none_def[of PNone]
      split: sum.splits)

lemma read_reserves_plain: "comparable e \<Longrightarrow> read_reserves e r = Inr (raw, v, s) \<Longrightarrow> v = None \<and> s = None"
  by (auto simp: read_reserves_def comparable_def Let_def decimal_or_none_def split: if_splits)

lemma flip_state_simps [simp]:
  "ps_raw_base_reserves (flip_state s) = ps_raw_base_reserves s"
  "ps_raw_quote_reserves (flip_state s) = ps_raw_quote_reserves s"
  "ps_virtual_base_reserves (flip_state s) = ps_virtual_base_reserves s"
  "ps_virtual_quote_reserves (flip_state s) = ps_virtual_quote_reserves s"
  "ps_base_supply_raw (flip_state s) = ps_base_supply_raw s"
  "ps_last_trade_time (flip_state s) = ps_last_trade_time s"
  "ps_marginal_price_usd (flip_state s) = ps_marginal_price_usd s"
  by (simp_all add: flip_state_def)

lemma value_pool_mirror:
  "value_pool a (mirror_event e) (flip_pool p) last_trade price r = flip_state (value_pool a e p last_trade price r)"
  by (cases p; cases "rv_base_supply r") (simp_all add: value_pool_def flip_state_def flip_pool_def Let_def)

lemma no_virtual_value: "no_virtual (value_pool a e p l price r) \<longleftrightarrow> rv_virtual_base r = 0 \<and> rv_virtual_quote r = 0"
  by (simp add: value_pool_def no_virtual_def Let_def)

lemma current_reserves_plain:
  assumes "case previous of None \<Rightarrow> True | Some s \<Rightarrow> no_virtual s"
  shows "current_reserves (\<not> r) (map_option flip_state previous) (raw, None, None) = current_reserves r previous (raw, None, None)"
    and "rv_virtual_base (current_reserves r previous (raw, None, None)) = 0"
    and "rv_virtual_quote (current_reserves r previous (raw, None, None)) = 0"
  using assms by (cases previous; cases raw; cases "fst raw"; cases "snd raw";
    simp add: current_reserves_def carried_def no_virtual_def)+

lemma last_trade_mirror: "last_trade_of (mirror_event e) (map_option flip_state previous) = last_trade_of e previous"
  by (simp add: last_trade_of_def split: option.split)

lemma pool_state_mirror:
  assumes "case previous of None \<Rightarrow> True | Some s \<Rightarrow> no_virtual s"
  shows "pool_state_of a (mirror_event e) (flip_pool p) (map_option flip_state previous) price (raw, None, None)
     = flip_state (pool_state_of a e p previous price (raw, None, None))"
    and "no_virtual (pool_state_of a e p previous price (raw, None, None))"
  by (simp_all add: pool_state_of_def value_pool_mirror no_virtual_value last_trade_mirror current_reserves_plain[OF assms])

lemma tracker_update_mirror:
  assumes "comparable e" "all_values no_virtual (pt_states t)"
  shows "fst (tracker_update a (mirror_event e) (flip_tracker t)) = flip_tracker (fst (tracker_update a e t))
    \<and> all_values no_virtual (pt_states (fst (tracker_update a e t)))"
proof (cases "dict_get (pt_pools t) a")
  case None
  then show ?thesis using assms(2) by (simp add: tracker_update_def flip_tracker_def)
next
  case (Some p)
  have prev: "case dict_get (pt_states t) a of None \<Rightarrow> True | Some s \<Rightarrow> no_virtual s"
    using assms(2) by (auto dest: all_valuesD split: option.split)
  note rm = read_reserves_mirror[OF assms(1)]
  show ?thesis
  proof (cases "read_reserves e (po_source_orientation_reversed p)")
    case (Inl err)
    then show ?thesis using Some assms(2) by (simp add: tracker_update_def flip_tracker_def rm)
  next
    case (Inr ns)
    obtain raw v s where ns: "ns = (raw, v, s)" by (cases ns) auto
    with read_reserves_plain[OF assms(1)] Inr have n: "ns = (raw, None, None)" by blast
    show ?thesis using Some Inr assms(2)
      by (simp add: n tracker_update_def flip_tracker_def rm Let_def pool_state_mirror[OF prev])
  qed
qed

fun mirror_op :: "tracker_op \<Rightarrow> tracker_op" where
  "mirror_op (Apply e) = Apply (mirror_event e)"
| "mirror_op op = op"

fun comparable_op :: "tracker_op \<Rightarrow> bool" where
  "comparable_op (Apply e) = comparable e"
| "comparable_op op = True"

lemma tracker_step_mirror:
  assumes "comparable_op op" "all_values no_virtual (pt_states t)"
  shows "tracker_step (mirror_op op) (flip_tracker t) = flip_tracker (tracker_step op t)
     \<and> all_values no_virtual (pt_states (tracker_step op t))"
proof (cases op)
  case (Apply e)
  then have c: "comparable e" using assms(1) by simp
  have pa: "pt_pools (flip_tracker t) = map_values flip_pool (pt_pools t)" by (simp add: flip_tracker_def)
  show ?thesis
  proof (cases "truthy (ev_pool_address e) \<and> ev_event_type e = POOL_CREATED")
    case True
    let ?a = "the (ev_pool_address e)"
    note m = create_pool_mirror[OF c conjunct2[OF True], of ?a]
    show ?thesis
    proof (cases "create_pool ?a e")
      case (Inl err)
      then show ?thesis using Apply True assms(2) m by (simp add: tracker_apply_def)
    next
      case (Inr p)
      let ?t = "t\<lparr>pt_pools := dict_set (pt_pools t) ?a p\<rparr>"
      have "flip_tracker t\<lparr>pt_pools := dict_set (map_values flip_pool (pt_pools t)) ?a (flip_pool p)\<rparr> = flip_tracker ?t"
        by (simp add: flip_tracker_def)
      moreover have "all_values no_virtual (pt_states ?t)" using assms(2) by simp
      ultimately show ?thesis using Apply True Inr m tracker_update_mirror[OF c, of ?t ?a]
        by (simp add: tracker_apply_def Let_def pa)
    qed
  next
    case False
    then show ?thesis using Apply assms(2) tracker_update_mirror[OF c assms(2)] by (auto simp: tracker_apply_def Let_def)
  qed
next
  case (Price q)
  then show ?thesis using assms(2) by (simp add: flip_tracker_def set_quote_price_def)
next
  case (Supply a s)
  have fs: "(flip_state st)\<lparr>ps_base_supply_raw := x, ps_market_cap_estimate_usd := y\<rparr>
      = flip_state (st\<lparr>ps_base_supply_raw := x, ps_market_cap_estimate_usd := y\<rparr>)" for st x y
    by (simp add: flip_state_def)
  have nv: "no_virtual (st\<lparr>ps_base_supply_raw := x, ps_market_cap_estimate_usd := y\<rparr>) = no_virtual st" for st x y
    by (simp add: no_virtual_def)
  show ?thesis
  proof (cases "dict_get (pt_states t) a")
    case None
    then show ?thesis using Supply assms(2) by (simp add: apply_base_supply_def flip_tracker_def)
  next
    case (Some st)
    then have "no_virtual st" using assms(2) by (auto dest: all_valuesD)
    with Some Supply assms(2) show ?thesis
      by (cases "dict_get (pt_pools t) a") (simp_all add: apply_base_supply_def flip_tracker_def Let_def fs nv)
  qed
qed


section \<open>Stored states\<close>

definition normalized_mints :: "string \<Rightarrow> string \<Rightarrow> bool" where
  "normalized_mints base_mint quote_mint \<longleftrightarrow> (supported base_mint \<longrightarrow> supported quote_mint)"

definition pool_ok :: "pool_record \<Rightarrow> bool" where
  "pool_ok p \<longleftrightarrow> normalized_mints (po_base_mint p) (po_quote_mint p)"

definition state_ok :: "pool_state \<Rightarrow> bool" where
  "state_ok s \<longleftrightarrow> normalized_mints (ps_base_mint s) (ps_quote_mint s)
     \<and> 0 \<le> ps_marginal_price_usd s \<and> 0 \<le> ps_quote_reserve_usd s \<and> 0 \<le> ps_base_reserve_usd s
     \<and> 0 \<le> ps_pool_age_seconds s
     \<and> ps_effective_base_reserves s = dadd (ps_raw_base_reserves s) (ps_virtual_base_reserves s)
     \<and> ps_effective_quote_reserves s = dadd (ps_raw_quote_reserves s) (ps_virtual_quote_reserves s)
     \<and> (ps_marginal_price_usd s = 0 \<longrightarrow> ps_market_cap_estimate_usd s = None)
     \<and> (0 < ps_marginal_price_usd s \<longrightarrow> ''QUOTE_PRICE_UNAVAILABLE'' \<notin> set (ps_data_quality_flags s)
          \<and> 0 < ps_effective_base_reserves s \<and> 0 < ps_effective_quote_reserves s)
     \<and> (''UNSUPPORTED_QUOTE_MINT'' \<in> set (ps_data_quality_flags s) \<longleftrightarrow> \<not> supported (ps_quote_mint s))"

definition tracker_ok :: "pool_tracker \<Rightarrow> bool" where
  "tracker_ok t \<longleftrightarrow> all_values pool_ok (pt_pools t) \<and> all_values state_ok (pt_states t)
     \<and> all_values quote_asset_price_valid (pt_quote_prices t)
     \<and> dom (dict_get (pt_states t)) \<subseteq> dom (dict_get (pt_pools t))"

lemma scale_down_nonneg: "0 \<le> x \<Longrightarrow> 0 \<le> scale_down x n"
  by (simp add: scale_down_def ddiv_def dec.nonneg)

lemma scale_down_pos: "0 < scale_down x n \<longleftrightarrow> 0 < x"
proof -
  have "0 < (10 :: rat) powi n" by simp
  then show ?thesis 
    by (simp only: scale_down_def ddiv_def dec.pos_iff pos_less_divide_eq mult_zero_left)
qed

lemma marginal_price_pos:
  assumes "0 < b" "0 \<le> q" "0 < u"
  shows "0 \<le> dmul (ddiv q b) u" "0 < dmul (ddiv q b) u \<longleftrightarrow> 0 < q"
  using assms by (auto simp: dmul_def ddiv_def dec.pos_iff dec.nonneg_iff zero_less_mult_iff zero_less_divide_iff)

lemma create_pool_ok: "create_pool a e = Inr p \<Longrightarrow> pool_ok p"
  by (auto simp: create_pool_def Let_def pool_ok_def normalized_mints_def)

lemma pool_flags_iff:
  "''UNSUPPORTED_QUOTE_MINT'' \<in> set (pool_flags x y price t m) \<longleftrightarrow> \<not> supported m"
  "''QUOTE_PRICE_UNAVAILABLE'' \<in> set (pool_flags x y price t m) \<longleftrightarrow> price = None"
  by (auto simp: pool_flags_def split: option.splits if_splits)

lemma max_pos: "0 < max x 0 \<longleftrightarrow> 0 < (x :: decimal)" "0 \<le> max x (0 :: decimal)"
  by (auto simp: max_def)

lemma value_pool_ok:
  assumes p: "pool_ok p" and price: "case price of None \<Rightarrow> True | Some q \<Rightarrow> quote_asset_price_valid q"
  shows "state_ok (value_pool a e p l price r)"
proof -
  define u where "u = (case price of None \<Rightarrow> 0 | Some q \<Rightarrow> qa_price_usd q)"
  define eb eq where "eb = dadd (rv_raw_base r) (rv_virtual_base r)" and "eq = dadd (rv_raw_quote r) (rv_virtual_quote r)"
  define nb nq where "nb = scale_down (max eb 0) (po_base_decimals p)" and "nq = scale_down (max eq 0) (po_quote_decimals p)"
  define m where "m = (if 0 < nb \<and> 0 < u then dmul (ddiv nq nb) u else 0)"
  have u: "0 \<le> u" "0 < u \<Longrightarrow> price \<noteq> None"
    using price by (auto simp: u_def quote_asset_price_valid_def split: option.splits)
  have n: "0 \<le> nb" "0 \<le> nq" "0 < nb \<longleftrightarrow> 0 < eb" "0 < nq \<longleftrightarrow> 0 < eq"
    by (simp_all add: nb_def nq_def scale_down_nonneg scale_down_pos max_pos)
  have m: "0 \<le> m" "0 < m \<Longrightarrow> 0 < eb \<and> 0 < eq \<and> price \<noteq> None"
    using n u marginal_price_pos[of nb nq u] by (auto simp: m_def split: if_splits)
  have "state_ok (value_pool a e p l price r) \<longleftrightarrow> normalized_mints (po_base_mint p) (po_quote_mint p)
      \<and> 0 \<le> m \<and> 0 \<le> dmul nq u \<and> 0 \<le> dmul nb m \<and> (0 < m \<longrightarrow> price \<noteq> None \<and> 0 < eb \<and> 0 < eq)"
    unfolding state_ok_def value_pool_def Let_def u_def[symmetric] eb_def[symmetric] eq_def[symmetric]
      nb_def[symmetric] nq_def[symmetric] m_def[symmetric]
    by (cases "rv_base_supply r") (simp_all add: pool_flags_iff eb_def eq_def)
  with m p u n show ?thesis by (simp add: pool_ok_def dmul_nonneg)
qed

lemma pool_state_ok:
  assumes "pool_ok p" "case price of None \<Rightarrow> True | Some q \<Rightarrow> quote_asset_price_valid q"
  shows "state_ok (pool_state_of a e p previous price numbers)"
  unfolding pool_state_of_def by (rule value_pool_ok[OF assms])

lemma tracker_update_ok:
  assumes "tracker_ok t" shows "tracker_ok (fst (tracker_update a e t))"
proof (cases "dict_get (pt_pools t) a")
  case None
  then show ?thesis using assms by (simp add: tracker_update_def)
next
  case (Some p)
  have p: "pool_ok p" using assms Some by (auto simp: tracker_ok_def dest: all_valuesD)
  have "case dict_get (pt_quote_prices t) m of None \<Rightarrow> True | Some q \<Rightarrow> quote_asset_price_valid q" for m
    using assms by (auto simp: tracker_ok_def dest: all_valuesD split: option.split)
  note s = pool_state_ok[OF p this]
  have "pool_ok (p\<lparr>po_updated_at := x\<rparr>)" for x using p by (simp add: pool_ok_def)
  then have "tracker_ok (t\<lparr>pt_states := dict_set (pt_states t) a st,
      pt_pools := dict_set (pt_pools t) a (p\<lparr>po_updated_at := x\<rparr>)\<rparr>)" if "state_ok st" for st x
    using assms that unfolding tracker_ok_def by (simp add: subset_insertI2)
  with assms Some s show ?thesis
    by (cases "read_reserves e (po_source_orientation_reversed p)") (simp_all add: tracker_update_def Let_def)
qed

fun valid_op :: "tracker_op \<Rightarrow> bool" where
  "valid_op (Price q) = quote_asset_price_valid q"
| "valid_op op = True"

lemma tracker_step_ok:
  assumes "valid_op op" "tracker_ok t" shows "tracker_ok (tracker_step op t)"
proof (cases op)
  case (Apply e)
  have "tracker_ok (t\<lparr>pt_pools := dict_set (pt_pools t) a p\<rparr>)" if "pool_ok p" for a p
    using assms(2) that by (auto simp: tracker_ok_def)
  then show ?thesis using Apply assms(2)
    by (auto simp: tracker_apply_def Let_def tracker_update_ok create_pool_ok split: sum.split)
next
  case (Price q)
  then show ?thesis using assms by (simp add: tracker_ok_def set_quote_price_def)
next
  case (Supply a s)
  have "state_ok (st\<lparr>ps_base_supply_raw := Some s, ps_market_cap_estimate_usd := m\<rparr>)"
    if "state_ok st" "ps_marginal_price_usd st = 0 \<Longrightarrow> m = None" for st m
    using that by (auto simp: state_ok_def)
  moreover have "dict_get (pt_states t) a = Some st \<Longrightarrow> state_ok st" for st
    using assms(2) by (auto simp: tracker_ok_def dest: all_valuesD)
  ultimately show ?thesis using Supply assms(2)
    by (auto simp: apply_base_supply_def Let_def tracker_ok_def split: option.split)
qed

text \<open>
  In every run of the tracker, malformed events included, every pool that pairs a supported
  mint with another one has the supported mint as its quote; prices, reserve values and ages are not
  negative; a positive price means that a quote price was known and both effective reserves are
  positive, and a market cap is only given with a positive price; every state belongs to a pool.
\<close>

theorem tracker_states_normalized:
  assumes "\<forall>op \<in> set ops. valid_op op"
  shows "tracker_ok (tracker_run ops)"
  using assms
proof (induction ops rule: rev_induct)
  case Nil
  then show ?case by (simp add: tracker_ok_def pool_tracker_init_def)
qed (simp add: tracker_step_ok)

section \<open>Witnesses\<close>

definition demo_created :: event_envelope where
  "demo_created = \<lparr>ev_event_id = [], ev_ingest_sequence = None, ev_source = REPLAY, ev_network = ''solana'',
     ev_protocol = PUMPSWAP, ev_event_type = POOL_CREATED, ev_slot = 7, ev_signature = ''sig'',
     ev_instruction_index = 0, ev_inner_instruction_index = - 1, ev_block_time = 0, ev_observed_at = 0,
     ev_commitment = ''confirmed'', ev_mint = None, ev_pool_address = Some ''pool'',
     ev_payload = [(''base_mint'', PText ''T''), (''quote_mint'', PText USDC_MINT), (''base_mint_decimals'', PInt 6),
       (''quote_mint_decimals'', PInt 6), (''pool_base_amount'', PInt 4000000), (''pool_quote_amount'', PInt 2000000)]\<rparr>"

definition demo_ops :: "tracker_op list" where
  "demo_ops = [Price \<lparr>qa_mint = USDC_MINT, qa_price_usd = 1, qa_observed_at = 0\<rparr>, Apply demo_created]"

lemma demo_ops_ok: "list_all comparable_op demo_ops" "list_all valid_op demo_ops"
  by code_simp+


theorem tracker_states_normalized_witness: "tracker_ok (tracker_run demo_ops)"
  by (rule tracker_states_normalized) (use demo_ops_ok in \<open>simp add: list_all_iff\<close>)

end
