(* ===== verification/Clustering.thy ===== *)
theory Clustering
  imports Ledger
begin

text \<open>
  Wallet relations and clusters (\<open>clustering.py\<close>): evidence weights, and union-find with path
  halving over a parent dictionary. The set of wallets is a list without duplicates; its order
  matters only for the initial dictionary. \<open>find\<close> is a loop that ends only on an acyclic
  dictionary, so it is a partial function; \<open>None\<close> stands for not returning.
\<close>

section \<open>Relations\<close>

record relation_evidence =
  re_same_initial_funder :: bool
  re_direct_token_transfer :: bool
  re_direct_sol_transfer :: bool
  re_same_creation_transaction :: bool
  re_same_slot_buying :: bool
  re_same_transaction_bundle_heuristic :: bool
  re_identical_trade_amount_pattern :: bool
  re_common_withdrawal_destination :: bool
  re_shared_dev_funding_source :: bool

record wallet_relation =
  wr_wallet_a :: string
  wr_wallet_b :: string
  wr_relation_score :: decimal
  wr_evidence :: "string list"
  wr_eligible_for_cluster :: bool

definition wallet_relation_valid :: "wallet_relation \<Rightarrow> bool" where
  "wallet_relation_valid r \<longleftrightarrow> 0 \<le> wr_relation_score r \<and> wr_relation_score r \<le> 1
     \<and> wr_wallet_a r \<noteq> wr_wallet_b r"

record wallet_cluster =
  wc_cluster_id :: string
  wc_wallets :: "string list"
  wc_relation_explanations :: "wallet_relation list"
  wc_holdings_pct :: decimal
  wc_buy_share_pct :: decimal

definition strong_weights :: "(string, decimal) dict" where
  "strong_weights = [(''same_initial_funder'', 78/100), (''direct_token_transfer'', 78/100),
     (''direct_sol_transfer'', 72/100), (''common_withdrawal_destination'', 75/100),
     (''shared_dev_funding_source'', 85/100)]"

definition medium_weights :: "(string, decimal) dict" where
  "medium_weights = [(''same_creation_transaction'', 50/100), (''same_slot_buying'', 46/100),
     (''same_transaction_bundle_heuristic'', 55/100), (''identical_trade_amount_pattern'', 46/100)]"

definition active_evidence :: "relation_evidence \<Rightarrow> string list" where
  "active_evidence e = map fst (filter snd [
     (''same_initial_funder'', re_same_initial_funder e),
     (''direct_token_transfer'', re_direct_token_transfer e),
     (''direct_sol_transfer'', re_direct_sol_transfer e),
     (''same_creation_transaction'', re_same_creation_transaction e),
     (''same_slot_buying'', re_same_slot_buying e),
     (''same_transaction_bundle_heuristic'', re_same_transaction_bundle_heuristic e),
     (''identical_trade_amount_pattern'', re_identical_trade_amount_pattern e),
     (''common_withdrawal_destination'', re_common_withdrawal_destination e),
     (''shared_dev_funding_source'', re_shared_dev_funding_source e)])"

definition evidence_weight :: "string \<Rightarrow> decimal" where
  "evidence_weight name = (case dict_get strong_weights name of Some x \<Rightarrow> x
     | None \<Rightarrow> opt_or (dict_get medium_weights name) 0)"

definition evidence_score :: "string list \<Rightarrow> decimal" where
  "evidence_score active = dsub 1 (foldl (\<lambda>complement w. dmul complement (dsub 1 w)) 1 (map evidence_weight active))"

definition score_relation :: "string \<Rightarrow> string \<Rightarrow> relation_evidence \<Rightarrow> wallet_relation result" where
  "score_relation wallet_a wallet_b evidence =
     (if wallet_a = wallet_b then Inl (ValueError ''cannot score a wallet against itself'')
      else let active = active_evidence evidence;
               strong_count = length (filter (\<lambda>n. dict_get strong_weights n \<noteq> None) active);
               medium_count = length (filter (\<lambda>n. dict_get medium_weights n \<noteq> None) active);
               score = evidence_score active
           in rbind (quantize round_half_even 4 score) (\<lambda>rounded.
                let r = \<lparr>wr_wallet_a = min wallet_a wallet_b, wr_wallet_b = max wallet_a wallet_b,
                         wr_relation_score = rounded, wr_evidence = active,
                         wr_eligible_for_cluster = (70/100 \<le> score \<and> (1 \<le> strong_count \<or> 2 \<le> medium_count))\<rparr>
                in if wallet_relation_valid r then Inr r else Inl (ValueError ''validation error'')))"

section \<open>Union-find\<close>

type_synonym parents = "(string, string) dict"

partial_function (option) find_root :: "parents \<Rightarrow> string \<Rightarrow> (parents \<times> string) result option" where
  "find_root parent wallet =
     (case dict_get parent wallet of
        None \<Rightarrow> Some (Inl KeyError)
      | Some p \<Rightarrow>
          if p = wallet then Some (Inr (parent, wallet))
          else (case dict_get parent p of
                  None \<Rightarrow> Some (Inl KeyError)
                | Some g \<Rightarrow> find_root (dict_set parent wallet g) g))"

text \<open>Sequencing of computations that may raise or not return.\<close>

definition obind :: "'a result option \<Rightarrow> ('a \<Rightarrow> 'b result option) \<Rightarrow> 'b result option" where
  "obind m f = (case m of None \<Rightarrow> None | Some (Inl e) \<Rightarrow> Some (Inl e) | Some (Inr x) \<Rightarrow> f x)"

definition union_roots :: "parents \<Rightarrow> string \<Rightarrow> string \<Rightarrow> parents result option" where
  "union_roots parent left right =
     obind (find_root parent left) (\<lambda>(parent1, left_root).
     obind (find_root parent1 right) (\<lambda>(parent2, right_root).
       Some (Inr (if left_root = right_root then parent2
                  else dict_set parent2 (max left_root right_root) (min left_root right_root)))))"

fun union_all :: "wallet_relation list \<Rightarrow> parents \<Rightarrow> parents result option" where
  "union_all [] parent = Some (Inr parent)"
| "union_all (r # rs) parent =
     (if wr_eligible_for_cluster r then
        (if dict_get parent (wr_wallet_a r) = None \<or> dict_get parent (wr_wallet_b r) = None
         then Some (Inl (ValueError ''relation contains a wallet outside clustering scope''))
         else obind (union_roots parent (wr_wallet_a r) (wr_wallet_b r)) (\<lambda>parent'. union_all rs parent'))
      else union_all rs parent)"

fun group_wallets :: "string list \<Rightarrow> parents \<Rightarrow> (string, string list) dict \<Rightarrow> (string, string list) dict result option" where
  "group_wallets [] parent grouped = Some (Inr grouped)"
| "group_wallets (w # ws) parent grouped =
     obind (find_root parent w) (\<lambda>(parent', root_id).
       group_wallets ws parent' (dict_set grouped root_id (opt_or (dict_get grouped root_id) [] @ [w])))"

definition pct_of :: "(string, decimal) dict \<Rightarrow> string list \<Rightarrow> decimal" where
  "pct_of amounts members =
     (let total = dsum (dict_values amounts);
          part = dsum (map (\<lambda>w. opt_or (dict_get amounts w) 0) members)
      in if 0 < total then ddiv part total else 0)"

definition cluster_of :: "wallet_relation list \<Rightarrow> (string, decimal) dict \<Rightarrow> (string, decimal) dict
    \<Rightarrow> string \<times> string list \<Rightarrow> wallet_cluster" where
  "cluster_of relations holdings buy_volumes entry = (case entry of (root_id, members) \<Rightarrow> \<lparr>
     wc_cluster_id = root_id,
     wc_wallets = members,
     wc_relation_explanations = filter (\<lambda>r. wr_wallet_a r \<in> set members \<and> wr_wallet_b r \<in> set members
       \<and> wr_eligible_for_cluster r) relations,
     wc_holdings_pct = pct_of holdings members,
     wc_buy_share_pct = pct_of buy_volumes members\<rparr>)"

text \<open>\<open>holdings\<close> and \<open>buy_volumes\<close> default to the empty dictionary.\<close>

definition build_clusters :: "string list \<Rightarrow> wallet_relation list \<Rightarrow> (string, decimal) dict \<Rightarrow> (string, decimal) dict
    \<Rightarrow> wallet_cluster list result option" where
  "build_clusters wallets relations holdings buy_volumes =
     obind (union_all relations (map (\<lambda>w. (w, w)) wallets)) (\<lambda>parent.
     obind (group_wallets (sort wallets) parent []) (\<lambda>grouped.
       Some (Inr (map (cluster_of relations holdings buy_volumes) (sort_key fst grouped)))))"

end
