(* ===== verification/Wallet_Analysis.thy ===== *)
theory Wallet_Analysis
  imports Clustering Events "HOL-Library.Product_Lexorder"
begin

text \<open>
  Wallet profiles, token outcomes, buyer evidence and relations (\<open>wallet_analysis.py\<close>). The six
  default dictionaries the analyzer keeps per mint are the fields of one record per mint; a mint
  without an entry has the empty record, as the defaults of the dictionaries give it.
\<close>

section \<open>Data\<close>

record wallet_profile =
  wp_wallet_address :: string
  wp_first_seen_at :: datetime
  wp_initial_funder :: "string option"
  wp_funding_signature :: "string option"
  wp_known_creator :: bool
  wp_tokens_created_total :: int
  wp_tokens_created_7d :: int
  wp_tokens_created_30d :: int
  wp_tokens_reaching_pumpswap :: int
  wp_tokens_reaching_2x_executable :: int
  wp_tokens_with_liquidity_rug :: int
  wp_tokens_with_dev_dump_5m :: int
  wp_median_peak_return :: decimal
  wp_median_token_lifetime_seconds :: decimal
  wp_median_dev_sell_delay_seconds :: decimal
  wp_last_token_created_at :: "datetime option"
  wp_known_funding_cluster :: "string option"
  wp_tokens_traded :: int
  wp_profile_updated_at :: datetime

record token_outcome =
  oc_mint :: string
  oc_creator :: string
  oc_created_at :: datetime
  oc_reached_pumpswap :: bool
  oc_peak_return :: decimal
  oc_liquidity_rug :: bool
  oc_dev_sell_delay_seconds :: "decimal option"
  oc_lifetime_seconds :: "decimal option"

record buyer_evidence =
  be_total_amount :: decimal
  be_slots :: "int set"
  be_bundles :: "string set"
  be_amounts :: "decimal set"

definition empty_evidence :: buyer_evidence where
  "empty_evidence = \<lparr>be_total_amount = 0, be_slots = {}, be_bundles = {}, be_amounts = {}\<rparr>"

text \<open>One purchase: \<open>(at, wallet, amount, slot, bundle)\<close>.\<close>

record purchase =
  pu_time :: datetime
  pu_wallet :: string
  pu_amount :: decimal
  pu_slot :: int
  pu_bundle :: "string option"

type_synonym evidence_dict = "(string, buyer_evidence) dict"

record mint_buyers =
  mb_buyers :: "purchase list"
  mb_first_order :: "string list"
  mb_first_members :: "string set"
  mb_top_volume :: "string list"
  mb_evidence :: evidence_dict
  mb_last_order_key :: "(datetime \<times> string) option"

definition empty_buyers :: mint_buyers where
  "empty_buyers = \<lparr>mb_buyers = [], mb_first_order = [], mb_first_members = {}, mb_top_volume = [],
     mb_evidence = [], mb_last_order_key = None\<rparr>"

record wallet_analyzer =
  wa_profiles :: "(string, wallet_profile) dict"
  wa_baselines :: "(string, wallet_profile) dict"
  wa_outcomes :: "(string, token_outcome) dict"
  wa_relations :: "(string \<times> string, wallet_relation) dict"
  wa_buyers :: "(string, mint_buyers) dict"
  wa_seen_event_ids :: "string set"

definition wallet_analyzer_init :: wallet_analyzer where
  "wallet_analyzer_init = \<lparr>wa_profiles = [], wa_baselines = [], wa_outcomes = [], wa_relations = [],
     wa_buyers = [], wa_seen_event_ids = {}\<rparr>"

definition restore :: "wallet_profile list \<Rightarrow> wallet_relation list \<Rightarrow> wallet_analyzer \<Rightarrow> wallet_analyzer" where
  "restore profiles relations a = a\<lparr>
     wa_profiles := foldl (\<lambda>d p. dict_set d (wp_wallet_address p) p) (wa_profiles a) profiles,
     wa_baselines := foldl (\<lambda>d p. dict_set d (wp_wallet_address p) p) (wa_baselines a) profiles,
     wa_relations := foldl (\<lambda>d r. dict_set d (wr_wallet_a r, wr_wallet_b r) r) (wa_relations a) relations\<rparr>"

text \<open>\<open>_decimal\<close> swallows every parse error.\<close>

definition decimal_of :: "payload_value \<Rightarrow> decimal option" where
  "decimal_of v = (if v = PNone then None else parse_decimal (py_str v))"

text \<open>\<open>statistics.median\<close>, with 0 for no data.\<close>

definition median_or_zero :: "decimal list \<Rightarrow> decimal" where
  "median_or_zero xs = (let ys = sort xs; n = length xs in
     if xs = [] then 0 else if odd n then ys ! (n div 2)
     else ddiv (dadd (ys ! (n div 2 - 1)) (ys ! (n div 2))) 2)"

section \<open>Profiles\<close>

definition touch_profile :: "string \<Rightarrow> datetime \<Rightarrow> string option \<Rightarrow> string option \<Rightarrow> bool \<Rightarrow> wallet_analyzer
    \<Rightarrow> wallet_analyzer \<times> wallet_profile" where
  "touch_profile wallet observed_at initial_funder funding_signature known_creator a =
     (case dict_get (wa_profiles a) wallet of
        None \<Rightarrow>
          (let p = \<lparr>wp_wallet_address = wallet, wp_first_seen_at = observed_at, wp_initial_funder = initial_funder,
                 wp_funding_signature = funding_signature, wp_known_creator = known_creator,
                 wp_tokens_created_total = 0, wp_tokens_created_7d = 0, wp_tokens_created_30d = 0,
                 wp_tokens_reaching_pumpswap = 0, wp_tokens_reaching_2x_executable = 0,
                 wp_tokens_with_liquidity_rug = 0, wp_tokens_with_dev_dump_5m = 0, wp_median_peak_return = 0,
                 wp_median_token_lifetime_seconds = 0, wp_median_dev_sell_delay_seconds = 0,
                 wp_last_token_created_at = None, wp_known_funding_cluster = None, wp_tokens_traded = 0,
                 wp_profile_updated_at = observed_at\<rparr>
           in (a\<lparr>wa_profiles := dict_set (wa_profiles a) wallet p\<rparr>, p))
      | Some p \<Rightarrow>
          (let funder_new = wp_initial_funder p = None \<and> initial_funder \<noteq> None;
               signature_new = wp_funding_signature p = None \<and> funding_signature \<noteq> None;
               creator_new = known_creator \<and> \<not> wp_known_creator p
           in if funder_new \<or> signature_new \<or> creator_new then
                (let p' = p\<lparr>wp_initial_funder := (if funder_new then initial_funder else wp_initial_funder p),
                        wp_funding_signature := (if signature_new then funding_signature else wp_funding_signature p),
                        wp_known_creator := (creator_new \<or> wp_known_creator p),
                        wp_profile_updated_at := max (wp_profile_updated_at p) observed_at\<rparr>
                 in (a\<lparr>wa_profiles := dict_set (wa_profiles a) wallet p'\<rparr>, p'))
              else (a, p)))"

text \<open>The outcomes a rebuilt profile counts: of this creator, not after \<open>at\<close>, newer than the baseline.\<close>

definition counted_outcomes :: "wallet_analyzer \<Rightarrow> string \<Rightarrow> datetime \<Rightarrow> token_outcome list" where
  "counted_outcomes a wallet at_time = filter (\<lambda>i. oc_creator i = wallet \<and> oc_created_at i \<le> at_time
     \<and> (case dict_get (wa_baselines a) wallet of None \<Rightarrow> True | Some b \<Rightarrow> wp_profile_updated_at b < oc_created_at i))
     (dict_values (wa_outcomes a))"

definition count_if :: "('a \<Rightarrow> bool) \<Rightarrow> 'a list \<Rightarrow> int" where
  "count_if P xs = int (length (filter P xs))"

definition base_count :: "(wallet_profile \<Rightarrow> int) \<Rightarrow> wallet_profile option \<Rightarrow> int" where
  "base_count field baseline = (case baseline of None \<Rightarrow> 0 | Some b \<Rightarrow> field b)"

definition base_median :: "(wallet_profile \<Rightarrow> decimal) \<Rightarrow> wallet_profile option \<Rightarrow> decimal list" where
  "base_median field baseline = (case baseline of None \<Rightarrow> []
     | Some b \<Rightarrow> if wp_tokens_created_total b \<noteq> 0 then [field b] else [])"

definition some_values :: "('a \<Rightarrow> 'b option) \<Rightarrow> 'a list \<Rightarrow> 'b list" where
  "some_values f xs = map (\<lambda>x. the (f x)) (filter (\<lambda>x. f x \<noteq> None) xs)"

definition max_or_none :: "int list \<Rightarrow> int option" where
  "max_or_none xs = (if xs = [] then None else Some (Max (set xs)))"

definition days :: "int \<Rightarrow> timedelta" where
  "days n = seconds (86400 * n)"

definition rebuild_developer_profile :: "string \<Rightarrow> datetime \<Rightarrow> wallet_analyzer \<Rightarrow> wallet_analyzer \<times> wallet_profile" where
  "rebuild_developer_profile wallet at_time a0 =
     (let (a, p) = (case dict_get (wa_profiles a0) wallet of Some p \<Rightarrow> (a0, p)
            | None \<Rightarrow> touch_profile wallet at_time None None True a0);
          b = dict_get (wa_baselines a) wallet;
          outcomes = counted_outcomes a wallet at_time;
          p' = p\<lparr>wp_known_creator := (outcomes \<noteq> [] \<or> wp_known_creator p),
            wp_tokens_created_total := base_count wp_tokens_created_total b + int (length outcomes),
            wp_tokens_created_7d := base_count wp_tokens_created_7d b
              + count_if (\<lambda>i. at_time - days 7 \<le> oc_created_at i) outcomes,
            wp_tokens_created_30d := base_count wp_tokens_created_30d b
              + count_if (\<lambda>i. at_time - days 30 \<le> oc_created_at i) outcomes,
            wp_tokens_reaching_pumpswap := base_count wp_tokens_reaching_pumpswap b + count_if oc_reached_pumpswap outcomes,
            wp_tokens_reaching_2x_executable := base_count wp_tokens_reaching_2x_executable b
              + count_if (\<lambda>i. 1 \<le> oc_peak_return i) outcomes,
            wp_tokens_with_liquidity_rug := base_count wp_tokens_with_liquidity_rug b + count_if oc_liquidity_rug outcomes,
            wp_tokens_with_dev_dump_5m := base_count wp_tokens_with_dev_dump_5m b
              + count_if (\<lambda>i. case oc_dev_sell_delay_seconds i of None \<Rightarrow> False | Some d \<Rightarrow> d \<le> 300) outcomes,
            wp_median_peak_return := median_or_zero (base_median wp_median_peak_return b @ map oc_peak_return outcomes),
            wp_median_token_lifetime_seconds := median_or_zero (base_median wp_median_token_lifetime_seconds b
              @ some_values oc_lifetime_seconds outcomes),
            wp_median_dev_sell_delay_seconds := median_or_zero (base_median wp_median_dev_sell_delay_seconds b
              @ some_values oc_dev_sell_delay_seconds outcomes),
            wp_last_token_created_at := max_or_none (map oc_created_at outcomes
              @ (case b of None \<Rightarrow> [] | Some q \<Rightarrow> (case wp_last_token_created_at q of None \<Rightarrow> [] | Some t \<Rightarrow> [t]))),
            wp_profile_updated_at := at_time\<rparr>
      in (a\<lparr>wa_profiles := dict_set (wa_profiles a) wallet p'\<rparr>, p'))"

definition profile :: "string option \<Rightarrow> datetime \<Rightarrow> wallet_analyzer \<Rightarrow> wallet_analyzer \<times> wallet_profile option" where
  "profile wallet at_time a =
     (if truthy wallet \<and> dict_get (wa_profiles a) (the wallet) \<noteq> None
      then (case rebuild_developer_profile (the wallet) at_time a of (a', p) \<Rightarrow> (a', Some p)) else (a, None))"

section \<open>Buyers\<close>

definition order_key :: "purchase \<Rightarrow> datetime \<times> string" where
  "order_key b = (pu_time b, pu_wallet b)"

definition accumulate_evidence :: "purchase \<Rightarrow> buyer_evidence \<Rightarrow> buyer_evidence" where
  "accumulate_evidence b ev = ev\<lparr>
     be_total_amount := dadd (be_total_amount ev) (pu_amount b),
     be_slots := insert (pu_slot b) (be_slots ev),
     be_bundles := (if truthy (pu_bundle b) then insert (the (pu_bundle b)) (be_bundles ev) else be_bundles ev),
     be_amounts := (if 0 < pu_amount b then insert (pu_amount b) (be_amounts ev) else be_amounts ev)\<rparr>"

definition add_evidence :: "purchase \<Rightarrow> evidence_dict \<Rightarrow> evidence_dict" where
  "add_evidence b d = dict_set d (pu_wallet b)
     (accumulate_evidence b (opt_or (dict_get d (pu_wallet b)) empty_evidence))"

definition add_first :: "purchase \<Rightarrow> string list \<times> string set \<Rightarrow> string list \<times> string set" where
  "add_first b s = (case s of (first_order, first_members) \<Rightarrow>
     if pu_wallet b \<notin> first_members \<and> card first_members < 20
     then (first_order @ [pu_wallet b], insert (pu_wallet b) first_members) else s)"

text \<open>The sort key of the volume ranking.\<close>

definition volume_key :: "evidence_dict \<Rightarrow> string \<Rightarrow> decimal \<times> string" where
  "volume_key d w = (dneg (be_total_amount (opt_or (dict_get d w) empty_evidence)), w)"

definition ranked_wallets :: "evidence_dict \<Rightarrow> string list" where
  "ranked_wallets d = take 20 (sort_key (volume_key d) (map fst d))"

definition update_top_volume :: "evidence_dict \<Rightarrow> string \<Rightarrow> string list \<Rightarrow> string list" where
  "update_top_volume d wallet ranking =
     (let top1 = remove1 wallet ranking
      in if length top1 < 20 \<or> volume_key d wallet < volume_key d (last top1)
         then take 20 (sort_key (volume_key d) (top1 @ [wallet])) else top1)"

definition rebuild_buyer_state :: "purchase list \<Rightarrow> (datetime \<times> string) option \<Rightarrow> mint_buyers" where
  "rebuild_buyer_state buyers last_key =
     (let evidence = fold add_evidence buyers []; (first_order, first_members) = fold add_first buyers ([], {})
      in \<lparr>mb_buyers = buyers, mb_first_order = first_order, mb_first_members = first_members,
          mb_top_volume = ranked_wallets evidence, mb_evidence = evidence,
          mb_last_order_key = (if buyers = [] then last_key else Some (order_key (last buyers)))\<rparr>)"

text \<open>The state as of a time: the loop stops at the first later purchase.\<close>

definition historical_buyer_state :: "purchase list \<Rightarrow> datetime \<Rightarrow> evidence_dict \<times> string set" where
  "historical_buyer_state buyers at_time =
     (let seen = takeWhile (\<lambda>b. \<not> at_time < pu_time b) buyers; evidence = fold add_evidence seen [];
          first_order = fst (fold add_first seen ([], {}))
      in (evidence, set first_order \<union> set (ranked_wallets evidence)))"

definition relation_scope :: "mint_buyers \<Rightarrow> string set" where
  "relation_scope m = set (mb_first_order m) \<union> set (mb_top_volume m)"

definition observe_buyer :: "purchase \<Rightarrow> mint_buyers \<Rightarrow> mint_buyers \<times> evidence_dict \<times> string set" where
  "observe_buyer b m =
     (let key = order_key b;
          out_of_order = (case mb_last_order_key m of None \<Rightarrow> False | Some k \<Rightarrow> key < k);
          buyers = mb_buyers m @ [b]
      in if out_of_order then
           (let sorted_buyers = sort_key order_key buyers
            in (rebuild_buyer_state sorted_buyers (mb_last_order_key m), historical_buyer_state sorted_buyers (pu_time b)))
         else
           (let evidence = add_evidence b (mb_evidence m);
                (first_order, first_members) = add_first b (mb_first_order m, mb_first_members m);
                m' = \<lparr>mb_buyers = buyers, mb_first_order = first_order, mb_first_members = first_members,
                      mb_top_volume = update_top_volume evidence (pu_wallet b) (mb_top_volume m),
                      mb_evidence = evidence, mb_last_order_key = Some key\<rparr>
            in (m', mb_evidence m', relation_scope m')))"

definition first_buyers :: "string \<Rightarrow> datetime \<Rightarrow> nat \<Rightarrow> wallet_analyzer \<Rightarrow> string set" where
  "first_buyers mint at_time limit a =
     (let ordered = sort_key order_key (filter (\<lambda>b. pu_time b \<le> at_time)
            (mb_buyers (opt_or (dict_get (wa_buyers a) mint) empty_buyers)))
      in set (take limit (rev (remdups (rev (map pu_wallet ordered))))))"

section \<open>Relations\<close>

definition same_funder :: "wallet_profile option \<Rightarrow> wallet_profile option \<Rightarrow> bool" where
  "same_funder l r = (case (l, r) of
     (Some p, Some q) \<Rightarrow> truthy (wp_initial_funder p) \<and> wp_initial_funder p = wp_initial_funder q | _ \<Rightarrow> False)"

definition pair_evidence :: "wallet_analyzer \<Rightarrow> string \<Rightarrow> string \<Rightarrow> buyer_evidence \<Rightarrow> buyer_evidence \<Rightarrow> relation_evidence" where
  "pair_evidence a l r el er = \<lparr>
     re_same_initial_funder = same_funder (dict_get (wa_profiles a) l) (dict_get (wa_profiles a) r),
     re_direct_token_transfer = False, re_direct_sol_transfer = False, re_same_creation_transaction = False,
     re_same_slot_buying = (be_slots el \<inter> be_slots er \<noteq> {}),
     re_same_transaction_bundle_heuristic = (be_bundles el \<inter> be_bundles er \<noteq> {}),
     re_identical_trade_amount_pattern = (be_amounts el \<inter> be_amounts er \<noteq> {}),
     re_common_withdrawal_destination = False, re_shared_dev_funding_source = False\<rparr>"

fun relation_loop :: "wallet_analyzer \<Rightarrow> evidence_dict \<Rightarrow> (string \<times> string) list \<Rightarrow> (string \<times> string) set
    \<Rightarrow> wallet_relation list \<Rightarrow> wallet_analyzer \<times> wallet_relation list result" where
  "relation_loop a d [] evaluated acc = (a, Inr acc)"
| "relation_loop a d ((wallet, other) # pairs) evaluated acc =
     (let l = min wallet other; r = max wallet other
      in if (l, r) \<in> evaluated then relation_loop a d pairs evaluated acc
         else case (dict_get d l, dict_get d r) of
           (Some el, Some er) \<Rightarrow>
             (case score_relation l r (pair_evidence a l r el er) of
                Inl e \<Rightarrow> (a, Inl e)
              | Inr rel \<Rightarrow>
                  if wr_evidence rel = [] \<or> dict_get (wa_relations a) (l, r) = Some rel
                  then relation_loop a d pairs (insert (l, r) evaluated) acc
                  else relation_loop (a\<lparr>wa_relations := dict_set (wa_relations a) (l, r) rel\<rparr>) d pairs
                         (insert (l, r) evaluated) (acc @ [rel]))
         | _ \<Rightarrow> (a, Inl KeyError))"

definition recompute_relations :: "string set \<Rightarrow> evidence_dict \<Rightarrow> string set \<Rightarrow> wallet_analyzer
    \<Rightarrow> wallet_analyzer \<times> wallet_relation list result" where
  "recompute_relations affected_wallets d scope a =
     (if d = [] \<or> scope \<inter> affected_wallets = {} then (a, Inr [])
      else relation_loop a d
        (concat (map (\<lambda>w. map (\<lambda>x. (w, x)) (sorted_list_of_set (scope - {w})))
          (sorted_list_of_set (scope \<inter> affected_wallets)))) {} [])"

definition scoped_relations :: "string set \<Rightarrow> wallet_analyzer \<Rightarrow> wallet_relation list" where
  "scoped_relations scope a = filter (\<lambda>r. wr_wallet_a r \<in> scope \<and> wr_wallet_b r \<in> scope) (dict_values (wa_relations a))"

definition clusters_in :: "string set \<Rightarrow> wallet_analyzer \<Rightarrow> wallet_cluster list result option" where
  "clusters_in scope a = build_clusters (sorted_list_of_set scope) (scoped_relations scope a) [] []"

definition cluster_for :: "string option \<Rightarrow> string set \<Rightarrow> wallet_analyzer \<Rightarrow> string set result option" where
  "cluster_for wallet scope a =
     (if \<not> truthy wallet then Some (Inr {})
      else let w = the wallet in obind (clusters_in (insert w scope) a) (\<lambda>clusters.
        Some (Inr (case find (\<lambda>c. w \<in> set (wc_wallets c)) clusters of None \<Rightarrow> {w} | Some c \<Rightarrow> set (wc_wallets c)))))"

definition cluster_rank :: "string set \<Rightarrow> nat \<times> string list" where
  "cluster_rank c = (card c, sorted_list_of_set c)"

text \<open>\<open>max\<close> with a key returns the first maximal element.\<close>

definition first_max :: "('a \<Rightarrow> 'b :: linorder) \<Rightarrow> 'a \<Rightarrow> 'a list \<Rightarrow> 'a" where
  "first_max f x xs = foldl (\<lambda>m y. if f m < f y then y else m) x xs"

definition largest_related_cluster :: "string set \<Rightarrow> string set \<Rightarrow> wallet_analyzer \<Rightarrow> string set result option" where
  "largest_related_cluster scope excluded a =
     obind (clusters_in scope a) (\<lambda>clusters.
       Some (Inr (case filter (\<lambda>c. 1 < card c) (map (\<lambda>c. set (wc_wallets c) - excluded) clusters) of
         [] \<Rightarrow> {} | c # cs \<Rightarrow> first_max cluster_rank c cs)))"

definition is_same_funder_cluster :: "string \<Rightarrow> string \<Rightarrow> wallet_analyzer \<Rightarrow> bool" where
  "is_same_funder_cluster mint wallet a =
     (case dict_get (wa_profiles a) wallet of None \<Rightarrow> False
      | Some p \<Rightarrow> truthy (wp_initial_funder p)
          \<and> 2 \<le> card {b \<in> pu_wallet ` set (mb_buyers (opt_or (dict_get (wa_buyers a) mint) empty_buyers)).
                case dict_get (wa_profiles a) b of None \<Rightarrow> False | Some q \<Rightarrow> wp_initial_funder q = wp_initial_funder p})"

section \<open>Events\<close>

definition observe_wallet :: "event_envelope \<Rightarrow> string option \<Rightarrow> wallet_analyzer
    \<Rightarrow> wallet_analyzer \<times> wallet_profile list \<times> string set" where
  "observe_wallet e wallet a =
     (case wallet of None \<Rightarrow> (a, [], {})
      | Some w \<Rightarrow>
          (let p = ev_payload e; previous = dict_get (wa_profiles a) w;
               (a', prof) = touch_profile w (ev_observed_at e)
                 (text_of (py_or (payload_get p ''initial_funder'') (payload_get p ''funder'')))
                 (text_of (payload_get p ''funding_signature'')) (ev_event_type e = TOKEN_CREATED) a
           in (a', if previous = Some prof then [] else [prof],
               if truthy (wp_initial_funder prof)
                  \<and> (case previous of None \<Rightarrow> True | Some q \<Rightarrow> wp_initial_funder q \<noteq> wp_initial_funder prof)
               then {w} else {})))"

definition observe_creation :: "event_envelope \<Rightarrow> string option \<Rightarrow> wallet_analyzer \<Rightarrow> wallet_analyzer \<times> wallet_profile list" where
  "observe_creation e creator a =
     (if ev_event_type e = TOKEN_CREATED \<and> truthy (ev_mint e) \<and> truthy creator then
        (let mint = the (ev_mint e); c = the creator;
             a1 = a\<lparr>wa_outcomes := dict_set (wa_outcomes a) mint \<lparr>oc_mint = mint, oc_creator = c,
               oc_created_at = ev_block_time e, oc_reached_pumpswap = False, oc_peak_return = 0,
               oc_liquidity_rug = False, oc_dev_sell_delay_seconds = None, oc_lifetime_seconds = None\<rparr>\<rparr>;
             (a2, p) = rebuild_developer_profile c (ev_block_time e) a1
         in (a2, [p]))
      else (a, []))"

definition updated_outcome :: "event_envelope \<Rightarrow> string option \<Rightarrow> token_outcome \<Rightarrow> token_outcome option" where
  "updated_outcome e wallet outcome =
     (let reached = ev_event_type e = MIGRATION \<or> ev_event_type e = POOL_CREATED;
          dumped = ev_event_type e = SWAP_SELL \<and> wallet = Some (oc_creator outcome);
          peak = (case decimal_of (payload_get (ev_payload e) ''return_since_pool_creation'') of
            None \<Rightarrow> None | Some d \<Rightarrow> if oc_peak_return outcome < d then Some d else None);
          rug = (case decimal_of (payload_get (ev_payload e) ''liquidity_change_30s'') of
            None \<Rightarrow> False | Some d \<Rightarrow> d \<le> - 8 / 10)
      in if reached \<or> dumped \<or> peak \<noteq> None \<or> rug then
           Some (outcome\<lparr>oc_reached_pumpswap := (reached \<or> oc_reached_pumpswap outcome),
             oc_dev_sell_delay_seconds := (if dumped
               then Some (max 0 (seconds_of (ev_block_time e - oc_created_at outcome)))
               else oc_dev_sell_delay_seconds outcome),
             oc_peak_return := opt_or peak (oc_peak_return outcome),
             oc_liquidity_rug := (rug \<or> oc_liquidity_rug outcome)\<rparr>)
         else None)"

definition observe_outcome :: "event_envelope \<Rightarrow> string option \<Rightarrow> wallet_analyzer \<Rightarrow> wallet_analyzer \<times> wallet_profile list" where
  "observe_outcome e wallet a =
     (let mint = opt_or (ev_mint e) [] in
      case dict_get (wa_outcomes a) mint of None \<Rightarrow> (a, [])
      | Some outcome \<Rightarrow>
          (case updated_outcome e wallet outcome of None \<Rightarrow> (a, [])
           | Some outcome' \<Rightarrow>
               (let (a', p) = rebuild_developer_profile (oc_creator outcome) (ev_block_time e)
                      (a\<lparr>wa_outcomes := dict_set (wa_outcomes a) mint outcome'\<rparr>)
                in (a', [p]))))"

definition buy_amount :: "payload \<Rightarrow> decimal" where
  "buy_amount p = opt_or (decimal_of (py_or (py_or (payload_get p ''quote_amount_in'') (payload_get p ''base_amount_out''))
     (payload_get p ''token_amount''))) 0"

definition purchase_of :: "event_envelope \<Rightarrow> string \<Rightarrow> purchase" where
  "purchase_of e wallet = \<lparr>pu_time = ev_block_time e, pu_wallet = wallet, pu_amount = buy_amount (ev_payload e),
     pu_slot = ev_slot e, pu_bundle = text_of (payload_get (ev_payload e) ''bundle_id'')\<rparr>"

text \<open>The last profile of each wallet, in the order in which wallets first appear.\<close>

definition unique_profiles :: "wallet_profile list \<Rightarrow> wallet_profile list" where
  "unique_profiles changed = dict_values (foldl (\<lambda>d p. dict_set d (wp_wallet_address p) p) [] changed)"

definition observe :: "event_envelope \<Rightarrow> wallet_analyzer
    \<Rightarrow> wallet_analyzer \<times> (wallet_profile list \<times> wallet_relation list) result" where
  "observe e a0 =
     (if ev_event_id e \<in> wa_seen_event_ids a0 then (a0, Inr ([], []))
      else let p = ev_payload e;
               wallet = text_of (py_or (payload_get p ''user'') (payload_get p ''creator''));
               creator = text_of (payload_get p ''creator'');
               (a1, changed1, funded) = observe_wallet e wallet
                 (a0\<lparr>wa_seen_event_ids := insert (ev_event_id e) (wa_seen_event_ids a0)\<rparr>);
               (a2, changed2) = observe_creation e creator a1;
               (a3, changed3) = observe_outcome e wallet a2;
               changed = unique_profiles (changed1 @ changed2 @ changed3)
           in if ev_event_type e = SWAP_BUY \<and> truthy (ev_mint e) \<and> truthy wallet then
                (let mint = the (ev_mint e); w = the wallet;
                     (m, d, scope) = observe_buyer (purchase_of e w) (opt_or (dict_get (wa_buyers a3) mint) empty_buyers);
                     (a5, r) = recompute_relations (insert w funded) d scope
                       (a3\<lparr>wa_buyers := dict_set (wa_buyers a3) mint m\<rparr>)
                 in (a5, map_sum id (\<lambda>relations. (changed, relations)) r))
              else (a3, Inr (changed, [])))"

end
