(* ===== verification/Wallet_Props.thy ===== *)
theory Wallet_Props
  imports Wallet_Analysis
begin

text \<open>
  The incremental buyer state of the wallet analyzer equals the state rebuilt from scratch, for
  every arrival order, and its answers look only at purchases up to the event's time.
\<close>

section \<open>A bounded ranking under one key change\<close>

abbreviation before :: "('a \<Rightarrow> 'b :: linorder) \<Rightarrow> 'a \<Rightarrow> 'a list \<Rightarrow> 'a list" where
  "before f x ys \<equiv> takeWhile (\<lambda>y. \<not> f x \<le> f y) ys"

lemma take_insort_in:
  "length (before f x ys) \<le> m \<Longrightarrow> take (Suc m) (insort_key f x ys) = insort_key f x (take m ys)"
  by (induction ys arbitrary: m) (auto simp: take_Cons split: nat.split if_splits)

lemma take_insort_out: "n \<le> length (before f x ys) \<Longrightarrow> take n (insort_key f x ys) = take n ys"
  by (induction ys arbitrary: n) (auto simp: take_Cons split: nat.split if_splits)

lemma take_insort_take: "take n (insort_key f x (take n ys)) = take n (insort_key f x ys)"
proof (induction ys arbitrary: n)
  case (Cons y ys)
  have "take j (y # take j ys) = take j (y # ys)" for j by (cases j) simp_all
  with Cons show ?case by (cases n) simp_all
qed simp

lemma length_takeWhile_mono:
  "(\<And>y. y \<in> set ys \<Longrightarrow> P y \<Longrightarrow> Q y) \<Longrightarrow> length (takeWhile P ys) \<le> length (takeWhile Q ys)"
  by (induction ys) auto

lemma length_takeWhile_ge: "(\<And>y. y \<in> set (take n ys) \<Longrightarrow> P y) \<Longrightarrow> n \<le> length ys \<Longrightarrow> n \<le> length (takeWhile P ys)"
proof (induction ys arbitrary: n)
  case (Cons y ys)
  then show ?case by (cases n) auto
qed simp

lemma sorted_key_unique:
  assumes "inj f" "sorted (map f xs)" "sorted (map f ys)" "mset xs = mset ys"
  shows "xs = ys"
proof -
  have "map f xs = sort (map f ys)" "map f ys = sort (map f ys)"
    using assms by (auto intro!: properties_for_sort[symmetric])
  then show ?thesis using assms(1) by (metis inj_map_eq_map)
qed

lemma sort_key_insort:
  assumes "inj f" "sorted (map f ys)" "mset xs = add_mset x (mset ys)"
  shows "sort_key f xs = insort_key f x ys"
  by (rule sorted_key_unique[OF assms(1)]) (use assms in \<open>simp_all add: sorted_insort_key\<close>)

lemma mset_insert_distinct:
  assumes "distinct zs" "distinct ys" "w \<notin> set ys" "set zs = insert w (set ys)"
  shows "mset zs = add_mset w (mset ys)"
proof -
  have "mset zs = mset (w # ys)" using assms by (intro set_eq_iff_mset_eq_distinct[THEN iffD1]) simp_all
  then show ?thesis by simp
qed

lemma sorted_last: "sorted (map f zs) \<Longrightarrow> z \<in> set zs \<Longrightarrow> f z \<le> f (last zs)"
  by (cases zs rule: rev_cases) (auto simp: sorted_append)

text \<open>
  \<open>ys\<close> is the ranking without \<open>w\<close>. The first lemma is the case of a wallet that was in the kept
  part, the second that of a wallet outside it.
\<close>

lemma ranking_update_in:
  assumes "inj f" "sorted (map f ys)" "length (before f w ys) \<le> j"
  shows "take (Suc j) (sort_key f (take j ys @ [w])) = take (Suc j) (insort_key f w ys)"
proof -
  have "sort_key f (take j ys @ [w]) = insort_key f w (take j ys)"
    using assms(2) by (intro sort_key_insort[OF assms(1)]) (simp_all add: sorted_wrt_take flip: take_map)
  then show ?thesis using assms(3) by (simp add: take_insort_in)
qed

lemma ranking_update_out:
  assumes "inj f" "sorted (map f ys)" "w \<notin> set ys"
  shows "(if length (take n ys) < n \<or> f w < f (last (take n ys)) then take n (sort_key f (take n ys @ [w])) else take n ys)
     = take n (insort_key f w ys)"
proof (cases "length (take n ys) < n \<or> f w < f (last (take n ys))")
  case True
  have "sort_key f (take n ys @ [w]) = insort_key f w (take n ys)"
    using assms(2) by (intro sort_key_insort[OF assms(1)]) (simp_all add: sorted_wrt_take flip: take_map)
  then show ?thesis using True by (simp add: take_insort_take)
next
  case False
  then have len: "n \<le> length ys" and last: "f (last (take n ys)) \<le> f w"
    by (auto simp: not_less min_def split: if_splits)
  have "\<not> f w \<le> f y" if y: "y \<in> set (take n ys)" for y
  proof -
    have "sorted (map f (take n ys))" using assms(2) by (simp add: sorted_wrt_take flip: take_map)
    then have "f y \<le> f w" using sorted_last[OF _ y] last by fastforce
    moreover have "f y \<noteq> f w" using in_set_takeD[OF y] assms(1,3) by (metis injD)
    ultimately show ?thesis by simp
  qed
  then have "n \<le> length (before f w ys)" using len by (intro length_takeWhile_ge)
  then show ?thesis using False by (simp add: take_insort_out)
qed

lemma ranking_update:
  assumes inj: "inj k" "inj k'" and xs: "distinct xs" "distinct xs'" "set xs' = insert w (set xs)"
    and same: "\<And>v. v \<noteq> w \<Longrightarrow> k' v = k v" and better: "w \<in> set xs \<Longrightarrow> k' w \<le> k w"
    and t1: "t1 = remove1 w (take n (sort_key k xs))"
  shows "(if length t1 < n \<or> k' w < k' (last t1) then take n (sort_key k' (t1 @ [w])) else t1) = take n (sort_key k' xs')"
proof -
  define ys where "ys = sort_key k (removeAll w xs)"
  have w: "w \<notin> set ys" by (simp add: ys_def)
  have k: "k' y = k y" if "y \<in> set ys" for y using that w by (intro same) blast
  then have "map k' ys = map k ys" by simp
  moreover have sk1: "sorted (map k ys)" by (simp add: ys_def)
  ultimately have sk: "sorted (map k ys)" "sorted (map k' ys)" by metis+
  have "mset xs' = add_mset w (mset ys)"
    by (rule mset_insert_distinct[OF xs(2) _ w]) (use xs(1,3) in \<open>auto simp: ys_def distinct_removeAll\<close>)
  then have whole: "sort_key k' xs' = insort_key k' w ys" by (rule sort_key_insort[OF inj(2) sk(2)])
  have old: "sort_key k xs = insort_key k w ys" if "w \<in> set xs"
  proof (rule sort_key_insort[OF inj(1) sk(1)])
    show "mset xs = add_mset w (mset ys)"
      by (rule mset_insert_distinct[OF xs(1) _ w]) (use xs(1) that in \<open>auto simp: ys_def distinct_removeAll\<close>)
  qed
  have wt: "w \<notin> set (take j ys)" for j using w by (meson in_set_takeD)
  show ?thesis
  proof (cases "w \<in> set xs \<and> length (before k w ys) < n")
    case True
    then obtain j where n: "n = Suc j" and j: "length (before k w ys) \<le> j" by (cases n) auto
    have "t1 = take j ys"
      unfolding t1 n old[OF conjunct1[OF True]] take_insort_in[OF j] by (rule remove1_insort_key)
    moreover have "\<not> k w \<le> k y" if "y \<in> set ys" "\<not> k' w \<le> k' y" for y
      using that(2) order.trans[OF better[OF conjunct1[OF True]], of "k y"] k[OF that(1)] by metis
    then have "length (before k' w ys) \<le> length (before k w ys)" by (intro length_takeWhile_mono)
    then have "length (before k' w ys) \<le> j" using j by (rule order.trans)
    moreover have "length (take j ys) < Suc j" by simp
    ultimately show ?thesis using ranking_update_in[OF inj(2) sk(2), of w j] by (simp only: n whole if_True simp_thms)
  next
    case False
    have "t1 = take n ys"
    proof (cases "w \<in> set xs")
      case True
      then have "n \<le> length (before k w ys)" using False by simp
      then show ?thesis unfolding t1 old[OF True] by (simp add: take_insort_out remove1_idem wt)
    next
      case no: False
      then have "sort_key k xs = ys" by (simp add: ys_def removeAll_id)
      then show ?thesis using t1 by (simp add: remove1_idem wt)
    qed
    then show ?thesis using ranking_update_out[OF inj(2) sk(2) w] by (simp only: whole)
  qed
qed

section \<open>The evidence dictionary\<close>

lemma volume_key_inj: "inj (volume_key d)"
  by (auto simp: volume_key_def intro: injI)

definition evidence_ok :: "evidence_dict \<Rightarrow> bool" where
  "evidence_ok d \<longleftrightarrow> dict_wf d \<and> (\<forall>w ev. dict_get d w = Some ev \<longrightarrow> dctx (be_total_amount ev) = be_total_amount ev)"

lemma add_evidence_ok: "evidence_ok d \<Longrightarrow> evidence_ok (add_evidence b d)"
  by (auto simp: evidence_ok_def add_evidence_def accumulate_evidence_def)

lemma fold_evidence_ok: "evidence_ok d \<Longrightarrow> evidence_ok (fold add_evidence bs d)"
  by (induction bs arbitrary: d) (simp_all add: add_evidence_ok)

lemma evidence_ok_Nil [simp]: "evidence_ok []"
  by (simp add: evidence_ok_def dict_wf_def)

lemma volume_key_grows:
  assumes "evidence_ok d" "0 \<le> pu_amount b"
  shows "volume_key (add_evidence b d) (pu_wallet b) \<le> volume_key d (pu_wallet b)"
proof -
  let ?t = "be_total_amount (opt_or (dict_get d (pu_wallet b)) empty_evidence)"
  have "dctx ?t = ?t"
    using assms(1) by (auto simp: evidence_ok_def opt_or_def empty_evidence_def dec.zero split: option.split)
  then have "?t \<le> dadd ?t (pu_amount b)" unfolding dadd_def using assms(2) by (intro dec.ge_fixed) simp_all
  then have "dneg (dadd ?t (pu_amount b)) \<le> dneg ?t" unfolding dneg_def by (intro dec.mono) simp
  then show ?thesis by (simp add: volume_key_def add_evidence_def accumulate_evidence_def opt_or_def)
qed

lemma update_top_volume_ranked:
  assumes "evidence_ok d" "0 \<le> pu_amount b"
  shows "update_top_volume (add_evidence b d) (pu_wallet b) (ranked_wallets d) = ranked_wallets (add_evidence b d)"
proof -
  let ?d = "add_evidence b d" and ?w = "pu_wallet b"
  have wf: "dict_wf d" "dict_wf ?d" using assms(1) add_evidence_ok[OF assms(1)] by (simp_all add: evidence_ok_def)
  have keys: "set (map fst ?d) = insert ?w (set (map fst d))"
    by (simp add: add_evidence_def dom_update)
  have same: "volume_key ?d v = volume_key d v" if "v \<noteq> ?w" for v
    using that by (simp add: volume_key_def add_evidence_def)
  show ?thesis unfolding update_top_volume_def Let_def ranked_wallets_def
    by (rule ranking_update[OF volume_key_inj volume_key_inj _ _ keys same volume_key_grows[OF assms] refl])
      (use wf in \<open>simp_all add: dict_wf_def\<close>)
qed

section \<open>Observing purchases\<close>

lemma sort_key_snoc_sorted:
  assumes "\<And>x. x \<in> set xs \<Longrightarrow> f x \<le> f y" shows "sort_key f (xs @ [y]) = sort_key f xs @ [y]"
proof (rule properties_for_sort_key)
  fix k
  have "(\<lambda>x. f k = f x) = (\<lambda>x. f x = f k)" by auto
  then show "filter (\<lambda>x. f k = f x) (sort_key f xs @ [y]) = filter (\<lambda>x. f k = f x) (xs @ [y])"
    by (simp only: sort_key_stable filter_append)
qed (use assms in \<open>simp_all add: sorted_append\<close>)

lemma sort_key_sort_snoc: "sort_key f (sort_key f xs @ [y]) = sort_key f (xs @ [y])"
proof (rule properties_for_sort_key)
  fix k
  have "(\<lambda>x. f k = f x) = (\<lambda>x. f x = f k)" by auto
  then show "filter (\<lambda>x. f k = f x) (sort_key f (xs @ [y])) = filter (\<lambda>x. f k = f x) (sort_key f xs @ [y])"
    by (simp only: sort_key_stable filter_append)
qed simp_all

lemma rebuild_snoc:
  assumes "0 \<le> pu_amount b"
  shows "rebuild_buyer_state (bs @ [b]) l =
    (let m = rebuild_buyer_state bs l; evidence = add_evidence b (mb_evidence m);
         (first_order, first_members) = add_first b (mb_first_order m, mb_first_members m)
     in \<lparr>mb_buyers = bs @ [b], mb_first_order = first_order, mb_first_members = first_members,
         mb_top_volume = update_top_volume evidence (pu_wallet b) (mb_top_volume m),
         mb_evidence = evidence, mb_last_order_key = Some (order_key b)\<rparr>)"
proof -
  have "evidence_ok (fold add_evidence bs [])" by (simp add: fold_evidence_ok)
  from update_top_volume_ranked[OF this assms] show ?thesis
    by (cases "bs = []") (simp_all add: rebuild_buyer_state_def Let_def split: prod.split)
qed

lemma rebuild_simps [simp]:
  "mb_buyers (rebuild_buyer_state bs l) = bs"
  "mb_last_order_key (rebuild_buyer_state bs l) = (if bs = [] then l else Some (order_key (last bs)))"
  by (simp_all add: rebuild_buyer_state_def Let_def split: prod.split)

lemma rebuild_last_key: "bs \<noteq> [] \<Longrightarrow> rebuild_buyer_state bs l = rebuild_buyer_state bs l'"
  by (simp add: rebuild_buyer_state_def)

lemma historical_all:
  assumes "\<And>x. x \<in> set bs \<Longrightarrow> pu_time x \<le> t"
  shows "historical_buyer_state bs t = (mb_evidence (rebuild_buyer_state bs l), relation_scope (rebuild_buyer_state bs l))"
proof -
  have tw: "takeWhile (\<lambda>b. \<not> t < pu_time b) bs = bs" using assms by (simp add: takeWhile_eq_all_conv not_less)
  show ?thesis
    by (simp add: tw historical_buyer_state_def rebuild_buyer_state_def relation_scope_def Let_def split: prod.split)
qed

lemma observe_buyer_sorted:
  assumes "0 \<le> pu_amount b" and m: "m = rebuild_buyer_state (sort_key order_key bs) None"
  shows "observe_buyer b m = (rebuild_buyer_state (sort_key order_key (bs @ [b])) None,
     historical_buyer_state (sort_key order_key (bs @ [b])) (pu_time b))"
proof (cases "case mb_last_order_key m of None \<Rightarrow> False | Some k \<Rightarrow> order_key b < k")
  case True
  have "sort_key order_key (bs @ [b]) \<noteq> []" by (metis length_sort length_0_conv snoc_eq_iff_butlast)
  note last_key = rebuild_last_key[OF this]
  show ?thesis using True last_key[of "mb_last_order_key m" None] unfolding observe_buyer_def Let_def
    by (simp add: m sort_key_sort_snoc)
next
  case False
  let ?s = "sort_key order_key bs"
  have le: "order_key x \<le> order_key b" if x: "x \<in> set bs" for x
  proof -
    have ne: "?s \<noteq> []" using x by (metis empty_iff empty_set set_sort)
    then obtain zs where zs: "?s = zs @ [last ?s]" by (metis append_butlast_last_id)
    have "sorted (map order_key ?s)" "x \<in> set ?s" using x by simp_all
    then have "order_key x \<le> order_key (last ?s)" by (subst (asm) zs, subst (asm) zs) (auto simp: sorted_append)
    moreover have "order_key (last ?s) \<le> order_key b" using False ne by (simp add: m not_less)
    ultimately show ?thesis by (rule order.trans)
  qed
  have snoc: "sort_key order_key (bs @ [b]) = ?s @ [b]" by (rule sort_key_snoc_sorted) (rule le)
  have "observe_buyer b m = (rebuild_buyer_state (?s @ [b]) None, mb_evidence (rebuild_buyer_state (?s @ [b]) None),
      relation_scope (rebuild_buyer_state (?s @ [b]) None))"
    using False unfolding observe_buyer_def rebuild_snoc[OF assms(1)] Let_def
    by (simp add: m split: prod.split)
  moreover have "pu_time x \<le> pu_time b" if "x \<in> set (?s @ [b])" for x
    using that le[of x] by (auto simp: order_key_def)
  ultimately show ?thesis unfolding snoc using historical_all[of "?s @ [b]" "pu_time b" None] by simp
qed

definition observe_all :: "purchase list \<Rightarrow> mint_buyers" where
  "observe_all bs = foldl (\<lambda>m b. fst (observe_buyer b m)) empty_buyers bs"

lemma observe_all_rebuild:
  "(\<And>b. b \<in> set bs \<Longrightarrow> 0 \<le> pu_amount b) \<Longrightarrow> observe_all bs = rebuild_buyer_state (sort_key order_key bs) None"
proof (induction bs rule: rev_induct)
  case Nil
  then show ?case
    by (simp add: observe_all_def rebuild_buyer_state_def empty_buyers_def ranked_wallets_def)
next
  case (snoc b bs)
  then have "observe_all bs = rebuild_buyer_state (sort_key order_key bs) None" "0 \<le> pu_amount b" by simp_all
  then show ?case using observe_buyer_sorted[of b "observe_all bs" bs] by (simp add: observe_all_def)
qed

text \<open>
  C36. Whatever the order in which the purchases of a mint arrive, the incrementally kept evidence,
  first buyers and volume ranking equal those rebuilt from the purchases in time order, and the
  evidence and scope returned for a purchase are those of the purchases up to its time only.
\<close>

theorem incremental_buyers_rebuild:
  assumes "\<forall>b \<in> set (bs @ [c]). 0 \<le> pu_amount b"
  shows "observe_all (bs @ [c]) = rebuild_buyer_state (sort_key order_key (bs @ [c])) None
    \<and> snd (observe_buyer c (observe_all bs)) = historical_buyer_state (sort_key order_key (bs @ [c])) (pu_time c)"
proof
  have nn: "\<And>b. b \<in> set (bs @ [c]) \<Longrightarrow> 0 \<le> pu_amount b" using assms by blast
  show "observe_all (bs @ [c]) = rebuild_buyer_state (sort_key order_key (bs @ [c])) None"
    by (rule observe_all_rebuild) (rule nn)
  show "snd (observe_buyer c (observe_all bs)) = historical_buyer_state (sort_key order_key (bs @ [c])) (pu_time c)"
    using observe_buyer_sorted[OF _ observe_all_rebuild] nn by simp
qed

definition demo_purchase :: "datetime \<Rightarrow> string \<Rightarrow> decimal \<Rightarrow> purchase" where
  "demo_purchase t w x = \<lparr>pu_time = t, pu_wallet = w, pu_amount = x, pu_slot = t, pu_bundle = None\<rparr>"

theorem incremental_buyers_rebuild_witness:
  "observe_all [demo_purchase 5 ''b'' 2, demo_purchase 3 ''a'' 7]
     = rebuild_buyer_state [demo_purchase 3 ''a'' 7, demo_purchase 5 ''b'' 2] None"
  using incremental_buyers_rebuild[of "[demo_purchase 5 ''b'' 2]" "demo_purchase 3 ''a'' 7"]
  by (simp add: demo_purchase_def order_key_def)

section \<open>Developer dumps\<close>

definition demo_trade :: "string \<Rightarrow> chain_event_type \<Rightarrow> int \<Rightarrow> event_envelope" where
  "demo_trade event_id event_type t = \<lparr>ev_event_id = event_id, ev_ingest_sequence = None, ev_source = REPLAY, ev_network = ''solana'',
     ev_protocol = PUMP, ev_event_type = event_type, ev_slot = 7, ev_signature = ''sig'',
     ev_instruction_index = 0, ev_inner_instruction_index = - 1, ev_block_time = seconds t, ev_observed_at = seconds t,
     ev_commitment = ''confirmed'', ev_mint = Some ''M'', ev_pool_address = None,
     ev_payload = [(''user'', PText ''dev''), (''creator'', PText ''dev'')]\<rparr>"

definition dumps_after :: "event_envelope list \<Rightarrow> string \<Rightarrow> int option" where
  "dumps_after es w = map_option wp_tokens_with_dev_dump_5m
     (dict_get (wa_profiles (foldl (\<lambda>a e. fst (observe e a)) wallet_analyzer_init es)) w)"

text \<open>
  The sell delay of an outcome is overwritten by every later sale of the creator, so a sale within
  five minutes stops counting as an early dump as soon as the creator sells again later.
\<close>

theorem second_sale_hides_dump:
  "dumps_after [demo_trade ''a'' TOKEN_CREATED 0, demo_trade ''b'' SWAP_SELL 100] ''dev'' = Some 1
   \<and> dumps_after [demo_trade ''a'' TOKEN_CREATED 0, demo_trade ''b'' SWAP_SELL 100, demo_trade ''c'' SWAP_SELL 400] ''dev'' = Some 0"
  by code_simp
end
