(* ===== verification/Json.thy ===== *)
theory Json
  imports Events
begin

text \<open>
  Decoded JSON as Python holds it (\<open>None\<close>, \<open>bool\<close>, \<open>int\<close>, \<open>str\<close>, lists and dictionaries; JSON
  numbers with a fraction do not occur where this type is used), the truth value and the text of
  such values, and the substring tests the log parsers use.
\<close>

section \<open>Values\<close>

datatype json = JNull | JBool bool | JInt int | JStr string | JList "json list" | JObj "(string \<times> json) list"

fun json_truth :: "json \<Rightarrow> bool" where
  "json_truth JNull = False"
| "json_truth (JBool b) = b"
| "json_truth (JInt i) = (i \<noteq> 0)"
| "json_truth (JStr s) = (s \<noteq> [])"
| "json_truth (JList xs) = (xs \<noteq> [])"
| "json_truth (JObj d) = (d \<noteq> [])"

text \<open>\<open>a or b\<close>, evaluating \<open>b\<close> only when needed.\<close>

definition json_or :: "json result \<Rightarrow> json result \<Rightarrow> json result" where
  "json_or a b = rbind a (\<lambda>x. if json_truth x then Inr x else b)"

text \<open>\<open>d.get(k, default)\<close>; only dictionaries have it.\<close>

fun json_get :: "json \<Rightarrow> string \<Rightarrow> json \<Rightarrow> json result" where
  "json_get (JObj d) k dflt = Inr (opt_or (dict_get d k) dflt)"
| "json_get _ k dflt = Inl AttributeError"

section \<open>Text of a value\<close>

definition hex_digit :: "nat \<Rightarrow> char" where
  "hex_digit n = ''0123456789abcdef'' ! (n mod 16)"

text \<open>\<open>repr\<close> of a string: the quote character, and escapes for ASCII control characters.\<close>

definition repr_char :: "char \<Rightarrow> char \<Rightarrow> string" where
  "repr_char quote c =
     (let n = (of_char c :: nat) in
      if c = quote \<or> n = 92 then [char_of (92 :: nat), c]
      else if n = 10 then [char_of (92 :: nat), CHR ''n'']
      else if n = 13 then [char_of (92 :: nat), CHR ''r'']
      else if n = 9 then [char_of (92 :: nat), CHR ''t'']
      else if n < 32 \<or> n = 127 then [char_of (92 :: nat), CHR ''x'', hex_digit (n div 16), hex_digit n]
      else [c])"

definition repr_str :: "string \<Rightarrow> string" where
  "repr_str s = (let q1 = char_of (39 :: nat); q2 = char_of (34 :: nat);
       quote = (if q1 \<in> set s \<and> q2 \<notin> set s then q2 else q1)
     in [quote] @ concat (map (repr_char quote) s) @ [quote])"

definition comma_join :: "string list \<Rightarrow> string" where
  "comma_join xs = (case xs of [] \<Rightarrow> [] | y # ys \<Rightarrow> y @ concat (map (\<lambda>z. '', '' @ z) ys))"

fun json_repr :: "json \<Rightarrow> string" where
  "json_repr JNull = ''None''"
| "json_repr (JBool b) = (if b then ''True'' else ''False'')"
| "json_repr (JInt i) = int_str i"
| "json_repr (JStr s) = repr_str s"
| "json_repr (JList xs) = ''['' @ comma_join (map json_repr xs) @ '']''"
| "json_repr (JObj d) = ''{'' @ comma_join (map (\<lambda>(k, v). repr_str k @ '': '' @ json_repr v) d) @ ''}''"

fun json_str :: "json \<Rightarrow> string" where
  "json_str (JStr s) = s"
| "json_str v = json_repr v"

text \<open>\<open>s.upper()\<close> and \<open>s.lower()\<close> of an ASCII text.\<close>

definition ascii_upper :: "string \<Rightarrow> string" where
  "ascii_upper s = map (\<lambda>c. let n = (of_char c :: nat) in if 97 \<le> n \<and> n \<le> 122 then char_of (n - 32) else c) s"

definition ascii_lower :: "string \<Rightarrow> string" where
  "ascii_lower s = map (\<lambda>c. let n = (of_char c :: nat) in if 65 \<le> n \<and> n \<le> 90 then char_of (n + 32) else c) s"

text \<open>A JSON value as the value of an event payload.\<close>

fun payload_value_of :: "json \<Rightarrow> payload_value" where
  "payload_value_of JNull = PNone"
| "payload_value_of (JBool b) = PBool b"
| "payload_value_of (JInt i) = PInt i"
| "payload_value_of (JStr s) = PText s"
| "payload_value_of v = POther (json_repr v)"

section \<open>Substrings\<close>

fun contains :: "string \<Rightarrow> string \<Rightarrow> bool" where
  "contains sub [] = (sub = [])"
| "contains sub (c # cs) = (startswith (c # cs) sub \<or> contains sub cs)"

definition endswith :: "string \<Rightarrow> string \<Rightarrow> bool" where
  "endswith s suffix \<longleftrightarrow> startswith (rev s) (rev suffix)"

end
