(* ===== verification/Anchor.thy ===== *)
theory Anchor
  imports Json Registry
begin

text \<open>
  The decoder of Anchor event logs (\<open>protocols/anchor.py\<close>) and the adapters of the two programs
  (\<open>protocols/pump/decoder.py\<close>, \<open>protocols/pumpswap/decoder.py\<close>). The IDL is an argument: its
  types and events as the decoder reads them from the vendored JSON file. A cursor is the part of
  the payload after its offset. Strings are their UTF-8 bytes. Decoding recurses along the types,
  and a type may refer to itself, so it carries the remaining recursion depth of the interpreter:
  at zero it raises \<open>RecursionError\<close>.
\<close>

section \<open>Standard library: Base64 and UTF-8\<close>

definition BASE64_ALPHABET :: string where
  "BASE64_ALPHABET = ''ABCDEFGHIJKLMNOPQRSTUVWXYZabcdefghijklmnopqrstuvwxyz0123456789+/''"

definition base64_value :: "char \<Rightarrow> nat option" where
  "base64_value c = map_of (zip BASE64_ALPHABET [0..<64]) c"

fun base64_octets :: "nat list \<Rightarrow> nat list" where
  "base64_octets (a # b # c # d # r) = [a * 4 + b div 16, (b mod 16) * 16 + c div 4, (c mod 4) * 64 + d] @ base64_octets r"
| "base64_octets [a, b, c] = [a * 4 + b div 16, (b mod 16) * 16 + c div 4]"
| "base64_octets [a, b] = [a * 4 + b div 16]"
| "base64_octets _ = []"

text \<open>\<open>base64.b64decode(s, validate=True)\<close>; \<open>None\<close> is \<open>binascii.Error\<close>.\<close>

definition b64decode :: "string \<Rightarrow> bytes option" where
  "b64decode s = (let body = takeWhile (\<lambda>c. c \<noteq> CHR ''='') s; pad = dropWhile (\<lambda>c. c \<noteq> CHR ''='') s;
       digits = map base64_value body
     in if None \<in> set digits \<or> length body mod 4 = 1 \<or> length s mod 4 \<noteq> 0
           \<or> pad \<noteq> replicate ((4 - length body mod 4) mod 4) (CHR ''='') then None
        else Some (map word_of_nat (base64_octets (map the digits))))"

definition cont_byte :: "nat \<Rightarrow> bool" where
  "cont_byte b \<longleftrightarrow> 128 \<le> b \<and> b < 192"

fun valid_utf8 :: "nat list \<Rightarrow> bool" where
  "valid_utf8 [] = True"
| "valid_utf8 (a # r) =
     (if a < 128 then valid_utf8 r
      else if 194 \<le> a \<and> a < 224 then (case r of b # r' \<Rightarrow> cont_byte b \<and> valid_utf8 r' | _ \<Rightarrow> False)
      else if 224 \<le> a \<and> a < 240 then (case r of b # c # r' \<Rightarrow> cont_byte b \<and> cont_byte c
          \<and> (a = 224 \<longrightarrow> 160 \<le> b) \<and> (a = 237 \<longrightarrow> b < 160) \<and> valid_utf8 r' | _ \<Rightarrow> False)
      else if 240 \<le> a \<and> a < 245 then (case r of b # c # d # r' \<Rightarrow> cont_byte b \<and> cont_byte c \<and> cont_byte d
          \<and> (a = 240 \<longrightarrow> 144 \<le> b) \<and> (a = 244 \<longrightarrow> b < 144) \<and> valid_utf8 r' | _ \<Rightarrow> False)
      else False)"

definition text_of_bytes :: "bytes \<Rightarrow> string" where
  "text_of_bytes bs = map (\<lambda>b. char_of (unat b)) bs"

definition hex_of_bytes :: "bytes \<Rightarrow> string" where
  "hex_of_bytes bs = concat (map (\<lambda>b. [hex_digit (unat b div 16), hex_digit (unat b)]) bs)"

section \<open>Base58\<close>

definition base58_encode :: "bytes \<Rightarrow> string" where
  "base58_encode payload =
     (let leading_zeroes = length payload - length (dropWhile (\<lambda>b. b = 0) payload);
          number = from_bytes_big payload;
          encoded = map (\<lambda>d. BASE58_ALPHABET ! d) (rev (digits 58 number))
            @ replicate leading_zeroes (BASE58_ALPHABET ! 0);
          result = rev encoded
      in if result \<noteq> [] then result else replicate leading_zeroes (CHR ''1''))"

section \<open>The IDL\<close>

datatype idl_type = Prim string | OptionT idl_type | VecT idl_type | ArrayT idl_type int | Defined string
  | BadType string

datatype idl_def = StructDef "(string \<times> idl_type) list" | EnumDef "string list" | OtherDef

record anchor_decoder =
  ad_program_id :: string
  ad_types :: "(string, idl_def) dict"
  ad_events :: "(bytes, string) dict"

text \<open>Later items of the IDL replace earlier ones of the same name or discriminator.\<close>

definition anchor_decoder_init :: "string \<Rightarrow> (string \<times> idl_def) list \<Rightarrow> (bytes \<times> string) list \<Rightarrow> anchor_decoder" where
  "anchor_decoder_init address types events = \<lparr>ad_program_id = address,
     ad_types = foldl (\<lambda>d (k, v). dict_set d k v) [] types,
     ad_events = foldl (\<lambda>d (k, v). dict_set d k v) [] events\<rparr>"

record anchor_event =
  ae_name :: string
  ae_fields :: "(string \<times> json) list"
  ae_log_index :: nat

section \<open>Decoding values\<close>

type_synonym cursor = bytes

definition cursor_take :: "int \<Rightarrow> cursor \<Rightarrow> (bytes \<times> cursor) result" where
  "cursor_take width c = (if width < 0 \<or> int (length c) < width then Inl (AnchorDecodeError ''truncated Anchor event payload'')
     else Inr (take (nat width) c, drop (nat width) c))"

definition signed_of :: "nat \<Rightarrow> nat \<Rightarrow> int" where
  "signed_of width n = (if n < 2 ^ (8 * width - 1) then int n else int n - 2 ^ (8 * width))"

definition int_formats :: "(string, bool \<times> nat) dict" where
  "int_formats = [(''u8'', False, 1), (''i8'', True, 1), (''u16'', False, 2), (''i16'', True, 2), (''u32'', False, 4),
     (''i32'', True, 4), (''u64'', False, 8), (''i64'', True, 8), (''u128'', False, 16), (''i128'', True, 16)]"

definition decode_int :: "bool \<Rightarrow> nat \<Rightarrow> cursor \<Rightarrow> (int \<times> cursor) result" where
  "decode_int is_signed width c = rbind (cursor_take (int width) c) (\<lambda>(bs, c').
     Inr (if is_signed then signed_of width (from_bytes_little bs) else int (from_bytes_little bs), c'))"

definition decode_primitive :: "string \<Rightarrow> cursor \<Rightarrow> (json \<times> cursor) result" where
  "decode_primitive name c =
     (case dict_get int_formats name of
        Some (is_signed, width) \<Rightarrow> rbind (decode_int is_signed width c) (\<lambda>(i, c'). Inr (JInt i, c'))
      | None \<Rightarrow>
          if name = ''bool'' then rbind (decode_int False 1 c) (\<lambda>(v, c').
            if v = 0 \<or> v = 1 then Inr (JBool (v = 1), c') else Inl (AnchorDecodeError ''invalid Borsh bool''))
          else if name = ''pubkey'' then rbind (cursor_take 32 c) (\<lambda>(bs, c'). Inr (JStr (base58_encode bs), c'))
          else if name = ''string'' then rbind (decode_int False 4 c) (\<lambda>(len, c').
            if 1000000 < len then Inl (AnchorDecodeError ''unreasonable Borsh string length'')
            else rbind (cursor_take len c') (\<lambda>(bs, c'').
              if valid_utf8 (map unat bs) then Inr (JStr (text_of_bytes bs), c'')
              else Inl (AnchorDecodeError ''invalid UTF-8 Borsh string'')))
          else if name = ''bytes'' then rbind (decode_int False 4 c) (\<lambda>(len, c').
            rbind (cursor_take len c') (\<lambda>(bs, c''). Inr (JStr (hex_of_bytes bs), c'')))
          else Inl (AnchorDecodeError ''unsupported primitive IDL type''))"

primrec decode_repeat :: "(cursor \<Rightarrow> (json \<times> cursor) result) \<Rightarrow> nat \<Rightarrow> cursor \<Rightarrow> (json list \<times> cursor) result" where
  "decode_repeat f 0 c = Inr ([], c)"
| "decode_repeat f (Suc n) c = rbind (f c) (\<lambda>(x, c'). rbind (decode_repeat f n c') (\<lambda>(xs, c''). Inr (x # xs, c'')))"

text \<open>The fields of a struct in order; a repeated name keeps its place and takes the later value.\<close>

fun decode_fields :: "(idl_type \<Rightarrow> cursor \<Rightarrow> (json \<times> cursor) result) \<Rightarrow> (string \<times> idl_type) list
    \<Rightarrow> (string \<times> json) list \<Rightarrow> cursor \<Rightarrow> ((string \<times> json) list \<times> cursor) result" where
  "decode_fields f [] d c = Inr (d, c)"
| "decode_fields f ((name, t) # flds) d c = rbind (f t c) (\<lambda>(x, c'). decode_fields f flds (dict_set d name x) c')"

primrec decode_type :: "nat \<Rightarrow> anchor_decoder \<Rightarrow> idl_type \<Rightarrow> cursor \<Rightarrow> (json \<times> cursor) result" where
  "decode_type 0 D t c = Inl RecursionError"
| "decode_type (Suc depth) D t c =
     (case t of
        Prim name \<Rightarrow> decode_primitive name c
      | OptionT t' \<Rightarrow> rbind (decode_int False 1 c) (\<lambda>(present, c').
          if present = 0 then Inr (JNull, c')
          else if present \<noteq> 1 then Inl (AnchorDecodeError ''invalid Borsh option tag'')
          else decode_type depth D t' c')
      | VecT t' \<Rightarrow> rbind (decode_int False 4 c) (\<lambda>(len, c').
          if 100000 < len then Inl (AnchorDecodeError ''unreasonable Borsh vector length'')
          else rbind (decode_repeat (decode_type depth D t') (nat len) c') (\<lambda>(xs, c''). Inr (JList xs, c'')))
      | ArrayT t' len \<Rightarrow> rbind (decode_repeat (decode_type depth D t') (nat len) c) (\<lambda>(xs, c'). Inr (JList xs, c'))
      | Defined name \<Rightarrow>
          (case dict_get (ad_types D) name of
             None \<Rightarrow> Inl (AnchorDecodeError ''missing IDL type definition'')
           | Some (StructDef flds) \<Rightarrow>
               rbind (decode_fields (decode_type depth D) flds [] c) (\<lambda>(d, c'). Inr (JObj d, c'))
           | Some (EnumDef variants) \<Rightarrow> rbind (decode_int False 1 c) (\<lambda>(i, c').
               if int (length variants) \<le> i then Inl (AnchorDecodeError ''invalid enum variant'')
               else Inr (JStr (variants ! nat i), c'))
           | Some OtherDef \<Rightarrow> Inl (AnchorDecodeError ''unsupported defined type kind''))
      | BadType s \<Rightarrow> Inl (AnchorDecodeError ''unsupported IDL type''))"

definition decode_struct :: "nat \<Rightarrow> anchor_decoder \<Rightarrow> string \<Rightarrow> bytes \<Rightarrow> (string \<times> json) list result" where
  "decode_struct depth D type_name payload =
     (case dict_get (ad_types D) type_name of
        Some (StructDef flds) \<Rightarrow>
          rbind (decode_fields (decode_type depth D) flds [] payload) (\<lambda>(d, c).
            if c \<noteq> [] then Inl (AnchorDecodeError ''unexpected trailing bytes'') else Inr d)
      | _ \<Rightarrow> Inl (AnchorDecodeError ''missing struct definition for Anchor event''))"

section \<open>Logs\<close>

text \<open>\<open>line.split(" ", 2)[1]\<close> for a line with a blank.\<close>

definition second_word :: "string \<Rightarrow> string" where
  "second_word line = takeWhile (\<lambda>c. c \<noteq> CHR '' '') (tl (dropWhile (\<lambda>c. c \<noteq> CHR '' '') line))"

record log_state =
  ls_stack :: "string list"
  ls_own_seen :: bool

datatype log_action = Skip log_state | Data string

text \<open>One line: what it does to the stack of invoked programs (innermost last), or its data.\<close>

definition log_line :: "string \<Rightarrow> log_state \<Rightarrow> string \<Rightarrow> log_action" where
  "log_line program_id s line =
     (if startswith line ''Program '' \<and> contains '' invoke ['' line then
        (let p = second_word line in Skip (s\<lparr>ls_stack := ls_stack s @ [p], ls_own_seen := (ls_own_seen s \<or> p = program_id)\<rparr>))
      else if startswith line ''Program '' \<and> (endswith line '' success'' \<or> contains '' failed:'' line) then
        Skip (s\<lparr>ls_stack := butlast (ls_stack s)\<rparr>)
      else if \<not> startswith line ''Program data: '' then Skip s
      else if ls_stack s \<noteq> [] \<and> last (ls_stack s) \<noteq> program_id then Skip s
      else if ls_stack s = [] \<and> \<not> ls_own_seen s then Skip s
      else Data (py_strip (drop 14 line)))"

definition decode_data :: "nat \<Rightarrow> anchor_decoder \<Rightarrow> nat \<Rightarrow> string \<Rightarrow> anchor_event result" where
  "decode_data depth D log_index encoded =
     (case b64decode encoded of
        None \<Rightarrow> Inl (AnchorDecodeError ''invalid base64 in Anchor event log'')
      | Some payload \<Rightarrow>
          if length payload < 8 then Inl (AnchorDecodeError ''Anchor event payload is shorter than discriminator'')
          else case dict_get (ad_events D) (take 8 payload) of
            None \<Rightarrow> Inl UnknownDiscriminatorError
          | Some name \<Rightarrow> rbind (decode_struct depth D name (drop 8 payload)) (\<lambda>flds.
              Inr \<lparr>ae_name = name, ae_fields = flds, ae_log_index = log_index\<rparr>))"

fun decode_lines :: "nat \<Rightarrow> anchor_decoder \<Rightarrow> nat \<Rightarrow> log_state \<Rightarrow> string list \<Rightarrow> anchor_event list result" where
  "decode_lines depth D i s [] = Inr []"
| "decode_lines depth D i s (line # ls) =
     (case log_line (ad_program_id D) s line of
        Skip s' \<Rightarrow> decode_lines depth D (i + 1) s' ls
      | Data encoded \<Rightarrow> rbind (decode_data depth D i encoded) (\<lambda>ev.
          rbind (decode_lines depth D (i + 1) s ls) (\<lambda>evs. Inr (ev # evs))))"

definition decode_logs :: "nat \<Rightarrow> anchor_decoder \<Rightarrow> string list \<Rightarrow> anchor_event list result" where
  "decode_logs depth D logs = decode_lines depth D 0 \<lparr>ls_stack = [], ls_own_seen = False\<rparr> logs"

section \<open>Transactions\<close>

definition PUMP_PROGRAM_ID :: string where
  "PUMP_PROGRAM_ID = ''6EF8rrecthR5Dkzon8Nwu78hRvfCKubJ14M5uBEwF6P''"

definition PUMPSWAP_PROGRAM_ID :: string where
  "PUMPSWAP_PROGRAM_ID = ''pAMMBay6oceH9fJKBRHGP5D4bD4sWpmSwMn52FMfXEA''"

text \<open>The constructors check the address of the IDL.\<close>

definition pump_decoder_init :: "anchor_decoder \<Rightarrow> anchor_decoder result" where
  "pump_decoder_init D = (if ad_program_id D \<noteq> PUMP_PROGRAM_ID
     then Inl (ValueError ''vendored Pump IDL has unexpected program address'') else Inr D)"

definition pumpswap_decoder_init :: "anchor_decoder \<Rightarrow> anchor_decoder result" where
  "pumpswap_decoder_init D = (if ad_program_id D \<noteq> PUMPSWAP_PROGRAM_ID
     then Inl (ValueError ''vendored PumpSwap IDL has unexpected program address'') else Inr D)"

definition pump_event_types :: "(string, chain_event_type) dict" where
  "pump_event_types = [(''CreateEvent'', TOKEN_CREATED), (''CompleteEvent'', BONDING_CURVE_COMPLETED),
     (''CompletePumpAmmMigrationEvent'', MIGRATION)]"

definition pumpswap_event_types :: "(string, chain_event_type) dict" where
  "pumpswap_event_types = [(''CreatePoolEvent'', POOL_CREATED), (''BuyEvent'', SWAP_BUY), (''SellEvent'', SWAP_SELL),
     (''DepositEvent'', LIQUIDITY_ADDED), (''WithdrawEvent'', LIQUIDITY_REMOVED)]"

text \<open>\<open>int(value)\<close> of a JSON value; a string is read as \<open>int(str)\<close> does.\<close>

fun json_int :: "json \<Rightarrow> int result" where
  "json_int (JInt i) = Inr i"
| "json_int (JBool b) = Inr (if b then 1 else 0)"
| "json_int (JStr s) = (case int_of_text s of
     Some i \<Rightarrow> Inr i | None \<Rightarrow> Inl (ValueError ''invalid literal for int()''))"
| "json_int v = Inl TypeError"

definition signature_of :: "json \<Rightarrow> string result" where
  "signature_of tx = rbind (json_get tx ''signature'' JNull) (\<lambda>signature.
     if json_truth signature then Inr (json_str signature)
     else rbind (json_get tx ''transaction'' (JObj [])) (\<lambda>inner.
          rbind (json_or (json_get inner ''signatures'' JNull) (Inr (JList []))) (\<lambda>signatures.
          case signatures of
            JList (x # xs) \<Rightarrow> Inr (json_str x)
          | JList [] \<Rightarrow> Inl (ValueError ''transaction signature is missing'')
          | JStr (c # cs) \<Rightarrow> Inr [c]
          | JObj d \<Rightarrow> Inl KeyError
          | _ \<Rightarrow> Inl TypeError)))"

text \<open>\<open>datetime.fromtimestamp(int(value))\<close>\<close>

definition block_time_of :: "json \<Rightarrow> datetime result" where
  "block_time_of tx = rbind (json_get tx ''blockTime'' JNull) (\<lambda>v.
     if v = JNull then Inl (ValueError ''transaction blockTime is missing'')
     else rbind (json_int v) (\<lambda>t. Inr (seconds t)))"

text \<open>
  \<open>list(logs)\<close>. Log messages are strings; a list with another element is refused as a whole.
\<close>

definition log_lines :: "json \<Rightarrow> string list result" where
  "log_lines v = (case v of
     JList xs \<Rightarrow> if list_all (\<lambda>x. case x of JStr s \<Rightarrow> True | _ \<Rightarrow> False) xs
       then Inr (map json_str xs) else Inl AttributeError
   | JStr s \<Rightarrow> Inr (map (\<lambda>c. [c]) s)
   | JObj d \<Rightarrow> Inr (map fst d)
   | _ \<Rightarrow> Inl TypeError)"

definition transaction_logs :: "json \<Rightarrow> json result" where
  "transaction_logs tx =
     rbind (json_or (json_or (json_get tx ''meta'' JNull)
         (rbind (json_get tx ''transaction'' (JObj [])) (\<lambda>inner. json_get inner ''meta'' JNull))) (Inr (JObj []))) (\<lambda>meta.
       json_or (json_or (json_get meta ''logMessages'' JNull) (json_get tx ''logs'' JNull)) (Inr (JList [])))"

record tx_header =
  th_logs :: json
  th_signature :: string
  th_slot :: int
  th_block_time :: datetime

definition transaction_header :: "json \<Rightarrow> tx_header result" where
  "transaction_header tx =
     rbind (transaction_logs tx) (\<lambda>logs. rbind (signature_of tx) (\<lambda>signature.
     rbind (rbind (json_get tx ''slot'' (JInt 0)) json_int) (\<lambda>slot. rbind (block_time_of tx) (\<lambda>block_time.
     Inr \<lparr>th_logs = logs, th_signature = signature, th_slot = slot, th_block_time = block_time\<rparr>))))"

text \<open>\<open>{**event.fields, "anchor_event": ..., "adapter_version": ...}\<close>\<close>

definition event_fields :: "anchor_event \<Rightarrow> string \<Rightarrow> (string \<times> json) list" where
  "event_fields ev version = dict_set (dict_set (ae_fields ev) ''anchor_event'' (JStr (ae_name ev)))
     ''adapter_version'' (JStr version)"

definition field_or_null :: "(string \<times> json) list \<Rightarrow> string \<Rightarrow> json" where
  "field_or_null d k = opt_or (dict_get d k) JNull"

text \<open>Validation of an optional string field of the envelope.\<close>

fun optional_text :: "json \<Rightarrow> string option result" where
  "optional_text JNull = Inr None"
| "optional_text (JStr s) = Inr (Some s)"
| "optional_text _ = Inl (ValueError ''validation error'')"

definition envelope_of :: "event_source \<Rightarrow> protocol \<Rightarrow> chain_event_type \<Rightarrow> tx_header \<Rightarrow> datetime \<Rightarrow> anchor_event
    \<Rightarrow> (string \<times> json) list \<Rightarrow> json \<Rightarrow> json \<Rightarrow> event_envelope result" where
  "envelope_of source proto event_type h observed ev flds mint pool =
     rbind (optional_text mint) (\<lambda>m. rbind (optional_text pool) (\<lambda>p.
     validate_envelope \<lparr>ev_event_id = [], ev_ingest_sequence = None, ev_source = source, ev_network = ''solana-mainnet'',
       ev_protocol = proto, ev_event_type = event_type, ev_slot = th_slot h, ev_signature = th_signature h,
       ev_instruction_index = int (ae_log_index ev), ev_inner_instruction_index = - 1, ev_block_time = th_block_time h,
       ev_observed_at = observed, ev_commitment = ''confirmed'', ev_mint = m, ev_pool_address = p,
       ev_payload = map (\<lambda>(k, v). (k, payload_value_of v)) flds\<rparr>))"

definition pump_event_type :: "anchor_event \<Rightarrow> chain_event_type option" where
  "pump_event_type ev = (if ae_name ev = ''TradeEvent''
     then Some (if json_truth (field_or_null (ae_fields ev) ''is_buy'') then SWAP_BUY else SWAP_SELL)
     else dict_get pump_event_types (ae_name ev))"

fun pump_envelopes :: "event_source \<Rightarrow> tx_header \<Rightarrow> datetime \<Rightarrow> anchor_event list \<Rightarrow> event_envelope list result" where
  "pump_envelopes source h observed [] = Inr []"
| "pump_envelopes source h observed (ev # evs) =
     (case pump_event_type ev of
        None \<Rightarrow> pump_envelopes source h observed evs
      | Some event_type \<Rightarrow>
          (let flds = event_fields ev ''pump-idl-9c82f61'';
               pool = field_or_null flds ''pool''
           in rbind (envelope_of source PUMP event_type h observed ev flds (field_or_null flds ''mint'')
                (if json_truth pool then pool else field_or_null flds ''bonding_curve'')) (\<lambda>e.
              rbind (pump_envelopes source h observed evs) (\<lambda>es. Inr (e # es)))))"

definition pump_decode_transaction :: "nat \<Rightarrow> anchor_decoder \<Rightarrow> event_source \<Rightarrow> datetime \<Rightarrow> json \<Rightarrow> event_envelope list result" where
  "pump_decode_transaction depth D source observed tx =
     rbind (transaction_header tx) (\<lambda>h. rbind (log_lines (th_logs h)) (\<lambda>logs.
     rbind (decode_logs depth D logs) (\<lambda>evs. pump_envelopes source h observed evs)))"

text \<open>A mint of the payload is a string or missing.\<close>

fun mint_text :: "json \<Rightarrow> string option" where
  "mint_text (JStr s) = Some s"
| "mint_text _ = None"

fun pumpswap_envelopes :: "event_source \<Rightarrow> tx_header \<Rightarrow> datetime \<Rightarrow> anchor_event list \<Rightarrow> event_envelope list result" where
  "pumpswap_envelopes source h observed [] = Inr []"
| "pumpswap_envelopes source h observed (ev # evs) =
     (case dict_get pumpswap_event_types (ae_name ev) of
        None \<Rightarrow> pumpswap_envelopes source h observed evs
      | Some event_type \<Rightarrow>
          (let flds = event_fields ev ''pumpswap-idl-9c82f61'';
               mint = target_mint_for_pool (mint_text (field_or_null flds ''base_mint''))
                 (mint_text (field_or_null flds ''quote_mint''))
           in rbind (envelope_of source PUMPSWAP event_type h observed ev flds
                (case mint of None \<Rightarrow> JNull | Some m \<Rightarrow> JStr m) (field_or_null flds ''pool'')) (\<lambda>e.
              rbind (pumpswap_envelopes source h observed evs) (\<lambda>es. Inr (e # es)))))"

definition pumpswap_decode_transaction :: "nat \<Rightarrow> anchor_decoder \<Rightarrow> event_source \<Rightarrow> datetime \<Rightarrow> json
    \<Rightarrow> event_envelope list result" where
  "pumpswap_decode_transaction depth D source observed tx =
     rbind (transaction_header tx) (\<lambda>h. rbind (log_lines (th_logs h)) (\<lambda>logs.
     rbind (decode_logs depth D logs) (\<lambda>evs. pumpswap_envelopes source h observed evs)))"

end
