(* ===== verification/Anchor_Props.thy ===== *)
theory Anchor_Props
  imports Anchor
begin

text \<open>
  The Base58 encoder is inverted by the address decoder of the security engine, the event decoder
  inverts the Borsh encoding of every well-typed value and consumes exactly its bytes, and the log
  parser attributes data to the innermost program.
\<close>

section \<open>Base58\<close>

lemma base58_alphabet: "map (\<lambda>d. base58_value (BASE58_ALPHABET ! d)) [0..<58] = map Some [0..<58]"
  by code_simp

lemma base58_value_nth: "d < 58 \<Longrightarrow> base58_value (BASE58_ALPHABET ! d) = Some d"
  using arg_cong[OF base58_alphabet, of "\<lambda>xs. xs ! d"] by simp

lemma base58_one: "BASE58_ALPHABET ! 0 = CHR ''1''"
  by (simp add: BASE58_ALPHABET_def)

lemma base58_nth_one: "d < 58 \<Longrightarrow> BASE58_ALPHABET ! d = CHR ''1'' \<longleftrightarrow> d = 0"
  using base58_value_nth[of d] base58_value_nth[of 0] base58_one by auto

lemma base58_number_snoc:
  "base58_number (s @ [c]) n = (case base58_number s n of None \<Rightarrow> None
     | Some m \<Rightarrow> map_option (\<lambda>v. m * 58 + v) (base58_value c))"
  by (induction s arbitrary: n) (auto split: option.split)

lemma base58_number_digits:
  "(\<And>d. d \<in> set ds \<Longrightarrow> d < 58) \<Longrightarrow> base58_number (map (\<lambda>d. BASE58_ALPHABET ! d) ds) 0 = Some (undigits 58 ds)"
  by (induction ds rule: rev_induct) (auto simp: base58_number_snoc base58_value_nth)

lemma undigits_zeros: "undigits b (replicate z 0 @ ds) = undigits b ds"
proof -
  have "foldl (\<lambda>n d. n * b + d) 0 (replicate z 0) = 0" by (induction z) simp_all
  then show ?thesis by (simp add: undigits_def)
qed

lemma dropWhile_zeros: "takeWhile (\<lambda>b. b = c) p = replicate (length p - length (dropWhile (\<lambda>b. b = c) p)) c"
  by (induction p) (auto simp: Suc_diff_le length_dropWhile_le)

lemma dropWhile_map_unat: "dropWhile (\<lambda>d. d = 0) (map unat (p :: bytes)) = map unat (dropWhile (\<lambda>b. b = 0) p)"
  by (induction p) (auto simp: unat_eq_0)

lemma base58_round_trip:
  assumes "length p = 32" shows "decode_solana_address (base58_encode p) = Some p"
proof -
  define z where "z = length p - length (dropWhile (\<lambda>b. b = 0) p)"
  define ds where "ds = digits 58 (from_bytes_big p)"
  have p: "p = replicate z 0 @ dropWhile (\<lambda>b. b = 0) p"
    using dropWhile_zeros[of 0 p] takeWhile_dropWhile_id[of "\<lambda>b. b = 0" p] by (simp add: z_def)
  have ds58: "d < 58" if "d \<in> set ds" for d using that digits_less[of 58 d] by (simp add: ds_def)
  have number: "undigits 58 ds = from_bytes_big p" by (simp add: ds_def undigits_digits)
  have enc0: "rev (map (\<lambda>d. BASE58_ALPHABET ! d) (rev ds) @ replicate z (BASE58_ALPHABET ! 0))
      = map (\<lambda>d. BASE58_ALPHABET ! d) (replicate z 0 @ ds)"
    by (simp add: rev_map[symmetric])
  have nonempty: "replicate z 0 @ ds \<noteq> []"
  proof
    assume "replicate z 0 @ ds = []"
    then have "z = 0" "from_bytes_big p = 0" using number by auto
    then have "dropWhile (\<lambda>d. d = 0) (map unat p) = []"
      using digits_undigits[of 256 "map unat p"] unat_byte_less by (auto simp: from_bytes_big_def)
    with p \<open>z = 0\<close> assms show False by (simp add: dropWhile_map_unat)
  qed
  have enc: "base58_encode p = map (\<lambda>d. BASE58_ALPHABET ! d) (replicate z 0 @ ds)"
    unfolding base58_encode_def Let_def z_def[symmetric] ds_def[symmetric] enc0 using nonempty by auto
  have num: "base58_number (base58_encode p) 0 = Some (from_bytes_big p)"
  proof -
    have "d < 58" if "d \<in> set (replicate z 0 @ ds)" for d using that ds58 by auto
    from base58_number_digits[OF this] show ?thesis unfolding enc by (simp only: undigits_zeros number)
  qed
  have "dropWhile (\<lambda>c. c = CHR ''1'') (map (\<lambda>d. BASE58_ALPHABET ! d) ds) = map (\<lambda>d. BASE58_ALPHABET ! d) ds"
  proof (cases "from_bytes_big p = 0")
    case False
    then obtain d ds' where dd: "ds = d # ds'" "d \<noteq> 0" using digits_hd[of 58 "from_bytes_big p"]
      by (cases ds) (auto simp: ds_def)
    then show ?thesis using ds58[of d] by (simp add: base58_nth_one)
  qed (simp add: ds_def)
  then have lead: "length (base58_encode p) - length (dropWhile (\<lambda>c. c = CHR ''1'') (base58_encode p)) = z"
    unfolding enc by (simp add: dropWhile_append base58_one)
  have "(if from_bytes_big p \<noteq> 0 then to_bytes_big ((bit_length (from_bytes_big p) + 7) div 8) (from_bytes_big p) else [])
      = map word_of_nat (digits 256 (from_bytes_big p))"
    by (simp add: to_bytes_minimal)
  also have "\<dots> = map word_of_nat (map unat (dropWhile (\<lambda>b. b = 0) p))"
    using digits_undigits[of 256 "map unat p"] unat_byte_less
    by (auto simp: from_bytes_big_def dropWhile_map_unat)
  also have "\<dots> = dropWhile (\<lambda>b. b = 0) p" by (simp add: comp_def)
  finally have bytes: "(if from_bytes_big p \<noteq> 0 then to_bytes_big ((bit_length (from_bytes_big p) + 7) div 8)
      (from_bytes_big p) else []) = dropWhile (\<lambda>b. b = 0) p" .
  have "base58_encode p \<noteq> []" unfolding enc using nonempty by auto
  then show ?thesis
    unfolding decode_solana_address_def num option.case Let_def lead bytes p[symmetric] using assms by simp
qed

text \<open>
  Every 32-byte key survives the trip through its address text: the address decoder of the
  security engine returns the bytes that the event decoder encoded.
\<close>

theorem pubkey_round_trip:
  assumes "length p = 32" shows "decode_solana_address (base58_encode p) = Some p"
  by (rule base58_round_trip[OF assms])

theorem pubkey_round_trip_witness:
  "decode_solana_address (base58_encode (replicate 31 0 @ [7])) = Some (replicate 31 0 @ [7])"
  by (rule pubkey_round_trip) simp

section \<open>Borsh\<close>

text \<open>
  The values an IDL type describes and their Borsh encoding, as the reference the decoder is
  compared with. \<open>well_typed\<close> bounds the nesting of a value by the recursion depth.
\<close>

datatype borsh = BInt int | BBool bool | BPubkey bytes | BText bytes | BBytes bytes | BNone | BSome borsh
  | BList "borsh list" | BStruct "borsh list" | BEnum nat

definition le_bytes :: "nat \<Rightarrow> nat \<Rightarrow> bytes" where
  "le_bytes w n = rev (to_bytes_big w n)"

fun well_typed_prim :: "string \<Rightarrow> borsh \<Rightarrow> bool" where
  "well_typed_prim name (BInt i) = (case dict_get int_formats name of None \<Rightarrow> False
     | Some (is_signed, w) \<Rightarrow> if is_signed then - (2 ^ (8 * w - 1)) \<le> i \<and> i < 2 ^ (8 * w - 1) else 0 \<le> i \<and> i < 2 ^ (8 * w))"
| "well_typed_prim name (BBool b) = (name = ''bool'')"
| "well_typed_prim name (BPubkey bs) = (name = ''pubkey'' \<and> length bs = 32)"
| "well_typed_prim name (BText bs) = (name = ''string'' \<and> length bs \<le> 1000000 \<and> valid_utf8 (map unat bs))"
| "well_typed_prim name (BBytes bs) = (name = ''bytes'' \<and> length bs < 2 ^ 32)"
| "well_typed_prim name _ = False"

fun borsh_prim :: "string \<Rightarrow> borsh \<Rightarrow> bytes" where
  "borsh_prim name (BInt i) = (case dict_get int_formats name of None \<Rightarrow> [] | Some (is_signed, w) \<Rightarrow> le_bytes w (nat (i mod 2 ^ (8 * w))))"
| "borsh_prim name (BBool b) = [if b then 1 else 0]"
| "borsh_prim name (BPubkey bs) = bs"
| "borsh_prim name (BText bs) = le_bytes 4 (length bs) @ bs"
| "borsh_prim name (BBytes bs) = le_bytes 4 (length bs) @ bs"
| "borsh_prim name _ = []"

fun shown_prim :: "borsh \<Rightarrow> json" where
  "shown_prim (BInt i) = JInt i"
| "shown_prim (BBool b) = JBool b"
| "shown_prim (BPubkey bs) = JStr (base58_encode bs)"
| "shown_prim (BText bs) = JStr (text_of_bytes bs)"
| "shown_prim (BBytes bs) = JStr (hex_of_bytes bs)"
| "shown_prim _ = JNull"

primrec well_typed :: "nat \<Rightarrow> anchor_decoder \<Rightarrow> idl_type \<Rightarrow> borsh \<Rightarrow> bool" where
  "well_typed 0 D t v = False"
| "well_typed (Suc n) D t v = (case t of
     Prim name \<Rightarrow> well_typed_prim name v
   | OptionT t' \<Rightarrow> (case v of BNone \<Rightarrow> True | BSome v' \<Rightarrow> well_typed n D t' v' | _ \<Rightarrow> False)
   | VecT t' \<Rightarrow> (case v of BList vs \<Rightarrow> length vs \<le> 100000 \<and> list_all (well_typed n D t') vs | _ \<Rightarrow> False)
   | ArrayT t' len \<Rightarrow> (case v of BList vs \<Rightarrow> length vs = nat len \<and> list_all (well_typed n D t') vs | _ \<Rightarrow> False)
   | Defined name \<Rightarrow> (case (dict_get (ad_types D) name, v) of
       (Some (StructDef flds), BStruct vs) \<Rightarrow> list_all2 (\<lambda>f. well_typed n D (snd f)) flds vs
     | (Some (EnumDef variants), BEnum i) \<Rightarrow> i < length variants \<and> i < 256
     | _ \<Rightarrow> False)
   | BadType s \<Rightarrow> False)"

primrec borsh_bytes :: "nat \<Rightarrow> anchor_decoder \<Rightarrow> idl_type \<Rightarrow> borsh \<Rightarrow> bytes" where
  "borsh_bytes 0 D t v = []"
| "borsh_bytes (Suc n) D t v = (case t of
     Prim name \<Rightarrow> borsh_prim name v
   | OptionT t' \<Rightarrow> (case v of BSome v' \<Rightarrow> 1 # borsh_bytes n D t' v' | _ \<Rightarrow> [0])
   | VecT t' \<Rightarrow> (case v of BList vs \<Rightarrow> le_bytes 4 (length vs) @ concat (map (borsh_bytes n D t') vs) | _ \<Rightarrow> [])
   | ArrayT t' len \<Rightarrow> (case v of BList vs \<Rightarrow> concat (map (borsh_bytes n D t') vs) | _ \<Rightarrow> [])
   | Defined name \<Rightarrow> (case (dict_get (ad_types D) name, v) of
       (Some (StructDef flds), BStruct vs) \<Rightarrow> concat (map2 (\<lambda>f. borsh_bytes n D (snd f)) flds vs)
     | (_, BEnum i) \<Rightarrow> [word_of_nat i]
     | _ \<Rightarrow> [])
   | BadType s \<Rightarrow> [])"

primrec shown :: "nat \<Rightarrow> anchor_decoder \<Rightarrow> idl_type \<Rightarrow> borsh \<Rightarrow> json" where
  "shown 0 D t v = JNull"
| "shown (Suc n) D t v = (case t of
     Prim name \<Rightarrow> shown_prim v
   | OptionT t' \<Rightarrow> (case v of BSome v' \<Rightarrow> shown n D t' v' | _ \<Rightarrow> JNull)
   | VecT t' \<Rightarrow> (case v of BList vs \<Rightarrow> JList (map (shown n D t') vs) | _ \<Rightarrow> JNull)
   | ArrayT t' len \<Rightarrow> (case v of BList vs \<Rightarrow> JList (map (shown n D t') vs) | _ \<Rightarrow> JNull)
   | Defined name \<Rightarrow> (case (dict_get (ad_types D) name, v) of
       (Some (StructDef flds), BStruct vs) \<Rightarrow>
         JObj (foldl (\<lambda>d (k, x). dict_set d k x) [] (map2 (\<lambda>f v'. (fst f, shown n D (snd f) v')) flds vs))
     | (Some (EnumDef variants), BEnum i) \<Rightarrow> JStr (variants ! i)
     | _ \<Rightarrow> JNull)
   | BadType s \<Rightarrow> JNull)"

lemma length_to_bytes_big [simp]: "length (to_bytes_big w n) = w"
  by (induction w n rule: to_bytes_big.induct) simp_all

lemma length_le_bytes [simp]: "length (le_bytes w n) = w"
  by (simp add: le_bytes_def)

lemma from_bytes_big_to: "from_bytes_big (to_bytes_big w n) = n mod 256 ^ w"
proof (induction w n rule: to_bytes_big.induct)
  case (2 k n)
  have "from_bytes_big (to_bytes_big (Suc k) n) = from_bytes_big (to_bytes_big k (n div 256)) * 256 + n mod 256"
    by (simp add: from_bytes_big_def)
  also have "\<dots> = n mod 256 ^ Suc k" by (simp only: 2 power_Suc mod_mult2_eq)
  finally show ?case .
qed (simp add: from_bytes_big_def)

lemma from_bytes_le: "n < 256 ^ w \<Longrightarrow> from_bytes_little (le_bytes w n) = n"
  by (simp add: from_bytes_little_def le_bytes_def from_bytes_big_to)

lemma cursor_take_append: "int (length bs) = w \<Longrightarrow> cursor_take w (bs @ r) = Inr (bs, r)"
  by (auto simp: cursor_take_def)

lemma pow_256: "(256 :: int) ^ w = 2 ^ (8 * w)" "(256 :: nat) ^ w = 2 ^ (8 * w)"
  by (simp_all add: power_mult)

lemma decode_int_unsigned: "0 \<le> i \<Longrightarrow> i < 2 ^ (8 * w) \<Longrightarrow> decode_int False w (le_bytes w (nat i) @ r) = Inr (i, r)"
proof -
  assume i: "0 \<le> i" "i < 2 ^ (8 * w)"
  then have "nat i < 256 ^ w" by (simp add: pow_256 nat_less_iff)
  then show ?thesis using i by (simp add: decode_int_def cursor_take_append from_bytes_le)
qed

lemma decode_int_signed:
  assumes "0 < w" "- (2 ^ (8 * w - 1)) \<le> i" "i < 2 ^ (8 * w - 1)"
  shows "decode_int True w (le_bytes w (nat (i mod 2 ^ (8 * w))) @ r) = Inr (i, r)"
proof -
  let ?m = "2 ^ (8 * w) :: int" and ?h = "2 ^ (8 * w - 1) :: int"
  obtain j where "w = Suc j" using assms(1) by (cases w) auto
  then have m: "?m = 2 * ?h" by (simp flip: power_Suc)
  have b: "0 \<le> i mod ?m" "i mod ?m < ?m" by simp_all
  then have "nat (i mod ?m) < 256 ^ w" by (simp add: pow_256 nat_less_iff)
  moreover have "signed_of w (nat (i mod ?m)) = i"
  proof (cases "0 \<le> i")
    case True
    then have "i mod ?m = i" using assms m by simp
    then show ?thesis using True assms by (simp add: signed_of_def nat_less_iff)
  next
    case False
    then have "(i + ?m) mod ?m = i + ?m" using assms m by (intro mod_pos_pos_trivial) simp_all
    then have e: "i mod ?m = i + ?m" by simp
    then have "\<not> nat (i mod ?m) < 2 ^ (8 * w - 1)" using assms m b by (simp add: nat_less_iff)
    then show ?thesis using b e by (simp add: signed_of_def)
  qed
  ultimately show ?thesis by (simp add: decode_int_def cursor_take_append from_bytes_le)
qed

lemma decode_len: "n < 2 ^ 32 \<Longrightarrow> decode_int False 4 (le_bytes 4 n @ r) = Inr (int n, r)"
  using decode_int_unsigned[of "int n" 4 r] by (simp add: of_nat_less_numeral_power_cancel_iff)

lemma decode_tag: "decode_int False 1 (word_of_nat i # r) = Inr (int i, r)" if "i < 256"
  using that by (simp add: decode_int_def cursor_take_def from_bytes_little_def from_bytes_big_def undigits_def)

lemma int_formats_width: "dict_get int_formats name = Some (sg, w) \<Longrightarrow> 0 < w"
  by (auto simp: int_formats_def split: if_splits)

lemma int_formats_none [simp]:
  "dict_get int_formats ''bool'' = None" "dict_get int_formats ''pubkey'' = None"
  "dict_get int_formats ''string'' = None" "dict_get int_formats ''bytes'' = None"
  by (simp_all add: int_formats_def)

lemma decode_primitive_borsh:
  assumes "well_typed_prim name v" shows "decode_primitive name (borsh_prim name v @ r) = Inr (shown_prim v, r)"
proof (cases v)
  case (BInt i)
  with assms obtain sg w where f: "dict_get int_formats name = Some (sg, w)" by (auto split: option.splits)
  note w = int_formats_width[OF f]
  show ?thesis using assms BInt f w decode_int_signed[OF w] decode_int_unsigned[of i w]
    by (cases sg) (auto simp: decode_primitive_def)
next
  case (BBool b)
  then show ?thesis using assms decode_tag[of 0 r] decode_tag[of 1 r] by (auto simp: decode_primitive_def)
next
  case (BText bs)
  then show ?thesis using assms decode_len[of "length bs" "bs @ r"]
    by (auto simp: decode_primitive_def cursor_take_append)
next
  case (BBytes bs)
  then show ?thesis using assms decode_len[of "length bs" "bs @ r"]
    by (auto simp: decode_primitive_def cursor_take_append)
qed (use assms in \<open>auto simp: decode_primitive_def cursor_take_append\<close>)

lemma decode_repeat_map:
  assumes "\<And>v r. v \<in> set vs \<Longrightarrow> f (g v @ r) = Inr (h v, r)"
  shows "decode_repeat f (length vs) (concat (map g vs) @ r) = Inr (map h vs, r)"
  using assms by (induction vs) simp_all

lemma decode_fields_map:
  assumes "list_all2 (\<lambda>fd v. \<forall>r. f (snd fd) (g fd v @ r) = Inr (h fd v, r)) flds vs"
  shows "decode_fields f flds d (concat (map2 g flds vs) @ r)
     = Inr (foldl (\<lambda>d (k, x). dict_set d k x) d (map2 (\<lambda>fd v. (fst fd, h fd v)) flds vs), r)"
  using assms by (induction flds vs arbitrary: d rule: list_all2_induct) (auto split: prod.splits)

lemma decode_borsh: "well_typed n D t v \<Longrightarrow> decode_type n D t (borsh_bytes n D t v @ r) = Inr (shown n D t v, r)"
proof (induction n arbitrary: t v r)
  case (Suc n)
  show ?case
  proof (cases t)
    case (Prim name)
    then show ?thesis using Suc.prems decode_primitive_borsh by simp
  next
    case (OptionT t')
    then show ?thesis using Suc.prems Suc.IH decode_tag[of 0] decode_tag[of 1] by (auto split: borsh.splits)
  next
    case (VecT t')
    then obtain vs where v: "v = BList vs" "length vs \<le> 100000" "list_all (well_typed n D t') vs"
      using Suc.prems by (auto split: borsh.splits)
    have "decode_repeat (decode_type n D t') (length vs) (concat (map (borsh_bytes n D t') vs) @ r) = Inr (map (shown n D t') vs, r)"
      using v(3) by (intro decode_repeat_map Suc.IH) (simp add: list_all_iff)
    then show ?thesis using VecT v(1,2) by (simp add: decode_len)
  next
    case (ArrayT t' len)
    then obtain vs where v: "v = BList vs" "length vs = nat len" "list_all (well_typed n D t') vs"
      using Suc.prems by (auto split: borsh.splits)
    have "decode_repeat (decode_type n D t') (length vs) (concat (map (borsh_bytes n D t') vs) @ r) = Inr (map (shown n D t') vs, r)"
      using v(3) by (intro decode_repeat_map Suc.IH) (simp add: list_all_iff)
    then show ?thesis using ArrayT v(1,2) by simp
  next
    case (Defined name)
    then consider flds vs where "dict_get (ad_types D) name = Some (StructDef flds)" "v = BStruct vs"
        "list_all2 (\<lambda>f. well_typed n D (snd f)) flds vs"
      | variants i where "dict_get (ad_types D) name = Some (EnumDef variants)" "v = BEnum i" "i < length variants" "i < 256"
      using Suc.prems by (auto split: option.splits idl_def.splits borsh.splits)
    then show ?thesis
    proof cases
      case 1
      have "list_all2 (\<lambda>f v. \<forall>r. decode_type n D (snd f) (borsh_bytes n D (snd f) v @ r) = Inr (shown n D (snd f) v, r)) flds vs"
        using 1(3) by (rule list_all2_mono) (simp add: Suc.IH)
      from decode_fields_map[OF this] show ?thesis using Defined 1 by simp
    next
      case 2
      then show ?thesis using Defined decode_tag[of i r] by simp
    qed
  qed (use Suc.prems in simp)
qed simp

text \<open>
  C37. The event decoder inverts Borsh: for every struct of an IDL, whatever integers, keys, strings,
  options, vectors, arrays, enums and nested structs it holds, the encoding of well-typed field
  values decodes to exactly these values, and one byte too many makes it fail.
\<close>

theorem struct_round_trip:
  assumes "dict_get (ad_types D) name = Some (StructDef flds)"
    and "list_all2 (\<lambda>f. well_typed depth D (snd f)) flds vs"
  shows "decode_struct depth D name (concat (map2 (\<lambda>f. borsh_bytes depth D (snd f)) flds vs))
      = Inr (foldl (\<lambda>d (k, x). dict_set d k x) [] (map2 (\<lambda>f v. (fst f, shown depth D (snd f) v)) flds vs))
    \<and> decode_struct depth D name (concat (map2 (\<lambda>f. borsh_bytes depth D (snd f)) flds vs) @ [b])
      = Inl (AnchorDecodeError ''unexpected trailing bytes'')"
proof -
  have "list_all2 (\<lambda>f v. \<forall>r. decode_type depth D (snd f) (borsh_bytes depth D (snd f) v @ r)
      = Inr (shown depth D (snd f) v, r)) flds vs"
    using assms(2) by (rule list_all2_mono) (simp add: decode_borsh)
  note d = decode_fields_map[OF this]
  show ?thesis using assms(1) d[of "[]" "[]"] d[of "[]" "[b]"] by (simp add: decode_struct_def)
qed

definition demo_decoder :: anchor_decoder where
  "demo_decoder = anchor_decoder_init PUMP_PROGRAM_ID
     [(''Share'', StructDef [(''who'', Prim ''u16'')]),
      (''TradeEvent'', StructDef [(''amount'', Prim ''i64''), (''is_buy'', Prim ''bool''), (''shares'', VecT (Defined ''Share''))])]
     [([1, 2, 3, 4, 5, 6, 7, 8], ''TradeEvent'')]"

definition demo_struct :: "(string \<times> idl_type) list" where
  "demo_struct = [(''amount'', Prim ''i64''), (''is_buy'', Prim ''bool''), (''shares'', VecT (Defined ''Share''))]"

definition demo_depth :: nat where
  "demo_depth = Suc (Suc (Suc (Suc 0)))"

definition demo_fields :: "borsh list" where
  "demo_fields = [BInt (- 5), BBool True, BList [BStruct [BInt 7], BStruct [BInt 65535]]]"

theorem struct_round_trip_witness:
  "decode_struct demo_depth demo_decoder ''TradeEvent'' (concat (map2 (\<lambda>f. borsh_bytes demo_depth demo_decoder (snd f)) demo_struct demo_fields))
     = Inr (foldl (\<lambda>d (k, x). dict_set d k x) [] (map2 (\<lambda>f v. (fst f, shown demo_depth demo_decoder (snd f) v)) demo_struct demo_fields))"
proof -
  have "dict_get (ad_types demo_decoder) ''TradeEvent'' = Some (StructDef demo_struct)"
    "list_all2 (\<lambda>f. well_typed demo_depth demo_decoder (snd f)) demo_struct demo_fields"
    by (simp_all add: demo_decoder_def anchor_decoder_init_def demo_struct_def demo_fields_def demo_depth_def int_formats_def)
  from struct_round_trip[OF this] show ?thesis by (rule conjunct1)
qed

end
