(* ===== verification/Anchor_Logs.thy ===== *)
theory Anchor_Logs
  imports Anchor_Props
begin

text \<open>
  Attribution of event data to programs. The runtime logs a transaction as a tree of calls; the
  decoder rebuilds the call stack from the text of the lines. It finds exactly the data of its own
  program as long as no program prints a line that looks like a line of the runtime.
\<close>

section \<open>Transaction logs\<close>

datatype log_item = Note string | Emit string | Call string "log_item list"

text \<open>The lines of the runtime; \<open>d\<close> is the call depth it prints.\<close>

definition invoke_line :: "string \<Rightarrow> nat \<Rightarrow> string" where
  "invoke_line p d = ''Program '' @ p @ '' invoke ['' @ nat_str d @ '']''"

definition success_line :: "string \<Rightarrow> string" where
  "success_line p = ''Program '' @ p @ '' success''"

definition note_line :: "string \<Rightarrow> string" where
  "note_line m = ''Program log: '' @ m"

definition data_line :: "string \<Rightarrow> string" where
  "data_line x = ''Program data: '' @ x"

fun render :: "nat \<Rightarrow> log_item \<Rightarrow> string list" where
  "render d (Note m) = [note_line m]"
| "render d (Emit x) = [data_line x]"
| "render d (Call p items) = [invoke_line p d] @ concat (map (render (d + 1)) items) @ [success_line p]"

text \<open>The data printed by one program, in order.\<close>

fun own_data :: "string \<Rightarrow> string \<Rightarrow> log_item \<Rightarrow> string list" where
  "own_data pid owner (Note s) = []"
| "own_data pid owner (Emit x) = (if owner = pid then [py_strip x] else [])"
| "own_data pid owner (Call p items) = concat (map (own_data pid p) items)"

definition quiet :: "string \<Rightarrow> bool" where
  "quiet line \<longleftrightarrow> \<not> contains '' invoke ['' line \<and> \<not> endswith line '' success'' \<and> \<not> contains '' failed:'' line"

text \<open>
  What the parser relies on: program ids without blanks and brackets (Base58 has neither), and
  printed lines without the three markers of the runtime.
\<close>

fun honest :: "log_item \<Rightarrow> bool" where
  "honest (Note m) = quiet (note_line m)"
| "honest (Emit x) = quiet (data_line x)"
| "honest (Call p items) = (CHR '' '' \<notin> set p \<and> CHR ''['' \<notin> set p \<and> list_all honest items)"

fun is_call :: "log_item \<Rightarrow> bool" where
  "is_call (Call p items) = True"
| "is_call _ = False"

section \<open>Lines\<close>

lemma contains_infix: "contains sub (a @ sub @ b)"
proof (induction a)
  case Nil
  have "startswith (sub @ b) sub" by (rule startswith_append)
  then show ?case by (cases "sub @ b") auto
qed simp

lemma contains_set: "contains sub s \<Longrightarrow> set sub \<subseteq> set s"
proof (induction s)
  case (Cons c cs)
  have "set sub \<subseteq> set (c # cs)" if "startswith (c # cs) sub"
    using that unfolding startswith_iff by (metis set_append sup_ge1)
  with Cons show ?case by auto
qed simp

lemma second_word_program:
  "CHR '' '' \<notin> set p \<Longrightarrow> second_word (''Program '' @ p @ CHR '' '' # r) = p"
  by (simp add: second_word_def takeWhile_append)

lemma startswith_program [simp]: "startswith (''Program '' @ s) ''Program ''"
  by (rule startswith_append)

lemma log_line_invoke:
  assumes "CHR '' '' \<notin> set p"
  shows "log_line pid s (invoke_line p d)
     = Skip (s\<lparr>ls_stack := ls_stack s @ [p], ls_own_seen := (ls_own_seen s \<or> p = pid)\<rparr>)"
proof -
  have "startswith (invoke_line p d) ''Program ''" unfolding invoke_line_def by (rule startswith_append)
  moreover have "contains '' invoke ['' (invoke_line p d)"
    using contains_infix[of "'' invoke [''" "''Program '' @ p" "nat_str d @ '']''"] by (simp add: invoke_line_def)
  moreover have "second_word (invoke_line p d) = p"
    using second_word_program[OF assms, of "''invoke ['' @ nat_str d @ '']''"] by (simp add: invoke_line_def)
  ultimately show ?thesis by (simp add: log_line_def)
qed

lemma endswith_append [simp]: "endswith (a @ b) b"
  by (simp add: endswith_def)

lemma log_line_success:
  assumes "CHR ''['' \<notin> set p"
  shows "log_line pid s (success_line p) = Skip (s\<lparr>ls_stack := butlast (ls_stack s)\<rparr>)"
proof -
  have "startswith (success_line p) ''Program ''" unfolding success_line_def by (rule startswith_append)
  moreover have "CHR ''['' \<notin> set (success_line p)" using assms by (simp add: success_line_def)
  then have "\<not> contains '' invoke ['' (success_line p)" using contains_set by fastforce
  moreover have "endswith (success_line p) '' success''"
    using endswith_append[of "''Program '' @ p" "'' success''"] by (simp add: success_line_def)
  ultimately show ?thesis by (simp add: log_line_def)
qed

lemma log_line_note: "quiet (note_line m) \<Longrightarrow> log_line pid s (note_line m) = Skip s"
  by (simp add: log_line_def quiet_def) (simp add: startswith_def note_line_def)

lemma log_line_data:
  assumes "quiet (data_line x)" "ls_stack s \<noteq> []"
  shows "log_line pid s (data_line x) = (if last (ls_stack s) = pid then Data (py_strip x) else Skip s)"
proof -
  have "startswith (data_line x) ''Program data: ''" unfolding data_line_def by (rule startswith_append)
  moreover have "drop 14 (data_line x) = x" by (simp add: data_line_def)
  ultimately show ?thesis using assms by (simp add: log_line_def quiet_def)
qed

section \<open>The data of a log\<close>

fun run_log :: "string \<Rightarrow> log_state \<Rightarrow> string list \<Rightarrow> string list \<times> log_state" where
  "run_log pid s [] = ([], s)"
| "run_log pid s (l # ls) = (case log_line pid s l of
     Skip s' \<Rightarrow> run_log pid s' ls
   | Data x \<Rightarrow> (case run_log pid s ls of (xs, s') \<Rightarrow> (x # xs, s')))"

lemma run_log_append:
  "run_log pid s (a @ b) = (case run_log pid s a of (xs, s1) \<Rightarrow> case run_log pid s1 b of (ys, s2) \<Rightarrow> (xs @ ys, s2))"
  by (induction a arbitrary: s) (auto split: log_action.split prod.split)

definition runs_to :: "string \<Rightarrow> log_state \<Rightarrow> string list \<Rightarrow> string list \<Rightarrow> bool" where
  "runs_to pid s lines xs \<longleftrightarrow> fst (run_log pid s lines) = xs \<and> ls_stack (snd (run_log pid s lines)) = ls_stack s"

lemma runs_to_concat:
  assumes "\<And>it s. it \<in> set items \<Longrightarrow> P s \<Longrightarrow> runs_to pid s (f it) (g it)"
    and "\<And>s s'. P s \<Longrightarrow> ls_stack s' = ls_stack s \<Longrightarrow> P s'" and "P s"
  shows "runs_to pid s (concat (map f items)) (concat (map g items))"
  using assms(1,3)
proof (induction items arbitrary: s)
  case (Cons it items)
  obtain xs s1 where r: "run_log pid s (f it) = (xs, s1)" by force
  have "xs = g it" "ls_stack s1 = ls_stack s" using Cons.prems(1)[of it s] Cons.prems(2) r by (simp_all add: runs_to_def)
  moreover from this have "runs_to pid s1 (concat (map f items)) (concat (map g items))"
    using Cons.IH[of s1] Cons.prems assms(2)[of s s1] by simp
  ultimately show ?case using r
    by (cases "run_log pid s1 (concat (map f items))") (simp add: runs_to_def run_log_append)
qed (simp add: runs_to_def)

lemma run_call:
  assumes "CHR '' '' \<notin> set p" "CHR ''['' \<notin> set p"
    and "\<And>s. ls_stack s \<noteq> [] \<Longrightarrow> last (ls_stack s) = p \<Longrightarrow> runs_to pid s body xs"
  shows "runs_to pid s ([invoke_line p d] @ body @ [success_line p]) xs"
proof -
  let ?s = "s\<lparr>ls_stack := ls_stack s @ [p], ls_own_seen := (ls_own_seen s \<or> p = pid)\<rparr>"
  obtain ys s2 where b: "run_log pid ?s body = (ys, s2)" by force
  have "runs_to pid ?s body xs" by (rule assms(3)) simp_all
  then have "ys = xs" "ls_stack s2 = ls_stack s @ [p]" using b by (simp_all add: runs_to_def)
  then show ?thesis
    by (simp add: runs_to_def log_line_invoke[OF assms(1)] run_log_append b log_line_success[OF assms(2)])
qed

lemma item_runs:
  "honest it \<Longrightarrow> (ls_stack s \<noteq> [] \<and> last (ls_stack s) = owner) \<or> is_call it \<Longrightarrow> runs_to pid s (render d it) (own_data pid owner it)"
proof (induction it arbitrary: s d owner)
  case (Note m)
  then show ?case by (simp add: runs_to_def log_line_note)
next
  case (Emit x)
  then show ?case by (simp add: runs_to_def log_line_data)
next
  case (Call p items)
  have p: "CHR '' '' \<notin> set p" "CHR ''['' \<notin> set p" using Call.prems(1) by simp_all
  have "runs_to pid s (concat (map (render (d + 1)) items)) (concat (map (own_data pid p) items))"
    if "ls_stack s \<noteq> []" "last (ls_stack s) = p" for s
    by (rule runs_to_concat[where P = "\<lambda>s. ls_stack s \<noteq> [] \<and> last (ls_stack s) = p"])
      (use Call that in \<open>auto simp: list_all_iff\<close>)
  from run_call[OF p this] show ?case by simp
qed

section \<open>The decoder\<close>

lemma decode_lines_run:
  "case decode_lines depth D i s ls of
     Inr evs \<Rightarrow> list_all2 (\<lambda>x ev. decode_data depth D (ae_log_index ev) x = Inr ev) (fst (run_log (ad_program_id D) s ls)) evs
   | Inl e \<Rightarrow> \<exists>x \<in> set (fst (run_log (ad_program_id D) s ls)). \<exists>j. decode_data depth D j x = Inl e"
proof (induction ls arbitrary: i s)
  case (Cons l ls)
  show ?case
  proof (cases "log_line (ad_program_id D) s l")
    case (Skip s')
    then show ?thesis using Cons[where i = "i + 1" and s = s'] by (simp split: sum.splits)
  next
    case (Data x)
    have idx: "decode_data depth D i x = Inr ev \<Longrightarrow> ae_log_index ev = i" for ev
      by (auto simp: decode_data_def split: option.splits if_splits)
    show ?thesis
    proof (cases "decode_data depth D i x")
      case (Inl e)
      then show ?thesis using Data by (auto split: prod.split sum.split)
    next
      case (Inr ev)
      then show ?thesis using Data Cons[where i = "i + 1" and s = s] idx[OF Inr]
        by (cases "decode_lines depth D (i + 1) s ls") (auto split: prod.split)
    qed
  qed
qed simp


definition demo_calls :: "log_item list" where
  "demo_calls = [Call PUMP_PROGRAM_ID [Note ''Instruction: Buy'', Call ''Token'' [Emit ''QUJD''], Note ''done'']]"




end
