(* ===== verification/Clustering_Props.thy ===== *)
theory Clustering_Props
  imports Clustering
begin

text \<open>
  The clusters are the connected components of the eligible relations: union-find returns, its
  roots are the least wallets of their components, and grouping partitions the wallets.
\<close>

lemma obind_simps [simp]:
  "obind (Some (Inr x)) f = f x" "obind (Some (Inl e)) f = Some (Inl e)" "obind None f = None"
  by (simp_all add: obind_def)

section \<open>Parent dictionaries that represent a partition\<close>

text \<open>
  The interface between union-find and its clients: \<open>rep\<close> gives the representative of every
  wallet, and a parent dictionary represents it when parents are smaller, stay in the class and
  fixed points are their own representatives.
\<close>

definition represents :: "parents \<Rightarrow> string set \<Rightarrow> (string \<Rightarrow> string) \<Rightarrow> bool" where
  "represents P ws rep \<longleftrightarrow> dict_wf P \<and> dom (dict_get P) = ws \<and> finite ws
     \<and> (\<forall>w p. dict_get P w = Some p \<longrightarrow> p \<le> w \<and> p \<in> ws \<and> rep p = rep w)
     \<and> (\<forall>w. dict_get P w = Some w \<longrightarrow> rep w = w)"

lemma representsD:
  assumes "represents P ws rep"
  shows "dict_get P w = Some p \<Longrightarrow> p \<le> w" "dict_get P w = Some p \<Longrightarrow> p \<in> ws"
    "dict_get P w = Some p \<Longrightarrow> rep p = rep w" "dict_get P w = Some w \<Longrightarrow> rep w = w"
    "dict_get P w = Some p \<Longrightarrow> w \<in> ws" "dict_wf P" "finite ws" "dom (dict_get P) = ws"
  using assms unfolding represents_def by blast+

lemma represents_get: "represents P ws rep \<Longrightarrow> w \<in> ws \<Longrightarrow> \<exists>p. dict_get P w = Some p"
  unfolding represents_def by blast

lemma representsI:
  assumes "dict_wf P" "finite ws" "dom (dict_get P) = ws"
    and "\<And>w p. dict_get P w = Some p \<Longrightarrow> p \<le> w \<and> p \<in> ws \<and> rep p = rep w"
    and "\<And>w. dict_get P w = Some w \<Longrightarrow> rep w = w"
  shows "represents P ws rep"
  using assms unfolding represents_def by blast

lemma represents_halve:
  assumes r: "represents P ws rep" and p: "dict_get P w = Some p" "p \<noteq> w" and g: "dict_get P p = Some g"
  shows "represents (dict_set P w g) ws rep" "g < w"
proof -
  have "p < w" using representsD(1)[OF r p(1)] p(2) by (rule le_neq_trans)
  with representsD(1)[OF r g] show gw: "g < w" by (rule le_less_trans)
  show "represents (dict_set P w g) ws rep"
  proof (rule representsI)
    show "dict_wf (dict_set P w g)" by (rule dict_wf_set[OF representsD(6)[OF r]])
    show "finite ws" by (rule representsD(7)[OF r])
    have "w \<in> dom (dict_get P)" using p(1) by blast
    then show "dom (dict_get (dict_set P w g)) = ws"
      unfolding dict_get_set dom_fun_upd using representsD(8)[OF r] by auto
    show "q \<le> v \<and> q \<in> ws \<and> rep q = rep v" if "dict_get (dict_set P w g) v = Some q" for v q
    proof (cases "v = w")
      case True
      then have "q = g" using that by simp
      moreover have "rep g = rep w" using representsD(3)[OF r p(1)] representsD(3)[OF r g] by simp
      ultimately show ?thesis using True gw representsD(2)[OF r g] by (simp add: order.strict_implies_order)
    next
      case False
      then have "dict_get P v = Some q" using that by simp
      then show ?thesis using representsD[OF r] by blast
    qed
    show "rep v = v" if "dict_get (dict_set P w g) v = Some v" for v
    proof (cases "v = w")
      case True
      with that gw show ?thesis by simp
    next
      case False
      then show ?thesis using that representsD(4)[OF r] by simp
    qed
  qed
qed

lemma find_root_spec:
  assumes "represents P ws rep" "w \<in> ws"
  shows "\<exists>P'. find_root P w = Some (Inr (P', rep w)) \<and> represents P' ws rep \<and> rep w \<le> w \<and> rep w \<in> ws
    \<and> rep (rep w) = rep w \<and> dict_get P' (rep w) = Some (rep w)"
  using assms
proof (induction "card {x \<in> ws. x < w}" arbitrary: P w rule: less_induct)
  case less
  note r = less.prems(1)
  obtain p where p: "dict_get P w = Some p" using represents_get[OF less.prems] by blast
  show ?case
  proof (cases "p = w")
    case True
    then have "rep w = w" using representsD(4)[OF r] p by simp
    moreover have "find_root P w = Some (Inr (P, w))" using p True by (subst find_root.simps) simp
    ultimately show ?thesis using r less.prems(2) p True by simp
  next
    case False
    obtain g where g: "dict_get P p = Some g" using represents_get[OF r representsD(2)[OF r p]] by blast
    have gp: "g \<in> ws" "rep g = rep w" using representsD(2,3)[OF r g] representsD(3)[OF r p] by simp_all
    note h = represents_halve[OF r p False g]
    have "{x \<in> ws. x < g} \<subset> {x \<in> ws. x < w}" using h(2) gp(1) by (auto intro: less_trans)
    then have "card {x \<in> ws. x < g} < card {x \<in> ws. x < w}"
      using representsD(7)[OF r] by (intro psubset_card_mono) simp_all
    from less.hyps[OF this h(1) gp(1)] obtain P' where
      P': "find_root (dict_set P w g) g = Some (Inr (P', rep g))" "represents P' ws rep" "rep g \<le> g" "rep g \<in> ws"
        "rep (rep g) = rep g" "dict_get P' (rep g) = Some (rep g)" by blast
    moreover have "find_root P w = find_root (dict_set P w g) g"
      using p False g by (subst find_root.simps) simp
    moreover have "rep g \<le> w" using P'(3) h(2) by simp
    ultimately show ?thesis unfolding gp(2) by metis
  qed
qed

definition merge :: "string \<Rightarrow> string \<Rightarrow> (string \<Rightarrow> string) \<Rightarrow> string \<Rightarrow> string" where
  "merge a b rep x = (if rep x = max (rep a) (rep b) then min (rep a) (rep b) else rep x)"

lemma merge_same: "rep a = rep b \<Longrightarrow> merge a b rep = rep"
  by (rule ext) (simp add: merge_def)

lemma merge_classes:
  "merge a b rep x = merge a b rep y \<longleftrightarrow>
     rep x = rep y \<or> rep x = rep a \<and> rep y = rep b \<or> rep x = rep b \<and> rep y = rep a"
  by (auto simp: merge_def max_def min_def split: if_splits)

lemma union_roots_spec:
  assumes "represents P ws rep" "a \<in> ws" "b \<in> ws"
  shows "\<exists>P'. union_roots P a b = Some (Inr P') \<and> represents P' ws (merge a b rep)"
proof -
  obtain P1 where P1: "find_root P a = Some (Inr (P1, rep a))" "represents P1 ws rep" "rep a \<in> ws" "rep (rep a) = rep a"
    using find_root_spec[OF assms(1,2)] by blast
  obtain P2 where P2: "find_root P1 b = Some (Inr (P2, rep b))" "represents P2 ws rep" "rep b \<in> ws" "rep (rep b) = rep b"
    using find_root_spec[OF P1(2) assms(3)] by blast
  show ?thesis
  proof (cases "rep a = rep b")
    case True
    with P1 P2 show ?thesis by (simp add: union_roots_def merge_same)
  next
    case False
    let ?hi = "max (rep a) (rep b)" and ?lo = "min (rep a) (rep b)"
    have hl: "?lo < ?hi" "?lo \<in> ws" "?hi \<in> ws" "rep ?lo = ?lo" "rep ?hi = ?hi"
      using False P1 P2 by (auto simp: max_def min_def)
    have m: "merge a b rep x = (if rep x = ?hi then ?lo else rep x)" for x by (simp add: merge_def)
    note r = P2(2)
    have "represents (dict_set P2 ?hi ?lo) ws (merge a b rep)"
    proof (rule representsI)
      show "dict_wf (dict_set P2 ?hi ?lo)" by (rule dict_wf_set[OF representsD(6)[OF r]])
      show "finite ws" by (rule representsD(7)[OF r])
      show "dom (dict_get (dict_set P2 ?hi ?lo)) = ws"
        unfolding dict_get_set dom_fun_upd using representsD(8)[OF r] hl(3) by auto
    next
      fix w p assume get: "dict_get (dict_set P2 ?hi ?lo) w = Some p"
      show "p \<le> w \<and> p \<in> ws \<and> merge a b rep p = merge a b rep w"
      proof (cases "w = ?hi")
        case True
        then have "p = ?lo" using get by simp
        then show ?thesis using True hl by (simp add: m order.strict_implies_order)
      next
        case other: False
        then have "dict_get P2 w = Some p" using get by simp
        then show ?thesis using representsD(1,2,3)[OF r] by (simp add: m)
      qed
    next
      fix w assume get: "dict_get (dict_set P2 ?hi ?lo) w = Some w"
      then have "w \<noteq> ?hi" using hl(1) by auto
      moreover from this have "rep w = w" using get representsD(4)[OF r] by simp
      ultimately show "merge a b rep w = w" by (simp add: m)
    qed
    with P1 P2 False show ?thesis by (simp add: union_roots_def)
  qed
qed

section \<open>Components\<close>

definition eligible_pairs :: "wallet_relation list \<Rightarrow> (string \<times> string) set" where
  "eligible_pairs rs = {(wr_wallet_a r, wr_wallet_b r) | r. r \<in> set rs \<and> wr_eligible_for_cluster r}"

definition same_class :: "(string \<Rightarrow> string) \<Rightarrow> (string \<times> string) set" where
  "same_class rep = {(x, y). rep x = rep y}"

lemma same_class_rtrancl: "(same_class rep)\<^sup>* = same_class rep"
proof (intro equalityI subsetI)
  fix z assume "z \<in> (same_class rep)\<^sup>*"
  then obtain x y where z: "z = (x, y)" "(x, y) \<in> (same_class rep)\<^sup>*" by (cases z) auto
  from z(2) have "rep x = rep y" by (induction rule: rtrancl_induct) (simp_all add: same_class_def)
  then show "z \<in> same_class rep" by (simp add: z(1) same_class_def)
qed auto

lemma same_class_merge: "same_class (merge a b rep) = (same_class rep \<union> {(a, b), (b, a)})\<^sup>*"
proof (intro equalityI subsetI)
  fix z assume "z \<in> same_class (merge a b rep)"
  then obtain x y where z: "z = (x, y)" "merge a b rep x = merge a b rep y" by (auto simp: same_class_def)
  let ?R = "same_class rep \<union> {(a, b), (b, a)}"
  have "(x, y) \<in> ?R \<or> (x, a) \<in> ?R \<and> (b, y) \<in> ?R \<or> (x, b) \<in> ?R \<and> (a, y) \<in> ?R"
    using z(2) unfolding merge_classes by (auto simp: same_class_def)
  moreover have "(a, b) \<in> ?R" "(b, a) \<in> ?R" by simp_all
  ultimately show "z \<in> ?R\<^sup>*" unfolding z(1)
    by (meson r_into_rtrancl rtrancl.rtrancl_into_rtrancl)
next
  fix z assume "z \<in> (same_class rep \<union> {(a, b), (b, a)})\<^sup>*"
  then obtain x y where z: "z = (x, y)" "(x, y) \<in> (same_class rep \<union> {(a, b), (b, a)})\<^sup>*" by (cases z) auto
  from z(2) have "merge a b rep x = merge a b rep y"
  proof (induction rule: rtrancl_induct)
    case (step u v)
    then have "merge a b rep u = merge a b rep v" by (auto simp: same_class_def merge_classes)
    with step show ?case by simp
  qed simp
  then show "z \<in> same_class (merge a b rep)" by (simp add: z(1) same_class_def)
qed

lemma rtrancl_merge: "(same_class (merge a b rep) \<union> S)\<^sup>* = (same_class rep \<union> {(a, b), (b, a)} \<union> S)\<^sup>*"
  unfolding same_class_merge by (rule rtrancl_Un_rtrancl[of _ S, symmetric, THEN trans, THEN sym])
    (metis rtrancl_Un_rtrancl rtrancl_idemp)

definition links :: "wallet_relation list \<Rightarrow> (string \<times> string) set" where
  "links rs = eligible_pairs rs \<union> (eligible_pairs rs)\<inverse>"

lemma links_Cons: "links (r # rs) = (if wr_eligible_for_cluster r
    then {(wr_wallet_a r, wr_wallet_b r), (wr_wallet_b r, wr_wallet_a r)} else {}) \<union> links rs"
  by (auto simp: links_def eligible_pairs_def)

definition in_scope :: "string set \<Rightarrow> wallet_relation list \<Rightarrow> bool" where
  "in_scope ws rs \<longleftrightarrow> (\<forall>r \<in> set rs. wr_eligible_for_cluster r \<longrightarrow> wr_wallet_a r \<in> ws \<and> wr_wallet_b r \<in> ws)"

lemma union_all_spec:
  assumes "represents P ws rep" "in_scope ws rs"
  shows "\<exists>P' rep'. union_all rs P = Some (Inr P') \<and> represents P' ws rep' \<and> same_class rep' = (same_class rep \<union> links rs)\<^sup>*"
  using assms
proof (induction rs arbitrary: P rep)
  case Nil
  have "(same_class rep)\<^sup>* = same_class rep"
    by (rule same_class_rtrancl)
  with Nil show ?case by (auto simp: links_def eligible_pairs_def)
next
  case (Cons r rs)
  have scope: "in_scope ws rs" using Cons.prems(2) by (simp add: in_scope_def)
  show ?case
  proof (cases "wr_eligible_for_cluster r")
    case True
    let ?a = "wr_wallet_a r" and ?b = "wr_wallet_b r"
    have ab: "?a \<in> ws" "?b \<in> ws" using Cons.prems(2) True by (simp_all add: in_scope_def)
    then have get: "dict_get P ?a \<noteq> None" "dict_get P ?b \<noteq> None"
      using represents_get[OF Cons.prems(1)] by fastforce+
    obtain P1 where P1: "union_roots P ?a ?b = Some (Inr P1)" "represents P1 ws (merge ?a ?b rep)"
      using union_roots_spec[OF Cons.prems(1) ab] by blast
    obtain P' rep' where P': "union_all rs P1 = Some (Inr P')" "represents P' ws rep'"
        "same_class rep' = (same_class (merge ?a ?b rep) \<union> links rs)\<^sup>*"
      using Cons.IH[OF P1(2) scope] by blast
    have "same_class rep' = (same_class rep \<union> links (r # rs))\<^sup>*"
      unfolding P'(3) rtrancl_merge links_Cons using True by (simp add: Un_assoc)
    with True get P1 P' show ?thesis by auto
  next
    case False
    then show ?thesis using Cons.IH[OF Cons.prems(1) scope] by (simp add: links_Cons)
  qed
qed

lemma initial_represents:
  assumes "distinct ws" shows "represents (map (\<lambda>w. (w, w)) ws) (set ws) (\<lambda>w. w)"
proof -
  have get: "dict_get (map (\<lambda>w. (w, w)) ws) v = (if v \<in> set ws then Some v else None)" for v
    by (induction ws) auto
  show ?thesis
    by (rule representsI) (use assms in \<open>auto simp: dict_wf_def get comp_def dom_def split: if_splits\<close>)
qed

section \<open>Grouping\<close>

definition group_by :: "(string \<Rightarrow> string) \<Rightarrow> string list \<Rightarrow> (string, string list) dict \<Rightarrow> (string, string list) dict" where
  "group_by rep ws d = foldl (\<lambda>d w. dict_set d (rep w) (opt_or (dict_get d (rep w)) [] @ [w])) d ws"

lemma group_wallets_spec:
  assumes "represents P W rep" "set ws \<subseteq> W"
  shows "group_wallets ws P d = Some (Inr (group_by rep ws d))"
  using assms
proof (induction ws arbitrary: P d)
  case (Cons w ws)
  obtain P' where "find_root P w = Some (Inr (P', rep w))" "represents P' W rep"
    using find_root_spec[OF Cons.prems(1), of w] Cons.prems(2) by auto
  with Cons show ?case by (simp add: group_by_def)
qed (simp add: group_by_def)

lemma group_by_get:
  "dict_wf (group_by rep ws []) \<and> (\<forall>k. dict_get (group_by rep ws []) k
     = (if \<exists>w \<in> set ws. rep w = k then Some (filter (\<lambda>w. rep w = k) ws) else None))"
proof (induction ws rule: rev_induct)
  case Nil
  then show ?case by (simp add: group_by_def dict_wf_def)
next
  case (snoc w ws)
  have step: "group_by rep (ws @ [w]) [] = dict_set (group_by rep ws []) (rep w)
      (opt_or (dict_get (group_by rep ws []) (rep w)) [] @ [w])"
    by (simp add: group_by_def)
  have "filter (\<lambda>v. rep v = rep w) ws = []" if "\<not> (\<exists>v \<in> set ws. rep v = rep w)"
    using that by (auto simp: filter_empty_conv)
  with snoc show ?case by (auto simp: step opt_or_def)
qed


lemma dict_entry_iff: "dict_wf d \<Longrightarrow> (k, v) \<in> set d \<longleftrightarrow> dict_get d k = Some v"
  by (induction d) (auto simp: dict_wf_def image_iff)

lemma group_by_entries:
  "(k, m) \<in> set (group_by rep ws []) \<longleftrightarrow> (\<exists>w \<in> set ws. rep w = k) \<and> m = filter (\<lambda>w. rep w = k) ws"
  using group_by_get[of rep ws] dict_entry_iff[of "group_by rep ws []" k m] by auto

definition partition_of :: "(string \<Rightarrow> string) \<Rightarrow> string list \<Rightarrow> (string \<times> string list) list" where
  "partition_of rep ws = sort_key fst (group_by rep (sort ws) [])"

lemma partition_entries:
  "(k, m) \<in> set (partition_of rep ws) \<longleftrightarrow> (\<exists>w \<in> set ws. rep w = k) \<and> m = filter (\<lambda>w. rep w = k) (sort ws)"
  by (simp add: partition_of_def group_by_entries)

lemma partition_ids: "sorted (map fst (partition_of rep ws)) \<and> distinct (map fst (partition_of rep ws))"
proof -
  have "distinct (map fst (group_by rep (sort ws) []))"
    using group_by_get[of rep "sort ws"] by (simp add: dict_wf_def)
  then show ?thesis by (simp add: partition_of_def distinct_map)
qed

lemma distinct_concat_classes:
  assumes "distinct (map fst es)" "\<And>k m. (k, m) \<in> set es \<Longrightarrow> distinct m \<and> (\<forall>x \<in> set m. rep x = k)"
  shows "distinct (concat (map snd es))"
  using assms
proof (induction es)
  case (Cons e es)
  obtain k m where e: "e = (k, m)" by (cases e)
  have m: "distinct m \<and> (\<forall>x \<in> set m. rep x = k)" using Cons.prems(2)[of k m] e by simp
  have tail: "\<And>k m. (k, m) \<in> set es \<Longrightarrow> distinct m \<and> (\<forall>x \<in> set m. rep x = k)"
    by (rule Cons.prems(2)) simp
  have "distinct (map fst es)" using Cons.prems(1) by simp
  from Cons.IH[OF this tail] have "distinct (concat (map snd es))" .
  moreover have "x \<notin> set m'" if x: "x \<in> set m" and e': "(k', m') \<in> set es" for x k' m'
  proof
    assume "x \<in> set m'"
    then have "rep x = k'" using Cons.prems(2)[of k' m'] e' by simp
    moreover have "rep x = k" using m x by simp
    moreover have "k \<notin> fst ` set es" using Cons.prems(1) e by simp
    ultimately show False using e' by force
  qed
  ultimately show ?case using m e by auto
qed simp

lemma partition_partitions:
  assumes "distinct ws"
  shows "distinct (concat (map snd (partition_of rep ws)))" "set (concat (map snd (partition_of rep ws))) = set ws"
proof -
  show "distinct (concat (map snd (partition_of rep ws)))"
    by (rule distinct_concat_classes[where rep = rep]) (use assms partition_ids in \<open>auto simp: partition_entries\<close>)
  have "(rep w, filter (\<lambda>v. rep v = rep w) (sort ws)) \<in> set (partition_of rep ws)" if "w \<in> set ws" for w
    using that by (auto simp: partition_entries)
  then have "w \<in> set (concat (map snd (partition_of rep ws)))" if "w \<in> set ws" for w
    using that by (auto intro!: bexI[of _ "(rep w, filter (\<lambda>v. rep v = rep w) (sort ws))"])
  moreover have "w \<in> set ws" if "w \<in> set (concat (map snd (partition_of rep ws)))" for w
    using that by (auto simp: partition_entries)
  ultimately show "set (concat (map snd (partition_of rep ws))) = set ws" by blast
qed

lemma cluster_of_simps [simp]:
  "wc_cluster_id (cluster_of rs hs vs e) = fst e" "wc_wallets (cluster_of rs hs vs e) = snd e"
  by (simp_all add: cluster_of_def split: prod.splits)

lemma build_clusters_spec:
  assumes "distinct ws" "in_scope (set ws) rs"
  shows "\<exists>rep. build_clusters ws rs hs vs = Some (Inr (map (cluster_of rs hs vs) (partition_of rep ws)))
     \<and> same_class rep = (links rs)\<^sup>* \<and> (\<forall>w \<in> set ws. rep w \<le> w \<and> rep w \<in> set ws \<and> rep (rep w) = rep w)"
proof -
  obtain P rep where P: "union_all rs (map (\<lambda>w. (w, w)) ws) = Some (Inr P)" "represents P (set ws) rep"
      "same_class rep = (same_class (\<lambda>w. w) \<union> links rs)\<^sup>*"
    using union_all_spec[OF initial_represents[OF assms(1)] assms(2)] by blast
  have "same_class (\<lambda>w. w) = Id" by (auto simp: same_class_def)
  moreover have "(Id \<union> links rs)\<^sup>* = (links rs)\<^sup>*"
    by (metis rtrancl_reflcl sup_commute)
  ultimately have cls: "same_class rep = (links rs)\<^sup>*" using P(3) by simp
  have "build_clusters ws rs hs vs = Some (Inr (map (cluster_of rs hs vs) (partition_of rep ws)))"
    using P(1) group_wallets_spec[OF P(2), of "sort ws" "[]"] by (simp add: build_clusters_def partition_of_def)
  moreover have "\<forall>w \<in> set ws. rep w \<le> w \<and> rep w \<in> set ws \<and> rep (rep w) = rep w"
    using find_root_spec[OF P(2)] by blast
  ultimately show ?thesis using cls by blast
qed

section \<open>Properties\<close>

text \<open>
  C34. For a set of wallets and relations whose eligible members stay inside it, \<open>build_clusters\<close> returns
  (its union-find loop ends), the clusters partition the wallets, two wallets share a cluster exactly
  when a chain of eligible relations links them, every cluster carries its least wallet as its id, and
  the clusters are listed in increasing order of their ids. So the result depends neither on the
  iteration order of the set nor on the order of the relations.
\<close>

theorem clusters_are_components:
  assumes "distinct ws" "in_scope (set ws) rs"
  shows "\<exists>cs. build_clusters ws rs hs vs = Some (Inr cs)
     \<and> distinct (concat (map wc_wallets cs)) \<and> set (concat (map wc_wallets cs)) = set ws
     \<and> (\<forall>c \<in> set cs. \<forall>w \<in> set (wc_wallets c). \<forall>v \<in> set ws. v \<in> set (wc_wallets c) \<longleftrightarrow> (w, v) \<in> (links rs)\<^sup>*)
     \<and> (\<forall>c \<in> set cs. wc_cluster_id c \<in> set (wc_wallets c) \<and> (\<forall>w \<in> set (wc_wallets c). wc_cluster_id c \<le> w))
     \<and> sorted (map wc_cluster_id cs) \<and> distinct (map wc_cluster_id cs)"
proof -
  obtain rep where b: "build_clusters ws rs hs vs = Some (Inr (map (cluster_of rs hs vs) (partition_of rep ws)))"
    and cls: "same_class rep = (links rs)\<^sup>*"
    and rep: "\<And>w. w \<in> set ws \<Longrightarrow> rep w \<le> w \<and> rep w \<in> set ws \<and> rep (rep w) = rep w"
    using build_clusters_spec[OF assms] by blast
  let ?cs = "map (cluster_of rs hs vs) (partition_of rep ws)"
  have maps: "map wc_wallets ?cs = map snd (partition_of rep ws)" "map wc_cluster_id ?cs = map fst (partition_of rep ws)"
    by simp_all
  have mem: "\<exists>u \<in> set ws. wc_cluster_id c = rep u \<and> wc_wallets c = filter (\<lambda>w. rep w = rep u) (sort ws)"
    if "c \<in> set ?cs" for c using that by (auto simp: partition_entries)
  have "v \<in> set (wc_wallets c) \<longleftrightarrow> (w, v) \<in> (links rs)\<^sup>*"
    if c: "c \<in> set ?cs" and w: "w \<in> set (wc_wallets c)" and v: "v \<in> set ws" for c w v
    using mem[OF c] w v unfolding cls[symmetric] by (auto simp: same_class_def)
  moreover have "wc_cluster_id c \<in> set (wc_wallets c) \<and> (\<forall>w \<in> set (wc_wallets c). wc_cluster_id c \<le> w)"
    if c: "c \<in> set ?cs" for c
  proof -
    obtain u where u: "u \<in> set ws" "wc_cluster_id c = rep u" "wc_wallets c = filter (\<lambda>w. rep w = rep u) (sort ws)"
      using mem[OF c] by blast
    have "rep u \<le> w" if "w \<in> set ws" "rep w = rep u" for w using rep[OF that(1)] that(2) by simp
    then show ?thesis using u rep[OF u(1)] by simp
  qed
  ultimately show ?thesis
    by (intro exI[of _ ?cs] conjI ballI)
      (simp_all only: b maps partition_partitions[OF assms(1)] partition_ids[THEN conjunct1] partition_ids[THEN conjunct2])
qed

definition demo_relation :: "string \<Rightarrow> string \<Rightarrow> bool \<Rightarrow> wallet_relation" where
  "demo_relation a b e = \<lparr>wr_wallet_a = a, wr_wallet_b = b, wr_relation_score = 78/100,
     wr_evidence = [''same_initial_funder''], wr_eligible_for_cluster = e\<rparr>"

definition demo_wallets :: "string list" where
  "demo_wallets = [''d'', ''a'', ''c'', ''b'']"

definition demo_relations :: "wallet_relation list" where
  "demo_relations = [demo_relation ''c'' ''d'' True, demo_relation ''b'' ''d'' True, demo_relation ''a'' ''b'' False]"

theorem clusters_are_components_witness:
  "\<exists>cs. build_clusters demo_wallets demo_relations [] [] = Some (Inr cs)
     \<and> set (concat (map wc_wallets cs)) = set demo_wallets"
proof -
  have "in_scope (set demo_wallets) demo_relations" "distinct demo_wallets"
    by (simp_all add: in_scope_def demo_relation_def demo_relations_def demo_wallets_def)
  from clusters_are_components[OF this(2,1), of "[]" "[]"] show ?thesis by blast
qed

end
