(* ===== verification/Config.thy ===== *)
theory Config
  imports Risk Json Registry
begin

text \<open>
  Configuration (\<open>config.py\<close>): the sections and the settings record, the validators of the fields
  and of the whole record, the normalised payload behind the configuration hash, and the rules of
  \<open>load\<close> that let the environment win over the YAML file. Pydantic's dump of the settings, the JSON
  reader and writer and the revision file are arguments.
\<close>

section \<open>Sections\<close>

datatype app_mode = RECORD | PAPER | LIVE

record chain_config =
  cc_network :: string
  cc_primary_commitment :: string
  cc_max_stream_lag_ms :: int
  cc_warmup_seconds :: int
  cc_halt_on_unrecoverable_gap :: bool

record paper_config =
  pc_execution_delay_ms :: int
  pc_adverse_fill_bps :: int
  pc_exit_retry_interval_ms :: int
  pc_exit_retry_timeout_seconds :: int
  pc_account_currency :: string

record candidate_config =
  kc_min_pool_age_seconds :: int
  kc_max_pool_age_seconds :: int
  kc_min_observation_seconds :: int
  kc_max_return_since_pool_creation_pct :: decimal
  kc_min_pullback_pct :: decimal
  kc_max_pullback_pct :: decimal
  kc_score_watchlist :: decimal
  kc_score_entry :: decimal
  kc_score_confirmation_windows :: int
  kc_score_window_seconds :: int

record liquidity_config =
  lc_min_quote_liquidity_usd :: decimal
  lc_max_market_cap_to_quote_liquidity :: decimal
  lc_max_position_to_quote_liquidity_pct :: decimal
  lc_max_liquidity_drop_entry_30s_pct :: decimal
  lc_emergency_liquidity_drop_pct :: decimal

record execution_config =
  xc_quote_timeout_ms :: int
  xc_max_quote_age_ms :: int
  xc_max_quote_retries :: int
  xc_max_buy_price_impact_pct :: decimal
  xc_max_sell_price_impact_pct :: decimal
  xc_max_round_trip_loss_pct :: decimal
  xc_min_external_sellers :: int

record flow_config =
  fc_min_unique_buyers_60s :: int
  fc_min_buyer_acceleration :: decimal
  fc_min_unique_buyer_ratio :: decimal
  fc_max_transactions_per_trader :: decimal
  fc_min_buy_sell_volume_ratio :: decimal
  fc_max_buy_sell_volume_ratio :: decimal
  fc_max_top_5_buy_volume_share :: decimal
  fc_max_same_funder_buy_share :: decimal

record holder_config =
  hc_max_largest_holder_pct :: decimal
  hc_max_top_5_pct :: decimal
  hc_max_top_10_pct :: decimal
  hc_max_dev_holding_pct :: decimal
  hc_max_dev_cluster_pct :: decimal
  hc_max_related_cluster_pct :: decimal
  hc_max_unknown_supply_pct :: decimal

record exit_config =
  ec_take_profit_1_pct :: decimal
  ec_take_profit_1_size_pct :: decimal
  ec_take_profit_2_pct :: decimal
  ec_take_profit_2_size_pct :: decimal
  ec_trailing_stop_pct :: decimal
  ec_momentum_exit_windows :: int
  ec_no_new_high_timeout_seconds :: int
  ec_maximum_holding_seconds :: int

record telegram_config =
  tc_enabled :: bool
  tc_daily_report_time :: string
  tc_include_all_time_with_daily :: bool

record enrichment_config =
  nc_enabled :: bool
  nc_timeout_ms :: int
  nc_cache_seconds :: int
  nc_minimum_interval_ms :: int

record storage_config =
  oc_raw_events_enabled :: bool
  oc_raw_compression :: string
  oc_raw_retention_days :: int

record reporting_config =
  gc_include_operational_costs :: bool
  gc_monthly_infrastructure_cost_usd :: decimal
  gc_minimum_sample_warning_trades :: int

record logging_config =
  wc_level :: string
  wc_json_logs :: bool

definition default_risk_config :: risk_config where
  "default_risk_config = \<lparr>rc_risk_per_trade_pct = 5/1000, rc_hard_stop_pct = 15/100, rc_max_position_usdc = 20,
     rc_min_position_usdc = 8, rc_max_exposure_usdc = 50, rc_max_open_positions = 3,
     rc_daily_loss_limit_usdc = 10, rc_all_time_drawdown_limit_pct = 10, rc_max_trades_per_day = 12,
     rc_max_consecutive_losses = 3, rc_daily_halt_after_consecutive_losses = 4, rc_pause_minutes = 60,
     rc_adverse_fill_bps = 50\<rparr>"

definition default_chain_config :: chain_config where
  "default_chain_config = \<lparr>cc_network = ''mainnet-beta'', cc_primary_commitment = ''confirmed'',
     cc_max_stream_lag_ms = 3000, cc_warmup_seconds = 60, cc_halt_on_unrecoverable_gap = False\<rparr>"

definition default_paper_config :: paper_config where
  "default_paper_config = \<lparr>pc_execution_delay_ms = 1200, pc_adverse_fill_bps = 50,
     pc_exit_retry_interval_ms = 1000, pc_exit_retry_timeout_seconds = 30, pc_account_currency = ''USDC''\<rparr>"

definition default_candidate_config :: candidate_config where
  "default_candidate_config = \<lparr>kc_min_pool_age_seconds = 45, kc_max_pool_age_seconds = 180,
     kc_min_observation_seconds = 45, kc_max_return_since_pool_creation_pct = 250/100,
     kc_min_pullback_pct = 10/100, kc_max_pullback_pct = 25/100, kc_score_watchlist = 72, kc_score_entry = 80,
     kc_score_confirmation_windows = 2, kc_score_window_seconds = 5\<rparr>"

definition default_liquidity_config :: liquidity_config where
  "default_liquidity_config = \<lparr>lc_min_quote_liquidity_usd = 40000, lc_max_market_cap_to_quote_liquidity = 25,
     lc_max_position_to_quote_liquidity_pct = 25/10000, lc_max_liquidity_drop_entry_30s_pct = 3/100,
     lc_emergency_liquidity_drop_pct = 8/100\<rparr>"

definition default_execution_config :: execution_config where
  "default_execution_config = \<lparr>xc_quote_timeout_ms = 2500, xc_max_quote_age_ms = 1500, xc_max_quote_retries = 2,
     xc_max_buy_price_impact_pct = 25/1000, xc_max_sell_price_impact_pct = 35/1000,
     xc_max_round_trip_loss_pct = 8/100, xc_min_external_sellers = 5\<rparr>"

definition default_flow_config :: flow_config where
  "default_flow_config = \<lparr>fc_min_unique_buyers_60s = 25, fc_min_buyer_acceleration = 13/10,
     fc_min_unique_buyer_ratio = 30/100, fc_max_transactions_per_trader = 4, fc_min_buy_sell_volume_ratio = 15/10,
     fc_max_buy_sell_volume_ratio = 5, fc_max_top_5_buy_volume_share = 35/100,
     fc_max_same_funder_buy_share = 20/100\<rparr>"

definition default_holder_config :: holder_config where
  "default_holder_config = \<lparr>hc_max_largest_holder_pct = 7/100, hc_max_top_5_pct = 22/100, hc_max_top_10_pct = 30/100,
     hc_max_dev_holding_pct = 2/100, hc_max_dev_cluster_pct = 5/100, hc_max_related_cluster_pct = 15/100,
     hc_max_unknown_supply_pct = 5/100\<rparr>"

definition default_exit_config :: exit_config where
  "default_exit_config = \<lparr>ec_take_profit_1_pct = 30/100, ec_take_profit_1_size_pct = 50/100,
     ec_take_profit_2_pct = 60/100, ec_take_profit_2_size_pct = 25/100, ec_trailing_stop_pct = 15/100,
     ec_momentum_exit_windows = 2, ec_no_new_high_timeout_seconds = 120, ec_maximum_holding_seconds = 600\<rparr>"

definition default_telegram_config :: telegram_config where
  "default_telegram_config = \<lparr>tc_enabled = True, tc_daily_report_time = ''00:00'',
     tc_include_all_time_with_daily = False\<rparr>"

definition default_enrichment_config :: enrichment_config where
  "default_enrichment_config = \<lparr>nc_enabled = True, nc_timeout_ms = 2500, nc_cache_seconds = 300,
     nc_minimum_interval_ms = 250\<rparr>"

definition default_storage_config :: storage_config where
  "default_storage_config = \<lparr>oc_raw_events_enabled = True, oc_raw_compression = ''zstd'', oc_raw_retention_days = 90\<rparr>"

definition default_reporting_config :: reporting_config where
  "default_reporting_config = \<lparr>gc_include_operational_costs = True, gc_monthly_infrastructure_cost_usd = 0,
     gc_minimum_sample_warning_trades = 30\<rparr>"

definition default_logging_config :: logging_config where
  "default_logging_config = \<lparr>wc_level = ''INFO'', wc_json_logs = True\<rparr>"

section \<open>The settings\<close>

record app_config =
  ac_app_mode :: app_mode
  ac_time_zone :: string
  ac_base_quote_mint :: string
  ac_base_quote_decimals :: int
  ac_replay_mode :: bool
  ac_quote_journal_path :: string
  ac_quote_journal_record :: bool
  ac_replay_seed :: "int option"
  ac_helius_api_key :: string
  ac_helius_wss_url :: string
  ac_helius_rpc_url :: string
  ac_jupiter_api_key :: string
  ac_postgres_dsn :: string
  ac_telegram_bot_token :: string
  ac_telegram_admin_chat_id :: int
  ac_telegram_allowlist_chat_ids :: "int list"
  ac_telegram_allowlist_user_ids :: "int list"
  ac_starting_equity_usd :: decimal
  ac_risk :: risk_config
  ac_chain :: chain_config
  ac_paper :: paper_config
  ac_candidate :: candidate_config
  ac_liquidity :: liquidity_config
  ac_execution :: execution_config
  ac_flow :: flow_config
  ac_holders :: holder_config
  ac_exits :: exit_config
  ac_telegram :: telegram_config
  ac_enrichment :: enrichment_config
  ac_storage :: storage_config
  ac_reporting :: reporting_config
  ac_logging :: logging_config
  ac_config_hash :: string
  ac_strategy_version :: string
  ac_release_revision :: string

section \<open>Field validators\<close>

definition lower_char :: "char \<Rightarrow> char" where
  "lower_char c = (let n = (of_char c :: nat) in if 65 \<le> n \<and> n \<le> 90 then char_of (n + 32) else c)"

text \<open>\<open>s.lower()\<close> and \<open>s.casefold()\<close> on ASCII text\<close>

definition py_lower :: "string \<Rightarrow> string" where
  "py_lower s = map lower_char s"

definition hex_value :: "char \<Rightarrow> nat option" where
  "hex_value c = map_of (zip ''0123456789abcdefABCDEF'' ([0..<16] @ [10..<16])) c"

fun hex_digits :: "bool \<Rightarrow> string \<Rightarrow> nat \<Rightarrow> nat option" where
  "hex_digits after_digit [] n = (if after_digit then Some n else None)"
| "hex_digits after_digit (c # cs) n = (case hex_value c of
     Some v \<Rightarrow> hex_digits True cs (n * 16 + v)
   | None \<Rightarrow> if c = CHR ''_'' \<and> after_digit then hex_digits False cs n else None)"

text \<open>
  \<open>int(s, 16)\<close>: blanks around, a sign, an optional \<open>0x\<close> that an underscore may follow, digits with
  single underscores between them.
\<close>

definition int_of_hex :: "string \<Rightarrow> int option" where
  "int_of_hex s = (case split_sign (py_strip s) of (neg, ds) \<Rightarrow>
     let prefixed = take 2 ds = ''0x'' \<or> take 2 ds = ''0X'';
         digits = (if prefixed then drop 2 ds else ds)
     in if digits = [] then None
        else map_option (\<lambda>n. if neg then - int n else int n) (hex_digits prefixed digits 0))"

definition validate_release_revision :: "string \<Rightarrow> string result" where
  "validate_release_revision v0 =
     (let v = py_lower (py_strip v0) in
      if v = [] then Inr v
      else if length v \<noteq> 40 then Inl (ValueError ''APP_REVISION must be a 40-character Git commit'')
      else if int_of_hex v = None then Inl (ValueError ''APP_REVISION must be hexadecimal'')
      else if v = replicate 40 (CHR ''0'') then Inl (ValueError ''APP_REVISION must identify a real Git commit'')
      else Inr v)"

definition validate_starting_equity :: "decimal \<Rightarrow> decimal result" where
  "validate_starting_equity v = (if v \<le> 0 then Inl (ValueError ''STARTING_EQUITY_USD must be greater than 0'') else Inr v)"

definition validate_non_empty_text_fields :: "string \<Rightarrow> string result" where
  "validate_non_empty_text_fields v = (if py_strip v = [] then Inl (ValueError ''must be a non-empty string'')
     else Inr (py_strip v))"

definition validate_quote_journal_path :: "string \<Rightarrow> string" where
  "validate_quote_journal_path v = py_strip v"

definition validate_admin_chat_id :: "int \<Rightarrow> int result" where
  "validate_admin_chat_id v = (if v = 0 then Inl (ValueError ''TELEGRAM_ADMIN_CHAT_ID must not be 0'') else Inr v)"

definition validate_quote_decimals :: "int \<Rightarrow> int result" where
  "validate_quote_decimals v = (if v \<le> 0 \<or> 18 < v then Inl (ValueError ''BASE_QUOTE_DECIMALS must be in range 1..18'')
     else Inr v)"

definition validate_secret :: "string \<Rightarrow> string result" where
  "validate_secret v = (if py_strip v = [] then Inl (ValueError ''JUPITER_API_KEY must be non-empty'') else Inr v)"

definition validate_telegram_token :: "string \<Rightarrow> string result" where
  "validate_telegram_token v = (if py_strip v = [] then Inl (ValueError ''TELEGRAM_BOT_TOKEN must be non-empty'') else Inr v)"

text \<open>\<open>f"{n:02d}"\<close> for a number below 100.\<close>

definition two_digits :: "int \<Rightarrow> string" where
  "two_digits n = [digit_char (n div 10), digit_char (n mod 10)]"

definition validate_daily_report_time :: "string \<Rightarrow> string result" where
  "validate_daily_report_time v =
     (let hour_text = takeWhile (\<lambda>c. c \<noteq> CHR '':'') v; rest = dropWhile (\<lambda>c. c \<noteq> CHR '':'') v in
      case rest of
        [] \<Rightarrow> Inl (ValueError ''daily_report_time must use HH:MM'')
      | _ # minute_text \<Rightarrow> (case (int_of_text hour_text, int_of_text minute_text) of
          (Some hour, Some minute) \<Rightarrow>
            if \<not> (0 \<le> hour \<and> hour \<le> 23) \<or> \<not> (0 \<le> minute \<and> minute \<le> 59)
            then Inl (ValueError ''daily_report_time must use a valid 24-hour time'')
            else Inr (two_digits hour @ '':'' @ two_digits minute)
        | _ \<Rightarrow> Inl (ValueError ''daily_report_time must use HH:MM'')))"

section \<open>Telegram allow lists\<close>

fun telegram_ids :: "json list \<Rightarrow> int list result" where
  "telegram_ids [] = Inr []"
| "telegram_ids (item # rest) =
     (case item of
        JStr s \<Rightarrow> if py_strip s = [] then telegram_ids rest
          else (case int_of_text s of None \<Rightarrow> Inl (ValueError ''invalid literal for int()'')
             | Some i \<Rightarrow> rbind (telegram_ids rest) (\<lambda>is. Inr (i # is)))
      | JInt i \<Rightarrow> rbind (telegram_ids rest) (\<lambda>is. Inr (i # is))
      | _ \<Rightarrow> Inl (ValueError ''Telegram allowlist entries must be integer IDs''))"

fun unique_ids :: "int list \<Rightarrow> int list \<Rightarrow> int list result" where
  "unique_ids [] acc = Inr acc"
| "unique_ids (i # is) acc =
     (if i \<in> set acc then unique_ids is acc
      else if i = 0 then Inl (ValueError ''TELEGRAM_ALLOWLIST_CHAT_IDS entries must be non-zero'')
      else unique_ids is (acc @ [i]))"

definition intify_telegram_ids :: "json list \<Rightarrow> int list result" where
  "intify_telegram_ids items = rbind (telegram_ids items) (\<lambda>ids. unique_ids ids [])"

text \<open>\<open>s.split(",")\<close>\<close>

fun split_commas :: "string \<Rightarrow> string \<Rightarrow> string list" where
  "split_commas [] acc = [rev acc]"
| "split_commas (c # cs) acc = (if c = CHR '','' then rev acc # split_commas cs [] else split_commas cs (c # acc))"

definition validate_telegram_allowlist :: "(string \<Rightarrow> json result) \<Rightarrow> json \<Rightarrow> int list result" where
  "validate_telegram_allowlist loads v = (case v of
     JNull \<Rightarrow> Inr []
   | JStr s \<Rightarrow> (let t = py_strip s in
       if t = [] then Inr []
       else if startswith t ''['' \<and> endswith t '']'' then
         rbind (loads t) (\<lambda>j. case j of JList xs \<Rightarrow> intify_telegram_ids xs | _ \<Rightarrow> Inl TypeError)
       else intify_telegram_ids (map (\<lambda>x. JStr (py_strip x)) (filter (\<lambda>x. py_strip x \<noteq> []) (split_commas t []))))
   | JList xs \<Rightarrow> intify_telegram_ids xs
   | _ \<Rightarrow> Inl TypeError)"

section \<open>Validation of the record\<close>

text \<open>The field validators in the order of the fields; the first failure stands for the report of all.\<close>

definition validate_fields :: "app_config \<Rightarrow> app_config result" where
  "validate_fields c =
     rbind (validate_non_empty_text_fields (ac_base_quote_mint c)) (\<lambda>base_quote_mint.
     rbind (validate_quote_decimals (ac_base_quote_decimals c)) (\<lambda>base_quote_decimals.
     rbind (validate_non_empty_text_fields (ac_helius_api_key c)) (\<lambda>helius_api_key.
     rbind (validate_secret (ac_jupiter_api_key c)) (\<lambda>jupiter_api_key.
     rbind (validate_non_empty_text_fields (ac_postgres_dsn c)) (\<lambda>postgres_dsn.
     rbind (validate_telegram_token (ac_telegram_bot_token c)) (\<lambda>telegram_bot_token.
     rbind (validate_admin_chat_id (ac_telegram_admin_chat_id c)) (\<lambda>telegram_admin_chat_id.
     rbind (validate_starting_equity (ac_starting_equity_usd c)) (\<lambda>starting_equity_usd.
     rbind (validate_daily_report_time (tc_daily_report_time (ac_telegram c))) (\<lambda>daily_report_time.
     rbind (validate_release_revision (ac_release_revision c)) (\<lambda>release_revision.
     if nc_timeout_ms (ac_enrichment c) \<le> 0 \<or> nc_cache_seconds (ac_enrichment c) < 0
        \<or> nc_minimum_interval_ms (ac_enrichment c) < 0 \<or> oc_raw_retention_days (ac_storage c) < 90
     then Inl (ValueError ''validation error'')
     else Inr (c\<lparr>ac_base_quote_mint := base_quote_mint, ac_base_quote_decimals := base_quote_decimals,
       ac_quote_journal_path := validate_quote_journal_path (ac_quote_journal_path c),
       ac_helius_api_key := helius_api_key, ac_jupiter_api_key := jupiter_api_key, ac_postgres_dsn := postgres_dsn,
       ac_telegram_bot_token := telegram_bot_token, ac_telegram_admin_chat_id := telegram_admin_chat_id,
       ac_starting_equity_usd := starting_equity_usd,
       ac_telegram := (ac_telegram c)\<lparr>tc_daily_report_time := daily_report_time\<rparr>,
       ac_release_revision := release_revision\<rparr>)))))))))))"

section \<open>The configuration hash\<close>

text \<open>\<open>d.pop(k, None)\<close> on a dictionary with distinct keys\<close>

definition dict_pop :: "('k, 'v) dict \<Rightarrow> 'k \<Rightarrow> ('k, 'v) dict" where
  "dict_pop d k = filter (\<lambda>(j, v). j \<noteq> k) d"

definition secret_keys :: "string list" where
  "secret_keys = [''jupiter_api_key'', ''telegram_bot_token'', ''helius_api_key'', ''helius_wss_url'',
     ''helius_rpc_url'', ''postgres_dsn'']"

text \<open>The steps after \<open>model_dump\<close>, whose answer is the argument.\<close>

definition normalized_payload :: "(string, json) dict \<Rightarrow> (string, json) dict" where
  "normalized_payload data0 =
     (let data1 = dict_pop data0 ''JUPITER_QUOTE_JOURNAL_PATH'';
          data2 = foldl dict_pop data1 secret_keys;
          data3 = (case dict_get data2 ''chain'' of
             Some (JObj ch) \<Rightarrow> dict_set data2 ''chain'' (JObj (dict_pop ch ''halt_on_unrecoverable_gap''))
           | _ \<Rightarrow> data2)
      in dict_set data3 ''risk'' (opt_or (dict_get data3 ''risk'') (JObj [])))"

definition compute_hash :: "(app_config \<Rightarrow> (string, json) dict) \<Rightarrow> (json \<Rightarrow> string) \<Rightarrow> app_config \<Rightarrow> string" where
  "compute_hash dump dumps c = sha256_hex (dumps (JObj (normalized_payload (dump c))))"

text \<open>\<open>image_revision\<close>: the text of the revision file, when there is one.\<close>

definition validate_mode_and_hash :: "(app_config \<Rightarrow> string) \<Rightarrow> string option \<Rightarrow> app_config \<Rightarrow> app_config result" where
  "validate_mode_and_hash hash image_revision c =
     (if ac_app_mode c = LIVE
      then Inl (RuntimeError ''LIVE mode is intentionally not implemented in this release'')
      else if tc_enabled (ac_telegram c) \<and> \<not> ac_replay_mode c \<and> ac_time_zone c \<noteq> ''Europe/Kyiv''
      then Inl (ValueError ''TIME_ZONE must be Europe/Kyiv when Telegram is enabled'')
      else if tc_enabled (ac_telegram c) \<and> \<not> ac_replay_mode c \<and> tc_daily_report_time (ac_telegram c) \<noteq> ''00:00''
      then Inl (ValueError ''telegram.daily_report_time must be 00:00 when Telegram is enabled'')
      else if ac_release_revision c \<noteq> [] \<and> (case image_revision of None \<Rightarrow> False
        | Some text \<Rightarrow> py_lower (py_strip text) \<noteq> ac_release_revision c)
      then Inl (ValueError ''APP_REVISION does not match immutable image revision'')
      else if (ac_replay_mode c \<or> ac_quote_journal_record c) \<and> ac_quote_journal_path c = []
      then Inl (ValueError ''JUPITER_QUOTE_JOURNAL_PATH must be set when replay or record is enabled'')
      else if pc_adverse_fill_bps (ac_paper c) \<noteq> rc_adverse_fill_bps (ac_risk c)
      then Inl (ValueError ''paper.adverse_fill_bps and risk.adverse_fill_bps must match'')
      else if kc_min_pool_age_seconds (ac_candidate c) < kc_min_observation_seconds (ac_candidate c)
      then Inl (ValueError ''candidate min pool age cannot be shorter than observation window'')
      else if kc_max_pool_age_seconds (ac_candidate c) \<le> kc_min_pool_age_seconds (ac_candidate c)
      then Inl (ValueError ''candidate max pool age must exceed min pool age'')
      else let h = hash c in Inr (c\<lparr>ac_config_hash := h,
        ac_strategy_version := (if ac_release_revision c \<noteq> [] then take 16 h @ ''-'' @ take 12 (ac_release_revision c)
          else take 16 h)\<rparr>))"

text \<open>The whole validation of a new settings object.\<close>

definition validate_app_config :: "(app_config \<Rightarrow> string) \<Rightarrow> string option \<Rightarrow> app_config \<Rightarrow> app_config result" where
  "validate_app_config hash image_revision c =
     rbind (validate_fields c) (validate_mode_and_hash hash image_revision)"

definition resolved_helius_wss_url :: "app_config \<Rightarrow> string" where
  "resolved_helius_wss_url c = (if ac_helius_wss_url c \<noteq> [] then ac_helius_wss_url c
     else ''wss://mainnet.helius-rpc.com/?api-key='' @ ac_helius_api_key c)"

definition resolved_helius_rpc_url :: "app_config \<Rightarrow> string" where
  "resolved_helius_rpc_url c = (if ac_helius_rpc_url c \<noteq> [] then ac_helius_rpc_url c
     else ''https://mainnet.helius-rpc.com/?api-key='' @ ac_helius_api_key c)"

section \<open>Loading\<close>

text \<open>\<open>_coerce_yaml_values\<close>: a key that is not a string is \<open>None\<close>, and so is a null value.\<close>

fun coerce_yaml_values :: "(string option \<times> 'v option) list \<Rightarrow> (string, 'v) dict" where
  "coerce_yaml_values [] = []"
| "coerce_yaml_values ((key, v) # rest) =
     (case (key, v) of (Some k, Some x) \<Rightarrow> (k, x) # coerce_yaml_values rest | _ \<Rightarrow> coerce_yaml_values rest)"

text \<open>The fields of the settings with the names \<open>load\<close> looks up in the environment.\<close>

definition model_fields :: "(string \<times> string list) list" where
  "model_fields = [(''app_mode'', [''APP_MODE'']), (''time_zone'', [''TIME_ZONE'']),
     (''base_quote_mint'', [''BASE_QUOTE_MINT'']), (''base_quote_decimals'', [''BASE_QUOTE_DECIMALS'']),
     (''replay_mode'', [''JUPITER_REPLAY_MODE'']), (''quote_journal_path'', [''JUPITER_QUOTE_JOURNAL_PATH'']),
     (''quote_journal_record'', [''JUPITER_QUOTE_JOURNAL_RECORD'']), (''replay_seed'', [''REPLAY_SEED'']),
     (''helius_api_key'', [''HELIUS_API_KEY'']), (''helius_wss_url'', [''HELIUS_WSS_URL'']),
     (''helius_rpc_url'', [''HELIUS_RPC_URL'']), (''jupiter_api_key'', [''JUPITER_API_KEY'']),
     (''postgres_dsn'', [''POSTGRES_DSN'']), (''telegram_bot_token'', [''TELEGRAM_BOT_TOKEN'']),
     (''telegram_admin_chat_id'', [''TELEGRAM_ADMIN_CHAT_ID'']),
     (''telegram_allowlist_chat_ids'', [''TELEGRAM_ALLOWED_CHAT_IDS'', ''TELEGRAM_ALLOWLIST_CHAT_IDS'']),
     (''telegram_allowlist_user_ids'', [''TELEGRAM_ALLOWED_USER_IDS'']),
     (''starting_equity_usd'', [''STARTING_EQUITY_USD'']),
     (''risk'', [''risk'']), (''chain'', [''chain'']), (''paper'', [''paper'']), (''candidate'', [''candidate'']),
     (''liquidity'', [''liquidity'']), (''execution'', [''execution'']), (''flow'', [''flow'']),
     (''holders'', [''holders'']), (''exits'', [''exits'']), (''telegram'', [''telegram'']),
     (''enrichment'', [''enrichment'']), (''storage'', [''storage'']), (''reporting'', [''reporting'']),
     (''logging'', [''logging'']), (''config_hash'', [''config_hash'']),
     (''strategy_version'', [''strategy_version'']),
     (''release_revision'', [''APP_REVISION'', ''release_revision''])]"

text \<open>
  The loop of \<open>load\<close> over the fields: \<open>environment\<close> has case-folded keys; a field with a non-empty
  environment value loses every spelling in the YAML values.
\<close>

definition in_environment :: "(string, string) dict \<Rightarrow> string list \<Rightarrow> bool" where
  "in_environment environment env_names \<longleftrightarrow> (\<exists>n \<in> set env_names. truthy (dict_get environment (py_lower n)))"

definition drop_field :: "(string, string) dict \<Rightarrow> (string, 'v) dict \<Rightarrow> string \<times> string list \<Rightarrow> (string, 'v) dict" where
  "drop_field environment yaml f = (case f of (field_name, env_names) \<Rightarrow>
     if in_environment environment env_names then foldl dict_pop (dict_pop yaml field_name) env_names else yaml)"

definition yaml_without_environment :: "(string, string) dict \<Rightarrow> (string, 'v) dict \<Rightarrow> (string, 'v) dict" where
  "yaml_without_environment environ yaml =
     (let environment = foldl (\<lambda>d (k, v). dict_set d (py_lower k) v) [] environ
      in foldl (drop_field environment) yaml model_fields)"

end
