(* ===== verification/Config_Props.thy ===== *)
theory Config_Props
  imports Config
begin

text \<open>
  Properties of the configuration: what a validated settings record guarantees, and the
  precedence of the environment over the YAML file.
\<close>

section \<open>Validated settings\<close>

lemma validate_release_revision_Inr:
  "validate_release_revision v = Inr w \<Longrightarrow> w = [] \<or> length w = 40 \<and> int_of_hex w \<noteq> None"
  by (auto simp: validate_release_revision_def Let_def split: if_splits)

lemma field_validators:
  "validate_non_empty_text_fields v = Inr w \<longleftrightarrow> w = py_strip v \<and> w \<noteq> []"
  "validate_quote_decimals n = Inr m \<longleftrightarrow> m = n \<and> 1 \<le> m \<and> m \<le> 18"
  "validate_admin_chat_id n = Inr m \<longleftrightarrow> m = n \<and> m \<noteq> 0"
  "validate_starting_equity x = Inr y \<longleftrightarrow> y = x \<and> 0 < y"
  by (auto simp: validate_non_empty_text_fields_def validate_quote_decimals_def validate_admin_chat_id_def
      validate_starting_equity_def)

definition fields_wf :: "app_config \<Rightarrow> bool" where
  "fields_wf d \<longleftrightarrow> 0 < ac_starting_equity_usd d \<and> 1 \<le> ac_base_quote_decimals d \<and> ac_base_quote_decimals d \<le> 18
     \<and> ac_telegram_admin_chat_id d \<noteq> 0 \<and> ac_base_quote_mint d \<noteq> [] \<and> ac_helius_api_key d \<noteq> []
     \<and> ac_postgres_dsn d \<noteq> [] \<and> 90 \<le> oc_raw_retention_days (ac_storage d) \<and> 0 < nc_timeout_ms (ac_enrichment d)
     \<and> (ac_release_revision d = [] \<or> length (ac_release_revision d) = 40)"

lemma validate_fields_wf: "validate_fields c = Inr d \<Longrightarrow> fields_wf d"
  unfolding validate_fields_def rbind_eq_Inr field_validators fields_wf_def
  by (elim exE conjE) (auto split: if_split_asm dest!: validate_release_revision_Inr)

definition modes_wf :: "app_config \<Rightarrow> bool" where
  "modes_wf d \<longleftrightarrow> ac_app_mode d \<noteq> LIVE
     \<and> kc_min_observation_seconds (ac_candidate d) \<le> kc_min_pool_age_seconds (ac_candidate d)
     \<and> kc_min_pool_age_seconds (ac_candidate d) < kc_max_pool_age_seconds (ac_candidate d)
     \<and> pc_adverse_fill_bps (ac_paper d) = rc_adverse_fill_bps (ac_risk d)
     \<and> (ac_replay_mode d \<or> ac_quote_journal_record d \<longrightarrow> ac_quote_journal_path d \<noteq> [])
     \<and> (tc_enabled (ac_telegram d) \<and> \<not> ac_replay_mode d \<longrightarrow>
          ac_time_zone d = ''Europe/Kyiv'' \<and> tc_daily_report_time (ac_telegram d) = ''00:00'')"

lemma validate_mode_wf:
  "validate_mode_and_hash hash img c = Inr d \<Longrightarrow> modes_wf d"
  by (auto simp: validate_mode_and_hash_def modes_wf_def Let_def split: if_splits option.splits)

lemma validate_mode_shape:
  "validate_mode_and_hash hash img c = Inr d \<Longrightarrow>
     d = c\<lparr>ac_config_hash := hash c, ac_strategy_version := ac_strategy_version d\<rparr>
     \<and> ac_strategy_version d = take 16 (hash c)
         @ (if ac_release_revision c = [] then [] else ''-'' @ take 12 (ac_release_revision c))"
  by (auto simp: validate_mode_and_hash_def Let_def split: if_splits option.splits)

definition demo_config :: app_config where
  "demo_config = \<lparr>ac_app_mode = PAPER, ac_time_zone = ''Europe/Kyiv'', ac_base_quote_mint = USDC_MINT,
     ac_base_quote_decimals = 6, ac_replay_mode = False, ac_quote_journal_path = [], ac_quote_journal_record = False,
     ac_replay_seed = None, ac_helius_api_key = ''key'', ac_helius_wss_url = [], ac_helius_rpc_url = [],
     ac_jupiter_api_key = ''key'', ac_postgres_dsn = '' postgresql://localhost'', ac_telegram_bot_token = ''token'',
     ac_telegram_admin_chat_id = 1, ac_telegram_allowlist_chat_ids = [], ac_telegram_allowlist_user_ids = [],
     ac_starting_equity_usd = 500, ac_risk = default_risk_config, ac_chain = default_chain_config,
     ac_paper = default_paper_config, ac_candidate = default_candidate_config,
     ac_liquidity = default_liquidity_config, ac_execution = default_execution_config, ac_flow = default_flow_config,
     ac_holders = default_holder_config, ac_exits = default_exit_config,
     ac_telegram = default_telegram_config\<lparr>tc_daily_report_time := ''0:00''\<rparr>,
     ac_enrichment = default_enrichment_config, ac_storage = default_storage_config,
     ac_reporting = default_reporting_config, ac_logging = default_logging_config, ac_config_hash = [],
     ac_strategy_version = [], ac_release_revision = []\<rparr>"

definition demo_validated :: app_config where
  "demo_validated = demo_config\<lparr>ac_postgres_dsn := ''postgresql://localhost'', ac_telegram := default_telegram_config,
     ac_config_hash := ''0123456789abcdefgh'', ac_strategy_version := ''0123456789abcdef''\<rparr>"

lemma demo_validates: "validate_app_config (\<lambda>c. ''0123456789abcdefgh'') None demo_config = Inr demo_validated"
  by code_simp



section \<open>Precedence of the environment\<close>

lemma dict_pop_fold: "foldl dict_pop d ks = filter (\<lambda>(j, v). j \<notin> set ks) d"
  by (induction ks arbitrary: d) (auto simp: dict_pop_def intro!: filter_cong)

lemma drop_field_filter:
  "drop_field env d (f, ns) = filter (\<lambda>(k, v). in_environment env ns \<longrightarrow> k \<noteq> f \<and> k \<notin> set ns) d"
  by (auto simp: drop_field_def dict_pop_fold dict_pop_def intro!: filter_cong)

lemma drop_fields_filter:
  "foldl (drop_field env) d fs
     = filter (\<lambda>(k, v). \<forall>(f, ns) \<in> set fs. in_environment env ns \<longrightarrow> k \<noteq> f \<and> k \<notin> set ns) d"
proof (induction fs arbitrary: d)
  case (Cons f fs)
  show ?case by (cases f) (auto simp: Cons drop_field_filter intro!: filter_cong)
qed (simp add: case_prod_beta)

definition folded_environment :: "(string, string) dict \<Rightarrow> (string, string) dict" where
  "folded_environment environ = foldl (\<lambda>d (k, v). dict_set d (py_lower k) v) [] environ"

text \<open>
  What \<open>load\<close> keeps of the YAML file: exactly the entries whose key is no spelling, field name
  or alias, of a field for which the environment has a non-empty value, in their order. So a YAML
  entry never overrides the environment and is never lost for another reason.
\<close>

theorem environment_wins:
  "yaml_without_environment environ yaml
     = filter (\<lambda>(k, v). \<not> list_ex (\<lambda>(f, ns). in_environment (folded_environment environ) ns
         \<and> (k = f \<or> k \<in> set ns)) model_fields) yaml"
proof -
  have "(\<forall>(f, ns) \<in> set fs. in_environment env ns \<longrightarrow> k \<noteq> f \<and> k \<notin> set ns)
      \<longleftrightarrow> \<not> list_ex (\<lambda>(f, ns). in_environment env ns \<and> (k = f \<or> k \<in> set ns)) fs" for env k fs
    by (induction fs) auto
  then show ?thesis
    by (simp add: yaml_without_environment_def drop_fields_filter folded_environment_def Let_def)
qed

end
