(* ===== verification/Py_Monad.thy ===== *)
theory Py_Monad
  imports Prelude
begin

text \<open>
  Methods with state and exceptions. A method maps the state of its object to the new state and
  its answer or the exception it raised; what it did before the raise stays done, as in Python.
\<close>

type_synonym ('s, 'a) method_of = "'s \<Rightarrow> 's \<times> 'a result"

definition mret :: "'a \<Rightarrow> ('s, 'a) method_of" where
  "mret x s = (s, Inr x)"

definition mraise :: "py_error \<Rightarrow> ('s, 'a) method_of" where
  "mraise e s = (s, Inl e)"

definition mbind :: "('s, 'a) method_of \<Rightarrow> ('a \<Rightarrow> ('s, 'b) method_of) \<Rightarrow> ('s, 'b) method_of" where
  "mbind m f s = (case m s of (s1, Inl e) \<Rightarrow> (s1, Inl e) | (s1, Inr x) \<Rightarrow> f x s1)"

abbreviation mseq :: "('s, 'a) method_of \<Rightarrow> ('s, 'b) method_of \<Rightarrow> ('s, 'b) method_of" where
  "mseq m n \<equiv> mbind m (\<lambda>_. n)"

text \<open>An assignment to attributes, and a call that answers without touching the state.\<close>

definition mput :: "('s \<Rightarrow> 's) \<Rightarrow> ('s, unit) method_of" where
  "mput f s = (f s, Inr ())"

definition mlift :: "'a result \<Rightarrow> ('s, 'a) method_of" where
  "mlift r s = (s, r)"

definition mget :: "('s \<Rightarrow> ('s, 'a) method_of) \<Rightarrow> ('s, 'a) method_of" where
  "mget f s = f s s"

definition mwhen :: "bool \<Rightarrow> ('s, unit) method_of \<Rightarrow> ('s, unit) method_of" where
  "mwhen b m = (if b then m else mret ())"

text \<open>\<open>try: m except BaseException as error: handler; raise\<close>, the handler's own raise included.\<close>

definition mcatch :: "('s, 'a) method_of \<Rightarrow> (py_error \<Rightarrow> ('s, 'a) method_of) \<Rightarrow> ('s, 'a) method_of" where
  "mcatch m h s = (case m s of (s1, Inl e) \<Rightarrow> h e s1 | (s1, Inr x) \<Rightarrow> (s1, Inr x))"

fun mforeach :: "('a \<Rightarrow> ('s, unit) method_of) \<Rightarrow> 'a list \<Rightarrow> ('s, unit) method_of" where
  "mforeach f [] = mret ()"
| "mforeach f (x # xs) = mseq (f x) (mforeach f xs)"

lemma mbind_ret [simp]: "mbind (mret x) f = f x"
  by (simp add: mbind_def mret_def fun_eq_iff)

lemma mlift_Inr: "mlift (Inr x) = mret x" and mlift_Inl: "mlift (Inl e) = mraise e"
  by (simp_all add: mlift_def mret_def mraise_def fun_eq_iff)

lemma mbind_raise [simp]: "mbind (mraise e) f = mraise e"
  by (simp add: mbind_def mraise_def fun_eq_iff)

lemma mbind_assoc: "mbind (mbind m f) g = mbind m (\<lambda>x. mbind (f x) g)"
  by (auto simp: mbind_def fun_eq_iff split: prod.splits sum.splits)

named_theorems method_defs \<open>the building blocks of methods\<close>

lemmas [method_defs] = mret_def mraise_def mbind_def mput_def mlift_def mget_def mwhen_def mcatch_def

lemma mbind_Inr: "mbind m f s = (t, Inr y) \<longleftrightarrow> (\<exists>s1 x. m s = (s1, Inr x) \<and> f x s1 = (t, Inr y))"
  by (auto simp: mbind_def split: prod.splits sum.splits)

lemma mbind_Inl: "mbind m f s = (t, Inl e) \<longleftrightarrow>
    m s = (t, Inl e) \<or> (\<exists>s1 x. m s = (s1, Inr x) \<and> f x s1 = (t, Inl e))"
  by (auto simp: mbind_def split: prod.splits sum.splits)

section \<open>Invariants of methods\<close>

text \<open>A method keeps a property whether it returns or raises.\<close>

definition keeps :: "('s \<Rightarrow> bool) \<Rightarrow> ('s, 'a) method_of \<Rightarrow> bool" where
  "keeps P m \<longleftrightarrow> (\<forall>s. P s \<longrightarrow> P (fst (m s)))"

named_theorems keeps_intros \<open>rules for \<open>keeps\<close>\<close>

lemma keepsD: "keeps P m \<Longrightarrow> P s \<Longrightarrow> P (fst (m s))"
  by (simp add: keeps_def)

lemma keeps_basic [keeps_intros]:
  "keeps P (mret x)" "keeps P (mraise e)" "keeps P (mlift r)"
  by (simp_all add: keeps_def method_defs)

lemma keeps_bind [keeps_intros]:
  assumes "keeps P m" and "\<And>x. keeps P (f x)"
  shows "keeps P (mbind m f)"
  using assms by (fastforce simp: keeps_def mbind_def split: prod.splits sum.splits)

lemma keeps_catch [keeps_intros]:
  assumes "keeps P m" and "\<And>x. keeps P (h x)"
  shows "keeps P (mcatch m h)"
  using assms by (fastforce simp: keeps_def mcatch_def split: prod.splits sum.splits)

lemma keeps_when [keeps_intros]: "(b \<Longrightarrow> keeps P m) \<Longrightarrow> keeps P (mwhen b m)"
  by (auto simp: mwhen_def keeps_intros)

lemma keeps_put [keeps_intros]: "(\<And>s. P s \<Longrightarrow> P (f s)) \<Longrightarrow> keeps P (mput f)"
  by (simp add: keeps_def mput_def)

lemma keeps_get [keeps_intros]: "(\<And>s. keeps P (f s)) \<Longrightarrow> keeps P (mget f)"
  by (simp add: keeps_def mget_def)

lemma keeps_foreach [keeps_intros]: "(\<And>x. x \<in> set xs \<Longrightarrow> keeps P (f x)) \<Longrightarrow> keeps P (mforeach f xs)"
  by (induction xs) (auto intro!: keeps_intros)

text \<open>Case distinctions between methods.\<close>

lemma keeps_if [keeps_intros]:
  "(b \<Longrightarrow> keeps P m) \<Longrightarrow> (\<not> b \<Longrightarrow> keeps P n) \<Longrightarrow> keeps P (if b then m else n)"
  by simp

lemma keeps_option [keeps_intros]:
  "(x = None \<Longrightarrow> keeps P m) \<Longrightarrow> (\<And>y. x = Some y \<Longrightarrow> keeps P (f y)) \<Longrightarrow> keeps P (case x of None \<Rightarrow> m | Some y \<Rightarrow> f y)"
  by (cases x) auto

lemma keeps_prod [keeps_intros]:
  "(\<And>a b. x = (a, b) \<Longrightarrow> keeps P (f a b)) \<Longrightarrow> keeps P (case x of (a, b) \<Rightarrow> f a b)"
  by (cases x) auto

lemma keeps_sum [keeps_intros]:
  "(\<And>a. x = Inl a \<Longrightarrow> keeps P (f a)) \<Longrightarrow> (\<And>b. x = Inr b \<Longrightarrow> keeps P (g b)) \<Longrightarrow> keeps P (case x of Inl a \<Rightarrow> f a | Inr b \<Rightarrow> g b)"
  by (cases x) auto

lemma keeps_list [keeps_intros]:
  "(x = [] \<Longrightarrow> keeps P m) \<Longrightarrow> (\<And>y ys. x = y # ys \<Longrightarrow> keeps P (f y ys)) \<Longrightarrow> keeps P (case x of [] \<Rightarrow> m | y # ys \<Rightarrow> f y ys)"
  by (cases x) auto

lemma keeps_Let [keeps_intros]: "(\<And>y. y = x \<Longrightarrow> keeps P (f y)) \<Longrightarrow> keeps P (Let x f)"
  by simp

lemma keeps_bind_result:
  assumes "keeps P m" and "\<And>x s t. m s = (t, Inr x) \<Longrightarrow> keeps P (f x)"
  shows "keeps P (mbind m f)"
  using assms by (fastforce simp: keeps_def mbind_def split: prod.splits sum.splits)

section \<open>Methods that may not return\<close>

text \<open>\<open>None\<close> is a call that never comes back.\<close>

type_synonym ('s, 'a) run_of = "'s \<Rightarrow> ('s \<times> 'a result) option"

definition nlift :: "('s, 'a) method_of \<Rightarrow> ('s, 'a) run_of" where
  "nlift m s = Some (m s)"

definition nbind :: "('s, 'a) run_of \<Rightarrow> ('a \<Rightarrow> ('s, 'b) run_of) \<Rightarrow> ('s, 'b) run_of" where
  "nbind m f s = (case m s of None \<Rightarrow> None | Some (s1, Inl e) \<Rightarrow> Some (s1, Inl e) | Some (s1, Inr x) \<Rightarrow> f x s1)"

definition nget :: "('s \<Rightarrow> ('s, 'a) run_of) \<Rightarrow> ('s, 'a) run_of" where
  "nget f s = f s s"

text \<open>\<open>try: m except Exception as error: handler\<close>; a cancellation is not an \<open>Exception\<close>.\<close>

definition nexcept :: "('s, 'a) run_of \<Rightarrow> (py_error \<Rightarrow> ('s, 'a) run_of) \<Rightarrow> ('s, 'a) run_of" where
  "nexcept m h s = (case m s of Some (s1, Inl e) \<Rightarrow> if e = CancelledError then Some (s1, Inl e) else h e s1 | r \<Rightarrow> r)"

fun nfold :: "('a \<Rightarrow> 'b \<Rightarrow> ('s, 'b) run_of) \<Rightarrow> 'a list \<Rightarrow> 'b \<Rightarrow> ('s, 'b) run_of" where
  "nfold f [] acc = nlift (mret acc)"
| "nfold f (x # xs) acc = nbind (f x acc) (nfold f xs)"

named_theorems run_defs \<open>the building blocks of methods that may not return\<close>

lemmas [run_defs] = nlift_def nbind_def nget_def nexcept_def

text \<open>A run keeps a property if it holds in whatever state the run comes back with.\<close>

definition nkeeps :: "('s \<Rightarrow> bool) \<Rightarrow> ('s, 'a) run_of \<Rightarrow> bool" where
  "nkeeps P m \<longleftrightarrow> (\<forall>s t r. P s \<longrightarrow> m s = Some (t, r) \<longrightarrow> P t)"

text \<open>A run from states with a property always comes back, to such a state.\<close>

definition nreturns :: "('s \<Rightarrow> bool) \<Rightarrow> ('s, 'a) run_of \<Rightarrow> bool" where
  "nreturns P m \<longleftrightarrow> (\<forall>s. P s \<longrightarrow> (\<exists>t r. m s = Some (t, r) \<and> P t))"

named_theorems nkeeps_intros \<open>rules for \<open>nkeeps\<close>\<close>
named_theorems nreturns_intros \<open>rules for \<open>nreturns\<close>\<close>

lemma nkeepsD: "nkeeps P m \<Longrightarrow> P s \<Longrightarrow> m s = Some (t, r) \<Longrightarrow> P t"
  by (auto simp: nkeeps_def)

lemma nkeeps_lift [nkeeps_intros]: "keeps P m \<Longrightarrow> nkeeps P (nlift m)"
  by (auto simp: nkeeps_def nlift_def keeps_def)

lemma nkeepsI: "(\<And>s t r. P s \<Longrightarrow> m s = Some (t, r) \<Longrightarrow> P t) \<Longrightarrow> nkeeps P m"
  by (auto simp: nkeeps_def)

lemma nkeeps_bind [nkeeps_intros]:
  assumes "nkeeps P m" and "\<And>x. nkeeps P (f x)"
  shows "nkeeps P (nbind m f)"
proof (rule nkeepsI)
  fix s t r assume s: "P s" "nbind m f s = Some (t, r)"
  then obtain s1 r1 where m: "m s = Some (s1, r1)" by (auto simp: nbind_def split: option.splits)
  with assms(1) s(1) have "P s1" by (auto dest: nkeepsD)
  with s(2) m show "P t" by (cases r1) (auto simp: nbind_def dest: nkeepsD [OF assms(2)])
qed

lemma nkeeps_get [nkeeps_intros]: "(\<And>s. nkeeps P (f s)) \<Longrightarrow> nkeeps P (nget f)"
  by (auto simp: nkeeps_def nget_def)

lemma nkeeps_except [nkeeps_intros]:
  assumes "nkeeps P m" and "\<And>e. nkeeps P (h e)"
  shows "nkeeps P (nexcept m h)"
proof (rule nkeepsI)
  fix s t r assume s: "P s" "nexcept m h s = Some (t, r)"
  then obtain s1 r1 where m: "m s = Some (s1, r1)" by (auto simp: nexcept_def split: option.splits)
  with assms(1) s(1) have "P s1" by (auto dest: nkeepsD)
  with s(2) m show "P t" by (cases r1) (auto simp: nexcept_def dest: nkeepsD [OF assms(2)] split: if_splits)
qed

lemma nkeeps_fold [nkeeps_intros]:
  "(\<And>x acc. x \<in> set xs \<Longrightarrow> nkeeps P (f x acc)) \<Longrightarrow> nkeeps P (nfold f xs acc)"
  by (induction xs arbitrary: acc) (auto intro!: nkeeps_intros keeps_intros)

lemma nkeeps_if [nkeeps_intros]:
  "(b \<Longrightarrow> nkeeps P m) \<Longrightarrow> (\<not> b \<Longrightarrow> nkeeps P n) \<Longrightarrow> nkeeps P (if b then m else n)"
  by simp

lemma nkeeps_option [nkeeps_intros]:
  "(x = None \<Longrightarrow> nkeeps P m) \<Longrightarrow> (\<And>y. x = Some y \<Longrightarrow> nkeeps P (f y)) \<Longrightarrow> nkeeps P (case x of None \<Rightarrow> m | Some y \<Rightarrow> f y)"
  by (cases x) auto

lemma nkeeps_prod [nkeeps_intros]:
  "(\<And>a b. x = (a, b) \<Longrightarrow> nkeeps P (f a b)) \<Longrightarrow> nkeeps P (case x of (a, b) \<Rightarrow> f a b)"
  by (cases x) auto

lemma nkeeps_sum [nkeeps_intros]:
  "(\<And>a. x = Inl a \<Longrightarrow> nkeeps P (f a)) \<Longrightarrow> (\<And>b. x = Inr b \<Longrightarrow> nkeeps P (g b)) \<Longrightarrow> nkeeps P (case x of Inl a \<Rightarrow> f a | Inr b \<Rightarrow> g b)"
  by (cases x) auto

lemma nkeeps_Let [nkeeps_intros]: "(\<And>y. y = x \<Longrightarrow> nkeeps P (f y)) \<Longrightarrow> nkeeps P (Let x f)"
  by simp

lemma nreturns_lift [nreturns_intros]: "keeps P m \<Longrightarrow> nreturns P (nlift m)"
  unfolding nreturns_def nlift_def keeps_def by (metis prod.collapse)

lemma nreturns_bind [nreturns_intros]:
  assumes "nreturns P m" and "\<And>x. nreturns P (f x)"
  shows "nreturns P (nbind m f)"
  unfolding nreturns_def
proof (intro allI impI)
  fix s assume "P s"
  with assms(1) obtain t r where t: "m s = Some (t, r)" "P t" by (auto simp: nreturns_def)
  with assms(2) show "\<exists>t r. nbind m f s = Some (t, r) \<and> P t"
    by (cases r) (auto simp: nbind_def nreturns_def)
qed

lemma nreturns_except [nreturns_intros]:
  assumes "nreturns P m" and "\<And>e. nreturns P (h e)"
  shows "nreturns P (nexcept m h)"
  unfolding nreturns_def
proof (intro allI impI)
  fix s assume "P s"
  with assms(1) obtain t r where t: "m s = Some (t, r)" "P t" by (auto simp: nreturns_def)
  with assms(2) show "\<exists>t r. nexcept m h s = Some (t, r) \<and> P t"
    by (cases r) (auto simp: nexcept_def nreturns_def)
qed

lemma nreturns_get [nreturns_intros]: "(\<And>s. P s \<Longrightarrow> nreturns P (f s)) \<Longrightarrow> nreturns P (nget f)"
  by (simp add: nreturns_def nget_def)

lemma nreturns_fold [nreturns_intros]:
  "(\<And>x acc. x \<in> set xs \<Longrightarrow> nreturns P (f x acc)) \<Longrightarrow> nreturns P (nfold f xs acc)"
  by (induction xs arbitrary: acc) (auto intro!: nreturns_intros keeps_intros)

lemma nreturns_if [nreturns_intros]:
  "(b \<Longrightarrow> nreturns P m) \<Longrightarrow> (\<not> b \<Longrightarrow> nreturns P n) \<Longrightarrow> nreturns P (if b then m else n)"
  by simp

lemma nreturns_option [nreturns_intros]:
  "(x = None \<Longrightarrow> nreturns P m) \<Longrightarrow> (\<And>y. x = Some y \<Longrightarrow> nreturns P (f y)) \<Longrightarrow> nreturns P (case x of None \<Rightarrow> m | Some y \<Rightarrow> f y)"
  by (cases x) auto

lemma nreturns_prod [nreturns_intros]:
  "(\<And>a b. x = (a, b) \<Longrightarrow> nreturns P (f a b)) \<Longrightarrow> nreturns P (case x of (a, b) \<Rightarrow> f a b)"
  by (cases x) auto

lemma nreturns_sum [nreturns_intros]:
  "(\<And>a. x = Inl a \<Longrightarrow> nreturns P (f a)) \<Longrightarrow> (\<And>b. x = Inr b \<Longrightarrow> nreturns P (g b)) \<Longrightarrow> nreturns P (case x of Inl a \<Rightarrow> f a | Inr b \<Rightarrow> g b)"
  by (cases x) auto

lemma nreturns_Let [nreturns_intros]: "(\<And>y. y = x \<Longrightarrow> nreturns P (f y)) \<Longrightarrow> nreturns P (Let x f)"
  by simp

end
