(* ===== verification/Entry_Gate.thy ===== *)
theory Entry_Gate
  imports Events
begin

text \<open>
  The entry gate (class \<open>EntryGate\<close> of \<open>stream.py\<close>): the reasons that block new entries. The metric
  it mirrors is not modelled.
\<close>

record entry_gate =
  eg_reasons :: "string set"
  eg_protocol_reasons :: "protocol set"

definition entry_gate_init :: entry_gate where
  "entry_gate_init = \<lparr>eg_reasons = {''startup''}, eg_protocol_reasons = {}\<rparr>"

definition gate_enabled :: "entry_gate \<Rightarrow> bool" where
  "gate_enabled g \<longleftrightarrow> eg_reasons g = {} \<and> eg_protocol_reasons g = {}"

text \<open>\<open>sorted\<close> of the two sets together.\<close>

definition gate_reasons :: "entry_gate \<Rightarrow> string list" where
  "gate_reasons g = sorted_list_of_set (eg_reasons g \<union> (\<lambda>p. ''protocol:'' @ protocol_value p) ` eg_protocol_reasons g)"

definition block :: "string \<Rightarrow> entry_gate \<Rightarrow> entry_gate" where
  "block reason g = g\<lparr>eg_reasons := insert reason (eg_reasons g)\<rparr>"

definition unblock :: "string \<Rightarrow> entry_gate \<Rightarrow> entry_gate" where
  "unblock reason g = g\<lparr>eg_reasons := eg_reasons g - {reason}\<rparr>"

definition block_protocol :: "protocol \<Rightarrow> entry_gate \<Rightarrow> entry_gate" where
  "block_protocol p g = g\<lparr>eg_protocol_reasons := insert p (eg_protocol_reasons g)\<rparr>"

definition unblock_protocol :: "protocol \<Rightarrow> entry_gate \<Rightarrow> entry_gate" where
  "unblock_protocol p g = g\<lparr>eg_protocol_reasons := eg_protocol_reasons g - {p}\<rparr>"

named_theorems gate_defs \<open>definitions of the gate operations\<close>

lemmas [gate_defs] = block_def unblock_def block_protocol_def unblock_protocol_def

lemma blocked_not_enabled [simp]:
  "\<not> gate_enabled (block r g)" "\<not> gate_enabled (block_protocol p g)" "\<not> gate_enabled entry_gate_init"
  by (simp_all add: gate_enabled_def gate_defs entry_gate_init_def)

lemma reasons_of_ops [simp]:
  "eg_reasons (block r g) = insert r (eg_reasons g)" "eg_reasons (unblock r g) = eg_reasons g - {r}"
  "eg_reasons (block_protocol p g) = eg_reasons g" "eg_reasons (unblock_protocol p g) = eg_reasons g"
  by (simp_all add: gate_defs)

lemma reason_disables: "r \<in> eg_reasons g \<Longrightarrow> \<not> gate_enabled g"
  by (auto simp: gate_enabled_def)

end
