(* ===== verification/Py_Text.thy ===== *)
theory Py_Text
  imports Decimal_Arith Py_Time Events
begin

text \<open>
  Texts of times and decimals: \<open>datetime.isoformat()\<close> in UTC, and \<open>str(x.normalize())\<close> of a finite
  decimal, which depends on the value only because \<open>normalize\<close> strips the trailing zeros.
\<close>

definition isoformat_utc :: "datetime \<Rightarrow> string" where
  "isoformat_utc t = (let r = t mod day_usec; us = r mod usec; s = r div usec in
     isoformat_date (t div day_usec) @ ''T'' @ pad_digits 2 (s div 3600) @ '':'' @ pad_digits 2 (s div 60 mod 60)
     @ '':'' @ pad_digits 2 (s mod 60) @ (if us = 0 then [] else ''.'' @ pad_digits 6 us) @ ''+00:00'')"

function strip_zeros :: "int \<Rightarrow> int \<Rightarrow> int \<times> int" where
  "strip_zeros c e = (if c = 0 \<or> c mod 10 \<noteq> 0 then (c, e) else strip_zeros (c div 10) (e + 1))"
  by pat_completeness auto
termination
proof (relation "measure (\<lambda>(c, e). nat \<bar>c\<bar>)")
  fix c e :: int
  assume c: "\<not> (c = 0 \<or> c mod 10 \<noteq> 0)"
  define d where "d = c div 10"
  have "c = d * 10" unfolding d_def using c by (metis add.right_neutral div_mult_mod_eq)
  with c have "\<bar>d\<bar> < \<bar>c\<bar>" by (simp add: abs_mult)
  then have "\<bar>c div 10\<bar> < \<bar>c\<bar>" by (simp add: d_def)
  then show "((c div 10, e + 1), c, e) \<in> measure (\<lambda>(c, e). nat \<bar>c\<bar>)" by simp
qed simp

text \<open>Coefficient and exponent of \<open>x.normalize()\<close>.\<close>

definition normal_parts :: "decimal \<Rightarrow> int \<times> int" where
  "normal_parts x = (if x = 0 then (0, 0) else
     let e = ilog10 \<bar>x\<bar> - 27 in strip_zeros (round_half_even (x / 10 powi e)) e)"

definition plus_str :: "int \<Rightarrow> string" where
  "plus_str n = (if 0 \<le> n then ''+'' @ int_str n else int_str n)"

definition decimal_text :: "int \<times> int \<Rightarrow> string" where
  "decimal_text ce = (case ce of (c, e) \<Rightarrow>
     let digits = nat_str (nat \<bar>c\<bar>); n = int (length digits); left = e + n;
         dot = (if e \<le> 0 \<and> - 6 < left then left else 1);
         body = (if dot \<le> 0 then ''0.'' @ replicate (nat (- dot)) (CHR ''0'') @ digits
                 else if n \<le> dot then digits @ replicate (nat (dot - n)) (CHR ''0'')
                 else take (nat dot) digits @ ''.'' @ drop (nat dot) digits)
     in (if c < 0 then ''-'' else []) @ body @ (if left = dot then [] else ''E'' @ plus_str (left - dot)))"

definition normalized_str :: "decimal \<Rightarrow> string" where
  "normalized_str x = decimal_text (normal_parts x)"


text \<open>\<open>normalize\<close> keeps the value up to the 28 digits of the context, and leaves no trailing zero.\<close>

lemma strip_zeros_value: "of_int c * 10 powi e = (of_int (fst (strip_zeros c e)) * 10 powi (snd (strip_zeros c e)) :: rat)"
proof (induction c e rule: strip_zeros.induct)
  case (1 c e)
  show ?case
  proof (cases "c = 0 \<or> c mod 10 \<noteq> 0")
    case False
    then have "c = 10 * (c div 10)" by (metis add.right_neutral mult_div_mod_eq)
    then have "of_int c = (10 * of_int (c div 10) :: rat)" by (metis of_int_mult of_int_numeral)
    then have "of_int c * 10 powi e = (of_int (c div 10) * 10 powi (e + 1) :: rat)"
      by (simp add: power_int_add)
    with 1 False show ?thesis by (subst (1 2) strip_zeros.simps) auto
  qed (simp add: strip_zeros.simps [of c])
qed

declare strip_zeros.simps [simp del]

lemma normal_parts_value: "of_int (fst (normal_parts x)) * 10 powi (snd (normal_parts x)) = dctx x"
  by (simp add: normal_parts_def dctx_def Let_def strip_zeros_value [symmetric])

end
