(* ===== verification/Pipeline.thy ===== *)
theory Pipeline
  imports Py_Monad Entry_Gate Config Candidates_Props Anchor Wallet_Analysis Py_Text
begin

text \<open>
  The confirmation pipeline (\<open>pipeline.py\<close>) over the components it drives: deduplicator, token
  registry, pool tracker, feature engine, security engine, scoring, candidate state machine and
  entry gate. The database answers each call by a function of the call; the calls of committed
  transactions are kept in order. The raw archive answers in the same way; the observer, the
  security provider and the entry handler are methods on the pipeline, or on a record that extends
  it. Metrics and logging are not
  modelled. The stage queues are in theory \<open>Stages\<close>.
\<close>

section \<open>Constants and thresholds\<close>

definition NON_TRADABLE_EVENT_SOURCES :: "event_source list" where
  "NON_TRADABLE_EVENT_SOURCES = [BASELINE_WSS, RPC_RECOVERY]"

definition MAX_EVENT_BATCH_SIZE :: nat where
  "MAX_EVENT_BATCH_SIZE = 1024"

text \<open>\<open>config.x.y if config else default\<close>\<close>

definition cfg :: "app_config option \<Rightarrow> (app_config \<Rightarrow> 'a) \<Rightarrow> 'a \<Rightarrow> 'a" where
  "cfg config f dflt = (case config of None \<Rightarrow> dflt | Some c \<Rightarrow> f c)"

definition security_engine_of :: "app_config option \<Rightarrow> security_engine" where
  "security_engine_of config = \<lparr>
     se_minimum_quote_liquidity_usd = cfg config (lc_min_quote_liquidity_usd \<circ> ac_liquidity) 40000,
     se_minimum_pool_age_seconds = cfg config (of_int \<circ> kc_min_pool_age_seconds \<circ> ac_candidate) 45,
     se_maximum_pool_age_seconds = cfg config (of_int \<circ> kc_max_pool_age_seconds \<circ> ac_candidate) 180,
     se_maximum_round_trip_loss_pct = cfg config (xc_max_round_trip_loss_pct \<circ> ac_execution) (8/100),
     se_maximum_buy_price_impact_pct = cfg config (xc_max_buy_price_impact_pct \<circ> ac_execution) (25/1000),
     se_maximum_sell_price_impact_pct = cfg config (xc_max_sell_price_impact_pct \<circ> ac_execution) (35/1000),
     se_minimum_external_sellers = cfg config (xc_min_external_sellers \<circ> ac_execution) 5,
     se_maximum_largest_holder_pct = cfg config (hc_max_largest_holder_pct \<circ> ac_holders) (7/100),
     se_maximum_top_5_pct = cfg config (hc_max_top_5_pct \<circ> ac_holders) (22/100),
     se_maximum_top_10_pct = cfg config (hc_max_top_10_pct \<circ> ac_holders) (30/100),
     se_maximum_dev_holding_pct = cfg config (hc_max_dev_holding_pct \<circ> ac_holders) (2/100),
     se_maximum_dev_cluster_pct = cfg config (hc_max_dev_cluster_pct \<circ> ac_holders) (5/100),
     se_maximum_related_cluster_pct = cfg config (hc_max_related_cluster_pct \<circ> ac_holders) (15/100),
     se_maximum_unknown_supply_pct = cfg config (hc_max_unknown_supply_pct \<circ> ac_holders) (5/100),
     se_maximum_liquidity_drop_pct = cfg config (lc_max_liquidity_drop_entry_30s_pct \<circ> ac_liquidity) (3/100),
     se_maximum_return_since_creation = cfg config (kc_max_return_since_pool_creation_pct \<circ> ac_candidate) (250/100),
     se_maximum_stream_age_seconds = cfg config (\<lambda>c. ddiv (of_int (cc_max_stream_lag_ms (ac_chain c))) 1000) 3,
     se_maximum_quote_age_seconds = cfg config (\<lambda>c. ddiv (of_int (xc_max_quote_age_ms (ac_execution c))) 1000) (15/10)\<rparr>"

definition state_machine_of :: "app_config option \<Rightarrow> state_machine" where
  "state_machine_of config = \<lparr>
     sm_collect_seconds = cfg config (kc_min_observation_seconds \<circ> ac_candidate) 45,
     sm_expiry_seconds = cfg config (kc_max_pool_age_seconds \<circ> ac_candidate) 180,
     sm_minimum_score = cfg config (kc_score_entry \<circ> ac_candidate) 80,
     sm_required_confirmations = cfg config (kc_score_confirmation_windows \<circ> ac_candidate) 2,
     sm_score_window_seconds = cfg config (kc_score_window_seconds \<circ> ac_candidate) 5,
     sm_minimum_pullback = cfg config (kc_min_pullback_pct \<circ> ac_candidate) (10/100),
     sm_maximum_pullback = cfg config (kc_max_pullback_pct \<circ> ac_candidate) (25/100),
     sm_maximum_liquidity_drop = cfg config (lc_max_liquidity_drop_entry_30s_pct \<circ> ac_liquidity) (3/100),
     sm_minimum_buyer_acceleration = cfg config (fc_min_buyer_acceleration \<circ> ac_flow) (13/10)\<rparr>"

section \<open>State\<close>

datatype db_call =
    UpsertToken token_record
  | UpsertPool pool_record
  | UpsertCandidate candidate
  | UpdateRawEventContext event_envelope
  | MarkEventProcessed string
  | MarkEventsFailed "string list"
  | SaveStateCheckpoints "event_envelope list"
  | RecordSnapshot feature_snapshot
  | RecordSecurity security_context security_result
  | RecordSignal candidate feature_snapshot score_breakdown
  | UpsertWalletProfile wallet_profile
  | UpsertWalletRelation wallet_relation datetime
  | PersistRiskState "string option" "datetime option" "string option" datetime
  | UpdatePaperMarks "position_record list" "(string, decimal) dict" ledger_state datetime
  | SaveRuntimeCheckpoint "(string, int) dict" datetime

text \<open>
  The calls whose arguments the pipeline and the runtime give; \<open>UpdatePaperMarks\<close> has the state of the
  ledger for the account snapshot that is read from it.
\<close>

text \<open>The answers of the database: event claims, writes, and the begin and commit of a transaction.\<close>

record database =
  db_record_event :: "event_envelope \<Rightarrow> bool \<Rightarrow> bool result"
  db_record_events :: "event_envelope list \<Rightarrow> bool list result"
  db_write :: "db_call \<Rightarrow> unit result"
  db_begin :: "unit result"
  db_commit :: "unit result"

record pipeline =
  pl_strategy_version :: string
  pl_config_hash :: string
  pl_entry_gate :: entry_gate
  pl_database :: "database option"
  pl_record :: "event_envelope \<Rightarrow> unit result"
  pl_record_many :: "event_envelope list \<Rightarrow> unit result"
  pl_record_raw :: bool
  pl_config :: "app_config option"
  pl_deduplicator :: deduplicator
  pl_tokens :: token_registry
  pl_pools :: pool_tracker
  pl_features :: feature_engine
  pl_security :: security_engine
  pl_state_machine :: state_machine
  pl_candidates :: "(string, candidate) dict"
  pl_security_results :: "(string, security_context \<times> security_result) dict"
  pl_scores :: "(string, score_breakdown) dict"
  pl_persisted_score_totals :: "(string, decimal) dict"
  pl_state_poisoned :: bool
  pl_written :: "db_call list"

type_synonym ('z, 'a) pmethod = "('z pipeline_scheme, 'a) method_of"

text \<open>\<open>EventDeduplicator()\<close>: its default capacity.\<close>

definition default_deduplicator :: deduplicator where
  "default_deduplicator = \<lparr>dd_capacity = 100000, dd_seen = [], dd_duplicates_total = 0\<rparr>"

definition pipeline_init :: "string \<Rightarrow> string \<Rightarrow> entry_gate \<Rightarrow> database option \<Rightarrow> (event_envelope \<Rightarrow> unit result)
    \<Rightarrow> (event_envelope list \<Rightarrow> unit result) \<Rightarrow> bool \<Rightarrow> app_config option \<Rightarrow> pipeline" where
  "pipeline_init strategy_version config_hash gate db rec_one rec_many record_raw config = \<lparr>
     pl_strategy_version = strategy_version, pl_config_hash = config_hash, pl_entry_gate = gate, pl_database = db,
     pl_record = rec_one, pl_record_many = rec_many, pl_record_raw = record_raw,
     pl_config = config, pl_deduplicator = default_deduplicator, pl_tokens = [], pl_pools = pool_tracker_init,
     pl_features = feature_engine_init, pl_security = security_engine_of config,
     pl_state_machine = state_machine_of config, pl_candidates = [], pl_security_results = [], pl_scores = [],
     pl_persisted_score_totals = [], pl_state_poisoned = False, pl_written = []\<rparr>"

definition require_consistent_state :: "('z, unit) pmethod" where
  "require_consistent_state p = (if pl_state_poisoned p
     then (p, Inl (RuntimeError ''pipeline state is inconsistent; restart required'')) else (p, Inr ()))"

definition poison_state :: "'z pipeline_scheme \<Rightarrow> 'z pipeline_scheme" where
  "poison_state p = p\<lparr>pl_state_poisoned := True, pl_entry_gate := block ''event_processing_error'' (pl_entry_gate p)\<rparr>"

text \<open>\<open>if self.database is not None: await self.database.call(...)\<close>\<close>

definition store :: "db_call \<Rightarrow> ('z, unit) pmethod" where
  "store call p = (case pl_database p of None \<Rightarrow> (p, Inr ())
     | Some db \<Rightarrow> (case db_write db call of Inl e \<Rightarrow> (p, Inl e)
         | Inr _ \<Rightarrow> (p\<lparr>pl_written := pl_written p @ [call]\<rparr>, Inr ())))"

definition pool_of :: "'z pipeline_scheme \<Rightarrow> string \<Rightarrow> pool_record option" where
  "pool_of p pool_address = dict_get (pt_pools (pl_pools p)) pool_address"

section \<open>Candidates and entry rules\<close>

definition candidate_id :: "string \<Rightarrow> string \<Rightarrow> string \<Rightarrow> string" where
  "candidate_id mint pool_address strategy_version =
     take 24 (sha256_hex (mint @ '':'' @ pool_address @ '':'' @ strategy_version))"

text \<open>\<open>Candidate(...)\<close> with the defaults of its class.\<close>

definition new_candidate :: "'z pipeline_scheme \<Rightarrow> string \<Rightarrow> string \<Rightarrow> datetime \<Rightarrow> datetime \<Rightarrow> candidate" where
  "new_candidate p mint pool_address detected_at updated_at = \<lparr>
     cd_candidate_id = candidate_id mint pool_address (pl_strategy_version p), cd_mint = mint,
     cd_pool_address = pool_address, cd_state = DISCOVERED, cd_detected_at = detected_at,
     cd_updated_at = updated_at, cd_eligible_at = None, cd_armed_at = None, cd_expired_at = None,
     cd_rejected_at = None, cd_reject_reason = None, cd_strategy_version = pl_strategy_version p,
     cd_config_hash = pl_config_hash p, cd_score_confirmations = [], cd_entry_signal_emitted = False,
     cd_previous_price = None, cd_previous_vwap = None, cd_pullback_local_high = None\<rparr>"

definition entry_rules :: "feature_snapshot \<Rightarrow> score_breakdown \<Rightarrow> security_context \<Rightarrow> security_result
    \<Rightarrow> app_config option \<Rightarrow> bool" where
  "entry_rules f sb ctx res config = (case cx_holders ctx of None \<Rightarrow> False | Some h \<Rightarrow>
     of_int (cfg config (kc_min_pool_age_seconds \<circ> ac_candidate) 45) \<le> fs_pool_age_seconds f
     \<and> fs_pool_age_seconds f \<le> of_int (cfg config (kc_max_pool_age_seconds \<circ> ac_candidate) 180)
     \<and> \<not> sy_hard_reject res
     \<and> cfg config (kc_score_entry \<circ> ac_candidate) 80 \<le> sb_total_score sb
     \<and> cfg config (lc_min_quote_liquidity_usd \<circ> ac_liquidity) 40000 \<le> cx_quote_liquidity_usd ctx
     \<and> fs_market_cap_to_quote_liquidity f \<le> cfg config (lc_max_market_cap_to_quote_liquidity \<circ> ac_liquidity) 25
     \<and> cfg config (fc_min_unique_buyers_60s \<circ> ac_flow) 25 \<le> fs_unique_buyers_60s f
     \<and> cfg config (fc_min_buyer_acceleration \<circ> ac_flow) (13/10) \<le> fs_buyer_acceleration f
     \<and> cfg config (fc_min_unique_buyer_ratio \<circ> ac_flow) (30/100) \<le> fs_unique_buyer_ratio f
     \<and> fs_transactions_per_trader f \<le> cfg config (fc_max_transactions_per_trader \<circ> ac_flow) 4
     \<and> fs_top_5_buyer_volume_share f \<le> cfg config (fc_max_top_5_buy_volume_share \<circ> ac_flow) (35/100)
     \<and> fs_same_funder_buy_share f \<le> cfg config (fc_max_same_funder_buy_share \<circ> ac_flow) (20/100)
     \<and> cfg config (fc_min_buy_sell_volume_ratio \<circ> ac_flow) (15/10) \<le> fs_buy_sell_volume_ratio f
     \<and> fs_buy_sell_volume_ratio f \<le> cfg config (fc_max_buy_sell_volume_ratio \<circ> ac_flow) 5
     \<and> dneg (cfg config (lc_max_liquidity_drop_entry_30s_pct \<circ> ac_liquidity) (3/100)) \<le> fs_quote_liquidity_change_30s f
     \<and> cfg config (kc_min_pullback_pct \<circ> ac_candidate) (10/100) \<le> fs_drawdown_from_local_high f
     \<and> fs_drawdown_from_local_high f \<le> cfg config (kc_max_pullback_pct \<circ> ac_candidate) (25/100)
     \<and> fs_return_since_pool_creation f \<le> cfg config (kc_max_return_since_pool_creation_pct \<circ> ac_candidate) (250/100)
     \<and> \<not> cx_dev_sold ctx
     \<and> ex_buy_price_impact_pct (cx_execution ctx) \<le> cfg config (xc_max_buy_price_impact_pct \<circ> ac_execution) (25/1000)
     \<and> ex_sell_price_impact_pct (cx_execution ctx) \<le> cfg config (xc_max_sell_price_impact_pct \<circ> ac_execution) (35/1000)
     \<and> ex_round_trip_loss_pct (cx_execution ctx) \<le> cfg config (xc_max_round_trip_loss_pct \<circ> ac_execution) (8/100)
     \<and> hm_largest_holder_pct h \<le> cfg config (hc_max_largest_holder_pct \<circ> ac_holders) (7/100)
     \<and> hm_top_5_holders_pct h \<le> cfg config (hc_max_top_5_pct \<circ> ac_holders) (22/100)
     \<and> hm_top_10_holders_pct h \<le> cfg config (hc_max_top_10_pct \<circ> ac_holders) (30/100)
     \<and> hm_dev_holding_pct h \<le> cfg config (hc_max_dev_holding_pct \<circ> ac_holders) (2/100)
     \<and> hm_dev_cluster_holding_pct h \<le> cfg config (hc_max_dev_cluster_pct \<circ> ac_holders) (5/100)
     \<and> hm_related_cluster_holding_pct h \<le> cfg config (hc_max_related_cluster_pct \<circ> ac_holders) (15/100)
     \<and> cfg config (xc_min_external_sellers \<circ> ac_execution) 5 \<le> cx_external_successful_sellers ctx)"

section \<open>Features of an event\<close>

text \<open>Construction of a liquidity observation, with its field constraints.\<close>

definition make_liquidity :: "string \<Rightarrow> string \<Rightarrow> datetime \<Rightarrow> pool_state \<Rightarrow> liquidity_observation result" where
  "make_liquidity event_id pool_address event_time s =
     (if (case ps_market_cap_estimate_usd s of None \<Rightarrow> False | Some m \<Rightarrow> m < 0)
      then Inl (ValueError ''validation error'')
      else Inr \<lparr>lq_event_id = event_id, lq_pool_address = pool_address, lq_event_time = event_time,
        lq_quote_liquidity_usd = max (ps_quote_reserve_usd s) 0, lq_market_cap_usd = ps_market_cap_estimate_usd s\<rparr>)"

text \<open>The side of a swap and its amount of the quote mint, in the tracker's orientation.\<close>

definition trade_amount :: "event_envelope \<Rightarrow> pool_record \<Rightarrow> payload_value \<times> trade_side" where
  "trade_amount e pool = (let get = payload_get (ev_payload e) in
     if po_source_orientation_reversed pool then
       (if ev_event_type e = SWAP_BUY then (py_or (get ''base_amount_out'') (PInt 0), SELL)
        else (py_or (get ''base_amount_in'') (PInt 0), BUY))
     else (py_or (py_or (get ''quote_amount_in'') (get ''quote_amount_out'')) (PInt 0),
           if ev_event_type e = SWAP_BUY then BUY else SELL))"

definition make_trade :: "'z pipeline_scheme \<Rightarrow> event_envelope \<Rightarrow> pool_state \<Rightarrow> pool_record \<Rightarrow> trade_observation result" where
  "make_trade p e s pool =
     (case trade_amount e pool of (quote_amount, side) \<Rightarrow>
      (case parse_decimal (py_str quote_amount) of
         None \<Rightarrow> Inl InvalidOperation
       | Some amount \<Rightarrow>
           (let quote_usd = (case dict_get (pt_quote_prices (pl_pools p)) (po_quote_mint pool) of
                  None \<Rightarrow> 0 | Some q \<Rightarrow> qa_price_usd q);
                volume_usd = dmul (scale_down amount (po_quote_decimals pool)) quote_usd;
                wallet = py_str (py_or (payload_get (ev_payload e) ''user'') (PText ''unknown''));
                token = dict_get (pl_tokens p) (ps_base_mint s)
            in Inr \<lparr>tr_event_id = ev_event_id e @ '':trade'', tr_pool_address = ps_pool_address s,
                 tr_event_time = ev_block_time e, tr_side = side, tr_wallet = wallet,
                 tr_volume_usd = max volume_usd 0, tr_price_usd = ps_marginal_price_usd s,
                 tr_external = (wallet \<noteq> ''unknown'' \<and> (case token of None \<Rightarrow> True
                   | Some t \<Rightarrow> Some wallet \<noteq> tk_creator_address t)),
                 tr_same_funder_cluster = py_truth (opt_or (dict_get (ev_payload e) ''same_funder_cluster'') (PBool False))\<rparr>)))"

definition ingest_pool_features :: "event_envelope \<Rightarrow> pool_state \<Rightarrow> ('z, unit) pmethod" where
  "ingest_pool_features e s =
     mbind (mlift (make_liquidity (ev_event_id e @ '':liquidity'') (ps_pool_address s) (ev_block_time e) s)) (\<lambda>l.
     mseq (mput (\<lambda>p. p\<lparr>pl_features := fst (ingest_liquidity l (pl_features p))\<rparr>))
     (if ev_event_type e \<noteq> SWAP_BUY \<and> ev_event_type e \<noteq> SWAP_SELL then mret ()
      else mget (\<lambda>p. case pool_of p (ps_pool_address s) of
        None \<Rightarrow> mret ()
      | Some pool \<Rightarrow> if ps_marginal_price_usd s \<le> 0 then mret ()
          else mbind (mlift (make_trade p e s pool)) (\<lambda>t.
            mput (\<lambda>q. q\<lparr>pl_features := fst (ingest_trade t (pl_features q))\<rparr>)))))"

section \<open>Applying an event\<close>

definition effective_event :: "event_envelope \<Rightarrow> pool_record option \<Rightarrow> event_envelope" where
  "effective_event e pool = (case pool of None \<Rightarrow> e
     | Some r \<Rightarrow> if ev_mint e \<noteq> Some (po_base_mint r) then e\<lparr>ev_mint := Some (po_base_mint r)\<rparr> else e)"

definition supported_quote_pair :: "pool_record option \<Rightarrow> bool" where
  "supported_quote_pair pool = (case pool of None \<Rightarrow> False
     | Some r \<Rightarrow> supported (po_quote_mint r) \<and> \<not> supported (po_base_mint r))"

definition is_pool_creation :: "event_envelope \<Rightarrow> bool" where
  "is_pool_creation e \<longleftrightarrow> ev_event_type e = POOL_CREATED \<and> truthy (ev_pool_address e) \<and> truthy (ev_mint e)"

text \<open>The candidate that an event of a new pool creates.\<close>

definition discover_candidate :: "bool \<Rightarrow> event_envelope \<Rightarrow> ('z, unit) pmethod" where
  "discover_candidate do_persist e = mget (\<lambda>p.
     let c = new_candidate p (the (ev_mint e)) (the (ev_pool_address e)) (ev_block_time e) (ev_observed_at e)
     in mseq (mput (\<lambda>q. q\<lparr>pl_candidates := dict_setdefault (pl_candidates q) (cd_candidate_id c) c\<rparr>))
          (mwhen do_persist (store (UpsertCandidate c))))"

definition touch_candidate :: "event_envelope \<Rightarrow> 'z pipeline_scheme \<Rightarrow> 'z pipeline_scheme" where
  "touch_candidate e p =
     (case dict_get (pl_candidates p) (candidate_id (the (ev_mint e)) (the (ev_pool_address e)) (pl_strategy_version p)) of
        None \<Rightarrow> p
      | Some c \<Rightarrow> p\<lparr>pl_candidates := dict_set (pl_candidates p) (cd_candidate_id c)
          (c\<lparr>cd_updated_at := ev_observed_at e\<rparr>)\<rparr>)"

text \<open>
  The observer may write to the payload of the event it is given; the dictionary of the payload is
  shared with the event itself, so the later steps read what the observer wrote.
\<close>

type_synonym 'z observer = "event_envelope \<Rightarrow> ('z, payload) pmethod"

definition observe_event :: "'z observer option \<Rightarrow> bool \<Rightarrow> event_envelope \<Rightarrow> ('z, event_envelope) pmethod" where
  "observe_event observer observing e = (case observer of None \<Rightarrow> mret e
     | Some f \<Rightarrow> if observing then mbind (f e) (\<lambda>payload. mret (e\<lparr>ev_payload := payload\<rparr>)) else mret e)"

text \<open>\<open>self.pools.apply(event)\<close> and \<open>self.tokens.apply(event)\<close>\<close>

definition apply_pools :: "event_envelope \<Rightarrow> ('z, pool_state option) pmethod" where
  "apply_pools e p = (case tracker_apply e (pl_pools p) of (t, r) \<Rightarrow> (p\<lparr>pl_pools := t\<rparr>, r))"

definition apply_tokens :: "event_envelope \<Rightarrow> ('z, token_record option) pmethod" where
  "apply_tokens e p = (case registry_apply e (pl_tokens p) of Inl err \<Rightarrow> (p, Inl err)
     | Inr (toks, r) \<Rightarrow> (p\<lparr>pl_tokens := toks\<rparr>, Inr r))"

text \<open>The parts of \<open>_apply_event\<close> after the pool tracker and after the observer.\<close>

definition apply_observed :: "bool \<Rightarrow> bool \<Rightarrow> pool_state option \<Rightarrow> pool_record option \<Rightarrow> event_envelope \<Rightarrow> ('z, unit) pmethod" where
  "apply_observed do_persist allow_candidate pool_state pool e =
     mbind (apply_tokens e) (\<lambda>token.
     mseq (case token of None \<Rightarrow> mret () | Some t \<Rightarrow> mwhen do_persist (store (UpsertToken t)))
    (mseq (case pool of None \<Rightarrow> mret () | Some r \<Rightarrow> mwhen do_persist (store (UpsertPool r)))
    (mseq (mwhen (is_pool_creation e)
       (mput (\<lambda>p. p\<lparr>pl_features := register_pool (the (ev_pool_address e)) (ev_block_time e) (pl_features p)\<rparr>)))
    (mseq (mwhen (allow_candidate \<and> supported_quote_pair pool \<and> is_pool_creation e) (discover_candidate do_persist e))
    (mseq (case pool_state of None \<Rightarrow> mret () | Some s \<Rightarrow> ingest_pool_features e s)
    (mwhen (token \<noteq> None \<and> truthy (ev_mint e) \<and> truthy (ev_pool_address e)) (mput (touch_candidate e))))))))"

definition apply_rest :: "'z observer option \<Rightarrow> bool \<Rightarrow> bool \<Rightarrow> bool \<Rightarrow> pool_state option \<Rightarrow> pool_record option
    \<Rightarrow> event_envelope \<Rightarrow> ('z, unit) pmethod" where
  "apply_rest observer do_persist observing allow_candidate pool_state pool e =
     mbind (observe_event observer observing e) (apply_observed do_persist allow_candidate pool_state pool)"

definition apply_event :: "'z observer option \<Rightarrow> event_envelope \<Rightarrow> bool \<Rightarrow> bool \<Rightarrow> bool \<Rightarrow> ('z, unit) pmethod" where
  "apply_event observer e do_persist observing allow_candidate =
     mbind (apply_pools e) (\<lambda>pool_state. mget (\<lambda>p.
       let pool = (if truthy (ev_pool_address e) then pool_of p (the (ev_pool_address e)) else None)
       in apply_rest observer do_persist observing allow_candidate pool_state pool (effective_event e pool)))"

section \<open>Filtering and processing events\<close>

definition with_known_pool_mint :: "'z pipeline_scheme \<Rightarrow> event_envelope \<Rightarrow> event_envelope" where
  "with_known_pool_mint p e =
     (if ev_mint e \<noteq> None \<or> \<not> truthy (ev_pool_address e) then e
      else case pool_of p (the (ev_pool_address e)) of None \<Rightarrow> e | Some r \<Rightarrow> e\<lparr>ev_mint := Some (po_base_mint r)\<rparr>)"

definition is_swap :: "event_envelope \<Rightarrow> bool" where
  "is_swap e \<longleftrightarrow> ev_event_type e = SWAP_BUY \<or> ev_event_type e = SWAP_SELL"

definition candidate_filter :: "'z pipeline_scheme \<Rightarrow> event_envelope \<Rightarrow> candidate \<Rightarrow> string option" where
  "candidate_filter p e c =
     (if ev_block_time e < cd_detected_at c then Some ''before_candidate''
      else if cd_state c \<in> {POSITION_OPEN, POSITION_PARTIAL, EXIT_PENDING, RETRYING_EXIT} then None
      else if cd_state c \<in> {candidate_state.CLOSED, REJECTED} then Some ''terminal''
      else if cd_detected_at c + seconds (cfg (pl_config p) (kc_max_pool_age_seconds \<circ> ac_candidate) 180) < ev_block_time e
      then Some ''expired'' else None)"

definition event_state_filter_reason :: "'z pipeline_scheme \<Rightarrow> event_envelope \<Rightarrow> string option" where
  "event_state_filter_reason p e =
     (if \<not> is_swap e then None
      else if \<not> truthy (ev_pool_address e) then Some ''unknown_pool''
      else case pool_of p (the (ev_pool_address e)) of
        None \<Rightarrow> Some ''unknown_pool''
      | Some r \<Rightarrow> (case dict_get (pl_candidates p) (candidate_id (po_base_mint r) (po_pool_address r) (pl_strategy_version p)) of
          None \<Rightarrow> Some ''no_candidate''
        | Some c \<Rightarrow> candidate_filter p e c))"

definition tradable :: "event_envelope \<Rightarrow> bool" where
  "tradable e \<longleftrightarrow> ev_source e \<notin> set NON_TRADABLE_EVENT_SOURCES"

definition persist_claimed_event_state :: "'z observer option \<Rightarrow> event_envelope \<Rightarrow> bool \<Rightarrow> string option \<Rightarrow> ('z, unit) pmethod" where
  "persist_claimed_event_state observer e raw_context_changed filter_reason = mget (\<lambda>p.
     if Option.is_none (pl_database p) then mraise (RuntimeError ''durable event state requires a database'')
     else mseq (mwhen raw_context_changed (store (UpdateRawEventContext e)))
         (mseq (mwhen (filter_reason = None) (apply_event observer e True True (tradable e)))
           (store (MarkEventProcessed (ev_event_id e)))))"

text \<open>
  \<open>async with database.event_state_transaction()\<close> (and its batch variant): a raise in the body or
  at the commit rolls the database back, while the state in memory stays as it is.
\<close>

definition rolled_back :: "'z pipeline_scheme \<Rightarrow> 'z pipeline_scheme \<Rightarrow> 'z pipeline_scheme" where
  "rolled_back p q = q\<lparr>pl_written := pl_written p\<rparr>"

definition in_transaction :: "database \<Rightarrow> ('z, unit) pmethod \<Rightarrow> ('z, unit) pmethod" where
  "in_transaction db body p =
     (case db_begin db of Inl e \<Rightarrow> (p, Inl e)
      | Inr _ \<Rightarrow> (case body p of
          (q, Inl e) \<Rightarrow> (rolled_back p q, Inl e)
        | (q, Inr _) \<Rightarrow> (case db_commit db of Inl e \<Rightarrow> (rolled_back p q, Inl e) | Inr _ \<Rightarrow> (q, Inr ()))))"

definition dedup_event :: "string \<Rightarrow> ('z, bool) pmethod" where
  "dedup_event event_id p = (case dedup_accept event_id (pl_deduplicator p) of
     (d, ok) \<Rightarrow> (p\<lparr>pl_deduplicator := d\<rparr>, Inr ok))"

text \<open>
  \<open>mark_event_failed\<close> and \<open>mark_events_failed\<close>, whose exceptions are logged and dropped; the answer
  is the exception that passes through \<open>except Exception\<close>.
\<close>

definition mark_failed :: "string list \<Rightarrow> 'z pipeline_scheme \<Rightarrow> 'z pipeline_scheme \<times> py_error option" where
  "mark_failed ids p = (case store (MarkEventsFailed ids) p of
     (q, Inr _) \<Rightarrow> (q, None) | (q, Inl e) \<Rightarrow> (q, if e = CancelledError then Some e else None))"

text \<open>The \<open>except BaseException\<close> of \<open>process_event\<close>.\<close>

definition event_failure :: "bool \<Rightarrow> bool \<Rightarrow> string \<Rightarrow> py_error \<Rightarrow> ('z, unit) pmethod" where
  "event_failure defer_cleanup rebuild event_id err p =
     (if defer_cleanup then (p, Inl err)
      else case mark_failed [event_id] (p\<lparr>pl_deduplicator := dedup_forget event_id (pl_deduplicator p)\<rparr>) of
        (q, cancelled) \<Rightarrow> (if rebuild then poison_state q else q, Inl (opt_or cancelled err)))"

definition durable_answer :: "event_envelope \<Rightarrow> bool \<Rightarrow> bool option \<Rightarrow> ('z, bool) pmethod" where
  "durable_answer e recovering durable_claim p = (p, case durable_claim of
     Some b \<Rightarrow> Inr b
   | None \<Rightarrow> (case pl_database p of None \<Rightarrow> Inr True | Some db \<Rightarrow> db_record_event db e recovering))"

text \<open>The state change of one accepted event, with and without a database.\<close>

definition event_state_change :: "'z observer option \<Rightarrow> event_envelope \<Rightarrow> bool \<Rightarrow> string option \<Rightarrow> bool \<Rightarrow> bool \<Rightarrow> ('z, unit) pmethod" where
  "event_state_change observer e raw_context_changed filter_reason batch defer_cleanup = mget (\<lambda>p.
     case pl_database p of
       None \<Rightarrow> mcatch (mwhen (filter_reason = None) (apply_event observer e True True (tradable e)))
         (event_failure defer_cleanup False (ev_event_id e))
     | Some db \<Rightarrow>
         (let body = persist_claimed_event_state observer e raw_context_changed filter_reason in
          if batch then mcatch body (event_failure defer_cleanup True (ev_event_id e))
          else mcatch (in_transaction db body)
            (event_failure defer_cleanup (\<not> isl (db_begin db)) (ev_event_id e))))"

definition process_event :: "'z observer option \<Rightarrow> event_envelope \<Rightarrow> bool \<Rightarrow> bool option \<Rightarrow> bool \<Rightarrow> bool \<Rightarrow> bool \<Rightarrow> ('z, bool) pmethod" where
  "process_event observer e0 recovering durable_claim batch defer_cleanup raw_already_recorded =
     mseq require_consistent_state (mget (\<lambda>p.
       let e = with_known_pool_mint p e0 in
       mbind (durable_answer e recovering durable_claim) (\<lambda>accepted.
       if \<not> accepted then mret False
       else mbind (dedup_event (ev_event_id e)) (\<lambda>fresh.
       if \<not> fresh then mret False
       else mget (\<lambda>q.
         let filter_reason = event_state_filter_reason q e in
         mseq (mwhen (pl_record_raw q \<and> \<not> recovering \<and> \<not> raw_already_recorded)
             (mcatch (mlift (pl_record q e)) (event_failure defer_cleanup False (ev_event_id e))))
        (mseq (event_state_change observer e (ev_mint e \<noteq> ev_mint e0) filter_reason batch defer_cleanup)
        (mret True)))))))"

definition rehydrate_event :: "'z observer option \<Rightarrow> event_envelope \<Rightarrow> ('z, bool) pmethod" where
  "rehydrate_event observer e = mget (\<lambda>p.
     if event_state_filter_reason p e \<noteq> None then mret False
     else mseq (apply_event observer e False False (tradable e)) (mret True))"

definition restore_candidates :: "candidate list \<Rightarrow> 'z pipeline_scheme \<Rightarrow> 'z pipeline_scheme" where
  "restore_candidates cs p = p\<lparr>pl_candidates := foldl (\<lambda>d c. dict_set d (cd_candidate_id c) c) (pl_candidates p) cs\<rparr>"

definition restore_score_totals :: "(string, decimal) dict \<Rightarrow> 'z pipeline_scheme \<Rightarrow> 'z pipeline_scheme" where
  "restore_score_totals scores p = p\<lparr>pl_persisted_score_totals :=
     foldl (\<lambda>d (k, v). dict_set d k v) (pl_persisted_score_totals p) scores\<rparr>"

section \<open>Batches\<close>

definition claimed_of :: "event_envelope list \<Rightarrow> bool list \<Rightarrow> event_envelope list" where
  "claimed_of events results = map fst (filter snd (zip events results))"

definition process_batch_item :: "'z observer option \<Rightarrow> bool \<Rightarrow> event_envelope \<times> bool \<Rightarrow> ('z, unit) pmethod" where
  "process_batch_item observer raw_recorded item = (case item of (e, ok) \<Rightarrow>
     mbind (process_event observer e False (Some ok) True True raw_recorded) (\<lambda>processed.
       if ok \<and> \<not> processed
       then mraise (RuntimeError ''durably claimed batch event was rejected by local deduplication'') else mret ()))"

text \<open>\<open>zip(..., strict=True)\<close> in the list comprehension raises before the \<open>try\<close>.\<close>

definition process_claimed_event_batch :: "'z observer option \<Rightarrow> event_envelope list \<Rightarrow> bool list \<Rightarrow> bool \<Rightarrow> ('z, unit) pmethod" where
  "process_claimed_event_batch observer events results archive_raw = mget (\<lambda>p.
     case pl_database p of
       None \<Rightarrow> mraise (RuntimeError ''durable event batch requires a database'')
     | Some db \<Rightarrow>
         if length events \<noteq> length results then mraise (ValueError ''zip() arguments differ in length'')
         else let claimed = claimed_of events results in
           mcatch
            (mseq (mwhen (pl_record_raw p \<and> archive_raw) (mlift (pl_record_many p claimed)))
              (in_transaction db
                (mseq (mforeach (process_batch_item observer (pl_record_raw p)) (zip events results))
                  (mwhen (\<not> archive_raw \<and> claimed \<noteq> []) (store (SaveStateCheckpoints claimed))))))
            (\<lambda>err q. (fst (mark_failed (map ev_event_id claimed) (poison_state q)), Inl err)))"

definition process_decoded_event_batch_inline :: "'z observer option \<Rightarrow> event_envelope list \<Rightarrow> ('z, unit) pmethod" where
  "process_decoded_event_batch_inline observer events = mget (\<lambda>p.
     mbind (mlift (case pl_database p of None \<Rightarrow> Inr (replicate (length events) True)
         | Some db \<Rightarrow> db_record_events db events)) (\<lambda>results.
       if Option.is_none (pl_database p) \<or> length (filter (\<lambda>b. b) results) < 2 then
         mseq (mforeach (\<lambda>(e, ok). mseq (process_event observer e False (Some ok) False False False) (mret ())) (zip events results))
           (if length events \<noteq> length results then mraise (ValueError ''zip() arguments differ in length'') else mret ())
       else process_claimed_event_batch observer events results True))"

text \<open>The handler of the state stage.\<close>

definition apply_state_batch :: "'z observer option \<Rightarrow> event_envelope list \<Rightarrow> ('z, unit) pmethod" where
  "apply_state_batch observer events =
     mcatch (mseq (process_claimed_event_batch observer events (replicate (length events) True) False)
       (mput (\<lambda>p. p\<lparr>pl_entry_gate := unblock ''state_apply_error'' (pl_entry_gate p)\<rparr>)))
     (\<lambda>err q. (if err = CancelledError then q
        else q\<lparr>pl_entry_gate := block ''state_apply_error'' (pl_entry_gate q)\<rparr>, Inl err))"

section \<open>Transactions from the stream\<close>

record decoders =
  dc_pump :: anchor_decoder
  dc_pumpswap :: anchor_decoder
  dc_depth :: nat
  dc_now :: datetime

definition decode_transaction :: "decoders \<Rightarrow> protocol \<Rightarrow> json \<Rightarrow> event_source \<Rightarrow> event_envelope list result" where
  "decode_transaction dc protocol tx source =
     (if protocol = PUMP then pump_decode_transaction (dc_depth dc) (dc_pump dc) source (dc_now dc) tx
      else pumpswap_decode_transaction (dc_depth dc) (dc_pumpswap dc) source (dc_now dc) tx)"

definition unknown_signature :: "json \<Rightarrow> string result" where
  "unknown_signature tx =
     rbind (json_or (json_get tx ''signature'' JNull) (Inr (JStr ''missing-signature''))) (\<lambda>sig.
     rbind (json_get tx ''transaction'' (JObj [])) (\<lambda>inner.
     rbind (json_or (json_get inner ''signatures'' JNull) (Inr (JList []))) (\<lambda>sigs.
     case sigs of
       JList (x # xs) \<Rightarrow> Inr (json_str x)
     | JList [] \<Rightarrow> Inr (json_str sig)
     | JStr (c # cs) \<Rightarrow> Inr [c]
     | JObj d \<Rightarrow> Inl KeyError
     | _ \<Rightarrow> Inl TypeError)))"

definition unknown_event :: "decoders \<Rightarrow> protocol \<Rightarrow> json \<Rightarrow> event_source \<Rightarrow> event_envelope result" where
  "unknown_event dc protocol tx source =
     rbind (unknown_signature tx) (\<lambda>sig.
     rbind (json_get tx ''blockTime'' JNull) (\<lambda>bt.
     rbind (if bt = JNull then Inr (dc_now dc) else rbind (json_int bt) (\<lambda>t. Inr (seconds t))) (\<lambda>block_time.
     rbind (rbind (json_get tx ''slot'' (JInt 0)) json_int) (\<lambda>slot.
     validate_envelope \<lparr>ev_event_id = [], ev_ingest_sequence = None, ev_source = source, ev_network = ''solana-mainnet'',
       ev_protocol = protocol, ev_event_type = UNKNOWN, ev_slot = slot, ev_signature = sig, ev_instruction_index = 0,
       ev_inner_instruction_index = - 1, ev_block_time = block_time, ev_observed_at = dc_now dc,
       ev_commitment = ''confirmed'', ev_mint = None, ev_pool_address = None,
       ev_payload = [(''transaction'', payload_value_of tx), (''reason'', PText ''UNKNOWN_PROTOCOL_LAYOUT'')]\<rparr>))))"

definition record_unknown :: "decoders \<Rightarrow> protocol \<Rightarrow> json \<Rightarrow> event_source \<Rightarrow> ('z, unit) pmethod" where
  "record_unknown dc protocol tx source = mget (\<lambda>p.
     mbind (mlift (unknown_event dc protocol tx source)) (\<lambda>e. mlift (pl_record p e)))"

fun is_anchor_error :: "py_error \<Rightarrow> bool" where
  "is_anchor_error (AnchorDecodeError m) = True"
| "is_anchor_error UnknownDiscriminatorError = True"
| "is_anchor_error _ = False"

fun decode_batches :: "decoders \<Rightarrow> (protocol \<times> json \<times> event_source) list \<Rightarrow> event_envelope list
    \<Rightarrow> event_envelope list list \<Rightarrow> ('z, event_envelope list list) pmethod" where
  "decode_batches dc [] current batches = mret (if current = [] then batches else batches @ [current])"
| "decode_batches dc ((protocol, tx, source) # rest) current batches =
     (case decode_transaction dc protocol tx source of
        Inl err \<Rightarrow> if is_anchor_error err
          then mseq (mput (\<lambda>p. p\<lparr>pl_entry_gate := block_protocol protocol (pl_entry_gate p)\<rparr>))
              (mseq (record_unknown dc protocol tx source) (mraise err))
          else mraise err
      | Inr decoded \<Rightarrow>
          if MAX_EVENT_BATCH_SIZE < length decoded
          then mraise (RuntimeError ''one decoded transaction exceeds the durable event batch limit'')
          else if current \<noteq> [] \<and> MAX_EVENT_BATCH_SIZE < length current + length decoded
          then decode_batches dc rest decoded (batches @ [current])
          else decode_batches dc rest (current @ decoded) batches)"

text \<open>\<open>submit\<close> is \<open>_process_decoded_event_batch\<close>: the inline processing or the durable stage's queue.\<close>

definition process_transactions :: "decoders \<Rightarrow> (event_envelope list \<Rightarrow> ('z, unit) pmethod)
    \<Rightarrow> (protocol \<times> json \<times> event_source) list \<Rightarrow> ('z, unit) pmethod" where
  "process_transactions dc submit txs =
     mseq require_consistent_state (mbind (decode_batches dc txs [] []) (mforeach submit))"

section \<open>Evaluating candidates\<close>

type_synonym 'z security_provider = "candidate \<Rightarrow> feature_snapshot \<Rightarrow> ('z, security_context) pmethod"
type_synonym 'z entry_handler =
  "candidate \<Rightarrow> feature_snapshot \<Rightarrow> score_breakdown \<Rightarrow> security_context \<Rightarrow> ('z, reject_reason option) pmethod"

definition score_context_of :: "feature_snapshot \<Rightarrow> security_context \<Rightarrow> score_context" where
  "score_context_of s ctx = \<lparr>sc_features = s,
     sc_round_trip_loss_pct = ex_round_trip_loss_pct (cx_execution ctx),
     sc_buy_price_impact_pct = ex_buy_price_impact_pct (cx_execution ctx),
     sc_sell_price_impact_pct = ex_sell_price_impact_pct (cx_execution ctx),
     sc_sell_route_reliability = (if ex_sell_route_available (cx_execution ctx) then 1 else 0),
     sc_developer_history = \<lparr>dh_known = cx_developer_history_known ctx, dh_previous_rugs = cx_previous_rugs ctx,
       dh_previous_dev_dumps_5m = cx_previous_dev_dumps_5m ctx,
       dh_tokens_created_7d = cx_developer_tokens_created_7d ctx,
       dh_successful_tokens = cx_developer_successful_tokens ctx\<rparr>,
     sc_vwap_reclaimed = (fs_rolling_vwap_30s s < fs_current_price_usd s)\<rparr>"

definition make_score_context :: "feature_snapshot \<Rightarrow> security_context \<Rightarrow> score_context result" where
  "make_score_context s ctx = (let c = score_context_of s ctx in
     if score_context_valid c then Inr c else Inl (ValueError ''validation error''))"

definition checked_states :: "candidate_state list" where
  "checked_states = [SECURITY_CHECK, ELIGIBLE, WAITING_PULLBACK, ARMED, ENTRY_PENDING]"

text \<open>What the security and scoring part of a pass finds: snapshot, context, result and score.\<close>

type_synonym checks = "feature_snapshot \<times> (security_context \<times> security_result \<times> score_breakdown) option"

definition check_candidate :: "'z security_provider option \<Rightarrow> datetime \<Rightarrow> string \<Rightarrow> candidate \<Rightarrow> feature_snapshot \<Rightarrow> ('z, checks) pmethod" where
  "check_candidate provider at_time cid c s0 = (case provider of
     None \<Rightarrow> mret (s0, None)
   | Some f \<Rightarrow> if cd_state c \<notin> set checked_states then mret (s0, None)
     else mbind (f c s0) (\<lambda>ctx. mget (\<lambda>p.
       let s = snapshot (pl_features p) (cd_pool_address c) at_time;
           res = security_evaluate (pl_security p) ctx at_time
       in mseq (mput (\<lambda>q. q\<lparr>pl_security_results := dict_set (pl_security_results q) cid (ctx, res)\<rparr>))
         (mseq (store (RecordSecurity ctx res))
         (mbind (mlift (rbind (make_score_context s ctx) score)) (\<lambda>sb.
          mseq (mput (\<lambda>q. q\<lparr>pl_scores := dict_set (pl_scores q) cid sb,
              pl_persisted_score_totals := dict_set (pl_persisted_score_totals q) cid (sb_total_score sb)\<rparr>))
         (mseq (store (RecordSignal c s sb)) (mret (s, Some (ctx, res, sb))))))))))"

text \<open>The decision on a candidate with a pending entry.\<close>

definition decide_entry :: "'z entry_handler option \<Rightarrow> datetime \<Rightarrow> candidate \<Rightarrow> checks \<Rightarrow> ('z, candidate) pmethod" where
  "decide_entry handler at_time c chk = mget (\<lambda>p.
     if \<not> gate_enabled (pl_entry_gate p) then mlift (transition c REJECTED at_time (Some API_UNAVAILABLE))
     else case chk of
       (s, None) \<Rightarrow> mlift (transition c REJECTED at_time (Some SCORE_TOO_LOW))
     | (s, Some (ctx, res, sb)) \<Rightarrow>
         if \<not> entry_rules s sb ctx res (pl_config p) then mlift (transition c REJECTED at_time (Some SCORE_TOO_LOW))
         else case handler of
           None \<Rightarrow> mret c
         | Some h \<Rightarrow> mbind (h c s sb ctx) (\<lambda>reason. mlift (case reason of
             None \<Rightarrow> transition c POSITION_OPEN at_time None
           | Some r \<Rightarrow> transition c REJECTED at_time (Some r))))"

definition evaluate_state :: "candidate \<Rightarrow> checks \<Rightarrow> ('z, candidate) pmethod" where
  "evaluate_state c chk = mget (\<lambda>p. mlift (case chk of
     (s, None) \<Rightarrow> candidate_evaluate (pl_state_machine p) c s None None False False
   | (s, Some (ctx, res, sb)) \<Rightarrow> candidate_evaluate (pl_state_machine p) c s (Some res) (Some sb)
       (ex_sell_route_available (cx_execution ctx)) (cx_dev_sold ctx)))"

definition save_candidate :: "string \<Rightarrow> candidate \<Rightarrow> ('z, unit) pmethod" where
  "save_candidate cid c = mseq (mput (\<lambda>p. p\<lparr>pl_candidates := dict_set (pl_candidates p) cid c\<rparr>))
     (store (UpsertCandidate c))"

text \<open>One iteration of the loop; the answer is the changed candidate, if its state changed.\<close>

definition evaluate_candidate :: "'z security_provider option \<Rightarrow> 'z entry_handler option \<Rightarrow> datetime \<Rightarrow> string \<times> candidate
    \<Rightarrow> ('z, candidate option) pmethod" where
  "evaluate_candidate provider handler at_time item = (case item of (cid, c) \<Rightarrow> mget (\<lambda>p.
     let s0 = snapshot (pl_features p) (cd_pool_address c) at_time in
     mseq (mwhen (\<not> Option.is_none (pool_of p (cd_pool_address c))) (store (RecordSnapshot s0)))
    (mbind (check_candidate provider at_time cid c s0) (\<lambda>chk.
     mbind (if cd_state c = ENTRY_PENDING then decide_entry handler at_time c chk else evaluate_state c chk) (\<lambda>c'.
     mseq (save_candidate cid c') (mret (if cd_state c' \<noteq> cd_state c then Some c' else None)))))))"

fun evaluate_loop :: "'z security_provider option \<Rightarrow> 'z entry_handler option \<Rightarrow> datetime \<Rightarrow> (string \<times> candidate) list
    \<Rightarrow> candidate list \<Rightarrow> ('z, candidate list) pmethod" where
  "evaluate_loop provider handler at_time [] changed = mret changed"
| "evaluate_loop provider handler at_time (item # items) changed =
     mbind (evaluate_candidate provider handler at_time item) (\<lambda>r.
       evaluate_loop provider handler at_time items (case r of None \<Rightarrow> changed | Some c \<Rightarrow> changed @ [c]))"

definition evaluate_candidates :: "'z security_provider option \<Rightarrow> 'z entry_handler option \<Rightarrow> datetime \<Rightarrow> ('z, candidate list) pmethod" where
  "evaluate_candidates provider handler at_time = mget (\<lambda>p. evaluate_loop provider handler at_time (pl_candidates p) [])"

definition transition_candidate :: "string \<Rightarrow> candidate_state \<Rightarrow> datetime \<Rightarrow> ('z, candidate option) pmethod" where
  "transition_candidate cid target at_time = mget (\<lambda>p. case dict_get (pl_candidates p) cid of
     None \<Rightarrow> mret None
   | Some c \<Rightarrow> mbind (mlift (transition c target at_time None)) (\<lambda>c'. mseq (save_candidate cid c') (mret (Some c'))))"

definition update_pool_supply :: "string \<Rightarrow> decimal \<Rightarrow> datetime \<Rightarrow> ('z, pool_state option) pmethod" where
  "update_pool_supply pool_address total_supply_raw observed_at = mget (\<lambda>p.
     case apply_base_supply pool_address total_supply_raw (pl_pools p) of (t, st) \<Rightarrow>
       mseq (mput (\<lambda>q. q\<lparr>pl_pools := t\<rparr>))
        (case st of None \<Rightarrow> mret None
         | Some s \<Rightarrow> mbind (mlift (make_liquidity (pool_address @ '':supply:'' @ normalized_str total_supply_raw)
               pool_address observed_at s)) (\<lambda>l.
             mseq (mput (\<lambda>q. q\<lparr>pl_features := fst (ingest_liquidity l (pl_features q))\<rparr>)) (mret (Some s)))))"

definition list_candidates :: "'z pipeline_scheme \<Rightarrow> candidate list" where
  "list_candidates p = dict_values (pl_candidates p)"

definition list_rejections :: "'z pipeline_scheme \<Rightarrow> candidate list" where
  "list_rejections p = filter (\<lambda>c. cd_state c = REJECTED) (dict_values (pl_candidates p))"

end
