(* ===== verification/Pipeline_Props.thy ===== *)
theory Pipeline_Props
  imports Pipeline
begin

text \<open>
  Properties of the pipeline: when the entry handler is called, what a failed event leaves behind,
  where candidates come from, and what a rejected candidate does to later passes.
\<close>

section \<open>Frames\<close>

lemma written_self: "\<exists>w. p = p\<lparr>pl_written := w\<rparr>" for p :: "'z pipeline_scheme"
  by (rule exI [of _ "pl_written p"]) simp

lemma store_frame: "store call p = (q, r) \<Longrightarrow> \<exists>w. q = p\<lparr>pl_written := w\<rparr>"
  by (auto simp: store_def written_self split: option.splits sum.splits)

lemma keeps_store [keeps_intros]:
  assumes "\<And>p w. P p \<Longrightarrow> P (p\<lparr>pl_written := w\<rparr>)"
  shows "keeps P (store call)"
  using assms by (auto simp: keeps_def store_def split: option.splits sum.splits)

text \<open>A pass keeps what its provider, its handler and the updates of the pipeline keep.\<close>

lemma keeps_pass:
  assumes provider: "\<And>f c s. provider = Some f \<Longrightarrow> keeps P (f c s)"
    and handler: "\<And>h c s sb ctx. handler = Some h \<Longrightarrow> keeps P (h c s sb ctx)"
    and stores: "\<And>call. keeps P (store call)"
    and updates: "\<And>p d. P p \<Longrightarrow> P (p\<lparr>pl_candidates := d\<rparr>)" "\<And>p d. P p \<Longrightarrow> P (p\<lparr>pl_security_results := d\<rparr>)"
      "\<And>p d d'. P p \<Longrightarrow> P (p\<lparr>pl_scores := d, pl_persisted_score_totals := d'\<rparr>)"
  shows "keeps P (evaluate_candidates provider handler t)"
proof -
  have "keeps P (evaluate_candidate provider handler t item)" for item
    unfolding evaluate_candidate_def check_candidate_def decide_entry_def evaluate_state_def save_candidate_def
    by (intro keeps_intros stores) (simp_all add: provider handler updates)
  then have "keeps P (evaluate_loop provider handler t items changed)" for items changed
    by (induction items arbitrary: changed) (auto intro!: keeps_intros)
  then show ?thesis unfolding evaluate_candidates_def by (intro keeps_get)
qed

section \<open>Calls of the entry handler\<close>

text \<open>The state of affairs under which the code may open a position for a candidate.\<close>

definition entry_allowed :: "datetime \<Rightarrow> candidate \<Rightarrow> feature_snapshot \<Rightarrow> score_breakdown \<Rightarrow> security_context \<Rightarrow> 'z pipeline_scheme \<Rightarrow> bool" where
  "entry_allowed at_time c s sb ctx p \<longleftrightarrow> cd_state c = ENTRY_PENDING \<and> gate_enabled (pl_entry_gate p)
     \<and> s = snapshot (pl_features p) (cd_pool_address c) at_time
     \<and> rbind (make_score_context s ctx) score = Inr sb
     \<and> entry_rules s sb ctx (security_evaluate (pl_security p) ctx at_time) (pl_config p)"

definition guarded :: "datetime \<Rightarrow> 'z entry_handler \<Rightarrow> 'z entry_handler" where
  "guarded at_time h c s sb ctx p = (if entry_allowed at_time c s sb ctx p then h c s sb ctx p else (p, Inl KeyError))"

lemma check_candidate_result:
  assumes "check_candidate provider at_time cid c s0 p = (q, Inr (s, Some (ctx, res, sb)))"
  shows "s = snapshot (pl_features q) (cd_pool_address c) at_time"
    and "res = security_evaluate (pl_security q) ctx at_time"
    and "rbind (make_score_context s ctx) score = Inr sb"
proof -
  from assms obtain f where f: "provider = Some f" "cd_state c \<in> set checked_states"
    by (auto simp: check_candidate_def mret_def split: option.splits if_splits)
  with assms obtain p1 where p1: "f c s0 p = (p1, Inr ctx)"
    and rest: "(let s' = snapshot (pl_features p1) (cd_pool_address c) at_time;
           res' = security_evaluate (pl_security p1) ctx at_time
       in mseq (mput (\<lambda>q. q\<lparr>pl_security_results := dict_set (pl_security_results q) cid (ctx, res')\<rparr>))
         (mseq (store (RecordSecurity ctx res'))
         (mbind (mlift (rbind (make_score_context s' ctx) score)) (\<lambda>sb.
          mseq (mput (\<lambda>q. q\<lparr>pl_scores := dict_set (pl_scores q) cid sb,
              pl_persisted_score_totals := dict_set (pl_persisted_score_totals q) cid (sb_total_score sb)\<rparr>))
         (mseq (store (RecordSignal c s' sb)) (mret (s', Some (ctx, res', sb)))))))) p1
       = (q, Inr (s, Some (ctx, res, sb)))"
    by (auto simp: check_candidate_def mbind_Inr mget_def mret_def Let_def)
  show "s = snapshot (pl_features q) (cd_pool_address c) at_time"
    "res = security_evaluate (pl_security q) ctx at_time" "rbind (make_score_context s ctx) score = Inr sb"
    using rest by (auto simp: mbind_Inr mput_def mlift_def mret_def Let_def dest!: store_frame)
qed


lemma decide_entry_guarded:
  assumes "cd_state c = ENTRY_PENDING"
    and "\<And>s ctx res sb. chk = (s, Some (ctx, res, sb)) \<Longrightarrow>
      s = snapshot (pl_features p) (cd_pool_address c) at_time \<and> res = security_evaluate (pl_security p) ctx at_time
      \<and> rbind (make_score_context s ctx) score = Inr sb"
  shows "decide_entry (Some h) at_time c chk p = decide_entry (Some (guarded at_time h)) at_time c chk p"
proof (cases chk)
  case (Pair s o1)
  show ?thesis
  proof (cases o1)
    case (Some t)
    obtain ctx res sb where t: "t = (ctx, res, sb)" by (cases t)
    note a = assms(2) [of s ctx res sb, unfolded Pair Some t, simplified]
    then show ?thesis using assms(1)
      by (auto simp: decide_entry_def mget_def Pair Some t mbind_def guarded_def entry_allowed_def)
  qed (simp add: decide_entry_def mget_def Pair)
qed

lemma mbind_cong_state:
  assumes "m s = m' s" and "\<And>t x. m s = (t, Inr x) \<Longrightarrow> f x t = f' x t"
  shows "mbind m f s = mbind m' f' s"
  using assms by (auto simp: mbind_def split: prod.splits sum.splits)

lemma evaluate_candidate_guarded:
  "evaluate_candidate provider (Some h) at_time item p
     = evaluate_candidate provider (Some (guarded at_time h)) at_time item p"
proof (cases item)
  case (Pair cid c)
  define s0 where "s0 = snapshot (pl_features p) (cd_pool_address c) at_time"
  have "decide_entry (Some h) at_time c chk q = decide_entry (Some (guarded at_time h)) at_time c chk q"
    if "check_candidate provider at_time cid c s0 p1 = (q, Inr chk)" "cd_state c = ENTRY_PENDING" for chk p1 q
    using that by (auto intro!: decide_entry_guarded check_candidate_result)
  then show ?thesis
    unfolding evaluate_candidate_def Pair prod.case mget_def Let_def s0_def [symmetric]
    by (auto intro!: mbind_cong_state)
qed

lemma evaluate_loop_guarded:
  "evaluate_loop provider (Some h) at_time items changed p
     = evaluate_loop provider (Some (guarded at_time h)) at_time items changed p"
proof (induction items arbitrary: changed p)
  case (Cons item items)
  show ?case unfolding evaluate_loop.simps
    by (rule mbind_cong_state [OF evaluate_candidate_guarded Cons.IH])
qed simp

text \<open>
  C3. A pass over the candidates consults the entry handler only for a candidate with a pending
  entry, while the entry gate is open, on the feature snapshot of that moment, with the score of
  that snapshot and of the security context, and when every entry rule holds, the hard rejections
  of the security engine included: replacing the handler by one that checks all this, and fails
  otherwise, changes nothing.
\<close>

theorem entry_only_when_allowed:
  "evaluate_candidates provider (Some h) at_time p = evaluate_candidates provider (Some (guarded at_time h)) at_time p"
  by (simp add: evaluate_candidates_def mget_def evaluate_loop_guarded [of _ h])

section \<open>Well-formed candidate dictionaries\<close>

definition candidates_wf :: "(string, candidate) dict \<Rightarrow> bool" where
  "candidates_wf d \<longleftrightarrow> dict_wf d \<and> (\<forall>(k, c) \<in> set d. cd_candidate_id c = k)"

lemma candidates_wf_get: "candidates_wf d \<Longrightarrow> dict_get d k = Some c \<Longrightarrow> cd_candidate_id c = k"
  by (auto simp: candidates_wf_def dest!: map_of_SomeD)

lemma candidates_wf_set [simp]: "candidates_wf d \<Longrightarrow> cd_candidate_id c = k \<Longrightarrow> candidates_wf (dict_set d k c)"
  by (auto simp: candidates_wf_def set_dict_set)

lemma candidates_wf_setdefault [simp]:
  "candidates_wf d \<Longrightarrow> cd_candidate_id c = k \<Longrightarrow> candidates_wf (dict_setdefault d k c)"
  by (simp add: dict_setdefault_def split: option.split)

lemma transition_id: "transition c st t r = Inr c' \<Longrightarrow> cd_candidate_id c' = cd_candidate_id c"
  by (auto simp: transition_def Let_def split: if_splits)

lemma transition_from_rejected: "cd_state c = REJECTED \<Longrightarrow> isl (transition c st t r)"
  by (simp add: transition_def)

lemma record_score_id [simp]: "cd_candidate_id (record_score sm c sb t) = cd_candidate_id c"
  by (simp add: record_score_def Let_def)

lemma remember_prices_id [simp]: "cd_candidate_id (remember_prices c s t) = cd_candidate_id c"
  by (simp add: remember_prices_def)

lemma candidate_evaluate_id:
  "candidate_evaluate sm c s sec sb route sold = Inr c' \<Longrightarrow> cd_candidate_id c' = cd_candidate_id c"
  unfolding candidate_evaluate_def Let_def
  by (auto split: if_splits candidate_state.splits option.splits dest!: transition_id)

section \<open>Rejected candidates\<close>

definition expired_rejection :: "datetime \<Rightarrow> state_machine \<Rightarrow> candidate \<Rightarrow> bool" where
  "expired_rejection t sm c \<longleftrightarrow> cd_state c = REJECTED \<and> seconds (sm_expiry_seconds sm) < t - cd_detected_at c"

text \<open>The pipeline has this candidate under this id, and this state machine.\<close>

definition holds_candidate :: "state_machine \<Rightarrow> string \<Rightarrow> candidate \<Rightarrow> 'z pipeline_scheme \<Rightarrow> bool" where
  "holds_candidate M cid c p \<longleftrightarrow> candidates_wf (pl_candidates p) \<and> dict_get (pl_candidates p) cid = Some c
     \<and> pl_state_machine p = M"

definition stuck :: "datetime \<Rightarrow> string \<Rightarrow> 'z pipeline_scheme \<Rightarrow> bool" where
  "stuck t cid p \<longleftrightarrow> (\<exists>M c. holds_candidate M cid c p \<and> expired_rejection t M c)"

lemma stuck_mono: "stuck t cid p \<Longrightarrow> t \<le> t' \<Longrightarrow> stuck t' cid p"
  by (force simp: stuck_def expired_rejection_def)

text \<open>
  A method that leaves alone the candidates, the state machine, and the attributes that are set by
  the constructor only.
\<close>

definition fixed :: "'z pipeline_scheme \<Rightarrow> database option \<times> app_config option \<times> string \<times> security_engine" where
  "fixed p = (pl_database p, pl_config p, pl_strategy_version p, pl_security p)"

definition skeleton :: "'z pipeline_scheme \<Rightarrow> (string, candidate) dict \<times> state_machine
    \<times> database option \<times> app_config option \<times> string \<times> security_engine" where
  "skeleton p = (pl_candidates p, pl_state_machine p, fixed p)"

definition frame :: "('z, 'a) pmethod \<Rightarrow> bool" where
  "frame m \<longleftrightarrow> (\<forall>S. keeps (\<lambda>p. skeleton p = S) m)"

lemma frameI: "(\<And>S. keeps (\<lambda>p. skeleton p = S) m) \<Longrightarrow> frame m"
  by (simp add: frame_def)

lemma frameD: "frame m \<Longrightarrow> keeps (\<lambda>p. skeleton p = S) m"
  unfolding frame_def by (rule spec)

lemma skeleton_updates [simp]:
  "skeleton (p\<lparr>pl_state_poisoned := b\<rparr>) = skeleton p"
  "skeleton (p\<lparr>pl_written := w\<rparr>) = skeleton p" "skeleton (p\<lparr>pl_features := f\<rparr>) = skeleton p"
  "skeleton (p\<lparr>pl_pools := u\<rparr>) = skeleton p" "skeleton (p\<lparr>pl_tokens := v\<rparr>) = skeleton p"
  "skeleton (p\<lparr>pl_deduplicator := d\<rparr>) = skeleton p" "skeleton (poison_state p) = skeleton p"
  "skeleton (p\<lparr>pl_security_results := r\<rparr>) = skeleton p" "skeleton (p\<lparr>pl_entry_gate := g\<rparr>) = skeleton p"
  "skeleton (p\<lparr>pl_scores := x, pl_persisted_score_totals := y\<rparr>) = skeleton p"
  by (simp_all add: skeleton_def fixed_def poison_state_def)

lemma frame_skeleton: "frame m \<Longrightarrow> (\<And>p q. skeleton p = skeleton q \<Longrightarrow> P p = P q) \<Longrightarrow> keeps P m"
  unfolding frame_def keeps_def by metis

lemma keeps_candidate_frame: "frame m \<Longrightarrow> keeps (holds_candidate M cid c) m"
  by (erule frame_skeleton) (simp add: skeleton_def holds_candidate_def)

lemma keeps_answers [keeps_intros]: "keeps P require_consistent_state" "keeps P (durable_answer e b d)"
  by (simp_all add: keeps_def require_consistent_state_def durable_answer_def)

lemma frame_components: "frame (apply_pools e)" "frame (apply_tokens e)" "frame (dedup_event i)" "frame (store call)"
  by (auto simp: frame_def keeps_def apply_pools_def apply_tokens_def dedup_event_def store_def
      split: option.splits sum.splits prod.splits)

definition observer_frame :: "'z observer option \<Rightarrow> bool" where
  "observer_frame obs \<longleftrightarrow> (\<forall>f e. obs = Some f \<longrightarrow> frame (f e))"

lemma observer_frame_None [simp]: "observer_frame None"
  by (simp add: observer_frame_def)

lemma frame_observe: "observer_frame obs \<Longrightarrow> frame (observe_event obs b e)"
  unfolding observe_event_def by (intro frameI keeps_intros) (simp_all add: observer_frame_def frameD)

lemma frame_ingest: "frame (ingest_pool_features e s)"
  unfolding ingest_pool_features_def by (intro frameI keeps_intros) simp_all

text \<open>The observer changes nothing of the event but its payload.\<close>

lemma observe_event_same:
  "observe_event obs b e p = (q, Inr e') \<Longrightarrow> \<exists>w. e' = e\<lparr>ev_payload := w\<rparr>"
  by (auto simp: observe_event_def mret_def mbind_Inr intro: exI [of _ "ev_payload e"] split: option.splits if_splits)

section \<open>Passes with a stuck candidate\<close>

lemma snapshot_time [simp]: "fs_snapshot_time (snapshot g pool t) = t"
  by (simp add: snapshot_def snapshot_of_def Let_def)

lemma evaluate_expired_rejection:
  "expired_rejection t sm c \<Longrightarrow> fs_snapshot_time s = t \<Longrightarrow> isl (candidate_evaluate sm c s None None False False)"
  by (auto simp: expired_rejection_def candidate_evaluate_def Let_def never_expires_def transition_from_rejected)

definition provider_frame :: "'z security_provider option \<Rightarrow> bool" where
  "provider_frame provider \<longleftrightarrow> (\<forall>f c s. provider = Some f \<longrightarrow> frame (f c s))"

definition handler_frame :: "'z entry_handler option \<Rightarrow> bool" where
  "handler_frame handler \<longleftrightarrow> (\<forall>h c s sb ctx. handler = Some h \<longrightarrow> frame (h c s sb ctx))"

lemma frame_check: "provider_frame provider \<Longrightarrow> frame (check_candidate provider t cid c s)"
  unfolding check_candidate_def by (intro frameI keeps_intros) (simp_all add: frameD provider_frame_def)

lemma frame_decide: "handler_frame handler \<Longrightarrow> frame (decide_entry handler t c chk)"
  unfolding decide_entry_def by (intro frameI keeps_intros) (simp_all add: frameD handler_frame_def)

lemma frame_evaluate_state: "frame (evaluate_state c chk)"
  unfolding evaluate_state_def by (intro frameI keeps_intros)

lemma decide_entry_id:
  "decide_entry handler t c chk p = (q, Inr c') \<Longrightarrow> cd_candidate_id c' = cd_candidate_id c"
  by (auto simp: decide_entry_def mget_def mlift_def mret_def mbind_Inr split: if_splits option.splits prod.splits dest: transition_id)

lemma evaluate_state_id:
  "evaluate_state c chk p = (q, Inr c') \<Longrightarrow> cd_candidate_id c' = cd_candidate_id c"
  by (auto simp: evaluate_state_def mget_def mlift_def split: option.splits prod.splits dest: candidate_evaluate_id)


lemma frame_snapshot: "frame (mwhen b (store call))"
  by (intro frameI keeps_intros) simp_all

lemma keeps_save:
  "k \<noteq> cid \<Longrightarrow> cd_candidate_id c' = k \<Longrightarrow> keeps (holds_candidate M cid c) (save_candidate k c')"
  unfolding save_candidate_def by (intro keeps_intros) (simp_all add: holds_candidate_def)

lemma keeps_evaluate_other:
  assumes "provider_frame provider" and "handler_frame handler" and "k \<noteq> cid" and "cd_candidate_id c' = k"
  shows "keeps (holds_candidate M cid c) (evaluate_candidate provider handler at_time (k, c'))"
proof -
  have "keeps (holds_candidate M cid c)
      (mbind (if cd_state c' = ENTRY_PENDING then decide_entry handler at_time c' chk else evaluate_state c' chk)
        (\<lambda>c''. mseq (save_candidate k c'') (mret (if cd_state c'' \<noteq> cd_state c' then Some c'' else None))))"
    (is "?rest chk") for chk
    using assms(3,4)
    by (intro keeps_bind_result keeps_bind keeps_save keeps_intros)
      (auto simp: keeps_candidate_frame frame_decide assms(2) frame_evaluate_state
        dest: decide_entry_id evaluate_state_id split: if_splits)
  then have rest: "\<And>chk. ?rest chk" .
  show ?thesis
    unfolding evaluate_candidate_def prod.case
    by (intro keeps_get keeps_Let keeps_bind [OF keeps_candidate_frame [OF frame_snapshot]]
        keeps_bind [OF keeps_candidate_frame [OF frame_check [OF assms(1)]]] rest)
qed

lemma evaluate_stuck_raises:
  assumes "expired_rejection t (pl_state_machine p) c"
  shows "\<exists>w e. evaluate_candidate provider handler t (cid, c) p = (p\<lparr>pl_written := w\<rparr>, Inl e)"
proof -
  have st: "cd_state c = REJECTED" using assms by (simp add: expired_rejection_def)
  then have chk: "check_candidate provider t cid c s q = (q, Inr (s, None))" for s q
    by (auto simp: check_candidate_def checked_states_def mret_def split: option.split)
  define snap where "snap = snapshot (pl_features p) (cd_pool_address c) t"
  obtain q r where qr: "mwhen (\<not> Option.is_none (pool_of p (cd_pool_address c))) (store (RecordSnapshot snap)) p = (q, r)"
    by fastforce
  then have "\<exists>w. q = p\<lparr>pl_written := w\<rparr>"
    by (auto simp: mwhen_def mret_def written_self split: if_splits dest!: store_frame)
  then obtain w where q: "q = p\<lparr>pl_written := w\<rparr>" ..
  then have "isl (candidate_evaluate (pl_state_machine q) c snap None None False False)"
    using evaluate_expired_rejection [OF assms] by (simp add: snap_def)
  then show ?thesis
    using qr st q by (cases r) (auto simp: evaluate_candidate_def mget_def snap_def [symmetric] mbind_def chk
        evaluate_state_def mlift_def isl_def)
qed

lemma evaluate_loop_stuck:
  assumes frames: "provider_frame provider" "handler_frame handler" and exp: "expired_rejection t M c"
  shows "distinct (map fst items) \<Longrightarrow> \<forall>(k, c) \<in> set items. cd_candidate_id c = k \<Longrightarrow> (cid, c) \<in> set items
    \<Longrightarrow> holds_candidate M cid c p \<Longrightarrow>
    isl (snd (evaluate_loop provider handler t items changed p))
    \<and> holds_candidate M cid c (fst (evaluate_loop provider handler t items changed p))"
proof (induction items arbitrary: changed p)
  case (Cons item items)
  obtain k c' where item: "item = (k, c')" by (cases item)
  obtain q r where qr: "evaluate_candidate provider handler t item p = (q, r)" by fastforce
  show ?case
  proof (cases "k = cid")
    case True
    with Cons.prems item have "c' = c" by (auto simp: image_iff)
    with True item Cons.prems(4) evaluate_stuck_raises [of t p c provider handler cid] exp
    obtain w e where "evaluate_candidate provider handler t item p = (p\<lparr>pl_written := w\<rparr>, Inl e)"
      by (auto simp: holds_candidate_def)
    with Cons.prems(4) show ?thesis by (simp add: mbind_def holds_candidate_def)
  next
    case False
    with Cons.prems item have other: "cd_candidate_id c' = k" "(cid, c) \<in> set items" by auto
    from keepsD [OF keeps_evaluate_other [OF frames False other(1)] Cons.prems(4)] qr item
    have q: "holds_candidate M cid c q" by (metis fst_conv)
    show ?thesis
    proof (cases r)
      case (Inr x)
      then show ?thesis using Cons.prems Cons.IH [OF _ _ other(2) q] qr by (simp add: mbind_def)
    qed (use q qr in \<open>simp add: mbind_def\<close>)
  qed
qed simp


section \<open>Events keep a stuck candidate\<close>

lemma keeps_stuck_frame: "frame m \<Longrightarrow> keeps (stuck t cid) m"
  by (erule frame_skeleton) (simp add: skeleton_def stuck_def holds_candidate_def)

lemma stuck_updates [simp]:
  "stuck t cid (p\<lparr>pl_written := w\<rparr>) = stuck t cid p" "stuck t cid (p\<lparr>pl_features := f\<rparr>) = stuck t cid p"
  "stuck t cid (p\<lparr>pl_deduplicator := d\<rparr>) = stuck t cid p" "stuck t cid (poison_state p) = stuck t cid p"
  "stuck t cid (p\<lparr>pl_entry_gate := g\<rparr>) = stuck t cid p" "stuck t cid (rolled_back p0 p) = stuck t cid p"
  by (simp_all add: stuck_def holds_candidate_def poison_state_def rolled_back_def)

lemma stuck_touch: "stuck t cid p \<Longrightarrow> stuck t cid (touch_candidate e p)"
proof (unfold touch_candidate_def, split option.split, intro conjI impI allI)
  let ?k = "candidate_id (the (ev_mint e)) (the (ev_pool_address e)) (pl_strategy_version p)"
  fix c assume st: "stuck t cid p" and c: "dict_get (pl_candidates p) ?k = Some c"
  then obtain M c0 where c0: "holds_candidate M cid c0 p" "expired_rejection t M c0" by (auto simp: stuck_def)
  with c have id: "cd_candidate_id c = ?k" by (auto simp: holds_candidate_def dest: candidates_wf_get)
  with c0 c show "stuck t cid (p\<lparr>pl_candidates := dict_set (pl_candidates p) (cd_candidate_id c) (c\<lparr>cd_updated_at := ev_observed_at e\<rparr>)\<rparr>)"
    unfolding stuck_def by (cases "cid = ?k") (auto simp: holds_candidate_def expired_rejection_def)
qed

lemma stuck_discover:
  "stuck t cid p \<Longrightarrow> cd_candidate_id c = k \<Longrightarrow> stuck t cid (p\<lparr>pl_candidates := dict_setdefault (pl_candidates p) k c\<rparr>)"
  by (auto simp: stuck_def holds_candidate_def dict_get_setdefault split: option.split)

lemma stuck_apply_event: "observer_frame obs \<Longrightarrow> keeps (stuck t cid) (apply_event obs e a b ok)"
  unfolding apply_event_def apply_rest_def apply_observed_def discover_candidate_def
  by (intro keeps_intros)
    (auto simp: keeps_stuck_frame frame_components frame_observe frame_ingest stuck_touch intro!: stuck_discover)

lemma keeps_transaction:
  assumes "keeps P body" and "\<And>p q. P q \<Longrightarrow> P (rolled_back p q)"
  shows "keeps P (in_transaction db body)"
  using assms by (fastforce simp: keeps_def in_transaction_def split: prod.splits sum.splits)

lemma stuck_event_failure: "keeps (stuck t cid) (event_failure d r i err)"
  by (auto simp: keeps_def event_failure_def mark_failed_def split: prod.splits sum.splits
      dest!: store_frame)

lemma stuck_persist: "observer_frame obs \<Longrightarrow> keeps (stuck t cid) (persist_claimed_event_state obs e raw reason)"
  unfolding persist_claimed_event_state_def
  by (intro keeps_intros) (auto simp: stuck_apply_event)

lemma stuck_process_event: "observer_frame obs \<Longrightarrow> keeps (stuck t cid) (process_event obs e r d b df raw)"
  unfolding process_event_def event_state_change_def
  by (intro keeps_intros keeps_transaction stuck_event_failure)
    (auto simp: keeps_stuck_frame frame_components stuck_apply_event stuck_persist)

section \<open>No pass succeeds after a rejection has aged\<close>

lemma evaluate_rejected_same:
  assumes "cd_state c = REJECTED" and "candidate_evaluate sm c s None None False False = Inr c'"
  shows "c' = c"
  using assms(2) by (auto simp: candidate_evaluate_def Let_def assms(1) transition_def split: if_splits)

lemma keeps_evaluate_rejected:
  assumes "cd_state c = REJECTED" and "cd_candidate_id c = cid"
  shows "keeps (holds_candidate M cid c) (evaluate_candidate provider handler at_time (cid, c))"
proof -
  have chk: "check_candidate provider at_time cid c s = mret (s, None)" for s
    using assms(1) by (auto simp: check_candidate_def checked_states_def split: option.split)
  have save: "keeps (holds_candidate M cid c) (save_candidate cid c)"
    unfolding save_candidate_def using assms(2) by (intro keeps_intros) (simp_all add: holds_candidate_def)
  have "keeps (holds_candidate M cid c)
      (mbind (evaluate_state c (s, None)) (\<lambda>c'. mseq (save_candidate cid c') (mret (f c'))))"
    for s and f :: "candidate \<Rightarrow> candidate option"
  proof (rule keeps_bind_result [OF keeps_candidate_frame [OF frame_evaluate_state]])
    fix c' p q assume "evaluate_state c (s, None) p = (q, Inr c')"
    then have "c' = c" using evaluate_rejected_same [OF assms(1)] by (auto simp: evaluate_state_def mget_def mlift_def)
    with save show "keeps (holds_candidate M cid c) (mseq (save_candidate cid c') (mret (f c')))"
      by (auto intro!: keeps_intros)
  qed
  then show ?thesis
    unfolding evaluate_candidate_def prod.case chk mbind_ret using assms(1)
    by (intro keeps_get keeps_Let keeps_bind [OF keeps_candidate_frame [OF frame_snapshot]]) simp
qed

lemma keeps_pass_items:
  assumes "provider_frame provider" and "handler_frame handler" and "cd_state c = REJECTED"
  shows "\<forall>(k, c') \<in> set items. cd_candidate_id c' = k \<and> (k = cid \<longrightarrow> c' = c)
    \<Longrightarrow> keeps (holds_candidate M cid c) (evaluate_loop provider handler at_time items changed)"
proof (induction items arbitrary: changed)
  case (Cons item items)
  obtain k c' where item: "item = (k, c')" by (cases item)
  have "keeps (holds_candidate M cid c) (evaluate_candidate provider handler at_time (k, c'))"
    using Cons.prems item keeps_evaluate_other [OF assms(1,2)] keeps_evaluate_rejected [OF assms(3), of cid M provider handler at_time]
    by (cases "k = cid") auto
  with Cons item show ?case by (auto intro!: keeps_bind)
qed (simp add: keeps_basic)

lemma stuck_pass:
  assumes "provider_frame provider" and "handler_frame handler" and "stuck t cid p"
  shows "stuck t cid (fst (evaluate_candidates provider handler at_time p))"
proof -
  from assms(3) obtain M c where c: "holds_candidate M cid c p" "expired_rejection t M c" by (auto simp: stuck_def)
  then have "\<forall>(k, c') \<in> set (pl_candidates p). cd_candidate_id c' = k \<and> (k = cid \<longrightarrow> c' = c)"
    by (auto simp: holds_candidate_def candidates_wf_def dict_wf_def)
  from keepsD [OF keeps_pass_items [OF assms(1,2) _ this] c(1)] c(2) show ?thesis
    by (auto simp: stuck_def evaluate_candidates_def mget_def expired_rejection_def)
qed

lemma stuck_command: "stuck t cid p \<Longrightarrow> stuck t cid (fst (transition_candidate k target at_time p))"
proof -
  assume st: "stuck t cid p"
  then obtain M c where c: "holds_candidate M cid c p" "expired_rejection t M c" by (auto simp: stuck_def)
  have "holds_candidate M cid c (fst (transition_candidate k target at_time p))"
  proof (cases "dict_get (pl_candidates p) k")
    case None
    then show ?thesis using c by (simp add: transition_candidate_def mget_def mret_def)
  next
    case (Some c1)
    show ?thesis
    proof (cases "transition c1 target at_time None")
      case (Inl e)
      then show ?thesis using c Some by (simp add: transition_candidate_def mget_def mlift_def mbind_def)
    next
      case (Inr c2)
      from Some c(1) have id: "cd_candidate_id c2 = k"
        using transition_id [OF Inr] by (auto simp: holds_candidate_def dest: candidates_wf_get)
      moreover have "k \<noteq> cid"
        using c Some Inr transition_from_rejected [of c target at_time None] by (auto simp: holds_candidate_def expired_rejection_def)
      ultimately have "keeps (holds_candidate M cid c) (mseq (save_candidate k c2) (mret (Some c2)))"
        by (intro keeps_intros keeps_save)
      from keepsD [OF this c(1)] show ?thesis
        by (simp add: transition_candidate_def mget_def Some Inr mlift_Inr)
    qed
  qed
  with c(2) show ?thesis by (auto simp: stuck_def)
qed

text \<open>Anything the program does between two passes: an event, a pass, a commanded transition.\<close>

inductive pipeline_step :: "'z security_provider option \<Rightarrow> 'z entry_handler option \<Rightarrow> 'z pipeline_scheme \<Rightarrow> 'z pipeline_scheme \<Rightarrow> bool"
  for provider handler where
  an_event: "observer_frame obs \<Longrightarrow> process_event obs e r d b df raw p = (q, ans) \<Longrightarrow> pipeline_step provider handler p q"
| a_pass: "evaluate_candidates provider handler at_time p = (q, ans') \<Longrightarrow> pipeline_step provider handler p q"
| a_command: "transition_candidate k target at_time p = (q, ans'') \<Longrightarrow> pipeline_step provider handler p q"

lemma stuck_step:
  assumes "pipeline_step provider handler p q" and "provider_frame provider" and "handler_frame handler" and "stuck t cid p"
  shows "stuck t cid q"
  using assms
  by cases (metis fst_conv stuck_process_event keepsD, metis fst_conv stuck_pass, metis fst_conv stuck_command)

lemma stuck_steps:
  assumes "(pipeline_step provider handler)\<^sup>*\<^sup>* p q" and "provider_frame provider" and "handler_frame handler"
    and "stuck t cid p"
  shows "stuck t cid q"
  using assms(1,4) by induction (auto dest: stuck_step [OF _ assms(2,3)])

lemma stuck_pass_raises:
  assumes "provider_frame provider" and "handler_frame handler" and "stuck t cid p"
  shows "isl (snd (evaluate_candidates provider handler t p))"
proof -
  from assms(3) obtain M c where c: "holds_candidate M cid c p" "expired_rejection t M c" by (auto simp: stuck_def)
  then have "(cid, c) \<in> set (pl_candidates p)" "distinct (map fst (pl_candidates p))"
    "\<forall>(k, c) \<in> set (pl_candidates p). cd_candidate_id c = k"
    by (auto simp: holds_candidate_def candidates_wf_def dict_wf_def dest: map_of_SomeD)
  with evaluate_loop_stuck [OF assms(1,2) c(2)] c(1) show ?thesis
    by (simp add: evaluate_candidates_def mget_def)
qed

definition demo_rejected :: candidate where
  "demo_rejected = \<lparr>cd_candidate_id = ''x'', cd_mint = ''m'', cd_pool_address = ''p'', cd_state = REJECTED, cd_detected_at = 0,
     cd_updated_at = 0, cd_eligible_at = None, cd_armed_at = None, cd_expired_at = None, cd_rejected_at = Some 0,
     cd_reject_reason = Some DEV_SOLD, cd_strategy_version = ''v'', cd_config_hash = ''h'', cd_score_confirmations = [],
     cd_entry_signal_emitted = False, cd_previous_price = None, cd_previous_vwap = None, cd_pullback_local_high = None\<rparr>"

definition demo_pipeline :: pipeline where
  "demo_pipeline = restore_candidates [demo_rejected]
     (pipeline_init ''v'' ''h'' entry_gate_init None (\<lambda>_. Inr ()) (\<lambda>_. Inr ()) False None)"

lemma demo_stuck: "stuck (seconds 181) ''x'' demo_pipeline"
  unfolding stuck_def
  by (intro exI [of _ "state_machine_of None"] exI [of _ demo_rejected])
    (simp add: holds_candidate_def expired_rejection_def demo_pipeline_def restore_candidates_def pipeline_init_def
      candidates_wf_def dict_wf_def demo_rejected_def state_machine_of_def cfg_def seconds_def usec_def)

text \<open>
  Once a rejected candidate is older than the expiry, no pass over the candidates succeeds any
  more: whatever events, passes and commanded transitions happen in between, every later pass
  raises, provided the observer, the security provider and the entry handler leave the candidates,
  the state machine and the constructor's attributes alone.
\<close>

theorem aged_rejection_stops_passes:
  assumes "provider_frame provider" and "handler_frame handler" and "stuck t cid p"
    and "(pipeline_step provider handler)\<^sup>*\<^sup>* p q" and "t \<le> t'"
  shows "isl (snd (evaluate_candidates provider handler t' q))"
  using stuck_pass_raises [OF assms(1,2) stuck_mono [OF stuck_steps [OF assms(4,1,2,3)] assms(5)]] .

theorem aged_rejection_stops_passes_witness:
  "isl (snd (evaluate_candidates None None (seconds 200) demo_pipeline))"
  using aged_rejection_stops_passes [OF _ _ demo_stuck, of None None demo_pipeline "seconds 200"]
  by (simp add: provider_frame_def handler_frame_def seconds_def usec_def)


section \<open>Outcomes of an event\<close>

definition memory :: "'z pipeline_scheme \<Rightarrow> token_registry \<times> pool_tracker \<times> feature_engine \<times> (string, candidate) dict" where
  "memory p = (pl_tokens p, pl_pools p, pl_features p, pl_candidates p)"

lemma memory_updates [simp]:
  "memory (p\<lparr>pl_written := w\<rparr>) = memory p" "memory (p\<lparr>pl_deduplicator := d\<rparr>) = memory p"
  "memory (poison_state p) = memory p"
  by (simp_all add: memory_def poison_state_def)

lemma poison_closed [simp]: "pl_state_poisoned (poison_state p)" "\<not> gate_enabled (pl_entry_gate (poison_state p))"
  by (simp_all add: poison_state_def)

lemma written_poison [simp]: "pl_written (poison_state p) = pl_written p"
  by (simp add: poison_state_def)

lemma store_written: "store call p = (q, r) \<Longrightarrow>
    (q = p \<or> q = p\<lparr>pl_written := pl_written p @ [call]\<rparr>) \<and> (r = Inr () \<and> pl_database p \<noteq> None \<longrightarrow> pl_written q = pl_written p @ [call])"
  by (auto simp: store_def split: option.splits sum.splits)

lemma event_failure_outcome:
  assumes "event_failure False rebuild i err p = (q, r)"
  shows "isl r" and "memory q = memory p" and "rebuild \<Longrightarrow> pl_state_poisoned q \<and> \<not> gate_enabled (pl_entry_gate q)"
    and "pl_written q \<in> {pl_written p, pl_written p @ [MarkEventsFailed [i]]}"
  using assms
  by (auto simp: event_failure_def mark_failed_def split: prod.splits sum.splits if_splits dest!: store_written)

lemma fixed_components [keeps_intros]:
  "keeps (\<lambda>p. fixed p = F) (store call)" "keeps (\<lambda>p. fixed p = F) (apply_pools e)" "keeps (\<lambda>p. fixed p = F) (apply_tokens e)"
  by (auto simp: keeps_def fixed_def store_def apply_pools_def apply_tokens_def split: option.splits sum.splits prod.splits)

lemma fixed_updates [simp]:
  "fixed (p\<lparr>pl_features := f\<rparr>) = fixed p" "fixed (p\<lparr>pl_candidates := c\<rparr>) = fixed p" "fixed (touch_candidate e p) = fixed p"
  by (simp_all add: fixed_def touch_candidate_def split: option.split)

lemma fixed_parts [keeps_intros]:
  "keeps (\<lambda>p. fixed p = F) (discover_candidate b e)"
  "keeps (\<lambda>p. fixed p = F) (ingest_pool_features e s)"
  unfolding discover_candidate_def ingest_pool_features_def
  by (intro keeps_intros; simp only: fixed_updates)+

lemma fixed_observe: "observer_frame obs \<Longrightarrow> keeps (\<lambda>p. fixed p = F) (observe_event obs b e)"
  by (erule frame_skeleton [OF frame_observe]) (simp add: skeleton_def)

lemma fixed_apply_event [keeps_intros]: "observer_frame obs \<Longrightarrow> keeps (\<lambda>p. fixed p = F) (apply_event obs e a b ok)"
  unfolding apply_event_def apply_rest_def apply_observed_def by (intro keeps_intros fixed_observe) (simp_all only: fixed_updates)

lemma persist_written:
  assumes "observer_frame obs" and "persist_claimed_event_state obs e raw reason p = (q, Inr ())"
  shows "\<exists>w. pl_written q = w @ [MarkEventProcessed (ev_event_id e)]"
proof -
  let ?F = "\<lambda>s. fixed s = fixed p"
  from assms(2) obtain s1 s2 where s: "mwhen raw (store (UpdateRawEventContext e)) p = (s1, Inr ())"
    "mwhen (reason = None) (apply_event obs e True True (tradable e)) s1 = (s2, Inr ())"
    "store (MarkEventProcessed (ev_event_id e)) s2 = (q, Inr ())" and db: "pl_database p \<noteq> None"
    unfolding persist_claimed_event_state_def mget_def
    by (cases "pl_database p") (auto simp: mbind_Inr mraise_def)
  have k: "keeps ?F (mwhen raw (store (UpdateRawEventContext e)))" "keeps ?F (mwhen (reason = None) (apply_event obs e True True (tradable e)))"
    using assms(1) by (intro keeps_intros; assumption)+
  have "fixed s1 = fixed p" using keepsD [OF k(1), of p] s(1) by simp
  then have "fixed s2 = fixed p" using keepsD [OF k(2), of s1] s(2) by simp
  then have "pl_database s2 = pl_database p" by (simp add: fixed_def)
  with db store_written [OF s(3)] show ?thesis by simp
qed

lemma state_change_outcome:
  assumes "observer_frame obs" and "pl_database p = Some db" and "event_state_change obs e raw reason False False p = (q, r)"
  shows "case r of Inr _ \<Rightarrow> \<exists>w. pl_written q = w @ [MarkEventProcessed (ev_event_id e)]
    | Inl _ \<Rightarrow> (pl_state_poisoned q \<and> \<not> gate_enabled (pl_entry_gate q) \<or> memory q = memory p)
        \<and> pl_written q \<in> {pl_written p, pl_written p @ [MarkEventsFailed [ev_event_id e]]}"
proof -
  obtain p1 r1 where t: "in_transaction db (persist_claimed_event_state obs e raw reason) p = (p1, r1)" by fastforce
  show ?thesis
  proof (cases r1)
    case (Inr u)
    then obtain w where "pl_written p1 = w @ [MarkEventProcessed (ev_event_id e)]"
      using t by (auto simp: in_transaction_def split: sum.splits prod.splits dest: persist_written [OF assms(1)])
    then show ?thesis using assms t Inr by (auto simp: event_state_change_def mget_def mcatch_def)
  next
    case (Inl err)
    then have f: "event_failure False (\<not> isl (db_begin db)) (ev_event_id e) err p1 = (q, r)"
      using assms t by (auto simp: event_state_change_def mget_def mcatch_def)
    have w: "pl_written p1 = pl_written p" "isl (db_begin db) \<Longrightarrow> memory p1 = memory p"
      using t Inl by (auto simp: in_transaction_def rolled_back_def split: sum.splits prod.splits)
    from event_failure_outcome [OF f] w show ?thesis by (cases r) auto
  qed
qed

lemma known_mint_same [simp]:
  "ev_event_id (with_known_pool_mint p e) = ev_event_id e" "ev_source (with_known_pool_mint p e) = ev_source e"
  "ev_event_type (with_known_pool_mint p e) = ev_event_type e"
  by (simp_all add: with_known_pool_mint_def split: option.split)

lemma process_poisoned: "pl_state_poisoned q \<Longrightarrow> process_event obs e recovering claim b d raw q
    = (q, Inl (RuntimeError ''pipeline state is inconsistent; restart required''))"
  by (simp add: process_event_def require_consistent_state_def mbind_def)

text \<open>The part of \<open>process_event\<close> after the deduplicator.\<close>

lemma accepted_outcome:
  assumes "observer_frame obs" and "pl_database p = Some db" and "i = ev_event_id e"
    and "mseq (mwhen c (mcatch (mlift ans) (event_failure False False i)))
      (mseq (event_state_change obs e ctx reason False False) (mret True)) p = (q, r)"
  shows "case r of Inr b \<Rightarrow> b \<and> (\<exists>w. pl_written q = w @ [MarkEventProcessed i])
    | Inl _ \<Rightarrow> (pl_state_poisoned q \<and> \<not> gate_enabled (pl_entry_gate q) \<or> memory q = memory p)
        \<and> pl_written q \<in> {pl_written p, pl_written p @ [MarkEventsFailed [i]]}"
proof -
  obtain p1 r1 where p1: "mwhen c (mcatch (mlift ans) (event_failure False False i)) p = (p1, r1)" by fastforce
  show ?thesis
  proof (cases r1)
    case (Inl err)
    with p1 obtain err' where "event_failure False False i err' p = (p1, r1)"
      by (auto simp: mwhen_def mcatch_def mlift_def mret_def split: if_splits sum.splits)
    from event_failure_outcome [OF this] Inl p1 assms(4) show ?thesis by (auto simp: mbind_def)
  next
    case (Inr u)
    with p1 have "p1 = p"
      by (auto simp: mwhen_def mcatch_def mlift_def mret_def split: if_splits sum.splits dest!: event_failure_outcome(1))
    obtain q1 r2 where q1: "event_state_change obs e ctx reason False False p = (q1, r2)" by fastforce
    from state_change_outcome [OF assms(1,2) q1] q1 Inr \<open>p1 = p\<close> p1 assms(3,4) show ?thesis
      by (auto simp: mbind_def mret_def split: sum.splits)
  qed
qed



definition demo_db :: database where
  "demo_db = \<lparr>db_record_event = (\<lambda>e b. Inr True), db_record_events = (\<lambda>es. Inr (map (\<lambda>_. True) es)), db_write = (\<lambda>_. Inr ()),
     db_begin = Inr (), db_commit = Inr ()\<rparr>"

definition demo_durable :: pipeline where
  "demo_durable = pipeline_init ''v'' ''h'' entry_gate_init (Some demo_db) (\<lambda>_. Inr ()) (\<lambda>_. Inr ()) False None"

definition demo_event :: "chain_event_type \<Rightarrow> event_envelope" where
  "demo_event ty = \<lparr>ev_event_id = ''e'', ev_ingest_sequence = Some 1, ev_source = HELIUS_WSS, ev_network = ''solana-mainnet'',
     ev_protocol = PUMP, ev_event_type = ty, ev_slot = 1, ev_signature = ''s'', ev_instruction_index = 0,
     ev_inner_instruction_index = - 1, ev_block_time = 0, ev_observed_at = 0, ev_commitment = ''confirmed'',
     ev_mint = Some ''m'', ev_pool_address = None, ev_payload = []\<rparr>"

abbreviation demo_run :: "pipeline \<times> bool result" where
  "demo_run \<equiv> process_event None (demo_event BONDING_CURVE_COMPLETED) False None False False False demo_durable"

lemma demo_run_ok: "snd demo_run = Inr True"
  by (simp add: process_event_def demo_event_def demo_durable_def pipeline_init_def method_defs require_consistent_state_def
      with_known_pool_mint_def durable_answer_def demo_db_def dedup_event_def dedup_accept_def default_deduplicator_def
      event_state_filter_reason_def is_swap_def event_state_change_def in_transaction_def persist_claimed_event_state_def
      apply_event_def apply_rest_def apply_observed_def apply_pools_def tracker_apply_def effective_event_def observe_event_def
      apply_tokens_def registry_apply_def store_def is_pool_creation_def Let_def)

lemma demo_facts [simp]: "pl_database demo_durable = Some demo_db" "ev_event_id (demo_event ty) = ''e''"
  "pl_candidates demo_durable = []" "ev_event_type (demo_event ty) = ty"
  by (simp_all add: demo_durable_def pipeline_init_def demo_event_def)


section \<open>Where candidates come from\<close>

definition same_ids :: "string set \<Rightarrow> 'z pipeline_scheme \<Rightarrow> bool" where
  "same_ids K p \<longleftrightarrow> dom (dict_get (pl_candidates p)) = K \<and> candidates_wf (pl_candidates p)"

lemma same_ids_frame: "frame m \<Longrightarrow> keeps (same_ids K) m"
  by (erule frame_skeleton) (simp add: skeleton_def same_ids_def)

lemma same_ids_updates [simp]:
  "same_ids K (p\<lparr>pl_features := f\<rparr>) = same_ids K p" "same_ids K (rolled_back p0 p) = same_ids K p"
  "same_ids K (p\<lparr>pl_written := w\<rparr>) = same_ids K p"
  by (simp_all add: same_ids_def rolled_back_def)

lemma same_ids_touch: "same_ids K p \<Longrightarrow> same_ids K (touch_candidate e p)"
proof (unfold touch_candidate_def, split option.split, intro conjI impI allI)
  fix c assume p: "same_ids K p"
    and c: "dict_get (pl_candidates p) (candidate_id (the (ev_mint e)) (the (ev_pool_address e)) (pl_strategy_version p)) = Some c"
  then have "cd_candidate_id c = candidate_id (the (ev_mint e)) (the (ev_pool_address e)) (pl_strategy_version p)"
    by (auto simp: same_ids_def dest: candidates_wf_get)
  with p c show "same_ids K (p\<lparr>pl_candidates := dict_set (pl_candidates p) (cd_candidate_id c) (c\<lparr>cd_updated_at := ev_observed_at e\<rparr>)\<rparr>)"
    by (auto simp: same_ids_def split: if_splits)
qed

lemma effective_same [simp]:
  "ev_source (effective_event e r) = ev_source e" "ev_event_type (effective_event e r) = ev_event_type e"
  "ev_pool_address (effective_event e r) = ev_pool_address e"
  by (simp_all add: effective_event_def split: option.split)

lemma same_ids_observed:
  "\<not> ok \<or> ev_event_type e \<noteq> POOL_CREATED \<Longrightarrow> keeps (same_ids K) (apply_observed a ok s pool e)"
  unfolding apply_observed_def
  by (intro keeps_intros) (auto simp: same_ids_frame frame_components frame_ingest same_ids_touch is_pool_creation_def)

lemma same_ids_apply:
  assumes "observer_frame obs" and "\<not> ok \<or> ev_event_type e \<noteq> POOL_CREATED"
  shows "keeps (same_ids K) (apply_event obs e a b ok)"
  unfolding apply_event_def apply_rest_def
  by (intro keeps_bind keeps_get keeps_Let same_ids_frame [OF frame_components(1)]
      keeps_bind_result [OF same_ids_frame [OF frame_observe [OF assms(1)]]] same_ids_observed)
    (use assms(2) in \<open>auto dest!: observe_event_same\<close>)

lemma frame_event_failure: "frame (event_failure d r i err)"
  by (auto simp: frame_def keeps_def event_failure_def mark_failed_def split: prod.splits sum.splits
      dest!: store_frame)

lemma same_ids_persist:
  assumes "observer_frame obs" and "\<not> tradable e \<or> ev_event_type e \<noteq> POOL_CREATED"
  shows "keeps (same_ids K) (persist_claimed_event_state obs e raw reason)"
  unfolding persist_claimed_event_state_def
  by (intro keeps_intros same_ids_apply assms) simp_all

lemma same_ids_process:
  assumes "observer_frame obs" and "\<not> tradable e \<or> ev_event_type e \<noteq> POOL_CREATED"
  shows "keeps (same_ids K) (process_event obs e r d b df raw)"
  unfolding process_event_def event_state_change_def
  by (intro keeps_intros keeps_transaction same_ids_frame [OF frame_event_failure])
    (use assms in \<open>auto simp: same_ids_frame frame_components tradable_def intro!: same_ids_persist same_ids_apply\<close>)

text \<open>
  C17. Only a pool creation seen on a live stream makes a new candidate: an event from the baseline or
  recovery sources, and an event of any other type, leaves the set of candidate ids as it was,
  whether it is processed, filtered, refused or fails, provided the observer leaves the candidates
  alone.
\<close>

theorem candidates_only_from_live_pools:
  assumes "observer_frame obs" and "ev_source e \<in> set NON_TRADABLE_EVENT_SOURCES \<or> ev_event_type e \<noteq> POOL_CREATED"
    and "candidates_wf (pl_candidates p)" and "process_event obs e recovering claim b d raw p = (q, r)"
  shows "dom (dict_get (pl_candidates q)) = dom (dict_get (pl_candidates p)) \<and> candidates_wf (pl_candidates q)"
  using keepsD [OF same_ids_process [OF assms(1)], of e "dom (dict_get (pl_candidates p))" p recovering claim b d raw] assms(2-4)
  by (auto simp: same_ids_def tradable_def)

theorem candidates_only_from_live_pools_witness:
  "dom (dict_get (pl_candidates (fst demo_run))) = {}"
  using candidates_only_from_live_pools [OF observer_frame_None _ _ prod.collapse [symmetric], where e = "demo_event BONDING_CURVE_COMPLETED"
      and p = demo_durable and recovering = False and claim = None and b = False and d = False and raw = False]
  by (simp add: candidates_wf_def dict_wf_def)

section \<open>Batches\<close>

text \<open>The events of the transactions, in order, when all of them decode.\<close>

fun decoded_all :: "decoders \<Rightarrow> (protocol \<times> json \<times> event_source) list \<Rightarrow> event_envelope list list result" where
  "decoded_all dc [] = Inr []"
| "decoded_all dc ((protocol, tx, source) # rest) =
     rbind (decode_transaction dc protocol tx source) (\<lambda>es. rbind (decoded_all dc rest) (\<lambda>ess. Inr (es # ess)))"

definition bounded_batches :: "event_envelope list list \<Rightarrow> bool" where
  "bounded_batches bs \<longleftrightarrow> (\<forall>x \<in> set bs. x \<noteq> [] \<and> length x \<le> MAX_EVENT_BATCH_SIZE)"

lemma decode_batches_step:
  assumes "decode_batches dc ((protocol, tx, source) # rest) current batches p = (q, Inr bs)"
  obtains es where "decode_transaction dc protocol tx source = Inr es" "length es \<le> MAX_EVENT_BATCH_SIZE"
    "current \<noteq> []" "decode_batches dc rest es (batches @ [current]) p = (q, Inr bs)"
  | es where "decode_transaction dc protocol tx source = Inr es" "length (current @ es) \<le> MAX_EVENT_BATCH_SIZE"
    "decode_batches dc rest (current @ es) batches p = (q, Inr bs)"
proof (cases "decode_transaction dc protocol tx source")
  case (Inl err)
  with assms show thesis by (auto simp: mraise_def mbind_Inr split: if_splits)
next
  case (Inr es)
  with assms have "length es \<le> MAX_EVENT_BATCH_SIZE" by (auto simp: mraise_def split: if_splits)
  with assms Inr that show thesis
    by (cases "current \<noteq> [] \<and> MAX_EVENT_BATCH_SIZE < length current + length es") auto
qed

lemma decode_batches_spec:
  "decode_batches dc txs current batches p = (q, Inr bs) \<Longrightarrow> length current \<le> MAX_EVENT_BATCH_SIZE \<Longrightarrow> bounded_batches batches
    \<Longrightarrow> q = p \<and> bounded_batches bs \<and> (\<exists>ess. decoded_all dc txs = Inr ess \<and> concat bs = concat batches @ current @ concat ess)"
proof (induction txs arbitrary: current batches)
  case Nil
  then show ?case by (auto simp: mret_def bounded_batches_def split: if_splits)
next
  case (Cons t rest)
  obtain protocol tx source where t: "t = (protocol, tx, source)" by (cases t)
  from Cons.prems(1) [unfolded t] show ?case
  proof (cases rule: decode_batches_step)
    case (1 es)
    have "bounded_batches (batches @ [current])" using Cons.prems(2,3) 1(3) by (simp add: bounded_batches_def)
    from Cons.IH [OF 1(4,2) this]
    obtain ess where "q = p" "bounded_batches bs" "decoded_all dc rest = Inr ess"
      "concat bs = concat (batches @ [current]) @ es @ concat ess" by blast
    with 1(1) show ?thesis by (simp add: t)
  next
    case (2 es)
    from Cons.IH [OF 2(3,2) Cons.prems(3)]
    obtain ess where "q = p" "bounded_batches bs" "decoded_all dc rest = Inr ess"
      "concat bs = concat batches @ (current @ es) @ concat ess" by blast
    with 2(1) show ?thesis by (simp add: t)
  qed
qed

text \<open>
  The transactions of one call are submitted in batches that are not empty, hold at most 1024
  events, and give together exactly the decoded events of the transactions in their order; decoding
  leaves the pipeline as it was.
\<close>

theorem batches_bounded_and_complete:
  assumes "decode_batches dc txs [] [] p = (q, Inr bs)"
  shows "q = p \<and> (\<forall>x \<in> set bs. x \<noteq> [] \<and> length x \<le> 1024)
    \<and> (\<exists>ess. decoded_all dc txs = Inr ess \<and> concat bs = concat ess)"
  using decode_batches_spec [OF assms] by (auto simp: bounded_batches_def MAX_EVENT_BATCH_SIZE_def)


definition demo_decoders :: decoders where
  "demo_decoders = (let d = anchor_decoder_init PUMP_PROGRAM_ID [] [] in
     \<lparr>dc_pump = d, dc_pumpswap = d, dc_depth = 1, dc_now = 0\<rparr>)"

definition demo_tx :: json where
  "demo_tx = JObj [(''signature'', JStr ''s''), (''slot'', JInt 5), (''blockTime'', JInt 7), (''meta'', JObj [(''logMessages'', JList [])])]"

lemma demo_decodes: "decode_transaction demo_decoders pr demo_tx HELIUS_WSS = Inr []"
  by (cases pr) (simp_all add: decode_transaction_def demo_decoders_def demo_tx_def pump_decode_transaction_def
      pumpswap_decode_transaction_def transaction_header_def transaction_logs_def signature_of_def block_time_of_def
      json_or_def log_lines_def decode_logs_def Let_def)

theorem batches_bounded_and_complete_witness:
  "decoded_all demo_decoders [(PUMP, demo_tx, HELIUS_WSS), (PUMPSWAP, demo_tx, HELIUS_WSS)] = Inr [[], []]"
proof -
  have "decode_batches demo_decoders [(PUMP, demo_tx, HELIUS_WSS), (PUMPSWAP, demo_tx, HELIUS_WSS)] [] [] demo_pipeline
      = (demo_pipeline, Inr [])"
    by (simp add: demo_decodes mret_def)
  from batches_bounded_and_complete [OF this] show ?thesis by (auto simp: demo_decodes)
qed

end
