(* ===== verification/Stages.thy ===== *)
theory Stages
  imports Pipeline
begin

text \<open>
  The ordered stages of the pipeline (\<open>_enqueue_stage\<close>, \<open>_complete_stage\<close>, \<open>_collect_stage_batch\<close>,
  \<open>_run_stage_worker\<close> and the batch handlers of \<open>pipeline.py\<close>). A stage has one producer and one
  worker; between two awaits the code runs undisturbed, so the steps are: announcing a batch,
  putting it into the bounded queue, the worker taking a combined batch, and the handler's end.
\<close>

section \<open>State\<close>

text \<open>\<open>sg_id\<close> stands for the identity of the object, which \<open>is\<close> compares.\<close>

record stage_batch =
  sg_id :: nat
  sg_events :: "event_envelope list"

text \<open>
  The last three fields record what was enqueued, what was given to the handler, and whether the
  handler failed; the code does not have them.
\<close>

record stage =
  st_queue :: "stage_batch option list"
  st_pending :: "stage_batch list"
  st_putting :: "stage_batch option"
  st_carried :: "stage_batch option"
  st_inflight :: "stage_batch list"
  st_stopping :: bool
  st_finished :: bool
  st_tracking_error :: bool
  st_enqueued :: "stage_batch list"
  st_handled :: "event_envelope list list"
  st_failed :: bool

definition stage_init :: stage where
  "stage_init = \<lparr>st_queue = [], st_pending = [], st_putting = None, st_carried = None, st_inflight = [],
     st_stopping = False, st_finished = False, st_tracking_error = False, st_enqueued = [], st_handled = [],
     st_failed = False\<rparr>"

definition STAGE_QUEUE_SIZE :: nat where
  "STAGE_QUEUE_SIZE = 128"

section \<open>Operations\<close>

text \<open>\<open>_enqueue_stage\<close>: the batch is pending before \<open>queue.put\<close>, which waits while the queue is full.\<close>

definition enqueue_begin :: "event_envelope list \<Rightarrow> stage \<Rightarrow> stage option" where
  "enqueue_begin events s = (case st_putting s of
     Some _ \<Rightarrow> None
   | None \<Rightarrow> let item = \<lparr>sg_id = length (st_enqueued s), sg_events = events\<rparr> in
       Some (s\<lparr>st_pending := st_pending s @ [item], st_putting := Some item, st_enqueued := st_enqueued s @ [item]\<rparr>))"

definition enqueue_put :: "stage \<Rightarrow> stage option" where
  "enqueue_put s = (case st_putting s of
     None \<Rightarrow> None
   | Some item \<Rightarrow> if STAGE_QUEUE_SIZE \<le> length (st_queue s) then None
       else Some (s\<lparr>st_queue := st_queue s @ [Some item], st_putting := None\<rparr>))"

text \<open>The end marker of \<open>stop_background_workers\<close>.\<close>

definition put_stop :: "stage \<Rightarrow> stage option" where
  "put_stop s = (if st_putting s \<noteq> None \<or> STAGE_QUEUE_SIZE \<le> length (st_queue s) then None
     else Some (s\<lparr>st_queue := st_queue s @ [None]\<rparr>))"

definition complete_stage :: "stage \<Rightarrow> stage_batch \<Rightarrow> stage" where
  "complete_stage s item =
     (if st_pending s \<noteq> [] \<and> sg_id (hd (st_pending s)) = sg_id item then s\<lparr>st_pending := tl (st_pending s)\<rparr>
      else s\<lparr>st_tracking_error := True, st_pending := remove1 item (st_pending s)\<rparr>)"

fun collect_stage_batch :: "stage_batch option list \<Rightarrow> stage_batch list \<Rightarrow> nat
    \<Rightarrow> stage_batch list \<times> stage_batch option \<times> bool \<times> stage_batch option list" where
  "collect_stage_batch [] items total_events = (items, None, False, [])"
| "collect_stage_batch (None # q) items total_events = (items, None, True, q)"
| "collect_stage_batch (Some c # q) items total_events =
     (if MAX_EVENT_BATCH_SIZE < total_events + length (sg_events c) then (items, Some c, False, q)
      else collect_stage_batch q (items @ [c]) (total_events + length (sg_events c)))"

definition combined_events :: "stage_batch list \<Rightarrow> event_envelope list" where
  "combined_events items = concat (map sg_events items)"

definition start_batch :: "stage_batch \<Rightarrow> stage \<Rightarrow> stage" where
  "start_batch first s =
     (if st_stopping s then s\<lparr>st_inflight := [first], st_handled := st_handled s @ [sg_events first]\<rparr>
      else case collect_stage_batch (st_queue s) [first] (length (sg_events first)) of (items, held, stopping, q) \<Rightarrow>
        s\<lparr>st_queue := q, st_carried := held, st_stopping := stopping, st_inflight := items,
          st_handled := st_handled s @ [combined_events items]\<rparr>)"

text \<open>The head of the worker's loop, up to the call of the handler.\<close>

definition worker_take :: "stage \<Rightarrow> stage option" where
  "worker_take s =
     (if st_finished s \<or> st_inflight s \<noteq> [] then None
      else case st_carried s of
        Some first \<Rightarrow> Some (start_batch first (s\<lparr>st_carried := None\<rparr>))
      | None \<Rightarrow> (case st_queue s of
          [] \<Rightarrow> None
        | None # q \<Rightarrow> Some (s\<lparr>st_queue := q, st_finished := True\<rparr>)
        | Some first # q \<Rightarrow> Some (start_batch first (s\<lparr>st_queue := q\<rparr>))))"

text \<open>The rest of the iteration; \<open>ok\<close> says whether the handler returned.\<close>

definition worker_finish :: "bool \<Rightarrow> stage \<Rightarrow> stage option" where
  "worker_finish ok s =
     (if st_finished s \<or> st_inflight s = [] then None
      else let s1 = foldl complete_stage (s\<lparr>st_inflight := []\<rparr>) (st_inflight s) in
        if ok then Some (if st_stopping s1 \<and> st_carried s1 = None then s1\<lparr>st_finished := True\<rparr> else s1)
        else Some ((case st_carried s1 of None \<Rightarrow> s1 | Some c \<Rightarrow> (complete_stage s1 c)\<lparr>st_carried := None\<rparr>)
          \<lparr>st_finished := True, st_failed := True\<rparr>))"

inductive stage_step :: "stage \<Rightarrow> stage \<Rightarrow> bool" where
  step_begin: "enqueue_begin events s = Some t \<Longrightarrow> length events \<le> MAX_EVENT_BATCH_SIZE \<Longrightarrow> stage_step s t"
| step_put: "enqueue_put s = Some t \<Longrightarrow> stage_step s t"
| step_stop: "put_stop s = Some t \<Longrightarrow> stage_step s t"
| step_take: "worker_take s = Some t \<Longrightarrow> stage_step s t"
| step_finish: "worker_finish ok s = Some t \<Longrightarrow> stage_step s t"

definition stage_reachable :: "stage \<Rightarrow> bool" where
  "stage_reachable s \<longleftrightarrow> stage_step\<^sup>*\<^sup>* stage_init s"

section \<open>Handlers\<close>

text \<open>
  \<open>_apply_durable_batch\<close>: each attempt has the answers of \<open>record_events\<close> and of the checkpoints. The
  answer is the claimed events that go to the state and archive stages; \<open>None\<close> while every attempt
  so far has failed.
\<close>

definition durable_attempt :: "event_envelope list \<Rightarrow> bool list result \<times> unit result \<Rightarrow> event_envelope list result" where
  "durable_attempt events attempt = (case attempt of (results, checkpoints) \<Rightarrow>
     rbind results (\<lambda>rs. if length events \<noteq> length rs then Inl (ValueError ''zip() arguments differ in length'')
       else let claimed = claimed_of events rs in
         if claimed = [] then Inr [] else rbind checkpoints (\<lambda>_. Inr claimed)))"

fun apply_durable_batch :: "event_envelope list \<Rightarrow> (bool list result \<times> unit result) list \<Rightarrow> entry_gate
    \<Rightarrow> entry_gate \<times> event_envelope list result option" where
  "apply_durable_batch events [] g = (g, None)"
| "apply_durable_batch events (attempt # attempts) g =
     (case durable_attempt events attempt of
        Inr claimed \<Rightarrow> (unblock ''durable_ingest_error'' g, Some (Inr claimed))
      | Inl e \<Rightarrow> if e = CancelledError then (g, Some (Inl e))
          else apply_durable_batch events attempts (block ''durable_ingest_error'' g))"

text \<open>\<open>_apply_archive_batch\<close>: each attempt has the answer of the recorder and of the database.\<close>

fun apply_archive_batch :: "(unit result \<times> unit result) list \<Rightarrow> entry_gate \<Rightarrow> entry_gate \<times> unit result option" where
  "apply_archive_batch [] g = (g, None)"
| "apply_archive_batch ((segments, recorded) # attempts) g =
     (case rbind segments (\<lambda>_. recorded) of
        Inr _ \<Rightarrow> (unblock ''raw_archive_error'' g, Some (Inr ()))
      | Inl e \<Rightarrow> if e = CancelledError then (g, Some (Inl e))
          else apply_archive_batch attempts (block ''raw_archive_error'' g))"

section \<open>First in, first out\<close>

definition somes :: "'a option list \<Rightarrow> 'a list" where
  "somes xs = concat (map (case_option [] (\<lambda>x. [x])) xs)"

lemma somes_simps [simp]:
  "somes [] = []" "somes (None # xs) = somes xs" "somes (Some x # xs) = x # somes xs" "somes (xs @ ys) = somes xs @ somes ys"
  by (simp_all add: somes_def)

abbreviation one :: "'a option \<Rightarrow> 'a list" where
  "one x \<equiv> case_option [] (\<lambda>y. [y]) x"

text \<open>The batches the worker has not taken yet.\<close>

definition waiting :: "stage \<Rightarrow> stage_batch list" where
  "waiting s = one (st_carried s) @ somes (st_queue s) @ one (st_putting s)"

definition small :: "event_envelope list \<Rightarrow> bool" where
  "small es \<longleftrightarrow> length es \<le> MAX_EVENT_BATCH_SIZE"

text \<open>
  The invariant in parts: what is pending, the flags, the sizes, and the history.
\<close>

definition inv_pending :: "stage \<Rightarrow> bool" where
  "inv_pending s \<longleftrightarrow> st_pending s = st_inflight s @ waiting s \<and> \<not> st_tracking_error s"

definition inv_flags :: "stage \<Rightarrow> bool" where
  "inv_flags s \<longleftrightarrow> (st_stopping s \<longrightarrow> st_carried s = None) \<and> (st_stopping s \<longrightarrow> st_finished s \<or> st_inflight s \<noteq> [])
     \<and> (st_failed s \<longrightarrow> st_finished s)"

definition inv_sizes :: "stage \<Rightarrow> bool" where
  "inv_sizes s \<longleftrightarrow> list_all (\<lambda>b. small (sg_events b)) (waiting s) \<and> list_all small (st_handled s)"

definition inv_history :: "stage \<Rightarrow> bool" where
  "inv_history s \<longleftrightarrow> st_failed s \<or> concat (st_handled s) @ combined_events (waiting s) = combined_events (st_enqueued s)"

definition stage_inv :: "stage \<Rightarrow> bool" where
  "stage_inv s \<longleftrightarrow> inv_pending s \<and> inv_flags s \<and> inv_sizes s \<and> inv_history s"

lemmas inv_defs = inv_pending_def inv_flags_def inv_sizes_def inv_history_def

lemma collect_spec:
  assumes "collect_stage_batch q items total_events = (items', held, stopping, q')"
    and "total_events = length (combined_events items)" and "small (combined_events items)"
  shows "items' @ one held @ somes q' = items @ somes q \<and> small (combined_events items')
    \<and> (stopping \<longrightarrow> held = None) \<and> (items \<noteq> [] \<longrightarrow> items' \<noteq> [])"
  using assms
  by (induction q items total_events rule: collect_stage_batch.induct)
    (auto simp: combined_events_def small_def split: if_splits)

lemma combined_append [simp]: "combined_events (xs @ ys) = combined_events xs @ combined_events ys"
  "combined_events [] = []" "combined_events [b] = sg_events b" "combined_events (b # xs) = sg_events b @ combined_events xs"
  by (simp_all add: combined_events_def)

lemma complete_all:
  "st_pending s = items @ rest \<Longrightarrow> foldl complete_stage s items = s\<lparr>st_pending := rest\<rparr>"
  by (induction items arbitrary: s) (auto simp: complete_stage_def)

text \<open>How each operation changes the batches that wait.\<close>

lemma begin_shape:
  assumes "enqueue_begin es s = Some t"
  obtains item where "sg_events item = es" "waiting t = waiting s @ [item]"
    "t = s\<lparr>st_pending := st_pending s @ [item], st_putting := Some item, st_enqueued := st_enqueued s @ [item]\<rparr>"
proof (cases "st_putting s")
  case None
  then have t: "t = s\<lparr>st_pending := st_pending s @ [\<lparr>sg_id = length (st_enqueued s), sg_events = es\<rparr>],
      st_putting := Some \<lparr>sg_id = length (st_enqueued s), sg_events = es\<rparr>,
      st_enqueued := st_enqueued s @ [\<lparr>sg_id = length (st_enqueued s), sg_events = es\<rparr>]\<rparr>"
    using assms by (simp add: enqueue_begin_def Let_def)
  show thesis by (rule that [OF _ _ t]) (simp_all add: t waiting_def None)
qed (use assms in \<open>simp add: enqueue_begin_def\<close>)

lemma inv_begin:
  assumes "stage_inv s" and "enqueue_begin es s = Some t" and "length es \<le> MAX_EVENT_BATCH_SIZE"
  shows "stage_inv t"
proof -
  from assms(2) obtain item where i: "sg_events item = es" "waiting t = waiting s @ [item]"
    "t = s\<lparr>st_pending := st_pending s @ [item], st_putting := Some item, st_enqueued := st_enqueued s @ [item]\<rparr>"
    by (rule begin_shape)
  have "inv_pending t" "inv_flags t" "inv_sizes t" "inv_history t"
    using assms(1,3) by (simp_all add: stage_inv_def inv_defs i(2)) (simp_all add: i small_def)
  then show ?thesis by (simp add: stage_inv_def)
qed

text \<open>An operation that changes neither the waiting batches nor what the invariant reads.\<close>

lemma inv_same:
  assumes "stage_inv s" and "waiting t = waiting s" and "st_pending t = st_pending s" and "st_inflight t = st_inflight s"
    and "st_tracking_error t = st_tracking_error s" and "st_stopping t = st_stopping s" and "st_carried t = st_carried s"
    and "st_finished s \<longrightarrow> st_finished t" and "st_failed t = st_failed s" and "st_handled t = st_handled s"
    and "st_enqueued t = st_enqueued s"
  shows "stage_inv t"
  using assms by (auto simp: stage_inv_def inv_defs)

lemma inv_put: "stage_inv s \<Longrightarrow> enqueue_put s = Some t \<Longrightarrow> stage_inv t"
  by (erule inv_same) (auto simp: enqueue_put_def waiting_def split: option.splits if_splits)

lemma inv_stop: "stage_inv s \<Longrightarrow> put_stop s = Some t \<Longrightarrow> stage_inv t"
  by (erule inv_same) (auto simp: put_stop_def waiting_def split: if_splits)

text \<open>The worker starts with the first waiting batch; \<open>s0\<close> is the stage without it.\<close>

lemma start_shape:
  assumes "\<not> st_stopping s0" and "st_carried s0 = None" and "small (sg_events first)"
  obtains items held stopping q where
    "start_batch first s0 = s0\<lparr>st_queue := q, st_carried := held, st_stopping := stopping, st_inflight := items,
       st_handled := st_handled s0 @ [combined_events items]\<rparr>"
    "first # waiting s0 = items @ waiting (start_batch first s0)"
    "small (combined_events items)" "stopping \<longrightarrow> held = None" "items \<noteq> []"
proof -
  obtain items held stopping q where
    c: "collect_stage_batch (st_queue s0) [first] (length (sg_events first)) = (items, held, stopping, q)"
    by (metis prod_cases4)
  from collect_spec [OF c] assms(3)
  have spec: "items @ one held @ somes q = first # somes (st_queue s0)" "small (combined_events items)"
    "stopping \<longrightarrow> held = None" "items \<noteq> []" by auto
  have t: "start_batch first s0 = s0\<lparr>st_queue := q, st_carried := held, st_stopping := stopping, st_inflight := items,
       st_handled := st_handled s0 @ [combined_events items]\<rparr>"
    using assms(1) c by (simp add: start_batch_def)
  have "first # waiting s0 = items @ waiting (start_batch first s0)"
    unfolding t using assms(2) spec(1) by (simp add: waiting_def)
  from that [OF t this spec(2-4)] show thesis .
qed

lemma inv_start:
  assumes s: "stage_inv s" and "st_inflight s = []" and "\<not> st_finished s"
    and w: "waiting s = first # waiting s0" and "st_carried s0 = None"
    and same: "st_pending s0 = st_pending s" "st_tracking_error s0 = st_tracking_error s" "st_failed s0 = st_failed s"
      "st_handled s0 = st_handled s" "st_enqueued s0 = st_enqueued s" "st_stopping s0 = st_stopping s"
      "st_finished s0 = st_finished s"
  shows "stage_inv (start_batch first s0)"
proof -
  let ?t = "start_batch first s0"
  have ns: "\<not> st_stopping s0" using s assms(2,3) same(6) by (simp add: stage_inv_def inv_flags_def)
  have sm: "small (sg_events first)" using s w by (simp add: stage_inv_def inv_sizes_def)
  obtain items held stopping q where
    t: "start_batch first s0 = s0\<lparr>st_queue := q, st_carried := held, st_stopping := stopping, st_inflight := items,
       st_handled := st_handled s0 @ [combined_events items]\<rparr>"
    and split_w: "first # waiting s0 = items @ waiting ?t"
    and spec: "small (combined_events items)" "stopping \<longrightarrow> held = None" "items \<noteq> []"
    by (rule start_shape [OF ns assms(5) sm])
  have w': "waiting s = items @ waiting ?t" using w split_w by simp
  have fields_t: "st_pending ?t = st_pending s" "st_tracking_error ?t = st_tracking_error s" "st_failed ?t = st_failed s"
    "st_handled ?t = st_handled s @ [combined_events items]" "st_enqueued ?t = st_enqueued s" "st_inflight ?t = items"
    "st_carried ?t = held" "st_stopping ?t = stopping" "st_finished ?t = st_finished s"
    by (simp_all add: t same)
  have "inv_pending ?t" "inv_flags ?t" "inv_sizes ?t" "inv_history ?t"
    using s w' assms(2) spec by (simp_all add: stage_inv_def inv_defs fields_t)
  then show ?thesis by (simp add: stage_inv_def)
qed

lemma take_cases:
  assumes "worker_take s = Some t"
  obtains (carried) first where "st_carried s = Some first" "t = start_batch first (s\<lparr>st_carried := None\<rparr>)"
    "\<not> st_finished s" "st_inflight s = []"
  | (closed) q where "st_carried s = None" "st_queue s = None # q" "t = s\<lparr>st_queue := q, st_finished := True\<rparr>"
    "\<not> st_finished s" "st_inflight s = []"
  | (queued) first q where "st_carried s = None" "st_queue s = Some first # q" "t = start_batch first (s\<lparr>st_queue := q\<rparr>)"
    "\<not> st_finished s" "st_inflight s = []"
  using assms by (auto simp: worker_take_def split: if_splits option.splits list.splits)

lemma inv_take:
  assumes "stage_inv s" and "worker_take s = Some t"
  shows "stage_inv t"
  using assms(2)
proof (cases rule: take_cases)
  case (carried first)
  then show ?thesis by (auto intro!: inv_start [OF assms(1)] simp: waiting_def)
next
  case (closed q)
  show ?thesis by (rule inv_same [OF assms(1)]) (simp_all add: closed waiting_def)
next
  case (queued first q)
  then show ?thesis by (auto intro!: inv_start [OF assms(1)] simp: waiting_def)
qed

lemma finish_shape:
  assumes "inv_pending s" and "inv_flags s" and "worker_finish ok s = Some t"
  shows "t = (if ok then s\<lparr>st_inflight := [], st_pending := waiting s, st_finished := st_stopping s\<rparr>
    else s\<lparr>st_inflight := [], st_pending := somes (st_queue s) @ one (st_putting s), st_carried := None,
      st_finished := True, st_failed := True\<rparr>)"
proof -
  have fin: "\<not> st_finished s" "st_inflight s \<noteq> []" using assms(3) by (auto simp: worker_finish_def split: if_splits)
  have "foldl complete_stage (s\<lparr>st_inflight := []\<rparr>) (st_inflight s) = s\<lparr>st_inflight := [], st_pending := waiting s\<rparr>"
    using assms(1) complete_all [of "s\<lparr>st_inflight := []\<rparr>" "st_inflight s" "waiting s"] by (simp add: inv_pending_def)
  then have t: "Some t = (let s1 = s\<lparr>st_inflight := [], st_pending := waiting s\<rparr> in
        if ok then Some (if st_stopping s1 \<and> st_carried s1 = None then s1\<lparr>st_finished := True\<rparr> else s1)
        else Some ((case st_carried s1 of None \<Rightarrow> s1 | Some c \<Rightarrow> (complete_stage s1 c)\<lparr>st_carried := None\<rparr>)
          \<lparr>st_finished := True, st_failed := True\<rparr>))"
    using assms(3) fin by (simp add: worker_finish_def)
  show ?thesis
  proof (cases ok)
    case True
    then show ?thesis using t assms(2) fin by (cases "st_stopping s") (simp_all add: inv_flags_def)
  next
    case False
    then show ?thesis using t by (cases "st_carried s") (simp_all add: waiting_def complete_stage_def)
  qed
qed

lemma inv_finish:
  assumes "stage_inv s" and "worker_finish ok s = Some t"
  shows "stage_inv t"
proof -
  have fin: "\<not> st_finished s" using assms(2) by (auto simp: worker_finish_def split: if_splits)
  have t: "t = (if ok then s\<lparr>st_inflight := [], st_pending := waiting s, st_finished := st_stopping s\<rparr>
    else s\<lparr>st_inflight := [], st_pending := somes (st_queue s) @ one (st_putting s), st_carried := None,
      st_finished := True, st_failed := True\<rparr>)"
    using finish_shape [OF _ _ assms(2)] assms(1) by (simp add: stage_inv_def)
  show ?thesis
  proof (cases ok)
    case True
    then have "t = s\<lparr>st_inflight := [], st_pending := waiting s, st_finished := st_stopping s\<rparr>" using t by simp
    then show ?thesis using assms(1) fin by (auto simp: stage_inv_def inv_defs waiting_def)
  next
    case False
    then have "t = s\<lparr>st_inflight := [], st_pending := somes (st_queue s) @ one (st_putting s), st_carried := None,
      st_finished := True, st_failed := True\<rparr>" using t by simp
    then show ?thesis using assms(1) by (simp add: stage_inv_def inv_defs waiting_def)
  qed
qed

lemma stage_inv_step: "stage_step s t \<Longrightarrow> stage_inv s \<Longrightarrow> stage_inv t"
  by (induction rule: stage_step.induct) (blast intro: inv_begin inv_put inv_stop inv_take inv_finish)+

lemma stage_inv_init: "stage_inv stage_init"
  by (simp add: stage_init_def stage_inv_def inv_defs waiting_def)

lemma stage_inv_reachable: "stage_reachable s \<Longrightarrow> stage_inv s"
  unfolding stage_reachable_def by (induction rule: rtranclp_induct) (simp_all add: stage_inv_init stage_inv_step)



section \<open>Draining\<close>

text \<open>The steps of a stage whose handler succeeds, without new batches.\<close>

definition worker_step :: "stage \<Rightarrow> stage \<Rightarrow> bool" where
  "worker_step s t \<longleftrightarrow> enqueue_put s = Some t \<or> worker_take s = Some t \<or> worker_finish True s = Some t"

lemma worker_stage_step: "worker_step s t \<Longrightarrow> stage_step s t"
  by (auto simp: worker_step_def intro: stage_step.intros)

definition running :: "stage \<Rightarrow> bool" where
  "running s \<longleftrightarrow> stage_inv s \<and> \<not> st_finished s \<and> \<not> st_stopping s \<and> None \<notin> set (st_queue s) \<and> \<not> st_failed s"

definition backlog :: "stage \<Rightarrow> nat" where
  "backlog s = 2 * length (waiting s) + (if st_putting s = None then 0 else 1) + (if st_inflight s = [] then 0 else 1)"

lemma collect_no_stop:
  "None \<notin> set q \<Longrightarrow> collect_stage_batch q items n = (items', held, stopping, q') \<Longrightarrow> \<not> stopping \<and> None \<notin> set q'"
  by (induction q items n rule: collect_stage_batch.induct) (auto split: if_splits)

lemma running_start:
  assumes "\<not> st_stopping s0" "None \<notin> set (st_queue s0)"
  shows "\<not> st_stopping (start_batch first s0) \<and> None \<notin> set (st_queue (start_batch first s0))
    \<and> st_finished (start_batch first s0) = st_finished s0 \<and> st_failed (start_batch first s0) = st_failed s0
    \<and> st_putting (start_batch first s0) = st_putting s0 \<and> st_enqueued (start_batch first s0) = st_enqueued s0"
proof -
  obtain items held stopping q where
    c: "collect_stage_batch (st_queue s0) [first] (length (sg_events first)) = (items, held, stopping, q)"
    by (metis prod_cases4)
  from collect_no_stop [OF assms(2) c] c assms(1) show ?thesis by (simp add: start_batch_def)
qed

lemma start_backlog:
  assumes "\<not> st_stopping s0" "st_carried s0 = None" "small (sg_events first)"
  shows "length (waiting (start_batch first s0)) \<le> length (waiting s0)"
proof -
  obtain items where "first # waiting s0 = items @ waiting (start_batch first s0)" "items \<noteq> []"
    by (rule start_shape [OF assms])
  then have "Suc (length (waiting s0)) = length items + length (waiting (start_batch first s0))"
    by (metis length_Cons length_append)
  with \<open>items \<noteq> []\<close> show ?thesis by (cases items) auto
qed

lemma running_take:
  assumes "running s" and "worker_take s = Some t"
  shows "running t \<and> backlog t < backlog s \<and> st_enqueued t = st_enqueued s"
  using assms(2)
proof (cases rule: take_cases)
  case (carried first)
  let ?s0 = "s\<lparr>st_carried := None\<rparr>"
  have w: "waiting s = first # waiting ?s0" using carried by (simp add: waiting_def)
  then have "small (sg_events first)" using assms(1) by (simp add: running_def stage_inv_def inv_sizes_def)
  with start_backlog [of ?s0 first] running_start [of ?s0 first] inv_take [OF _ assms(2)] assms(1) carried w
  show ?thesis by (auto simp: running_def backlog_def)
next
  case (closed q)
  then show ?thesis using assms(1) by (simp add: running_def)
next
  case (queued first q)
  let ?s0 = "s\<lparr>st_queue := q\<rparr>"
  have w: "waiting s = first # waiting ?s0" using queued by (simp add: waiting_def)
  then have "small (sg_events first)" using assms(1) by (simp add: running_def stage_inv_def inv_sizes_def)
  with start_backlog [of ?s0 first] running_start [of ?s0 first] inv_take [OF _ assms(2)] assms(1) queued w
  show ?thesis by (auto simp: running_def backlog_def)
qed

lemma running_put: "running s \<Longrightarrow> enqueue_put s = Some t \<Longrightarrow> running t \<and> backlog t < backlog s \<and> st_enqueued t = st_enqueued s"
  using inv_put [of s t]
  by (cases "st_putting s") (auto simp: running_def enqueue_put_def backlog_def waiting_def split: if_splits)

lemma running_finish:
  assumes "running s" and "worker_finish True s = Some t"
  shows "running t \<and> backlog t < backlog s \<and> st_enqueued t = st_enqueued s"
proof -
  have "st_inflight s \<noteq> []" using assms(2) by (auto simp: worker_finish_def split: if_splits)
  moreover have "t = s\<lparr>st_inflight := [], st_pending := waiting s, st_finished := st_stopping s\<rparr>"
    using finish_shape [OF _ _ assms(2)] assms(1) by (simp add: running_def stage_inv_def)
  ultimately show ?thesis using assms inv_finish [OF _ assms(2)] by (simp add: running_def backlog_def waiting_def)
qed

lemma running_step: "running s \<Longrightarrow> worker_step s t \<Longrightarrow> running t \<and> backlog t < backlog s \<and> st_enqueued t = st_enqueued s"
  unfolding worker_step_def by (elim disjE; rule running_put running_take running_finish; assumption)

lemma running_steps: "worker_step\<^sup>*\<^sup>* s t \<Longrightarrow> running s \<Longrightarrow> running t \<and> st_enqueued t = st_enqueued s"
proof (induction rule: rtranclp_induct)
  case (step t u)
  then show ?case using running_step [of t u] by simp
qed simp

lemma running_progress:
  assumes "running s" and "\<nexists>t. worker_step s t"
  shows "st_inflight s = [] \<and> waiting s = []"
proof -
  have no: "enqueue_put s = None" "worker_take s = None" "worker_finish True s = None"
    using assms(2) unfolding worker_step_def by (meson not_None_eq)+
  have fin: "\<not> st_finished s" "None \<notin> set (st_queue s)" using assms(1) by (simp_all add: running_def)
  have inflight: "st_inflight s = []"
    by (rule ccontr) (use no(3) fin in \<open>simp add: worker_finish_def Let_def\<close>)
  have carried: "st_carried s = None"
    by (rule ccontr) (use no(2) fin inflight in \<open>auto simp: worker_take_def\<close>)
  have "st_queue s = []"
  proof (cases "st_queue s")
    case (Cons x q)
    with fin(2) obtain y where "x = Some y" by (cases x) auto
    with Cons no(2) fin inflight carried show ?thesis by (simp add: worker_take_def)
  qed
  moreover from this no(1) have "st_putting s = None"
    by (cases "st_putting s") (simp_all add: enqueue_put_def STAGE_QUEUE_SIZE_def)
  ultimately show ?thesis using inflight carried by (simp add: waiting_def)
qed

lemma no_infinite_run:
  assumes "running (f 0)" and "\<And>i. worker_step (f i) (f (Suc i))"
  shows False
proof -
  have "running (f i) \<and> backlog (f i) + i \<le> backlog (f 0)" for i
    by (induction i) (use assms running_step in \<open>fastforce+\<close>)
  from this [of "Suc (backlog (f 0))"] show False by simp
qed

definition demo_stage :: stage where
  "demo_stage = stage_init\<lparr>st_pending := [\<lparr>sg_id = 0, sg_events = []\<rparr>], st_putting := Some \<lparr>sg_id = 0, sg_events = []\<rparr>,
     st_enqueued := [\<lparr>sg_id = 0, sg_events = []\<rparr>]\<rparr>"

lemma demo_stage_reachable: "stage_reachable demo_stage"
proof -
  have "stage_step stage_init demo_stage"
    by (rule step_begin [of "[]"]) (simp_all add: enqueue_begin_def stage_init_def demo_stage_def Let_def)
  then show ?thesis by (simp add: stage_reachable_def)
qed




end
