(* ===== verification/Runtime.thy ===== *)
theory Runtime
  imports Pipeline Broker Exit_Engine Sizing Py_Text
begin

text \<open>
  The trading part of the runtime (\<open>runtime.py\<close>): the observer of chain events, the security
  provider and the entry handler it hands to the pipeline, the exit monitor, the background loops
  that open and close the entry gate, health, halt and resume. The record extends the pipeline, so
  these are methods of the kind the pipeline calls. What comes from outside (RPC, quotes, clock,
  ids, commits) is an argument. A loop is given by one iteration of its body. Start-up, shutdown,
  reports, notifications and metrics are not part of this theory.
\<close>

section \<open>State\<close>

record runtime = pipeline +
  ru_config :: app_config
  ru_ledger :: paper_ledger
  ru_broker :: "paper_broker option"
  ru_wallets :: wallet_analyzer
  ru_momentum_windows :: "(string, int) dict"
  ru_mark_quote_failures :: "(string, datetime \<times> int) dict"
  ru_database_available :: bool
  ru_enrichment_seen :: "string set"
  ru_enrichment_queue :: "string list"
  ru_last_observed_at :: "datetime option"

type_synonym 'a rmethod = "(runtime, 'a) method_of"

text \<open>\<open>if self.database is not None and self.database_available: ...\<close>\<close>

definition store_available :: "db_call \<Rightarrow> unit rmethod" where
  "store_available call = mget (\<lambda>p. mwhen (ru_database_available p) (store call))"

definition risk_state_call :: "paper_ledger \<Rightarrow> datetime \<Rightarrow> db_call" where
  "risk_state_call L now = PersistRiskState (ls_halt_reason (pl_state L)) (ls_pause_until (pl_state L))
     (ls_daily_halt_date (pl_state L)) now"

section \<open>Observing events\<close>

definition ENRICHMENT_QUEUE_SIZE :: nat where
  "ENRICHMENT_QUEUE_SIZE = 1000"

definition enqueue_enrichment :: "event_envelope \<Rightarrow> runtime \<Rightarrow> runtime" where
  "enqueue_enrichment e p =
     (if nc_enabled (ac_enrichment (ru_config p)) \<and> \<not> ac_replay_mode (ru_config p)
         \<and> ev_event_type e = TOKEN_CREATED \<and> truthy (ev_mint e) \<and> the (ev_mint e) \<notin> ru_enrichment_seen p
         \<and> length (ru_enrichment_queue p) < ENRICHMENT_QUEUE_SIZE
      then p\<lparr>ru_enrichment_seen := insert (the (ev_mint e)) (ru_enrichment_seen p),
             ru_enrichment_queue := ru_enrichment_queue p @ [the (ev_mint e)]\<rparr>
      else p)"

definition flag_same_funder :: "wallet_analyzer \<Rightarrow> event_envelope \<Rightarrow> payload" where
  "flag_same_funder a e = (let wallet = py_str (py_or (payload_get (ev_payload e) ''user'') (PText [])) in
     if truthy (ev_mint e) \<and> wallet \<noteq> []
     then dict_set (ev_payload e) ''same_funder_cluster'' (PBool (is_same_funder_cluster (the (ev_mint e)) wallet a))
     else ev_payload e)"

definition observe_wallets :: "event_envelope \<Rightarrow> (wallet_profile list \<times> wallet_relation list) rmethod" where
  "observe_wallets e p = (case observe e (ru_wallets p) of (a, r) \<Rightarrow> (p\<lparr>ru_wallets := a\<rparr>, r))"

definition runtime_observer :: "event_envelope \<Rightarrow> payload rmethod" where
  "runtime_observer e =
     mbind (observe_wallets e) (\<lambda>(profiles, relations). mget (\<lambda>p.
       let payload = flag_same_funder (ru_wallets p) e in
       mseq (mforeach (\<lambda>w. store (UpsertWalletProfile w)) profiles)
      (mseq (mforeach (\<lambda>r. store (UpsertWalletRelation r (ev_observed_at e))) relations)
      (mseq (mput (enqueue_enrichment e)) (mret payload)))))"

text \<open>One turn of \<open>_enrichment_loop\<close> for the mint at the head of the queue.\<close>

definition enrichment_step :: "(string \<Rightarrow> (payload \<times> datetime) result) \<Rightarrow> unit rmethod" where
  "enrichment_step get_token = mget (\<lambda>p. case ru_enrichment_queue p of
     [] \<Rightarrow> mret ()
   | mint # rest \<Rightarrow> mseq (mput (\<lambda>q. q\<lparr>ru_enrichment_queue := rest\<rparr>))
      (mcatch
        (mbind (mlift (get_token mint)) (\<lambda>(dump, observed_at). mget (\<lambda>q.
          case apply_enrichment mint dump observed_at (pl_tokens q) of (tokens, updated) \<Rightarrow>
            mseq (mput (\<lambda>q. q\<lparr>pl_tokens := tokens\<rparr>))
              (case updated of None \<Rightarrow> mret () | Some t \<Rightarrow> store (UpsertToken t)))))
        (\<lambda>err. if err = CancelledError then mraise err
          else mput (\<lambda>q. q\<lparr>ru_enrichment_seen := ru_enrichment_seen q - {mint}\<rparr>))))"

section \<open>The security context of a candidate\<close>

text \<open>
  The RPC answer on the mint, and the joint answer of the two calls that run concurrently: the
  holder accounts for the expected supply, and the round trip quote for 10 USD.
\<close>

record security_world =
  sw_mint_info :: "string \<Rightarrow> mint_info result"
  sw_holders_and_quote :: "string \<Rightarrow> decimal \<Rightarrow> (holder_balance list \<times> round_trip_quote) result"

text \<open>
  The search for a root always ends (\<open>cluster_for_returns\<close>), so the first case does not arise.
\<close>

definition settled :: "'a result option \<Rightarrow> 'a result" where
  "settled r = (case r of None \<Rightarrow> Inl (RuntimeError ''no answer'') | Some x \<Rightarrow> x)"

definition with_supply_changed :: "token_record option \<Rightarrow> mint_info \<Rightarrow> mint_info" where
  "with_supply_changed token m = (case token of None \<Rightarrow> m
     | Some t \<Rightarrow> (case tk_total_supply_raw t of None \<Rightarrow> m
         | Some supply \<Rightarrow> m\<lparr>mi_supply_changed := supply \<noteq> mi_total_supply_raw m\<rparr>))"

definition some_text :: "string option \<Rightarrow> string list" where
  "some_text x = (if truthy x then [the x] else [])"

definition system_addresses_of :: "candidate \<Rightarrow> pool_record \<Rightarrow> token_record option \<Rightarrow> string list" where
  "system_addresses_of c pool token = [cd_pool_address c] @ some_text (po_base_vault pool) @ some_text (po_quote_vault pool)
     @ (case token of None \<Rightarrow> [] | Some t \<Rightarrow> some_text (tk_bonding_curve_address t))"

definition make_holder_observation :: "candidate \<Rightarrow> feature_snapshot \<Rightarrow> holder_metrics \<Rightarrow> holder_observation result" where
  "make_holder_observation c s h =
     (if 0 \<le> hm_holder_count h \<and> hm_top_10_holders_pct h \<in> {0..1} \<and> hm_dev_cluster_holding_pct h \<in> {0..1}
         \<and> hm_related_cluster_holding_pct h \<in> {0..1}
      then Inr \<lparr>ho_event_id = ''holders:'' @ cd_candidate_id c @ '':'' @ isoformat_utc (fs_snapshot_time s),
        ho_pool_address = cd_pool_address c, ho_event_time = fs_snapshot_time s, ho_holder_count = hm_holder_count h,
        ho_top_10_holders_pct = hm_top_10_holders_pct h, ho_dev_cluster_holding_pct = hm_dev_cluster_holding_pct h,
        ho_largest_related_cluster_pct = hm_related_cluster_holding_pct h\<rparr>
      else Inl (ValueError ''validation error''))"

text \<open>The sets of wallets are summed over in the order of the sorted addresses.\<close>

definition holders_of :: "wallet_analyzer \<Rightarrow> candidate \<Rightarrow> feature_snapshot \<Rightarrow> mint_info \<Rightarrow> string option \<Rightarrow> string list
    \<Rightarrow> holder_balance list \<Rightarrow> holder_metrics result" where
  "holders_of a c s m dev_wallet system_addresses accounts =
     (let owner_scope = {the (hb_owner h) |h. h \<in> set accounts \<and> truthy (hb_owner h)} in
      rbind (settled (cluster_for dev_wallet owner_scope a)) (\<lambda>dev_cluster.
      rbind (settled (largest_related_cluster owner_scope dev_cluster a)) (\<lambda>related_cluster.
        aggregate_holders accounts (mi_total_supply_raw m) dev_wallet (sorted_list_of_set dev_cluster)
          (sorted_list_of_set related_cluster)
          (sorted_list_of_set (first_buyers (cd_mint c) (fs_snapshot_time s) 20 a)) system_addresses)))"

definition sold_by :: "string option \<Rightarrow> (trade_observation \<Rightarrow> bool) \<Rightarrow> trade_observation list \<Rightarrow> bool" where
  "sold_by dev_wallet relevant ts \<longleftrightarrow> truthy dev_wallet
     \<and> (\<exists>t \<in> set ts. tr_wallet t = the dev_wallet \<and> tr_side t = SELL \<and> relevant t)"

definition wash_trading :: "flow_config \<Rightarrow> feature_snapshot \<Rightarrow> bool" where
  "wash_trading f s \<longleftrightarrow> fc_max_same_funder_buy_share f < fs_same_funder_buy_share s
     \<or> 15/100 < fs_buyer_volume_hhi s \<and> fc_max_transactions_per_trader f < fs_transactions_per_trader s"

definition security_context_of :: "runtime \<Rightarrow> feature_snapshot \<Rightarrow> mint_info \<Rightarrow> holder_metrics \<Rightarrow> round_trip_quote \<Rightarrow> pool_record
    \<Rightarrow> bool \<Rightarrow> wallet_profile option \<Rightarrow> security_context" where
  "security_context_of p s m h trip pool sold prof =
     (let known = (\<lambda>f. case prof of None \<Rightarrow> 0 | Some w \<Rightarrow> f w) in \<lparr>
      cx_mint = m, cx_holders = Some h, cx_holders_observed_at = Some (mi_observed_at m),
      cx_execution = \<lparr>ex_buy_route_available = True, ex_sell_route_available = True,
        ex_round_trip_loss_pct = rt_loss_pct trip, ex_buy_price_impact_pct = quote_price_impact_pct (rt_buy trip),
        ex_sell_price_impact_pct = quote_price_impact_pct (rt_sell trip),
        ex_quote_observed_at = quote_received_at (rt_sell trip)\<rparr>,
      cx_quote_mint = po_quote_mint pool, cx_quote_liquidity_usd = fs_quote_liquidity_usd s,
      cx_liquidity_change_30s = fs_quote_liquidity_change_30s s, cx_pool_age_seconds = fs_pool_age_seconds s,
      cx_external_successful_sellers = fs_external_successful_sellers s,
      cx_stream_observed_at = opt_or (ru_last_observed_at p) 0, cx_dev_sold = sold,
      cx_previous_rugs = known wp_tokens_with_liquidity_rug, cx_previous_dev_dumps_5m = known wp_tokens_with_dev_dump_5m,
      cx_developer_tokens_created_7d = known wp_tokens_created_7d,
      cx_developer_successful_tokens = known wp_tokens_reaching_2x_executable,
      cx_developer_history_known = (1 < known wp_tokens_created_total),
      cx_protocol_layout_known = (''protocol:'' @ po_protocol pool \<notin> set (gate_reasons (pl_entry_gate p))),
      cx_critical_api_available = ru_database_available p,
      cx_wash_trading_pattern = wash_trading (ac_flow (ru_config p)) s,
      cx_return_since_pool_creation = fs_return_since_pool_creation s\<rparr>)"

definition developer_profile :: "string option \<Rightarrow> datetime \<Rightarrow> wallet_profile option rmethod" where
  "developer_profile dev_wallet at_time p = (case profile dev_wallet at_time (ru_wallets p) of
     (a, prof) \<Rightarrow> (p\<lparr>ru_wallets := a\<rparr>, Inr prof))"

definition save_mint_state :: "string \<Rightarrow> mint_info \<Rightarrow> unit rmethod" where
  "save_mint_state mint m = mget (\<lambda>p.
     case apply_mint_state mint (mi_token_program m) (mi_decimals m) (mi_total_supply_raw m) (mi_observed_at m) (pl_tokens p) of
       (tokens, updated) \<Rightarrow> mseq (mput (\<lambda>q. q\<lparr>pl_tokens := tokens\<rparr>))
         (case updated of None \<Rightarrow> mret () | Some t \<Rightarrow> store (UpsertToken t)))"

definition build_security_context :: "security_world \<Rightarrow> candidate \<Rightarrow> feature_snapshot \<Rightarrow> security_context rmethod" where
  "build_security_context w c s = mget (\<lambda>p0.
     let token = dict_get (pl_tokens p0) (cd_mint c);
         dev_wallet = (case token of None \<Rightarrow> None | Some t \<Rightarrow> tk_creator_address t)
     in case pool_of p0 (cd_pool_address c) of
       None \<Rightarrow> mraise (RuntimeError ''candidate pool is unavailable'')
     | Some pool \<Rightarrow>
       mbind (mlift (sw_mint_info w (cd_mint c))) (\<lambda>m0.
       mbind (mlift (sw_holders_and_quote w (cd_mint c) (mi_total_supply_raw m0))) (\<lambda>(accounts, trip).
       let m = with_supply_changed token m0 in
       mseq (save_mint_state (cd_mint c) m)
      (mseq (update_pool_supply (cd_pool_address c) (mi_total_supply_raw m) (mi_observed_at m))
      (mget (\<lambda>p1.
       mbind (mlift (holders_of (ru_wallets p1) c s m dev_wallet (system_addresses_of c pool token) accounts)) (\<lambda>h.
       mbind (mlift (make_holder_observation c s h)) (\<lambda>ho.
       mseq (mput (\<lambda>q. q\<lparr>pl_features := fst (ingest_holders ho (pl_features q))\<rparr>))
      (mget (\<lambda>p2.
       let sold = sold_by dev_wallet (\<lambda>t. tr_event_time t \<le> fs_snapshot_time s)
             (trades (pl_features p2) (cd_pool_address c) (Some (fs_snapshot_time s)))
       in mbind (developer_profile dev_wallet (fs_snapshot_time s)) (\<lambda>prof.
          mget (\<lambda>p3. mret (security_context_of p3 s m h trip pool sold prof)))))))))))))"

section \<open>Opening a position\<close>

text \<open>
  The outside of one entry: the clock of its checks, and the broker's environment at the call, which
  may depend on the ledger since the id factory gives ids that are not in it.
\<close>

record entry_world =
  ew_today :: datetime
  ew_now :: datetime
  ew_now_loss :: datetime
  ew_now_trades :: datetime
  ew_persist_at :: datetime
  ew_env :: "paper_ledger \<Rightarrow> broker_env"
  ew_buy_quote :: "string \<Rightarrow> decimal \<Rightarrow> quote_response result"

definition sizing_input_of :: "entry_world \<Rightarrow> runtime \<Rightarrow> score_breakdown \<Rightarrow> security_context \<Rightarrow> position_sizing_input" where
  "sizing_input_of w p sb ctx = (let risk = ac_risk (ru_config p); L = ru_ledger p in \<lparr>
     si_current_equity_usd = ls_equity_usd (pl_state L),
     si_daily_pnl_usd = daily_pnl L (current_date_key L (ew_today w)),
     si_quote_liquidity_usd = cx_quote_liquidity_usd ctx,
     si_estimated_round_trip_cost_pct = ex_round_trip_loss_pct (cx_execution ctx),
     si_score = sb_total_score sb, si_hard_stop_pct = rc_hard_stop_pct risk, si_adverse_execution_buffer_pct = 1/100,
     si_daily_loss_limit_usd = rc_daily_loss_limit_usdc risk, si_maximum_position_usd = rc_max_position_usdc risk,
     si_minimum_position_usd = rc_min_position_usdc risk\<rparr>)"

text \<open>\<open>calculate_position_size(PositionSizingInput(...))\<close>, the field constraints included.\<close>

definition size_position :: "position_sizing_input \<Rightarrow> position_sizing_result result" where
  "size_position v = (if sizing_input_valid v then calculate_position_size v else Inl (ValueError ''validation error''))"

definition open_request_of :: "candidate \<Rightarrow> feature_snapshot \<Rightarrow> score_breakdown \<Rightarrow> security_context \<Rightarrow> decimal \<Rightarrow> open_request" where
  "open_request_of c s sb ctx amount = \<lparr>or_token_mint = cd_mint c, or_usdc_amount = amount,
     or_order_id = Some (''entry:'' @ cd_candidate_id c), or_candidate_id = Some (cd_candidate_id c),
     or_pool_address = Some (cd_pool_address c), or_entry_score = Some (sb_total_score sb),
     or_entry_liquidity_usd = Some (fs_quote_liquidity_usd s), or_entry_pool_age_seconds = Some (fs_pool_age_seconds s),
     or_round_trip_cost_pct = Some (ex_round_trip_loss_pct (cx_execution ctx))\<rparr>"

definition sizing_reject :: "position_sizing_result \<Rightarrow> reject_reason" where
  "sizing_reject r = (if sr_reject_reason r = Some sizing_reject_reason.POSITION_TOO_SMALL_AFTER_COSTS
     then reject_reason.POSITION_TOO_SMALL_AFTER_COSTS else DAILY_RISK_LIMIT)"

definition risk_reject :: "risk_decision_result \<Rightarrow> reject_reason" where
  "risk_reject d = (if rd_reason d = Some ''MAX_OPEN_POSITIONS_LIMIT'' then MAX_OPEN_POSITIONS
     else if rd_reason d = Some ''DAILY_LOSS_LIMIT'' then DAILY_RISK_LIMIT else RISK_MANAGER_BLOCKED)"

definition check_risk :: "entry_world \<Rightarrow> decimal \<Rightarrow> string \<Rightarrow> risk_decision_result rmethod" where
  "check_risk w amount mint p = (case evaluate_entry (ac_risk (ru_config p)) (ew_now w) (ew_now_loss w) (ew_now_trades w)
       amount (Some mint) (ru_ledger p) of
     Inl e \<Rightarrow> (p, Inl e) | Inr (L, d) \<Rightarrow> (p\<lparr>ru_ledger := L\<rparr>, Inr d))"

definition buy_in :: "entry_world \<Rightarrow> paper_broker \<Rightarrow> open_request \<Rightarrow> paper_execution_result rmethod" where
  "buy_in w b r p = (case broker_open b (ew_env w (ru_ledger p)) (ew_buy_quote w (or_token_mint r) (or_usdc_amount r)) r (ru_ledger p) of
     (L, answer) \<Rightarrow> (p\<lparr>ru_ledger := L\<rparr>, answer))"

definition open_candidate :: "entry_world \<Rightarrow> candidate \<Rightarrow> feature_snapshot \<Rightarrow> score_breakdown \<Rightarrow> security_context
    \<Rightarrow> reject_reason option rmethod" where
  "open_candidate w c s sb ctx = mget (\<lambda>p. case ru_broker p of
     None \<Rightarrow> mret (Some RISK_MANAGER_BLOCKED)
   | Some b \<Rightarrow> mbind (mlift (size_position (sizing_input_of w p sb ctx))) (\<lambda>sizing.
       if \<not> sr_allowed sizing then mret (Some (sizing_reject sizing))
       else mbind (check_risk w (sr_position_size_usd sizing) (cd_mint c)) (\<lambda>d.
         if rd_decision d \<noteq> ALLOW
         then mget (\<lambda>q. mseq (store_available (risk_state_call (ru_ledger q) (ew_persist_at w))) (mret (Some (risk_reject d))))
         else mseq (buy_in w b (open_request_of c s sb ctx (sr_position_size_usd sizing))) (mret None))))"

end
