(* ===== verification/Runtime_Exits.thy ===== *)
theory Runtime_Exits
  imports Runtime
begin

text \<open>
  The exit monitor of the runtime (\<open>evaluate_and_close_exits\<close>) and the iterations of the background
  loops. A sale may never come back (see \<open>zero_interval_never_returns\<close>), so the monitor is a run
  that may not return. The positions it works on are objects of the ledger, changed in place by
  marks and sales: \<open>current_position\<close> reads the object as it is now.
\<close>

section \<open>Limits\<close>

definition runtime_drawdown_exceeded :: "runtime \<Rightarrow> bool" where
  "runtime_drawdown_exceeded p = (let s = pl_state (ru_ledger p) in
     if ls_peak_equity_usd s \<le> 0 then False
     else rc_all_time_drawdown_limit_pct (ac_risk (ru_config p))
       \<le> dmul (ddiv (dsub (ls_peak_equity_usd s) (ls_equity_usd s)) (ls_peak_equity_usd s)) 100)"

definition runtime_daily_loss_exceeded :: "datetime \<Rightarrow> bool rmethod" where
  "runtime_daily_loss_exceeded clock p =
     (case daily_loss_exceeded (rc_daily_loss_limit_usdc (ac_risk (ru_config p))) clock (ru_ledger p) of
        (L, b) \<Rightarrow> (p\<lparr>ru_ledger := L\<rparr>, Inr b))"

definition exit_policy_of :: "app_config \<Rightarrow> exit_policy" where
  "exit_policy_of config = \<lparr>
     ep_tp1_return = ec_take_profit_1_pct (ac_exits config), ep_tp1_size = ec_take_profit_1_size_pct (ac_exits config),
     ep_tp2_return = ec_take_profit_2_pct (ac_exits config),
     ep_tp2_size_of_initial = ec_take_profit_2_size_pct (ac_exits config),
     ep_stop_loss_return = dneg (dabs (rc_hard_stop_pct (ac_risk config))),
     ep_trailing_stop_pct = ec_trailing_stop_pct (ac_exits config),
     ep_max_hold_seconds = Some (ec_maximum_holding_seconds (ac_exits config)),
     ep_no_new_high_seconds = Some (ec_no_new_high_timeout_seconds (ac_exits config))\<rparr>"

section \<open>Sales\<close>

text \<open>
  The outside of one pass: its time, the wall clock of the limit checks of a position, the mark
  quote of a position, and for a sale the environment and the quotes by the order id.
\<close>

record exit_world =
  xw_now :: datetime
  xw_clock :: "string \<Rightarrow> nat \<Rightarrow> datetime"
  xw_mark_quote :: "string \<Rightarrow> quote_response result"
  xw_env :: "string \<Rightarrow> broker_env"
  xw_sell_quotes :: "string \<Rightarrow> nat \<Rightarrow> quote_response result"

definition current_position :: "runtime \<Rightarrow> position_record \<Rightarrow> position_record" where
  "current_position p pos = opt_or (dict_get (ls_positions (pl_state (ru_ledger p))) (pos_id pos)) pos"

definition exit_order_id :: "position_record \<Rightarrow> string \<Rightarrow> string" where
  "exit_order_id pos reason = ''exit:'' @ pos_id pos @ '':'' @ reason"

definition sell_out :: "exit_world \<Rightarrow> paper_broker \<Rightarrow> position_record \<Rightarrow> decimal \<Rightarrow> string
    \<Rightarrow> (runtime, paper_execution_result) run_of" where
  "sell_out w b pos amount reason p = (let order_id = exit_order_id pos reason in
     case broker_close b (xw_env w order_id) (xw_sell_quotes w order_id) (pos_token_mint pos) amount
         (Some order_id) (Some reason) (ru_ledger p) of
       None \<Rightarrow> None
     | Some (L, answer) \<Rightarrow> Some (p\<lparr>ru_ledger := L\<rparr>, answer))"

definition exiting_states :: "candidate_state list" where
  "exiting_states = [POSITION_OPEN, POSITION_PARTIAL, RETRYING_EXIT]"

definition move_candidate :: "string \<Rightarrow> candidate_state \<Rightarrow> datetime \<Rightarrow> unit rmethod" where
  "move_candidate cid target now = mseq (transition_candidate cid target now) (mret ())"

definition candidate_of :: "runtime \<Rightarrow> position_record \<Rightarrow> candidate option" where
  "candidate_of p pos = (if truthy (pos_candidate_id pos)
     then dict_get (pl_candidates p) (the (pos_candidate_id pos)) else None)"

text \<open>A candidate stands in the dictionary under its own id.\<close>

definition begin_exit :: "position_record \<Rightarrow> datetime \<Rightarrow> unit rmethod" where
  "begin_exit pos now = mget (\<lambda>p. case candidate_of p pos of None \<Rightarrow> mret ()
     | Some c \<Rightarrow> mwhen (cd_state c \<in> set exiting_states) (move_candidate (cd_candidate_id c) EXIT_PENDING now))"

section \<open>Marking\<close>

record exit_marks =
  xm_quotes :: "(string, quote_response) dict"
  xm_prices :: "(string, decimal) dict"
  xm_values :: "(string, decimal) dict"
  xm_decisions :: "exit_decision list"

definition no_marks :: exit_marks where
  "no_marks = \<lparr>xm_quotes = [], xm_prices = [], xm_values = [], xm_decisions = []\<rparr>"

definition executable_usd_of :: "quote_response \<Rightarrow> decimal" where
  "executable_usd_of q = (case quote_out_amount_usd q of Some u \<Rightarrow> if u \<noteq> 0 then u else quote_out_amount q
     | None \<Rightarrow> quote_out_amount q)"

definition executable_price_of :: "quote_response \<Rightarrow> position_record \<Rightarrow> decimal" where
  "executable_price_of q pos = (if 0 < pos_remaining_token_amount pos
     then ddiv (executable_usd_of q) (pos_remaining_token_amount pos) else 0)"

definition write_off_decision :: "position_record \<Rightarrow> exit_decision" where
  "write_off_decision pos = \<lparr>ed_should_exit = True, ed_reason = EMERGENCY,
     ed_executable_pnl_usd = dneg (pos_remaining_cost_usd pos), ed_executable_return_pct = - 1, ed_close_fraction = 1\<rparr>"

text \<open>
  The sale of a position whose mark quotes have failed for too long. The candidate is looked up
  once, before the sale.
\<close>

definition write_off :: "exit_world \<Rightarrow> paper_broker \<Rightarrow> position_record \<Rightarrow> (runtime, unit) run_of" where
  "write_off w b pos = nget (\<lambda>p0. let cand = candidate_of p0 pos in
     nbind (nlift (begin_exit pos (xw_now w))) (\<lambda>_.
     nbind (nexcept
         (nget (\<lambda>p. sell_out w b pos (pos_remaining_token_amount (current_position p pos)) ''UNRECOVERABLE''))
         (\<lambda>err. nlift (case cand of None \<Rightarrow> mraise err
           | Some c \<Rightarrow> mseq (move_candidate (cd_candidate_id c) RETRYING_EXIT (xw_now w)) (mraise err)))) (\<lambda>_.
     nlift (case cand of None \<Rightarrow> mret () | Some c \<Rightarrow> move_candidate (cd_candidate_id c) candidate_state.CLOSED (xw_now w)))))"

definition note_quote_failure :: "datetime \<Rightarrow> position_record \<Rightarrow> datetime rmethod" where
  "note_quote_failure now pos p =
     (case opt_or (dict_get (ru_mark_quote_failures p) (pos_id pos)) (now, 0) of (first, attempts) \<Rightarrow>
       (p\<lparr>ru_mark_quote_failures := dict_set (ru_mark_quote_failures p) (pos_id pos) (first, attempts + 1)\<rparr>, Inr first))"

definition forget_quote_failures :: "position_record \<Rightarrow> unit rmethod" where
  "forget_quote_failures pos = mput (\<lambda>p. p\<lparr>ru_mark_quote_failures := dict_pop (ru_mark_quote_failures p) (pos_id pos)\<rparr>)"

definition quote_failed :: "exit_world \<Rightarrow> paper_broker \<Rightarrow> position_record \<Rightarrow> exit_marks \<Rightarrow> (runtime, exit_marks) run_of" where
  "quote_failed w b pos marks = nbind (nlift (note_quote_failure (xw_now w) pos)) (\<lambda>first_failed_at. nget (\<lambda>p.
     if seconds (pc_exit_retry_timeout_seconds (ac_paper (ru_config p))) \<le> xw_now w - first_failed_at
     then nbind (write_off w b pos) (\<lambda>_. nget (\<lambda>q.
       nbind (nlift (forget_quote_failures pos)) (\<lambda>_.
       nlift (mret (marks\<lparr>xm_decisions := xm_decisions marks @ [write_off_decision (current_position q pos)]\<rparr>)))))
     else nlift (mret marks)))"

definition quote_marked :: "position_record \<Rightarrow> quote_response \<Rightarrow> exit_marks \<Rightarrow> exit_marks rmethod" where
  "quote_marked pos q marks = mseq (forget_quote_failures pos) (mget (\<lambda>p. mret (marks\<lparr>
     xm_quotes := dict_set (xm_quotes marks) (pos_id pos) q,
     xm_values := dict_set (xm_values marks) (pos_id pos) (executable_usd_of q),
     xm_prices := dict_set (xm_prices marks) (pos_token_mint pos) (executable_price_of q (current_position p pos))\<rparr>)))"

definition mark_quote :: "exit_world \<Rightarrow> paper_broker \<Rightarrow> position_record \<Rightarrow> exit_marks \<Rightarrow> (runtime, exit_marks) run_of" where
  "mark_quote w b pos marks = (case xw_mark_quote w (pos_id pos) of
     Inr q \<Rightarrow> nlift (quote_marked pos q marks)
   | Inl err \<Rightarrow> if err = CancelledError then nlift (mraise err) else quote_failed w b pos marks)"

definition mark_ledger :: "(string, decimal) dict \<Rightarrow> datetime \<Rightarrow> unit rmethod" where
  "mark_ledger prices now = mput (\<lambda>p. p\<lparr>ru_ledger := fst (mark_to_market prices now (ru_ledger p))\<rparr>)"

definition apply_marks :: "exit_world \<Rightarrow> nat \<Rightarrow> exit_marks \<Rightarrow> unit rmethod" where
  "apply_marks w n marks = mwhen (xm_prices marks \<noteq> [] \<and> length (xm_prices marks) = n)
     (mseq (mark_ledger (xm_prices marks) (xw_now w))
       (mget (\<lambda>p. store_available (UpdatePaperMarks (open_positions (pl_state (ru_ledger p))) (xm_values marks)
          (pl_state (ru_ledger p)) (xw_now w)))))"

section \<open>Deciding\<close>

definition feature_of :: "runtime \<Rightarrow> datetime \<Rightarrow> position_record \<Rightarrow> (candidate \<times> feature_snapshot) option" where
  "feature_of p now pos = map_option (\<lambda>c. (c, snapshot (pl_features p) (cd_pool_address c) now))
     (find (\<lambda>c. cd_mint c = pos_token_mint pos) (dict_values (pl_candidates p)))"

definition momentum_now :: "(candidate \<times> feature_snapshot) option \<Rightarrow> bool" where
  "momentum_now cf = (case cf of None \<Rightarrow> False
     | Some (c, f) \<Rightarrow> fs_buy_sell_volume_ratio f < 8/10 \<and> fs_unique_buyers_30s f < fs_unique_sellers_30s f)"

definition count_momentum :: "(candidate \<times> feature_snapshot) option \<Rightarrow> position_record \<Rightarrow> int rmethod" where
  "count_momentum cf pos p =
     (let n = (if momentum_now cf then opt_or (dict_get (ru_momentum_windows p) (pos_id pos)) 0 + 1 else 0)
      in (p\<lparr>ru_momentum_windows := dict_set (ru_momentum_windows p) (pos_id pos) n\<rparr>, Inr n))"

definition dev_sold_since :: "runtime \<Rightarrow> datetime \<Rightarrow> (candidate \<times> feature_snapshot) option \<Rightarrow> position_record \<Rightarrow> bool" where
  "dev_sold_since p now cf pos = (case (dict_get (pl_tokens p) (pos_token_mint pos), cf) of
     (Some t, Some (c, f)) \<Rightarrow> sold_by (tk_creator_address t) (\<lambda>x. pos_opened_at pos \<le> tr_event_time x)
       (trades (pl_features p) (cd_pool_address c) (Some now))
   | _ \<Rightarrow> False)"

definition liquidity_collapsed :: "runtime \<Rightarrow> (candidate \<times> feature_snapshot) option \<Rightarrow> bool" where
  "liquidity_collapsed p cf = (case cf of None \<Rightarrow> False
     | Some (c, f) \<Rightarrow> fs_quote_liquidity_change_30s f \<le> dneg (lc_emergency_liquidity_drop_pct (ac_liquidity (ru_config p))))"

definition emergency_signal :: "exit_world \<Rightarrow> (candidate \<times> feature_snapshot) option \<Rightarrow> position_record \<Rightarrow> bool rmethod" where
  "emergency_signal w cf pos = mbind (runtime_daily_loss_exceeded (xw_clock w (pos_id pos) 0)) (\<lambda>loss. mget (\<lambda>p.
     mret (loss \<or> runtime_drawdown_exceeded p \<or> dev_sold_since p (xw_now w) cf pos \<or> liquidity_collapsed p cf)))"

definition halt_on_limits :: "exit_world \<Rightarrow> position_record \<Rightarrow> unit rmethod" where
  "halt_on_limits w pos = mget (\<lambda>p.
     mseq (if runtime_drawdown_exceeded p
         then mput (\<lambda>q. q\<lparr>ru_ledger := set_hard_halt ''ALL_TIME_DRAWDOWN_LIMIT'' (ru_ledger q)\<rparr>)
         else mbind (runtime_daily_loss_exceeded (xw_clock w (pos_id pos) 1)) (\<lambda>loss.
           mwhen loss (mput (\<lambda>q. q\<lparr>ru_ledger := set_daily_halt (current_date_key (ru_ledger q) (xw_now w))
             ''DAILY_LOSS_LIMIT'' (ru_ledger q)\<rparr>))))
       (mget (\<lambda>q. mwhen (\<not> Option.is_none (pl_database q) \<and> ru_database_available q)
         (mbind (if runtime_drawdown_exceeded q then mret True
             else runtime_daily_loss_exceeded (xw_clock w (pos_id pos) 2)) (\<lambda>exceeded. mget (\<lambda>r.
           mwhen exceeded (store (risk_state_call (ru_ledger r) (xw_now w)))))))))"

definition exit_decision_of :: "exit_world \<Rightarrow> exit_policy \<Rightarrow> position_record \<Rightarrow> quote_response \<Rightarrow> exit_decision rmethod" where
  "exit_decision_of w policy pos q = mget (\<lambda>p0.
     let price = executable_price_of q (current_position p0 pos); cf = feature_of p0 (xw_now w) pos in
     mbind (count_momentum cf pos) (\<lambda>windows.
     mbind (emergency_signal w cf (current_position p0 pos)) (\<lambda>emergency.
     mseq (halt_on_limits w pos) (mget (\<lambda>p.
       mret (evaluate_exit (current_position p pos) price (xw_now w) (Some policy)
         (ec_momentum_exit_windows (ac_exits (ru_config p)) \<le> windows) emergency))))))"

definition finish_exit :: "exit_world \<Rightarrow> position_record \<Rightarrow> unit rmethod" where
  "finish_exit w pos = mget (\<lambda>p. case candidate_of p pos of None \<Rightarrow> mret ()
     | Some c \<Rightarrow> mwhen (cd_state c = EXIT_PENDING) (move_candidate (the (pos_candidate_id pos))
         (if pos_status (current_position p pos) = OPEN then POSITION_PARTIAL else candidate_state.CLOSED) (xw_now w)))"

definition retry_exit :: "exit_world \<Rightarrow> position_record \<Rightarrow> unit rmethod" where
  "retry_exit w pos = mget (\<lambda>p. case candidate_of p pos of None \<Rightarrow> mret ()
     | Some c \<Rightarrow> mwhen (cd_state c = EXIT_PENDING) (move_candidate (the (pos_candidate_id pos)) RETRYING_EXIT (xw_now w)))"

definition take_exit :: "exit_world \<Rightarrow> paper_broker \<Rightarrow> position_record \<Rightarrow> exit_decision \<Rightarrow> (runtime, unit) run_of" where
  "take_exit w b pos d =
     nbind (nlift (begin_exit pos (xw_now w))) (\<lambda>_.
     nbind (nexcept
         (nget (\<lambda>p. sell_out w b pos (dmul (pos_remaining_token_amount (current_position p pos)) (ed_close_fraction d))
            (exit_reason_value (ed_reason d))))
         (\<lambda>err. nlift (mseq (retry_exit w pos) (mraise err)))) (\<lambda>_.
     nlift (finish_exit w pos)))"

definition exit_position :: "exit_world \<Rightarrow> paper_broker \<Rightarrow> exit_policy \<Rightarrow> (string, quote_response) dict \<Rightarrow> position_record
    \<Rightarrow> exit_decision list \<Rightarrow> (runtime, exit_decision list) run_of" where
  "exit_position w b policy quotes pos decisions = (case dict_get quotes (pos_id pos) of
     None \<Rightarrow> nlift (mret decisions)
   | Some q \<Rightarrow> nbind (nlift (exit_decision_of w policy pos q)) (\<lambda>d.
       if \<not> ed_should_exit d then nlift (mret (decisions @ [d]))
       else nbind (take_exit w b pos d) (\<lambda>_. nlift (mret (decisions @ [d])))))"

definition evaluate_and_close_exits :: "exit_world \<Rightarrow> exit_policy option \<Rightarrow> int option \<Rightarrow> (runtime, exit_decision list) run_of" where
  "evaluate_and_close_exits w policy0 max_positions = nget (\<lambda>p0. case ru_broker p0 of
     None \<Rightarrow> nlift (mret [])
   | Some b \<Rightarrow>
      (let policy = opt_or policy0 (exit_policy_of (ru_config p0));
           positions = open_positions (pl_state (ru_ledger p0));
           close_limit = (case max_positions of None \<Rightarrow> length positions | Some n \<Rightarrow> nat n)
       in nbind (nfold (mark_quote w b) positions no_marks) (\<lambda>marks.
          nbind (nlift (apply_marks w (length positions) marks)) (\<lambda>_.
          nbind (nfold (exit_position w b policy (xm_quotes marks)) (take close_limit positions) (xm_decisions marks)) (\<lambda>decisions.
          nlift (mget (\<lambda>p. mseq (store_available (SaveRuntimeCheckpoint (ru_momentum_windows p) (xw_now w))) (mret decisions))))))))"

section \<open>Loops\<close>

text \<open>The body of a loop: \<open>try: body; unblock except Exception: block\<close>. A cancellation ends the loop.\<close>

definition guarded_turn :: "string \<Rightarrow> (runtime, 'a) run_of \<Rightarrow> (runtime, unit) run_of" where
  "guarded_turn reason body = nexcept
     (nbind body (\<lambda>_. nlift (mput (\<lambda>p. p\<lparr>pl_entry_gate := unblock reason (pl_entry_gate p)\<rparr>))))
     (\<lambda>err. nlift (mput (\<lambda>p. p\<lparr>pl_entry_gate := block reason (pl_entry_gate p)\<rparr>)))"

definition provider_of :: "(string \<Rightarrow> security_world) \<Rightarrow> candidate \<Rightarrow> feature_snapshot \<Rightarrow> security_context rmethod" where
  "provider_of sw c = build_security_context (sw (cd_candidate_id c)) c"

definition handler_of :: "(string \<Rightarrow> entry_world) \<Rightarrow> candidate \<Rightarrow> feature_snapshot \<Rightarrow> score_breakdown \<Rightarrow> security_context
    \<Rightarrow> reject_reason option rmethod" where
  "handler_of ew c = open_candidate (ew (cd_candidate_id c)) c"

text \<open>One turn of the candidate loop; the outside is given for each candidate by its id.\<close>

definition candidate_turn :: "(string \<Rightarrow> security_world) \<Rightarrow> (string \<Rightarrow> entry_world) \<Rightarrow> datetime \<Rightarrow> (runtime, unit) run_of" where
  "candidate_turn sw ew now = guarded_turn ''security_data_unavailable''
     (nlift (evaluate_candidates (Some (provider_of sw)) (Some (handler_of ew)) now))"

definition exit_turn :: "exit_world \<Rightarrow> (runtime, unit) run_of" where
  "exit_turn w = guarded_turn ''exit_monitor_error'' (evaluate_and_close_exits w None None)"

definition quote_asset_turn :: "decimal result \<Rightarrow> datetime \<Rightarrow> (runtime, unit) run_of" where
  "quote_asset_turn answer now = guarded_turn ''sol_price_unavailable''
     (nlift (mbind (mlift answer) (\<lambda>price.
        let q = \<lparr>qa_mint = WSOL_MINT, qa_price_usd = price, qa_observed_at = now\<rparr> in
        if quote_asset_price_valid q then mput (\<lambda>p. p\<lparr>pl_pools := set_quote_price q (pl_pools p)\<rparr>)
        else mraise (ValueError ''validation error''))))"

definition warmup :: "runtime \<Rightarrow> runtime" where
  "warmup p = p\<lparr>pl_entry_gate := unblock ''warmup'' (pl_entry_gate p)\<rparr>"

text \<open>A heartbeat that finds the lease lost closes the gate, and the process ends.\<close>

definition heartbeat_turn :: "unit result \<Rightarrow> runtime \<Rightarrow> runtime \<times> bool" where
  "heartbeat_turn answer p = (if answer = Inl ActiveRuntimeError
     then (p\<lparr>pl_entry_gate := block ''runtime_lease_lost'' (pl_entry_gate p)\<rparr>, False) else (p, True))"

definition request_fatal_restart :: "runtime \<Rightarrow> runtime" where
  "request_fatal_restart p = p\<lparr>pl_entry_gate := block ''database_unavailable'' (pl_entry_gate p)\<rparr>"

section \<open>Health and commands\<close>

datatype health = HEALTHY | DEGRADED | HALTED

definition health_status :: "runtime \<Rightarrow> health" where
  "health_status p =
     (if is_halted (pl_state (ru_ledger p)) then HALTED
      else let reasons = gate_reasons (pl_entry_gate p) in
        if \<not> ru_database_available p \<or> ''event_processing_error'' \<in> set reasons
           \<or> (\<exists>r \<in> set reasons. startswith r ''protocol:'') then HALTED
        else if \<not> gate_enabled (pl_entry_gate p) then DEGRADED else HEALTHY)"

text \<open>The persistence of the risk state is a task of its own; its call is what the task gets.\<close>

definition persist_task :: "runtime \<Rightarrow> datetime \<Rightarrow> db_call option" where
  "persist_task p now = (if Option.is_none (pl_database p) \<or> \<not> ru_database_available p then None
     else Some (risk_state_call (ru_ledger p) now))"

definition halt :: "string \<Rightarrow> datetime \<Rightarrow> runtime \<Rightarrow> runtime \<times> db_call option" where
  "halt reason now p = (let q = p\<lparr>ru_ledger := risk_set_halt reason (ru_ledger p)\<rparr> in (q, persist_task q now))"

definition resume :: "datetime \<Rightarrow> runtime \<Rightarrow> runtime \<times> db_call option \<times> bool" where
  "resume now p = (case risk_clear_halt (ru_ledger p) of (L, resumed) \<Rightarrow>
     let q = p\<lparr>ru_ledger := L\<rparr> in (q, if resumed then persist_task q now else None, resumed))"

end
