(* ===== verification/Runtime_Props.thy ===== *)
theory Runtime_Props
  imports Runtime_Exits Pipeline_Props Broker_Props Clustering_Props
begin

text \<open>
  Properties of the runtime: its exit monitor and its candidate loop as runs of the ledger, what a
  closed entry gate means for the books, and what an aged rejection does to trading.
\<close>

section \<open>Clusters come back\<close>

lemma clusters_in_returns: "finite scope \<Longrightarrow> \<exists>cs. clusters_in scope a = Some (Inr cs)"
  unfolding clusters_in_def
  using build_clusters_spec [of "sorted_list_of_set scope" "scoped_relations scope a" "[]" "[]"]
  by (fastforce simp: in_scope_def scoped_relations_def)

lemma cluster_for_returns:
  assumes "finite scope"
  shows "\<exists>c. cluster_for wallet scope a = Some (Inr c)" and "\<exists>c. largest_related_cluster scope excluded a = Some (Inr c)"
  using clusters_in_returns [of scope a] clusters_in_returns [of "insert (the wallet) scope" a] assms
  by (auto simp: cluster_for_def largest_related_cluster_def Let_def)

section \<open>Methods that leave the books alone\<close>

text \<open>The ledger is the same and the gate has all the reasons it had.\<close>

definition grows :: "runtime \<Rightarrow> runtime \<Rightarrow> bool" where
  "grows p q \<longleftrightarrow> ru_ledger q = ru_ledger p \<and> eg_reasons (pl_entry_gate p) \<subseteq> eg_reasons (pl_entry_gate q)
     \<and> eg_protocol_reasons (pl_entry_gate p) \<subseteq> eg_protocol_reasons (pl_entry_gate q)"

definition calm :: "'a rmethod \<Rightarrow> bool" where
  "calm m \<longleftrightarrow> (\<forall>p. keeps (grows p) m)"

lemma grows_refl [simp]: "grows p p"
  by (simp add: grows_def)

lemma calmI: "(\<And>p. keeps (grows p) m) \<Longrightarrow> calm m"
  by (simp add: calm_def)

lemma calmD: "calm m \<Longrightarrow> keeps (grows p) m"
  by (simp add: calm_def)

lemma calm_keeps: "calm m \<Longrightarrow> (\<And>p q. grows p q \<Longrightarrow> P p \<Longrightarrow> P q) \<Longrightarrow> keeps P m"
  unfolding calm_def keeps_def using grows_refl by blast

lemma grows_updates [simp]:
  "grows p0 (p\<lparr>pl_written := x1\<rparr>) = grows p0 p" "grows p0 (p\<lparr>pl_features := x2\<rparr>) = grows p0 p"
  "grows p0 (p\<lparr>pl_pools := x3\<rparr>) = grows p0 p" "grows p0 (p\<lparr>pl_tokens := x4\<rparr>) = grows p0 p"
  "grows p0 (p\<lparr>pl_deduplicator := x5\<rparr>) = grows p0 p" "grows p0 (p\<lparr>pl_candidates := x6\<rparr>) = grows p0 p"
  "grows p0 (p\<lparr>pl_security_results := x7\<rparr>) = grows p0 p" "grows p0 (p\<lparr>pl_state_poisoned := x8\<rparr>) = grows p0 p"
  "grows p0 (p\<lparr>pl_scores := x9, pl_persisted_score_totals := x10\<rparr>) = grows p0 p"
  "grows p0 (p\<lparr>ru_wallets := y1\<rparr>) = grows p0 p" "grows p0 (p\<lparr>ru_momentum_windows := y2\<rparr>) = grows p0 p"
  "grows p0 (p\<lparr>ru_mark_quote_failures := y3\<rparr>) = grows p0 p" "grows p0 (p\<lparr>ru_enrichment_queue := y4\<rparr>) = grows p0 p"
  "grows p0 (p\<lparr>ru_enrichment_seen := y5\<rparr>) = grows p0 p"
  "grows p0 (p\<lparr>ru_enrichment_seen := y5, ru_enrichment_queue := y4\<rparr>) = grows p0 p"
  by (simp_all add: grows_def)

lemma grows_block: "grows p0 p \<Longrightarrow> grows p0 (p\<lparr>pl_entry_gate := block r (pl_entry_gate p)\<rparr>)"
  by (auto simp: grows_def block_def)

lemma grows_poison: "grows p0 p \<Longrightarrow> grows p0 (poison_state p)"
  by (auto simp: grows_def block_def poison_state_def)

lemma grows_rolled_back [simp]: "grows p0 (rolled_back p1 p) = grows p0 p"
  by (simp add: rolled_back_def)

lemma grows_touch [simp]: "grows p0 (touch_candidate e p) = grows p0 p"
  by (simp add: touch_candidate_def split: option.split)

lemma grows_closed: "grows p q \<Longrightarrow> \<not> gate_enabled (pl_entry_gate p) \<Longrightarrow> \<not> gate_enabled (pl_entry_gate q)"
  by (auto simp: grows_def gate_enabled_def)

lemma calm_store [keeps_intros]: "keeps (grows p) (store call)"
  by (rule keeps_store) simp

lemma calm_components [keeps_intros]:
  "keeps (grows p) (apply_pools e)" "keeps (grows p) (apply_tokens e)" "keeps (grows p) (dedup_event i)"
  by (auto simp: keeps_def apply_pools_def apply_tokens_def dedup_event_def
      split: option.splits sum.splits prod.splits)

lemma calm_apply_event:
  assumes "\<And>f e. obs = Some f \<Longrightarrow> calm (f e)"
  shows "keeps (grows p) (apply_event obs e a b ok)"
  unfolding apply_event_def apply_rest_def apply_observed_def observe_event_def discover_candidate_def ingest_pool_features_def
  by (intro keeps_intros) (simp_all add: assms calmD)

lemma calm_event_failure [keeps_intros]: "keeps (grows p) (event_failure d r i err)"
  by (auto simp: keeps_def event_failure_def mark_failed_def grows_poison split: prod.splits sum.splits dest!: store_frame)

lemma calm_persist:
  assumes "\<And>f e. obs = Some f \<Longrightarrow> calm (f e)"
  shows "keeps (grows p) (persist_claimed_event_state obs e raw reason)"
  unfolding persist_claimed_event_state_def by (intro keeps_intros calm_apply_event assms)

lemma calm_process_event:
  assumes "\<And>f e. obs = Some f \<Longrightarrow> calm (f e)"
  shows "calm (process_event obs e r d b df raw)"
  unfolding process_event_def event_state_change_def
  by (intro calmI keeps_intros keeps_transaction) (simp_all add: calm_apply_event calm_persist assms)

lemma calm_transition: "calm (transition_candidate cid target now)"
  unfolding transition_candidate_def save_candidate_def by (intro calmI keeps_intros) simp_all

lemma calm_observer: "calm (runtime_observer e)"
proof -
  have "keeps (grows p) (observe_wallets e)" for p
    by (auto simp: keeps_def observe_wallets_def split: prod.split)
  then show ?thesis
    unfolding runtime_observer_def by (intro calmI keeps_intros) (simp_all add: enqueue_enrichment_def)
qed

lemma calm_supply [keeps_intros]: "keeps (grows p) (update_pool_supply a x t)"
  unfolding update_pool_supply_def by (intro keeps_intros) simp_all

lemma calm_provider: "calm (build_security_context w c s)"
proof -
  have "keeps (grows p) (developer_profile d t)" for p d t
    by (auto simp: keeps_def developer_profile_def split: prod.split)
  then show ?thesis
    unfolding build_security_context_def save_mint_state_def by (intro calmI keeps_intros) simp_all
qed

lemma calm_enrichment: "calm (enrichment_step get_token)"
  unfolding enrichment_step_def by (intro calmI keeps_intros) simp_all

section \<open>The skeleton of the pipeline\<close>

lemma skeleton_runtime [simp]:
  "skeleton (p\<lparr>ru_wallets := y1\<rparr>) = skeleton p" "skeleton (p\<lparr>ru_momentum_windows := y2\<rparr>) = skeleton p"
  "skeleton (p\<lparr>ru_ledger := y3\<rparr>) = skeleton p" "skeleton (p\<lparr>ru_mark_quote_failures := y4\<rparr>) = skeleton p"
  "skeleton (p\<lparr>ru_enrichment_seen := y5\<rparr>) = skeleton p" "skeleton (p\<lparr>ru_enrichment_queue := y6\<rparr>) = skeleton p"
  "skeleton (p\<lparr>ru_enrichment_seen := y5, ru_enrichment_queue := y6\<rparr>) = skeleton p"
  by (simp_all add: skeleton_def fixed_def)

lemma frame_store [keeps_intros]: "keeps (\<lambda>p. skeleton p = S) (store call)"
  by (rule frameD [OF frame_components(4)])

lemma frame_observer: "observer_frame (Some runtime_observer)"
proof -
  have "keeps (\<lambda>p. skeleton p = S) (observe_wallets e)" for S e
    by (auto simp: keeps_def observe_wallets_def split: prod.split)
  then show ?thesis
    unfolding observer_frame_def runtime_observer_def
    by (intro allI impI frameI, elim option.inject [THEN iffD1, THEN subst] , intro keeps_intros) (simp_all add: enqueue_enrichment_def)
qed

lemma frame_provider: "provider_frame (Some (build_security_context w))"
proof -
  have "keeps (\<lambda>p. skeleton p = S) (developer_profile d t)" for S d t
    by (auto simp: keeps_def developer_profile_def split: prod.split)
  then have "frame (build_security_context w c s)" for c s
    unfolding build_security_context_def save_mint_state_def update_pool_supply_def
    by (intro frameI keeps_intros) simp_all
  then show ?thesis by (simp add: provider_frame_def)
qed

lemma frame_handler: "handler_frame (Some (open_candidate w))"
proof -
  have "keeps (\<lambda>p. skeleton p = S) (check_risk w x m)" "keeps (\<lambda>p. skeleton p = S) (buy_in w b r)" for S x m b r
    by (auto simp: keeps_def check_risk_def buy_in_def split: prod.split sum.split)
  then have "frame (open_candidate w c s sb ctx)" for c s sb ctx
    unfolding open_candidate_def store_available_def by (intro frameI keeps_intros) simp_all
  then show ?thesis by (simp add: handler_frame_def)
qed

section \<open>Invariants of the exit monitor\<close>

text \<open>What other tasks do to the ledger during a sale keeps a property of the runtime.\<close>

definition tasks_keep :: "(runtime \<Rightarrow> bool) \<Rightarrow> broker_env \<Rightarrow> bool" where
  "tasks_keep P env \<longleftrightarrow> (\<forall>p. P p \<longrightarrow> P (p\<lparr>ru_ledger := be_others env (ru_ledger p)\<rparr>)
     \<and> P (p\<lparr>ru_ledger := be_others_commit env (ru_ledger p)\<rparr>))"

text \<open>
  The operations that the exit monitor uses; a property they keep is kept by every pass, on every
  path and whatever the quotes and commits answer.
\<close>

lemma broker_close_cases:
  assumes "broker_close b env answers m x oid reason L = Some (L', r)"
  obtains "L' = L" | "L' = be_others env L" | q where "finish_close b env m x oid reason q (be_others env L) = (L', r)"
  using assms by (auto simp: broker_close_def split: if_splits option.splits list.splits sum.splits)

lemma finish_close_cases:
  assumes "L1 = (if pb_has_database b then be_others_commit env L else L)" and "finish_close b env m x oid r q L = (L', ans)"
  shows "L' = L \<or> L' = L1 \<or> (\<exists>a fid clock pos. close_position a fid clock L1 = Inr (L', pos))"
proof -
  let ?oid = "str_or oid (be_order_id env)"
  let ?usd = "dmul (quoted_usd_of q) (pb_adverse_factor b)"
  show ?thesis
  proof (cases "commit_exit b env m x ?oid (final_reason_of q r) ?usd q")
    case (Inl e)
    with assms(2) show ?thesis by (simp add: finish_close_def)
  next
    case (Inr c)
    let ?close = "close_position (broker_close_args b m x ?oid (final_reason_of q r) q c) (be_ledger_fill_id env) (be_filled_at env) L1"
    show ?thesis
    proof (cases ?close)
      case (Inl e)
      with assms Inr show ?thesis by (simp add: finish_close_def)
    next
      case close: (Inr y)
      with assms Inr have "?close = Inr (L', snd y)" by (cases y) (simp add: finish_close_def)
      then show ?thesis by blast
    qed
  qed
qed

locale exit_invariant =
  fixes P :: "runtime \<Rightarrow> bool"
  assumes stores: "keeps P (store call)"
    and moves: "keeps P (transition_candidate cid target now)"
    and windows: "P p \<Longrightarrow> P (p\<lparr>ru_momentum_windows := d\<rparr>)"
    and failures: "P p \<Longrightarrow> P (p\<lparr>ru_mark_quote_failures := f\<rparr>)"
    and marking: "P p \<Longrightarrow> P (p\<lparr>ru_ledger := fst (mark_to_market prices t (ru_ledger p))\<rparr>)"
    and closing: "P p \<Longrightarrow> close_position a fid clock (ru_ledger p) = Inr (L', pos) \<Longrightarrow> P (p\<lparr>ru_ledger := L'\<rparr>)"
    and halting: "P p \<Longrightarrow> P (p\<lparr>ru_ledger := set_halt reason hard (ru_ledger p)\<rparr>)"
    and daily_halting: "P p \<Longrightarrow> P (p\<lparr>ru_ledger := set_daily_halt key reason (ru_ledger p)\<rparr>)"
    and loss_checking: "P p \<Longrightarrow> P (p\<lparr>ru_ledger := fst (daily_loss_exceeded x t (ru_ledger p))\<rparr>)"
begin

lemma finish_close_keeps:
  assumes "tasks_keep P env" and "P (p\<lparr>ru_ledger := L\<rparr>)"
  shows "P (p\<lparr>ru_ledger := fst (finish_close b env m x oid r q L)\<rparr>)"
proof -
  define L1 where "L1 = (if pb_has_database b then be_others_commit env L else L)"
  have "P (p\<lparr>ru_ledger := be_others_commit env L\<rparr>)"
    using assms(1) [unfolded tasks_keep_def, rule_format, OF assms(2)] by simp
  with assms(2) have others: "P (p\<lparr>ru_ledger := L1\<rparr>)" by (simp add: L1_def)
  obtain L' ans where f: "finish_close b env m x oid r q L = (L', ans)" by fastforce
  have "P (p\<lparr>ru_ledger := L'\<rparr>)" if "close_position a fid clock L1 = Inr (L', pos)" for a fid clock pos
    using closing [OF others, of a fid clock L' pos] that by simp
  with finish_close_cases [OF L1_def f] assms(2) others f show ?thesis by auto
qed

lemma sell_out_keeps:
  assumes "\<And>oid. tasks_keep P (xw_env w oid)"
  shows "nkeeps P (sell_out w b pos x reason)"
proof (rule nkeepsI)
  let ?oid = "exit_order_id pos reason"
  fix p q r assume p: "P p" "sell_out w b pos x reason p = Some (q, r)"
  then obtain L where L: "broker_close b (xw_env w ?oid) (xw_sell_quotes w ?oid) (pos_token_mint pos) x (Some ?oid)
      (Some reason) (ru_ledger p) = Some (L, r)" "q = p\<lparr>ru_ledger := L\<rparr>"
    by (auto simp: sell_out_def Let_def split: option.splits prod.splits)
  have others: "P (p\<lparr>ru_ledger := be_others (xw_env w ?oid) (ru_ledger p)\<rparr>)"
    using assms p(1) by (simp add: tasks_keep_def)
  have "P (p\<lparr>ru_ledger := L\<rparr>)"
    if "finish_close b (xw_env w ?oid) m x oid rr quote (be_others (xw_env w ?oid) (ru_ledger p)) = (L, r)" for m oid rr quote
    using finish_close_keeps [OF assms others, of b ?oid m x oid rr quote] that by simp
  with L(1) have "P (p\<lparr>ru_ledger := L\<rparr>)"
    by (elim broker_close_cases) (simp_all add: p(1) others)
  with L(2) show "P q" by simp
qed

lemma loss_keeps: "keeps P (runtime_daily_loss_exceeded t)"
  unfolding keeps_def runtime_daily_loss_exceeded_def by (auto simp: case_prod_beta intro: loss_checking)

lemma move_keeps: "keeps P (move_candidate cid target now)"
  unfolding move_candidate_def by (intro keeps_intros moves)

lemmas exit_parts = loss_keeps stores move_keeps windows failures marking halting daily_halting

lemma begin_exit_keeps: "keeps P (begin_exit pos now)"
  unfolding begin_exit_def by (intro keeps_intros exit_parts)

lemma write_off_keeps:
  assumes "\<And>oid. tasks_keep P (xw_env w oid)"
  shows "nkeeps P (write_off w b pos)"
  unfolding write_off_def
  by (intro nkeeps_intros keeps_intros exit_parts begin_exit_keeps sell_out_keeps assms)

lemma mark_quote_keeps:
  assumes "\<And>oid. tasks_keep P (xw_env w oid)"
  shows "nkeeps P (mark_quote w b pos marks)"
proof -
  have "keeps P (note_quote_failure now pos)" for now
    by (auto simp: keeps_def note_quote_failure_def failures split: prod.split)
  then show ?thesis
    unfolding mark_quote_def quote_failed_def quote_marked_def forget_quote_failures_def
    by (intro nkeeps_intros keeps_intros write_off_keeps exit_parts assms)
qed

lemma apply_marks_keeps: "keeps P (apply_marks w n marks)"
  unfolding apply_marks_def mark_ledger_def store_available_def
  by (intro keeps_intros exit_parts)

lemma decision_keeps: "keeps P (exit_decision_of w policy pos q)"
proof -
  have "keeps P (count_momentum cf pos)" for cf
    by (auto simp: keeps_def count_momentum_def Let_def windows)
  moreover have "keeps P (halt_on_limits w pos)"
    unfolding halt_on_limits_def set_hard_halt_def by (intro keeps_intros exit_parts)
  ultimately show ?thesis
    unfolding exit_decision_of_def emergency_signal_def by (intro keeps_intros exit_parts)
qed

lemma exit_position_keeps:
  assumes "\<And>oid. tasks_keep P (xw_env w oid)"
  shows "nkeeps P (exit_position w b policy quotes pos decisions)"
  unfolding exit_position_def take_exit_def retry_exit_def finish_exit_def
  by (intro nkeeps_intros keeps_intros exit_parts begin_exit_keeps decision_keeps sell_out_keeps assms)

lemma exits_keep:
  assumes "\<And>oid. tasks_keep P (xw_env w oid)"
  shows "nkeeps P (evaluate_and_close_exits w policy n)"
  unfolding evaluate_and_close_exits_def store_available_def
  by (intro nkeeps_intros keeps_intros exit_parts mark_quote_keeps apply_marks_keeps exit_position_keeps assms)

end

text \<open>A relation between ledgers that contains the operations gives such a property.\<close>

definition tasks_within :: "(paper_ledger \<Rightarrow> paper_ledger \<Rightarrow> bool) \<Rightarrow> broker_env \<Rightarrow> bool" where
  "tasks_within R env \<longleftrightarrow> (\<forall>L. R L (be_others env L)) \<and> (\<forall>L. R L (be_others_commit env L))"

locale exit_relation =
  fixes R :: "paper_ledger \<Rightarrow> paper_ledger \<Rightarrow> bool"
  assumes reflexive: "R L L"
    and transitive: "R L L1 \<Longrightarrow> R L1 L2 \<Longrightarrow> R L L2"
    and r_marking: "R L (fst (mark_to_market prices t L))"
    and r_closing: "close_position a fid clock L = Inr (L', pos) \<Longrightarrow> R L L'"
    and r_halting: "R L (set_halt reason hard L)"
    and r_clearing: "R L (fst (clear_halt force L))"
    and r_daily_halting: "R L (set_daily_halt key reason L)"
    and r_loss_checking: "R L (fst (daily_loss_exceeded x t L))"

sublocale exit_relation \<subseteq> related: exit_invariant "\<lambda>p. R L0 (ru_ledger p)" for L0
proof
  have grown: "\<And>p q. grows p q \<Longrightarrow> R L0 (ru_ledger p) \<Longrightarrow> R L0 (ru_ledger q)" by (simp add: grows_def)
  show "keeps (\<lambda>p. R L0 (ru_ledger p)) (transition_candidate cid target now :: candidate option rmethod)" for cid target now
    by (rule calm_keeps [OF calm_transition]) (rule grown)
  show "keeps (\<lambda>p. R L0 (ru_ledger p)) (store call :: unit rmethod)" for call by (rule keeps_store) simp
qed (auto elim: transitive intro: r_marking r_closing r_halting r_daily_halting r_loss_checking)

context exit_relation
begin

lemma tasks_within_keep: "tasks_within R env \<Longrightarrow> tasks_keep (\<lambda>p. R L0 (ru_ledger p)) env"
  by (auto simp: tasks_within_def tasks_keep_def elim: transitive)

end

section \<open>Two relations\<close>

interpretation ledger_runs: exit_relation ledger_run
  by unfold_locales (auto intro: r_into_rtranclp ledger_step.intros)

text \<open>The same position ids.\<close>

definition same_positions :: "paper_ledger \<Rightarrow> paper_ledger \<Rightarrow> bool" where
  "same_positions L L' \<longleftrightarrow> dom (dict_get (ls_positions (pl_state L'))) = dom (dict_get (ls_positions (pl_state L)))"

lemma same_positions_books: "books (pl_state L') = books (pl_state L) \<Longrightarrow> same_positions L L'"
  by (simp add: same_positions_def books_def)

lemma close_same_positions: "close_position a fid clock L = Inr (L', pos) \<Longrightarrow> same_positions L L'"
  by (auto simp: close_position_def same_positions_def apply_close_def persist_def position_at_def rbind_def Let_def
      split: if_splits option.splits sum.splits)

interpretation position_ids: exit_relation same_positions
proof
  show "same_positions L (fst (mark_to_market prices t L))" for L prices t
    unfolding same_positions_def mark_to_market_state by (auto simp: map_of_map_values dom_def)
  show "same_positions L L" "same_positions L L1 \<Longrightarrow> same_positions L1 L2 \<Longrightarrow> same_positions L L2" for L L1 L2
    by (simp_all add: same_positions_def)
qed (rule close_same_positions same_positions_books controls_books, assumption?)+

end
