(* ===== verification/Runtime_Runs.thy ===== *)
theory Runtime_Runs
  imports Runtime_Props Config_Props Ledger_Props
begin

text \<open>
  The runtime as a transition system: events, turns of the loops and commands in any order. The
  ledger stays reachable by its own operations, a closed gate means no entry, every exit pass comes
  back, and an aged rejection ends trading for good.
\<close>

section \<open>Passes over the candidates\<close>

lemma provider_of_facts: "provider_frame (Some (provider_of sw))" "calm (provider_of sw c s)"
  using frame_provider calm_provider by (simp_all add: provider_frame_def provider_of_def)

lemma handler_of_frame: "handler_frame (Some (handler_of ew))"
  using frame_handler by (simp add: handler_frame_def handler_of_def)

text \<open>
  With the gate closed the handler is not consulted, and the provider leaves the books alone: a
  property of a closed gate that survives as long as the ledger stays and reasons are only added
  survives a pass.
\<close>

lemma closed_gate_pass:
  assumes closed: "\<And>p. P p \<Longrightarrow> \<not> gate_enabled (pl_entry_gate p)" and grown: "\<And>p q. grows p q \<Longrightarrow> P p \<Longrightarrow> P q"
    and provider: "\<And>f c s. provider = Some f \<Longrightarrow> calm (f c s)"
  shows "keeps P (evaluate_candidates provider handler t)"
proof -
  have st: "keeps P (store call)" for call by (rule keeps_store) (rule grown, simp_all)
  have dec: "keeps P (decide_entry handler t c chk)" for c chk
    by (auto simp: keeps_def decide_entry_def mget_def mlift_def dest: closed)
  have upd: "P p \<Longrightarrow> P (p\<lparr>pl_candidates := d\<rparr>)" "P p \<Longrightarrow> P (p\<lparr>pl_security_results := d1\<rparr>)"
    "P p \<Longrightarrow> P (p\<lparr>pl_scores := d2, pl_persisted_score_totals := d3\<rparr>)" for p d d1 d2 d3
    by (rule grown, simp_all)+
  have "keeps P (evaluate_candidate provider handler t item)" for item
    unfolding evaluate_candidate_def check_candidate_def evaluate_state_def save_candidate_def
    by (intro keeps_intros st dec upd calm_keeps [OF provider grown])
  then have "keeps P (evaluate_loop provider handler t items changed)" for items changed
    by (induction items arbitrary: changed) (auto intro!: keeps_intros)
  then show ?thesis unfolding evaluate_candidates_def by (intro keeps_get)
qed

section \<open>Entries\<close>

text \<open>An outside in which other tasks use the ledger's operations and new positions get new ids.\<close>

definition sound_entry :: "entry_world \<Rightarrow> bool" where
  "sound_entry w \<longleftrightarrow> (\<forall>L. tasks_use_ledger (ew_env w L) \<and> (\<forall>b r q. fresh_position_id b (ew_env w L) r q L))"

lemma handler_runs:
  assumes "sound_entry w"
  shows "keeps (\<lambda>p. ledger_run L (ru_ledger p)) (open_candidate w c s sb ctx)"
proof -
  have "keeps (\<lambda>p. ledger_run L (ru_ledger p)) (check_risk w x m)" for x m
    by (auto simp: keeps_def check_risk_def dest!: evaluate_entry_run split: sum.split prod.split)
  moreover have "keeps (\<lambda>p. ledger_run L (ru_ledger p)) (buy_in w b r)" for b r
    using assms broker_open_run
    by (fastforce simp: keeps_def buy_in_def sound_entry_def case_prod_beta elim: rtranclp_trans)
  ultimately show ?thesis
    unfolding open_candidate_def store_available_def by (intro keeps_intros keeps_store) simp_all
qed

lemma pass_runs:
  assumes "\<And>cid. sound_entry (ew cid)"
  shows "keeps (\<lambda>p. ledger_run L (ru_ledger p)) (evaluate_candidates (Some (provider_of sw)) (Some (handler_of ew)) t)"
proof (rule keeps_pass)
  fix f c s assume "Some (provider_of sw) = Some f"
  then show "keeps (\<lambda>p. ledger_run L (ru_ledger p)) (f c s)"
    using calm_keeps [OF provider_of_facts(2), where P = "\<lambda>p. ledger_run L (ru_ledger p)"] by (auto simp: grows_def)
next
  fix h c s sb ctx assume "Some (handler_of ew) = Some h"
  then show "keeps (\<lambda>p. ledger_run L (ru_ledger p)) (h c s sb ctx)"
    using handler_runs [OF assms] by (auto simp: handler_of_def)
qed (auto intro: keeps_store)

section \<open>Steps\<close>

text \<open>
  Whatever the program does next, given which environments its sales and entries may meet and at
  which times its passes may run.
\<close>

inductive runtime_step :: "(broker_env \<Rightarrow> bool) \<Rightarrow> (entry_world \<Rightarrow> bool) \<Rightarrow> (datetime \<Rightarrow> bool) \<Rightarrow> runtime \<Rightarrow> runtime \<Rightarrow> bool"
  for sale_ok entry_ok time_ok where
  an_event: "process_event (Some runtime_observer) e r d b df raw p = (q, a1) \<Longrightarrow> runtime_step sale_ok entry_ok time_ok p q"
| candidates: "(\<And>cid. entry_ok (ew cid)) \<Longrightarrow> time_ok now \<Longrightarrow> candidate_turn sw ew now p = Some (q, a2)
    \<Longrightarrow> runtime_step sale_ok entry_ok time_ok p q"
| exits: "(\<And>oid. sale_ok (xw_env w oid)) \<Longrightarrow> exit_turn w p = Some (q, a3) \<Longrightarrow> runtime_step sale_ok entry_ok time_ok p q"
| sol_price: "quote_asset_turn answer now' p = Some (q, a4) \<Longrightarrow> runtime_step sale_ok entry_ok time_ok p q"
| enriched: "enrichment_step get_token p = (q, a5) \<Longrightarrow> runtime_step sale_ok entry_ok time_ok p q"
| warmed_up: "runtime_step sale_ok entry_ok time_ok p (warmup p)"
| heartbeat: "runtime_step sale_ok entry_ok time_ok p (fst (heartbeat_turn beat p))"
| fatal: "runtime_step sale_ok entry_ok time_ok p (request_fatal_restart p)"
| halted: "runtime_step sale_ok entry_ok time_ok p (fst (halt reason clock p))"
| resumed: "runtime_step sale_ok entry_ok time_ok p (fst (resume clock p))"

lemma guarded_keeps:
  assumes "nkeeps P m" and "\<And>p. P p \<Longrightarrow> P (p\<lparr>pl_entry_gate := unblock reason (pl_entry_gate p)\<rparr>)"
    and "\<And>p. P p \<Longrightarrow> P (p\<lparr>pl_entry_gate := block reason (pl_entry_gate p)\<rparr>)"
  shows "nkeeps P (guarded_turn reason m)"
  unfolding guarded_turn_def by (intro nkeeps_intros keeps_intros assms)

lemma step_runs:
  assumes "runtime_step tasks_use_ledger sound_entry time_ok p q" and "ledger_run L (ru_ledger p)"
  shows "ledger_run L (ru_ledger q)"
  using assms(1)
proof cases
  case (an_event e r d b df raw a1)
  have "keeps (\<lambda>p. ledger_run L (ru_ledger p)) (process_event (Some runtime_observer) e r d b df raw)"
    by (rule calm_keeps [OF calm_process_event]) (auto simp: calm_observer grows_def)
  from keepsD [OF this assms(2)] an_event show ?thesis by simp
next
  case (candidates ew now sw a2)
  have "nkeeps (\<lambda>p. ledger_run L (ru_ledger p)) (candidate_turn sw ew now)"
    unfolding candidate_turn_def by (intro guarded_keeps nkeeps_lift pass_runs candidates(1)) simp_all
  from nkeepsD [OF this assms(2) candidates(3)] show ?thesis .
next
  case (exits w a3)
  have "nkeeps (\<lambda>p. ledger_run L (ru_ledger p)) (exit_turn w)"
    unfolding exit_turn_def using exits(1)
    by (intro guarded_keeps ledger_runs.related.exits_keep ledger_runs.tasks_within_keep)
      (simp_all add: tasks_within_def tasks_use_ledger_def)
  from nkeepsD [OF this assms(2) exits(2)] show ?thesis .
next
  case (sol_price answer now' a4)
  have "nkeeps (\<lambda>p. ledger_run L (ru_ledger p)) (quote_asset_turn answer now')"
    unfolding quote_asset_turn_def by (intro guarded_keeps nkeeps_intros keeps_intros) simp_all
  from nkeepsD [OF this assms(2) sol_price] show ?thesis .
next
  case (enriched get_token a5)
  have "keeps (\<lambda>p. ledger_run L (ru_ledger p)) (enrichment_step get_token)"
    by (rule calm_keeps [OF calm_enrichment]) (simp add: grows_def)
  from keepsD [OF this assms(2)] enriched show ?thesis by simp
next
  case (halted reason clock)
  with assms(2) show ?thesis
    by (auto simp: halt_def Let_def risk_set_halt_def intro: rtranclp.rtrancl_into_rtrancl ledger_step.halting)
next
  case (resumed clock)
  with assms(2) show ?thesis
    by (auto simp: resume_def Let_def risk_clear_halt_def case_prod_beta intro: rtranclp.rtrancl_into_rtrancl ledger_step.clearing)
qed (use assms(2) in \<open>simp_all add: warmup_def request_fatal_restart_def heartbeat_turn_def\<close>)


section \<open>Exit passes come back\<close>

lemma keeps_True [simp]: "keeps (\<lambda>p. True) m"
  by (simp add: keeps_def)

definition always_sells :: "paper_broker \<Rightarrow> bool" where
  "always_sells b \<longleftrightarrow> (\<forall>env answers m x oid reason L. \<exists>r. broker_close b env answers m x oid reason L = Some r)"

lemma sell_out_returns: "always_sells b \<Longrightarrow> nreturns (\<lambda>_. True) (sell_out w b pos x reason)"
  unfolding nreturns_def sell_out_def Let_def always_sells_def
  by (auto split: option.split)

lemma exit_pass_returns_aux:
  assumes "always_sells b"
  shows "nreturns (\<lambda>_. True) (mark_quote w b pos marks)" "nreturns (\<lambda>_. True) (exit_position w b policy quotes pos ds)"
  unfolding mark_quote_def quote_failed_def write_off_def exit_position_def take_exit_def
  by (intro nreturns_intros sell_out_returns assms keeps_True)+

text \<open>
  C19. With a positive retry interval every pass of the exit monitor comes back, whatever the quote
  provider, the database and the clock answer, and however many positions are open.
\<close>

theorem exit_pass_returns:
  assumes "paper_broker_init risk base delay_ms bps db account sv ch interval_ms timeout = Inr b"
    and "0 < interval_ms" and "timeout \<le> 10 ^ 12" and "ru_broker p = Some b"
  shows "\<exists>q r. evaluate_and_close_exits w policy n p = Some (q, r)"
proof -
  have sells: "always_sells b" using close_returns [OF assms(1-3)] by (simp add: always_sells_def)
  have "nreturns (\<lambda>_. True) (nbind (nfold (mark_quote w b) ps no_marks) (\<lambda>marks.
      nbind (nlift (apply_marks w (length ps) marks)) (\<lambda>_.
      nbind (nfold (exit_position w b pol (xm_quotes marks)) (take k ps) (xm_decisions marks)) (\<lambda>decisions.
      nlift (mget (\<lambda>p. mseq (store_available (SaveRuntimeCheckpoint (ru_momentum_windows p) (xw_now w))) (mret decisions)))))))"
    for ps pol k
    by (intro nreturns_intros exit_pass_returns_aux sells keeps_True)
  then show ?thesis
    by (auto simp: evaluate_and_close_exits_def nget_def assms(4) Let_def nreturns_def)
qed

section \<open>The end of trading\<close>

text \<open>A candidate is stuck, the candidate loop has closed the gate, and no position was added.\<close>

abbreviation no_data :: string where
  "no_data \<equiv> ''security_data_unavailable''"

definition ended :: "datetime \<Rightarrow> string \<Rightarrow> paper_ledger \<Rightarrow> runtime \<Rightarrow> bool" where
  "ended t cid L p \<longleftrightarrow> stuck t cid p \<and> no_data \<in> eg_reasons (pl_entry_gate p) \<and> same_positions L (ru_ledger p)"

lemma stuck_runtime [simp]:
  "stuck t cid (p\<lparr>ru_ledger := y\<rparr>) = stuck t cid p" "stuck t cid (p\<lparr>ru_momentum_windows := y1\<rparr>) = stuck t cid p"
  "stuck t cid (p\<lparr>ru_mark_quote_failures := y2\<rparr>) = stuck t cid p" "stuck t cid (p\<lparr>pl_pools := y3\<rparr>) = stuck t cid p"
  by (simp_all add: stuck_def holds_candidate_def)

lemma ended_calm:
  assumes "calm m" and "keeps (stuck t cid) m"
  shows "keeps (ended t cid L) m"
  using assms by (fastforce simp: calm_def keeps_def ended_def grows_def)

interpretation ended: exit_invariant "ended t cid L" for t cid L
proof
  show "keeps (ended t cid L) (store call)" for call
    by (rule keeps_store) (simp add: ended_def)
  show "keeps (ended t cid L) (transition_candidate k target now)" for k target now
    by (rule ended_calm [OF calm_transition]) (simp add: keeps_def stuck_command)
  show "ended t cid L p \<Longrightarrow> close_position a fid clock (ru_ledger p) = Inr (L', pos) \<Longrightarrow> ended t cid L (p\<lparr>ru_ledger := L'\<rparr>)"
    for p a fid clock L' pos
    by (auto simp: ended_def dest: close_same_positions elim: position_ids.transitive)
qed (auto simp: ended_def elim: position_ids.transitive
  intro: position_ids.r_marking position_ids.r_halting position_ids.r_daily_halting position_ids.r_loss_checking)

lemma ended_pass:
  assumes "ended t cid L p"
  shows "ended t cid L (fst (evaluate_candidates (Some (provider_of sw)) (Some (handler_of ew)) now p))"
proof -
  let ?P = "\<lambda>q. no_data \<in> eg_reasons (pl_entry_gate q) \<and> same_positions L (ru_ledger q)"
  have "keeps ?P (evaluate_candidates (Some (provider_of sw)) (Some (handler_of ew)) now)"
    by (rule closed_gate_pass) (auto simp: reason_disables grows_def provider_of_facts)
  from keepsD [OF this] assms stuck_pass [OF provider_of_facts(1) handler_of_frame] show ?thesis
    by (simp add: ended_def)
qed

lemma ended_turn:
  assumes "ended t cid L p" and "candidate_turn sw ew now p = Some (q, r)" and "t \<le> now"
  shows "ended t cid L q"
proof -
  obtain q1 a where q1: "evaluate_candidates (Some (provider_of sw)) (Some (handler_of ew)) now p = (q1, a)" by fastforce
  have e1: "ended t cid L q1" using ended_pass [OF assms(1), of sw ew now] q1 by simp
  have "stuck t cid p" using assms(1) by (simp add: ended_def)
  from stuck_pass_raises [OF provider_of_facts(1) handler_of_frame stuck_mono [OF this assms(3)], of sw ew] q1
  obtain err where "a = Inl err" by (auto simp: isl_def)
  with assms(2) q1 e1 show ?thesis
    by (auto simp: candidate_turn_def guarded_turn_def nexcept_def nbind_def nlift_def mput_def ended_def split: if_splits)
qed

lemma ended_gate:
  "ended t cid L p \<Longrightarrow> r \<noteq> no_data \<Longrightarrow> ended t cid L (p\<lparr>pl_entry_gate := unblock r (pl_entry_gate p)\<rparr>)"
  "ended t cid L p \<Longrightarrow> ended t cid L (p\<lparr>pl_entry_gate := block r (pl_entry_gate p)\<rparr>)"
  by (simp_all add: ended_def)

lemma step_ended:
  assumes "runtime_step (tasks_within same_positions) (\<lambda>_. True) (\<lambda>now. t \<le> now) p q" and "ended t cid L p"
  shows "ended t cid L q"
  using assms(1)
proof cases
  case (an_event e r d b df raw a1)
  have "keeps (ended t cid L) (process_event (Some runtime_observer) e r d b df raw)"
    by (rule ended_calm [OF calm_process_event stuck_process_event [OF frame_observer]]) (auto simp: calm_observer)
  from keepsD [OF this assms(2)] an_event show ?thesis by simp
next
  case (candidates ew now sw a2)
  with ended_turn [OF assms(2)] show ?thesis by blast
next
  case (exits w a3)
  have "tasks_keep (ended t cid L) (xw_env w oid)" for oid
    using exits(1) [of oid] by (auto simp: tasks_within_def tasks_keep_def ended_def elim: position_ids.transitive)
  then have "nkeeps (ended t cid L) (exit_turn w)"
    unfolding exit_turn_def by (intro guarded_keeps ended.exits_keep ended_gate) simp_all
  from nkeepsD [OF this assms(2) exits(2)] show ?thesis .
next
  case (sol_price answer now' a4)
  have "nkeeps (ended t cid L) (quote_asset_turn answer now')"
    unfolding quote_asset_turn_def by (intro guarded_keeps nkeeps_intros keeps_intros ended_gate) (simp_all add: ended_def)
  from nkeepsD [OF this assms(2) sol_price] show ?thesis .
next
  case (enriched get_token a5)
  have "frame (enrichment_step get_token)" unfolding enrichment_step_def by (intro frameI keeps_intros) simp_all
  from keepsD [OF ended_calm [OF calm_enrichment keeps_stuck_frame [OF this]] assms(2)] enriched show ?thesis by simp
next
  case (halted reason clock)
  with assms(2) show ?thesis
    by (auto simp: halt_def Let_def risk_set_halt_def ended_def elim: position_ids.transitive intro: position_ids.r_halting)
next
  case (resumed clock)
  with assms(2) show ?thesis
    by (auto simp: resume_def Let_def risk_clear_halt_def case_prod_beta ended_def elim: position_ids.transitive
        intro: position_ids.r_clearing)
qed (use assms(2) in \<open>simp_all add: warmup_def request_fatal_restart_def heartbeat_turn_def ended_gate\<close>)

text \<open>
  C14. Once a rejected candidate is older than the expiry, the first turn of the candidate loop ends
  trading for the rest of the process: whatever follows, events, turns of the loops and commands in
  any order and with any answers from outside, no position is ever added to the ledger, the entry
  gate stays closed and the health is never good again. The code drops no candidate, and the
  candidate loop evaluates the rejected ones as well.
\<close>

theorem aged_rejection_ends_trading:
  assumes "stuck t cid p0" and "t \<le> now" and "candidate_turn sw ew now p0 = Some (p, Inr ())"
    and "(runtime_step (tasks_within same_positions) (\<lambda>_. True) (\<lambda>now. t \<le> now))\<^sup>*\<^sup>* p q"
  shows "same_positions (ru_ledger p) (ru_ledger q) \<and> \<not> gate_enabled (pl_entry_gate q) \<and> health_status q \<noteq> HEALTHY"
proof -
  obtain q1 a where q1: "evaluate_candidates (Some (provider_of sw)) (Some (handler_of ew)) now p0 = (q1, a)" by fastforce
  from stuck_pass_raises [OF provider_of_facts(1) handler_of_frame stuck_mono [OF assms(1,2)], of sw ew] q1
  obtain err where "a = Inl err" by (auto simp: isl_def)
  moreover have "stuck t cid q1" using stuck_pass [OF provider_of_facts(1) handler_of_frame assms(1), of sw ew now] q1 by simp
  ultimately have "ended t cid (ru_ledger p) p" using assms(3) q1
    by (auto simp: candidate_turn_def guarded_turn_def nexcept_def nbind_def nlift_def mput_def ended_def
        position_ids.reflexive split: if_splits)
  with assms(4) have "ended t cid (ru_ledger p) q"
    by (induction rule: rtranclp_induct) (auto intro: step_ended)
  then show ?thesis by (auto simp: ended_def health_status_def Let_def dest: reason_disables)
qed

section \<open>A runtime with a rejected candidate\<close>

definition demo_runtime :: runtime where
  "demo_runtime = pipeline.extend demo_pipeline (runtime.fields demo_config demo_start None wallet_analyzer_init [] [] True {} [] None)"

lemma demo_runtime_facts [simp]:
  "ru_ledger demo_runtime = demo_start" "ru_config demo_runtime = demo_config" "pl_database demo_runtime = None"
  "ru_broker demo_runtime = None"
  "pl_candidates demo_runtime = pl_candidates demo_pipeline" "pl_state_machine demo_runtime = pl_state_machine demo_pipeline"
  "pl_pools demo_runtime = pl_pools demo_pipeline" "pl_entry_gate demo_runtime = pl_entry_gate demo_pipeline"
  by (simp_all add: demo_runtime_def pipeline.defs runtime.defs demo_pipeline_def restore_candidates_def pipeline_init_def)

lemma demo_runtime_stuck: "stuck (seconds 181) ''x'' demo_runtime"
  using demo_stuck by (simp add: stuck_def holds_candidate_def)

text \<open>An id that is longer than every position id of the ledger.\<close>

definition fresh_id :: "paper_ledger \<Rightarrow> string" where
  "fresh_id L = replicate (Suc (sum_list (map (length \<circ> fst) (ls_positions (pl_state L))))) CHR ''p''"

definition demo_entry :: entry_world where
  "demo_entry = \<lparr>ew_today = 0, ew_now = 0, ew_now_loss = 0, ew_now_trades = 0, ew_persist_at = 0,
     ew_env = (\<lambda>L. demo_env\<lparr>be_position_id := fresh_id L,
       be_entry_commit := (\<lambda>e. Inr \<lparr>cm_position_id = ec_position_id e, cm_fill_id = ec_fill_id e, cm_quote_id = ''q'',
         cm_filled_at = ec_filled_at e\<rparr>)\<rparr>),
     ew_buy_quote = (\<lambda>m x. Inr demo_quote)\<rparr>"

lemma fresh_id_new: "dict_get (ls_positions (pl_state L)) (fresh_id L) = None"
proof -
  have "length k < length (fresh_id L)" if "(k, v) \<in> set (ls_positions (pl_state L))" for k v
    using member_le_sum_list [of "length k" "map (length \<circ> fst) (ls_positions (pl_state L))"] that
    by (force simp: fresh_id_def)
  then show ?thesis by (force simp: map_of_eq_None_iff)
qed

lemma demo_entry_sound: "sound_entry demo_entry"
proof -
  have pos: "ls_positions (pl_state (ledger_at_fill b (ew_env demo_entry L) r L)) = ls_positions (pl_state L)" for b r L
    by (auto simp: ledger_at_fill_def Let_def demo_entry_def demo_env_def financials_eqD [OF evaluate_entry_financials]
        split: sum.split)
  have "cm_position_id c = fresh_id L" if "commit_entry b (ew_env demo_entry L) r oid q L2 = Inr c" for b r oid q L2 c L
    using that by (auto simp: commit_entry_def demo_entry_def entry_commit_of_def split: if_splits)
  then have "fresh_position_id b (ew_env demo_entry L) r q L" for b r q L
    using fresh_id_new [of L] by (auto simp: fresh_position_id_def pos fresh_id_def)
  then show ?thesis
    by (simp add: sound_entry_def demo_entry_def tasks_use_ledger_def demo_env_def)
qed

abbreviation demo_turn :: "(runtime \<times> unit result) option" where
  "demo_turn \<equiv> candidate_turn (\<lambda>i. \<lparr>sw_mint_info = (\<lambda>m. Inl TimeoutError), sw_holders_and_quote = (\<lambda>m x. Inl TimeoutError)\<rparr>)
     (\<lambda>i. demo_entry) (seconds 200) demo_runtime"

definition demo_after :: runtime where
  "demo_after = fst (the demo_turn)"

lemma demo_turn_result: "demo_turn = Some (demo_after, Inr ())"
proof -
  have "candidate_evaluate (state_machine_of None) demo_rejected s None None False False = Inl (ValueError ''invalid candidate transition'')"
    if "fs_snapshot_time s = seconds 200" for s
    using that by (simp add: candidate_evaluate_def demo_rejected_def state_machine_of_def cfg_def never_expires_def
        transition_def seconds_def usec_def Let_def)
  then have "evaluate_candidates (Some (provider_of sw)) (Some (handler_of ew)) (seconds 200) demo_runtime
      = (demo_runtime, Inl (ValueError ''invalid candidate transition''))" for sw ew
    by (simp add: evaluate_candidates_def mget_def demo_pipeline_def restore_candidates_def pipeline_init_def
        evaluate_candidate_def demo_rejected_def [THEN arg_cong [where f = cd_candidate_id]] pool_of_def pool_tracker_init_def
        mwhen_def mbind_def mret_def check_candidate_def checked_states_def evaluate_state_def mlift_def Let_def
        demo_rejected_def [THEN arg_cong [where f = cd_state]])
  then show ?thesis
    by (simp add: demo_after_def candidate_turn_def guarded_turn_def nexcept_def nbind_def nlift_def mput_def)
qed


theorem exit_pass_returns_witness:
  "\<forall>w. \<exists>q r. evaluate_and_close_exits w None None (demo_runtime\<lparr>ru_broker := Some (demo_broker 1000)\<rparr>) = Some (q, r)"
  by (intro allI exit_pass_returns [OF demo_broker_init]) simp_all

theorem aged_rejection_ends_trading_witness:
  "\<not> gate_enabled (pl_entry_gate (warmup demo_after)) \<and> health_status (warmup demo_after) \<noteq> HEALTHY"
proof -
  have "t \<le> now" if "t = seconds 181" "now = seconds 200" for t now using that by (simp add: seconds_def usec_def)
  then have le: "seconds 181 \<le> seconds 200" by blast
  have "runtime_step (tasks_within same_positions) (\<lambda>_. True) (\<lambda>now. seconds 181 \<le> now) demo_after (warmup demo_after)"
    by (rule runtime_step.warmed_up)
  from aged_rejection_ends_trading [OF demo_runtime_stuck le demo_turn_result r_into_rtranclp, OF this] show ?thesis by simp
qed

end
