(* ===== verification/Exit_Monitor.thy ===== *)
theory Exit_Monitor
  imports Runtime_Runs Ledger_Props
begin

text \<open>
  What the exit monitor does to a position: a breach of the drawdown limit liquidates and halts, and
  a position that nobody quotes any more is written off.
\<close>

section \<open>Breach of the drawdown limit\<close>

lemma drawdown_cong:
  "ls_equity_usd (pl_state (ru_ledger q)) = ls_equity_usd (pl_state (ru_ledger p))
    \<Longrightarrow> ls_peak_equity_usd (pl_state (ru_ledger q)) = ls_peak_equity_usd (pl_state (ru_ledger p))
    \<Longrightarrow> ru_config q = ru_config p \<Longrightarrow> runtime_drawdown_exceeded q = runtime_drawdown_exceeded p"
  by (simp add: runtime_drawdown_exceeded_def Let_def)

lemma loss_check_frame:
  assumes "runtime_daily_loss_exceeded t p = (q, r)"
  shows "ls_positions (pl_state (ru_ledger q)) = ls_positions (pl_state (ru_ledger p))"
    and "runtime_drawdown_exceeded q = runtime_drawdown_exceeded p"
  using assms controls_books(6) [of _ t "ru_ledger p"]
  by (auto simp: runtime_daily_loss_exceeded_def runtime_drawdown_exceeded_def books_def case_prod_beta Let_def)

lemma momentum_frame:
  assumes "count_momentum cf pos p = (q, r)"
  shows "ru_ledger q = ru_ledger p" and "ru_config q = ru_config p"
  using assms by (auto simp: count_momentum_def Let_def)

lemma emergency_frame:
  assumes "emergency_signal w cf pos p = (q, Inr e)" and "runtime_drawdown_exceeded p"
  shows "e" and "ls_positions (pl_state (ru_ledger q)) = ls_positions (pl_state (ru_ledger p))"
    and "runtime_drawdown_exceeded q"
  using assms loss_check_frame
  by (auto simp: emergency_signal_def mbind_Inr mget_def mret_def dest: loss_check_frame)

lemma halt_frame:
  assumes "halt_on_limits w pos p = (q, Inr u)" and "runtime_drawdown_exceeded p"
  shows "is_hard_halted (pl_state (ru_ledger q))"
    and "ls_positions (pl_state (ru_ledger q)) = ls_positions (pl_state (ru_ledger p))"
proof -
  define p1 where "p1 = p\<lparr>ru_ledger := set_hard_halt ''ALL_TIME_DRAWDOWN_LIMIT'' (ru_ledger p)\<rparr>"
  have p1: "is_hard_halted (pl_state (ru_ledger p1))" "runtime_drawdown_exceeded p1"
    "ls_positions (pl_state (ru_ledger p1)) = ls_positions (pl_state (ru_ledger p))"
    using assms(2) drawdown_cong [of p1 p]
    by (simp_all add: p1_def set_hard_halt_def set_halt_def state_set_hard_halt_def is_hard_halted_def persist_def startswith_def)
  have "halt_on_limits w pos p = mwhen (\<not> Option.is_none (pl_database p1) \<and> ru_database_available p1)
      (store (risk_state_call (ru_ledger p1) (xw_now w))) p1"
    using assms(2) p1(2)
    by (simp add: halt_on_limits_def mget_def mput_def mbind_def [of "mput _"] p1_def [symmetric] mwhen_def)
  then have "ru_ledger q = ru_ledger p1"
    using assms(1) by (auto simp: mwhen_def mret_def split: if_splits dest!: store_frame [OF sym])
  with p1 show "is_hard_halted (pl_state (ru_ledger q))"
    "ls_positions (pl_state (ru_ledger q)) = ls_positions (pl_state (ru_ledger p))" by simp_all
qed

text \<open>
  When the drawdown limit is breached, the monitor's decision on every live position it has a quote
  for is an emergency exit of the whole position, and new entries are blocked by a hard halt before
  the sale begins.
\<close>

theorem drawdown_breach_liquidates:
  assumes "exit_decision_of w policy pos quote p = (q, Inr d)" and "runtime_drawdown_exceeded p"
    and "live (current_position p pos)"
  shows "ed_should_exit d \<and> ed_reason d = EMERGENCY \<and> ed_close_fraction d = 1 \<and> is_hard_halted (pl_state (ru_ledger q))"
proof -
  define cf where "cf = feature_of p (xw_now w) pos"
  from assms(1) obtain p1 n p2 e p3 where s: "count_momentum cf pos p = (p1, Inr n)"
    "emergency_signal w cf (current_position p pos) p1 = (p2, Inr e)" "halt_on_limits w pos p2 = (p3, Inr ())"
    and q: "q = p3" "d = evaluate_exit (current_position p3 pos) (executable_price_of quote (current_position p pos)) (xw_now w)
      (Some policy) (ec_momentum_exit_windows (ac_exits (ru_config p3)) \<le> n) e"
    by (auto simp: exit_decision_of_def mget_def mbind_Inr mret_def Let_def cf_def)
  have b1: "runtime_drawdown_exceeded p1"
    using assms(2) drawdown_cong [of p1 p] momentum_frame [OF s(1)] by simp
  note e = emergency_frame [OF s(2) b1]
  note h = halt_frame [OF s(3) e(3)]
  have "current_position p3 pos = current_position p pos"
    using h(2) e(2) momentum_frame [OF s(1)] by (simp add: current_position_def)
  with assms(3) e(1) q h(1) show ?thesis by (simp add: evaluate_exit_def live_def Let_def)
qed

section \<open>Sales without quotes\<close>

lemma loop_failing:
  assumes "sell_quote_loop answers interval timeout n elapsed = Some r" and "always_failing answers"
  shows "r = Inr None"
proof -
  have "always_failing answers \<longrightarrow> r = Inr None"
    by (rule sell_quote_loop.raw_induct [OF _ assms(1),
          where P = "\<lambda>answers interval timeout n elapsed r. always_failing answers \<longrightarrow> r = Inr None"])
      (auto simp: always_failing_def split: sum.splits if_splits; metis Inl_Inr_False py_error.distinct sum.inject(1))
  with assms(2) show ?thesis by simp
qed

text \<open>The ledger has the position open, and nothing is known under the order id of the sale.\<close>

definition sellable :: "paper_ledger \<Rightarrow> position_record \<Rightarrow> string \<Rightarrow> bool" where
  "sellable L pos oid \<longleftrightarrow> ledger_wf (pl_state L) \<and> dict_get (ls_positions (pl_state L)) (pos_id pos) = Some pos
     \<and> pos_status pos = OPEN \<and> get_fill_by_order L oid = None
     \<and> dict_get (ls_close_order_id_index (pl_state L)) oid = None \<and> oid \<noteq> []"

text \<open>A broker with a positive retry interval whose exit commits succeed, and no other task at work.\<close>

definition working_broker :: "paper_broker \<Rightarrow> broker_env \<Rightarrow> bool" where
  "working_broker b env \<longleftrightarrow> 0 < pb_exit_retry_interval_seconds b
     \<and> of_int (pb_exit_retry_timeout_seconds b) \<le> pb_exit_retry_interval_seconds b * 2 ^ 51
     \<and> 0 \<le> pb_adverse_fill_bps b \<and> pb_adverse_fill_bps b < 10000
     \<and> quiet env \<and> (pb_has_database b \<longrightarrow> (\<forall>x. \<not> isl (be_exit_commit env x)))"

lemma filter_key: "x \<in> set xs \<Longrightarrow> distinct (map f xs) \<Longrightarrow> filter (\<lambda>y. f y = f x) xs = [x]"
  by (induction xs) (auto simp: filter_empty_conv, metis imageI)

lemma sellable_facts:
  assumes "sellable L pos oid"
  shows "dict_get (ls_token_index (pl_state L)) (pos_token_mint pos) = Some (pos_id pos)" "pos_wf pos" "pos_id pos \<noteq> []"
    "positions_of_mint L (pos_token_mint pos) = [pos]" "0 < pos_remaining_token_amount pos"
proof -
  have wf: "ledger_wf (pl_state L)" and got: "dict_get (ls_positions (pl_state L)) (pos_id pos) = Some pos" and op: "pos_status pos = OPEN"
    using assms by (simp_all add: sellable_def)
  show idx: "dict_get (ls_token_index (pl_state L)) (pos_token_mint pos) = Some (pos_id pos)"
    using wf got op by (auto simp: ledger_wf_def token_index_wf_def)
  show pw: "pos_wf pos" "pos_id pos \<noteq> []" using wf got positions_wf_get by (auto simp: ledger_wf_def)
  show "0 < pos_remaining_token_amount pos" using pw op by (simp add: pos_wf_def)
  have "pos \<in> set (open_positions (pl_state L))"
    using got op by (force simp: open_positions_def dest: map_of_SomeD)
  then show "positions_of_mint L (pos_token_mint pos) = [pos]"
    unfolding positions_of_mint_def using distinct_open_mints [OF wf] by (rule filter_key)
qed

text \<open>With no quote at all the sale goes through for nothing: the position is closed and its cost lost.\<close>

lemma worthless_sale:
  assumes "sellable L pos oid" and "working_broker b env" and "always_failing answers"
  obtains L' res pos' where
    "broker_close b env answers (pos_token_mint pos) (pos_remaining_token_amount pos) (Some oid) (Some reason) L = Some (L', Inr res)"
    "dict_get (ls_positions (pl_state L')) (pos_id pos) = Some pos'" "pos_status pos' = position_status.CLOSED" "pos_remaining_cost_usd pos' = 0"
    "ls_realized_pnl_usd (pl_state L') = dsub (ls_realized_pnl_usd (pl_state L)) (pos_remaining_cost_usd pos)"
proof -
  note f = sellable_facts [OF assms(1)]
  let ?m = "pos_token_mint pos" and ?x = "pos_remaining_token_amount pos"
  have q: "be_others env L = L" "be_others_commit env L = L" using assms(2) by (simp_all add: working_broker_def quiet_def)
  obtain r where "sell_quote_loop answers (pb_exit_retry_interval_seconds b) (pb_exit_retry_timeout_seconds b) 0 0 = Some r"
    using loop_returns assms(2) unfolding working_broker_def by blast
  with loop_failing [OF this assms(3)]
  have loop: "sell_quote_loop answers (pb_exit_retry_interval_seconds b) (pb_exit_retry_timeout_seconds b) 0 0 = Some (Inr None)"
    by simp
  have close: "broker_close b env answers ?m ?x (Some oid) (Some reason) L
      = Some (finish_close b env ?m ?x (Some oid) (Some reason) None L)"
    using assms(1) f loop q by (simp add: broker_close_def existing_order_def sellable_def)
  have "\<not> isl (commit_exit b env ?m ?x oid ''UNRECOVERABLE'' 0 None)"
    using assms(2) by (simp add: commit_exit_def working_broker_def)
  then obtain c where c: "commit_exit b env ?m ?x oid ''UNRECOVERABLE'' 0 None = Inr c" by (metis sum.collapse(2))
  define a where "a = broker_close_args b ?m ?x oid ''UNRECOVERABLE'' None c"
  have a: "ca_usd_received a = 0" "ca_network_fee_usd a = 0" "ca_token_closed a = ?x" "ca_token_mint a = ?m" "ca_order_id a = oid"
    "ca_platform_fee_usd a = 0" "ca_other_cost_usd a = 0" "ca_quote_latency_ms a = 0" "ca_adverse_fill_bps a = pb_adverse_fill_bps b"
    by (simp_all add: a_def broker_close_args_def quoted_usd_of_def Let_def dmul_def dsub_def)
  have valid: "fill_valid (close_fill a pos pid fid now)" for pid fid now
    using assms(2) by (simp add: fill_valid_def close_fill_def a working_broker_def)
  obtain L' p' where L': "close_position a (be_ledger_fill_id env) (be_filled_at env) L = Inr (L', p')"
    using assms(1) f valid a by (auto simp: close_position_def sellable_def position_at_def Let_def)
  have got: "dict_get (ls_close_order_id_index (pl_state L)) (ca_order_id a) = None"
    "dict_get (ls_token_index (pl_state L)) (ca_token_mint a) = Some (pos_id pos)" "dict_get (ls_positions (pl_state L)) (pos_id pos) = Some pos"
    "ledger_wf (pl_state L)"
    using assms(1) f(1) a by (simp_all add: sellable_def)
  note e = close_position_effect [OF got(4,1,2,3) L']
  note full = full_close_fraction [OF e(1) a(3)]
  have fixed: "dctx (pos_remaining_cost_usd pos) = pos_remaining_cost_usd pos" using f(2) by (simp add: pos_wf_def)
  have loss: "realized_delta a pos = - pos_remaining_cost_usd pos"
    using full fixed by (simp add: realized_delta_def net_received_def a dsub_def dec.odd)
  have fin: "finish_close b env ?m ?x (Some oid) (Some reason) None L = (L', Inr \<lparr>per_position_id = pos_id p', per_order_id = oid,
      per_token_mint = ?m, per_fill_id = cm_fill_id c, per_usd_notional = 0, per_token_amount = ?x, per_direction = ''exit''\<rparr>)"
    using assms(1) c L' q
    by (simp add: finish_close_def final_reason_of_def quoted_usd_of_def Let_def dmul_def a_def sellable_def)
  show thesis
  proof (rule that [OF close [unfolded fin]])
    show "dict_get (ls_positions (pl_state L')) (pos_id pos) = Some p'" by (simp add: e(2,3) apply_close_def Let_def)
    show "pos_status p' = position_status.CLOSED" by (simp add: e(2) reduce_position_status a)
    show "pos_remaining_cost_usd p' = 0" using full by (simp add: e(2) reduce_position_def Let_def dsub_def)
    show "ls_realized_pnl_usd (pl_state L') = dsub (ls_realized_pnl_usd (pl_state L)) (pos_remaining_cost_usd pos)"
      by (simp add: e(3) apply_close_def Let_def loss dadd_def dsub_def)
  qed
qed

section \<open>Positions that nobody quotes\<close>

definition writes_ok :: "'z pipeline_scheme \<Rightarrow> bool" where
  "writes_ok p \<longleftrightarrow> (case pl_database p of None \<Rightarrow> True | Some db \<Rightarrow> \<forall>call. \<not> isl (db_write db call))"

lemma store_ok: "writes_ok p \<Longrightarrow> \<exists>w. store call p = (p\<lparr>pl_written := w\<rparr>, Inr ())"
  by (auto simp: store_def writes_ok_def isl_def written_self split: option.splits sum.splits)

lemma transition_moves:
  assumes "writes_ok p" and "dict_get (pl_candidates p) cid = Some c" and "target \<in> set (allowed_targets (cd_state c))"
    and "target \<noteq> REJECTED"
  obtains c' w where "cd_state c' = target" "cd_candidate_id c' = cd_candidate_id c"
    "transition_candidate cid target now p = (p\<lparr>pl_candidates := dict_set (pl_candidates p) cid c', pl_written := w\<rparr>, Inr (Some c'))"
proof -
  obtain c' where c': "transition c target now None = Inr c'" "cd_state c' = target"
    using assms(3,4) by (auto simp: transition_def Let_def)
  let ?q = "p\<lparr>pl_candidates := dict_set (pl_candidates p) cid c'\<rparr>"
  have "writes_ok ?q" using assms(1) by (simp add: writes_ok_def)
  from store_ok [OF this] obtain w where "store (UpsertCandidate c') ?q = (?q\<lparr>pl_written := w\<rparr>, Inr ())" by blast
  then have "transition_candidate cid target now p = (?q\<lparr>pl_written := w\<rparr>, Inr (Some c'))"
    using assms(2) c'(1) by (simp add: transition_candidate_def mget_def mbind_def mlift_def mret_def save_candidate_def mput_def)
  with that [OF c'(2) transition_id [OF c'(1)]] show thesis by simp
qed

text \<open>The position's candidate is in one of the states of a held position.\<close>

definition held :: "runtime \<Rightarrow> position_record \<Rightarrow> bool" where
  "held p pos \<longleftrightarrow> (\<exists>cid c. pos_candidate_id pos = Some cid \<and> cid \<noteq> [] \<and> dict_get (pl_candidates p) cid = Some c
     \<and> cd_candidate_id c = cid \<and> cd_state c \<in> set exiting_states)"

lemma write_off_effect:
  assumes "sellable (ru_ledger p) pos (exit_order_id pos ''UNRECOVERABLE'')" and "held p pos" and "writes_ok p"
    and "working_broker b (xw_env w (exit_order_id pos ''UNRECOVERABLE''))"
    and "always_failing (xw_sell_quotes w (exit_order_id pos ''UNRECOVERABLE''))"
  obtains q pos' c where "write_off w b pos p = Some (q, Inr ())"
    "dict_get (ls_positions (pl_state (ru_ledger q))) (pos_id pos) = Some pos'" "pos_status pos' = position_status.CLOSED"
    "pos_remaining_cost_usd pos' = 0"
    "ls_realized_pnl_usd (pl_state (ru_ledger q)) = dsub (ls_realized_pnl_usd (pl_state (ru_ledger p))) (pos_remaining_cost_usd pos)"
    "dict_get (pl_candidates q) (the (pos_candidate_id pos)) = Some c" "cd_state c = candidate_state.CLOSED"
proof -
  let ?oid = "exit_order_id pos ''UNRECOVERABLE''"
  from assms(2) obtain cid c where c: "pos_candidate_id pos = Some cid" "cid \<noteq> []" "dict_get (pl_candidates p) cid = Some c"
    "cd_candidate_id c = cid" "cd_state c \<in> set exiting_states" by (auto simp: held_def)
  have cand: "candidate_of p pos = Some c" using c by (simp add: candidate_of_def)
  have "EXIT_PENDING \<in> set (allowed_targets (cd_state c))" using c(5) by (auto simp: exiting_states_def)
  from transition_moves [OF assms(3) c(3) this, of "xw_now w"] obtain c1 w1 where c1: "cd_state c1 = EXIT_PENDING" "cd_candidate_id c1 = cid"
    "transition_candidate cid EXIT_PENDING (xw_now w) p
      = (p\<lparr>pl_candidates := dict_set (pl_candidates p) cid c1, pl_written := w1\<rparr>, Inr (Some c1))"
    using c(4) by auto
  define p1 where "p1 = p\<lparr>pl_candidates := dict_set (pl_candidates p) cid c1, pl_written := w1\<rparr>"
  have begin_: "begin_exit pos (xw_now w) p = (p1, Inr ())"
    using c(4,5) c1(3) by (simp add: begin_exit_def mget_def cand mwhen_def move_candidate_def mbind_def mret_def p1_def)
  have cur: "current_position p1 pos = pos" using assms(1) by (simp add: current_position_def p1_def sellable_def opt_or_def)
  have l1: "ru_ledger p1 = ru_ledger p" by (simp add: p1_def)
  obtain L' res pos' where L': "broker_close b (xw_env w ?oid) (xw_sell_quotes w ?oid) (pos_token_mint pos)
      (pos_remaining_token_amount pos) (Some ?oid) (Some ''UNRECOVERABLE'') (ru_ledger p) = Some (L', Inr res)"
    "dict_get (ls_positions (pl_state L')) (pos_id pos) = Some pos'" "pos_status pos' = position_status.CLOSED" "pos_remaining_cost_usd pos' = 0"
    "ls_realized_pnl_usd (pl_state L') = dsub (ls_realized_pnl_usd (pl_state (ru_ledger p))) (pos_remaining_cost_usd pos)"
    by (rule worthless_sale [OF assms(1,4,5)])
  define p2 where "p2 = p1\<lparr>ru_ledger := L'\<rparr>"
  have sale: "sell_out w b pos (pos_remaining_token_amount (current_position p1 pos)) ''UNRECOVERABLE'' p1 = Some (p2, Inr res)"
    by (simp add: sell_out_def cur l1 L'(1) p2_def)
  have "writes_ok p2" "dict_get (pl_candidates p2) cid = Some c1" "candidate_state.CLOSED \<in> set (allowed_targets (cd_state c1))"
    using assms(3) c1 by (simp_all add: p2_def p1_def writes_ok_def)
  from transition_moves [OF this, of "xw_now w"] obtain c2 w2 where c2: "cd_state c2 = candidate_state.CLOSED"
    "transition_candidate cid candidate_state.CLOSED (xw_now w) p2
      = (p2\<lparr>pl_candidates := dict_set (pl_candidates p2) cid c2, pl_written := w2\<rparr>, Inr (Some c2))" by blast
  have "write_off w b pos p = Some (p2\<lparr>pl_candidates := dict_set (pl_candidates p2) cid c2, pl_written := w2\<rparr>, Inr ())"
    unfolding write_off_def Let_def
    using c(4) by (simp add: nget_def cand nbind_def nlift_def begin_ nexcept_def sale move_candidate_def mbind_def c2(2) mret_def)
  from that [OF this] L' c2(1) show thesis by (simp add: p2_def c(1))
qed


section \<open>A position that is written off\<close>

definition held_open :: open_args where
  "held_open = demo_open\<lparr>oa_candidate_id := Some ''x''\<rparr>"

definition held_ledger :: paper_ledger where
  "held_ledger = fst (projr (open_position held_open ''i'' ''y'' 0 demo_start))"

definition held_position :: position_record where
  "held_position = new_position held_open ''p1'' ''f1'' 0"

definition held_runtime :: runtime where
  "held_runtime = demo_runtime\<lparr>pl_candidates := [(''x'', demo_rejected\<lparr>cd_state := POSITION_OPEN\<rparr>)],
     ru_ledger := held_ledger, ru_broker := Some (demo_broker 1000),
     ru_mark_quote_failures := [(''p1'', 0, 1)]\<rparr>"

definition held_world :: exit_world where
  "held_world = \<lparr>xw_now = seconds 30, xw_clock = (\<lambda>i n. seconds 30), xw_mark_quote = (\<lambda>i. Inl (RuntimeError ''429'')),
     xw_env = (\<lambda>i. demo_env), xw_sell_quotes = (\<lambda>i n. Inl (RuntimeError ''429''))\<rparr>"

lemma held_open_result: "open_position held_open ''i'' ''y'' 0 demo_start = Inr (held_ledger, held_position)"
  by (simp add: held_ledger_def held_position_def held_open_def demo_defs open_position_def Let_def fill_valid_def
      entry_fill_def opt_or_def)

lemma held_ledger_state:
  "pl_state held_ledger = (ledger_state_init 500 [] [])\<lparr>ls_fills := [entry_fill held_open ''p1'' ''f1'' 0],
     ls_positions := [(''p1'', held_position)], ls_order_id_index := [(''o1'', ''p1'')],
     ls_token_index := [(''m1'', ''p1'')], ls_locked_capital_usd := dadd 0 (dadd 10 0)\<rparr>"
  by (simp add: held_ledger_def held_position_def held_open_def demo_defs open_position_def Let_def fill_valid_def
      entry_fill_def opt_or_def)

lemma held_ledger_wf: "ledger_wf (pl_state held_ledger)"
proof -
  have "ledger_step demo_start held_ledger"
    by (rule ledger_step.open_pos [OF _ held_open_result]) (simp add: open_ok_def held_open_def demo_defs)
  then show ?thesis by (rule ledger_step_wf) (rule reachable_wf [OF demo_start_reachable])
qed

lemma held_position_facts: "pos_id held_position = ''p1''" "pos_status held_position = OPEN"
  "pos_candidate_id held_position = Some ''x''"
  by (simp_all add: held_position_def held_open_def demo_open_def new_position_def)

lemma held_sellable: "sellable held_ledger held_position (exit_order_id held_position ''UNRECOVERABLE'')"
  unfolding sellable_def
  by (intro conjI held_ledger_wf) (simp_all add: held_ledger_state held_position_facts get_fill_by_order_def exit_order_id_def
      entry_fill_def held_open_def demo_open_def ledger_state_init_def)

lemma demo_broker_works: "working_broker (demo_broker 1000) demo_env"
proof -
  have "1/2000 \<le> pb_exit_retry_interval_seconds (demo_broker 1000)"
    using retry_interval_lower [of 1000] by (simp add: demo_broker_def paper_broker_init_def)
  moreover have "pb_exit_retry_timeout_seconds (demo_broker 1000) = 30" "\<not> pb_has_database (demo_broker 1000)"
    "pb_adverse_fill_bps (demo_broker 1000) = 50"
    by (simp_all add: demo_broker_def paper_broker_init_def)
  ultimately show ?thesis by (simp add: working_broker_def demo_quiet(1))
qed


end
