(* ===== verification/Gateway.thy ===== *)
theory Gateway
  imports Entry_Gate Anchor Py_Monad Py_Float
begin

text \<open>
  The stream gateway (class \<open>HeliusStreamGateway\<close> of \<open>stream.py\<close>): its tasks share one object and
  run undisturbed between two awaits, so each definition here is a piece of code between awaits and
  \<open>Gateway_Runs\<close> composes them. The websocket's frames, the answers of the RPC client, of the
  database handlers and of the batch handler and the clock are arguments. Metrics and log messages
  are not modelled, nor is \<open>_spawn_ordered_log_fetch\<close>, which nothing calls.
\<close>

section \<open>Constants\<close>

definition MAX_GAP_RECOVERY_AGE :: timedelta where
  "MAX_GAP_RECOVERY_AGE = seconds 60"

definition LIVE_BASELINE_WARMUP :: timedelta where
  "LIVE_BASELINE_WARMUP = seconds 60"

definition SUBSCRIPTION_MESSAGE_BUFFER_LIMIT :: nat where
  "SUBSCRIPTION_MESSAGE_BUFFER_LIMIT = 16384"

definition SLOT_BLOCK_TIME_CACHE_SIZE :: nat where
  "SLOT_BLOCK_TIME_CACHE_SIZE = 512"

definition BLOCK_TIME_RETRY_DELAYS :: "rat list" where
  "BLOCK_TIME_RETRY_DELAYS = [1/4, 1/2, 1]"

definition PROCESSING_BATCH_SIZE :: nat where
  "PROCESSING_BATCH_SIZE = 1024"

definition PROCESSING_RETRY_LIMIT :: nat where
  "PROCESSING_RETRY_LIMIT = 3"

section \<open>Transactions\<close>

text \<open>Iteration over a JSON value: lists, strings and the keys of dictionaries.\<close>

fun json_iter :: "json \<Rightarrow> json list result" where
  "json_iter (JList xs) = Inr xs"
| "json_iter (JStr s) = Inr (map (\<lambda>c. JStr [c]) s)"
| "json_iter (JObj d) = Inr (map (JStr \<circ> fst) d)"
| "json_iter _ = Inl TypeError"

definition join_lines :: "string list \<Rightarrow> string" where
  "join_lines xs = (case xs of [] \<Rightarrow> [] | y # ys \<Rightarrow> y @ concat (map (\<lambda>z. CHR 0x0A # z) ys))"

definition transaction_protocols :: "json \<Rightarrow> protocol list result" where
  "transaction_protocols tx = rbind (transaction_logs tx) (\<lambda>logs. rbind (json_iter logs) (\<lambda>ls.
     let txt = join_lines (map json_str ls) in
     Inr ((if contains PUMP_PROGRAM_ID txt then [PUMP] else []) @ (if contains PUMPSWAP_PROGRAM_ID txt then [PUMPSWAP] else []))))"

definition transaction_signature :: "json \<Rightarrow> string option result" where
  "transaction_signature tx = rbind (json_get tx ''signature'' JNull) (\<lambda>s.
     if json_truth s then Inr (Some (json_str s))
     else rbind (json_get tx ''transaction'' (JObj [])) (\<lambda>inner.
          rbind (json_or (json_get inner ''signatures'' JNull) (Inr (JList []))) (\<lambda>signatures.
          case signatures of
            JList [] \<Rightarrow> Inr None
          | JList (x # xs) \<Rightarrow> Inr (Some (json_str x))
          | JStr (c # cs) \<Rightarrow> Inr (Some [c])
          | JObj d \<Rightarrow> Inl KeyError
          | _ \<Rightarrow> Inl TypeError)))"

text \<open>\<open>datetime.fromtimestamp(t, tz=timezone.utc)\<close> for the years 1 to 9999.\<close>

definition datetime_of_seconds :: "int \<Rightarrow> datetime option" where
  "datetime_of_seconds t = (if - 62135596800 \<le> t \<and> t \<le> 253402300799 then Some (seconds t) else None)"

definition transaction_block_time :: "json \<Rightarrow> datetime option result" where
  "transaction_block_time tx = rbind (json_get tx ''blockTime'' JNull) (\<lambda>raw0.
     rbind (if raw0 \<noteq> JNull then Inr raw0
            else rbind (json_or (json_get tx ''transaction'' JNull) (Inr (JObj []))) (\<lambda>inner. json_get inner ''blockTime'' JNull))
       (\<lambda>raw. if raw = JNull then Inr None
          else case json_int raw of Inl e \<Rightarrow> Inr None | Inr t \<Rightarrow> Inr (datetime_of_seconds t)))"

text \<open>\<open>int(transaction.get("slot", 0))\<close>\<close>

definition slot_of :: "json \<Rightarrow> int result" where
  "slot_of tx = rbind (json_get tx ''slot'' (JInt 0)) json_int"

text \<open>\<open>td.total_seconds()\<close>: a correctly rounded quotient.\<close>

definition total_seconds :: "timedelta \<Rightarrow> rat" where
  "total_seconds td = fl (of_int td / of_int usec)"

section \<open>State\<close>

type_synonym stream_item = "protocol \<times> json \<times> event_source"

datatype notification =
    TransactionNotification json datetime int
  | LogNotification string int "string list" datetime int

text \<open>
  A call of \<open>_queue_transaction\<close> that waits in \<open>self._queue.put\<close>: the signature and the items still
  to be put, the first being the one it waits with.
\<close>

record put_job =
  pj_signature :: "string option"
  pj_items :: "stream_item list"

text \<open>What the dispatcher task is doing: waiting for a notification, holding one, or waiting in a put.\<close>

datatype hand = Waiting | Holding notification | Putting put_job

text \<open>A task of \<open>_fetch_block_time_and_dispatch_logs\<close>; tasks are identified by their sequence number.\<close>

datatype log_stage = Created | Fetching | Fetched int | PuttingLog put_job

record log_task =
  lt_sequence :: nat
  lt_signature :: string
  lt_slot :: int
  lt_logs :: "string list"
  lt_received_at :: datetime
  lt_generation :: int
  lt_previous :: "nat option"
  lt_stage :: log_stage

datatype worker = Idle | Collecting "stream_item list" | Processing "stream_item list" bool nat | Stopped

text \<open>Where \<open>_run\<close> stands; its local variables are fields of the gateway.\<close>

datatype run_phase = Top | Connected | Recovering | Committing "stream_item list" | Replaying | Online | Ended

text \<open>
  \<open>gw_failed_tasks\<close> holds the sequence numbers of the log tasks that ended with an exception (their
  \<open>Task\<close> objects do), \<open>gw_fatal\<close> the calls of the fatal handler and \<open>gw_gaps\<close> those of the gap handler.
  The last two fields record, for the log tasks since the last cancellation, the first sequence
  number and those that queued their transaction; the code does not have them.
\<close>

record gateway =
  gw_entry_gate :: entry_gate
  gw_last_slot :: int
  gw_last_signature :: "string option"
  gw_last_signatures :: "(protocol, string) dict"
  gw_last_observed_at :: "datetime option"
  gw_last_chain_block_time :: "datetime option"
  gw_last_processed_block_time :: "datetime option"
  gw_last_processing_lag_seconds :: "rat option"
  gw_max_processing_lag_seconds :: rat
  gw_baseline_started_at :: "datetime option"
  gw_queue :: "stream_item option list"
  gw_queue_size :: nat
  gw_notification_queue :: "notification list"
  gw_notification_queue_size :: nat
  gw_dispatcher :: "hand option"
  gw_worker :: worker
  gw_batching :: bool
  gw_stopping :: bool
  gw_stream_generation :: int
  gw_log_fetch_sequence :: nat
  gw_log_fetch_permits :: nat
  gw_log_fetch_tasks :: "log_task list"
  gw_log_fetch_tail :: "nat option"
  gw_failed_tasks :: "nat set"
  gw_fetch_error_sequences :: "nat set"
  gw_reconnect_requested :: bool
  gw_dispatch_recovery_pending :: bool
  gw_slot_block_times :: "(int, int) dict"
  gw_halt_on_unrecoverable_gap :: bool
  gw_unrecoverable_gap_recorded :: bool
  gw_phase :: run_phase
  gw_attempt :: nat
  gw_logs_only :: bool
  gw_pending :: "json list"
  gw_fatal :: "py_error list"
  gw_gaps :: "string list"
  gw_first_task :: nat
  gw_sent :: "nat list"

type_synonym 'a gmethod = "(gateway, 'a) method_of"

definition gateway_init :: "rat \<Rightarrow> int \<Rightarrow> int \<Rightarrow> nat \<Rightarrow> bool \<Rightarrow> bool \<Rightarrow> gateway result" where
  "gateway_init max_processing_lag_seconds log_fetch_concurrency notification_queue_size queue_size batching halt =
     (if max_processing_lag_seconds \<le> 0 then Inl (ValueError ''max_processing_lag_seconds must be greater than zero'')
      else if log_fetch_concurrency \<le> 0 then Inl (ValueError ''log_fetch_concurrency must be greater than zero'')
      else if notification_queue_size \<le> 0 then Inl (ValueError ''notification_queue_size must be greater than zero'')
      else Inr \<lparr>gw_entry_gate = entry_gate_init, gw_last_slot = 0, gw_last_signature = None, gw_last_signatures = [],
        gw_last_observed_at = None, gw_last_chain_block_time = None, gw_last_processed_block_time = None,
        gw_last_processing_lag_seconds = None, gw_max_processing_lag_seconds = max_processing_lag_seconds,
        gw_baseline_started_at = None, gw_queue = [], gw_queue_size = queue_size, gw_notification_queue = [],
        gw_notification_queue_size = nat notification_queue_size, gw_dispatcher = None, gw_worker = Stopped,
        gw_batching = batching, gw_stopping = False, gw_stream_generation = 0, gw_log_fetch_sequence = 0,
        gw_log_fetch_permits = nat log_fetch_concurrency, gw_log_fetch_tasks = [], gw_log_fetch_tail = None,
        gw_failed_tasks = {}, gw_fetch_error_sequences = {}, gw_reconnect_requested = False,
        gw_dispatch_recovery_pending = False, gw_slot_block_times = [], gw_halt_on_unrecoverable_gap = halt,
        gw_unrecoverable_gap_recorded = False, gw_phase = Ended, gw_attempt = 0, gw_logs_only = False,
        gw_pending = [], gw_fatal = [], gw_gaps = [], gw_first_task = 0, gw_sent = []\<rparr>)"

definition gateway_start :: "gateway \<Rightarrow> gateway" where
  "gateway_start g = g\<lparr>gw_stopping := False, gw_worker := Idle, gw_phase := Top, gw_attempt := 0,
     gw_logs_only := False, gw_pending := []\<rparr>"

definition restore_checkpoint :: "int \<Rightarrow> string option \<Rightarrow> datetime option \<Rightarrow> gateway \<Rightarrow> gateway" where
  "restore_checkpoint slot signature observed_at g =
     g\<lparr>gw_last_slot := max 0 slot, gw_last_signature := signature, gw_last_observed_at := observed_at\<rparr>"

definition restore_protocol_checkpoint :: "protocol \<Rightarrow> string \<Rightarrow> gateway \<Rightarrow> gateway" where
  "restore_protocol_checkpoint p signature g = g\<lparr>gw_last_signatures := dict_set (gw_last_signatures g) p signature\<rparr>"

definition gblock :: "string \<Rightarrow> gateway \<Rightarrow> gateway" where
  "gblock reason g = g\<lparr>gw_entry_gate := block reason (gw_entry_gate g)\<rparr>"

definition gunblock :: "string \<Rightarrow> gateway \<Rightarrow> gateway" where
  "gunblock reason g = g\<lparr>gw_entry_gate := unblock reason (gw_entry_gate g)\<rparr>"

section \<open>Checkpoints and the live baseline\<close>

definition checkpoint_is_recent :: "datetime \<Rightarrow> gateway \<Rightarrow> bool" where
  "checkpoint_is_recent now g \<longleftrightarrow> 0 < gw_last_slot g \<and> (case gw_last_observed_at g of
     None \<Rightarrow> False | Some t \<Rightarrow> 0 \<le> now - t \<and> now - t \<le> MAX_GAP_RECOVERY_AGE)"

definition begin_live_baseline :: "gateway \<Rightarrow> gateway" where
  "begin_live_baseline g = gblock ''stream_stale'' (gblock ''stream_baseline''
     (g\<lparr>gw_stream_generation := gw_stream_generation g + 1, gw_baseline_started_at := None\<rparr>))"

definition discard_in_memory_checkpoint :: "gateway \<Rightarrow> gateway" where
  "discard_in_memory_checkpoint g = begin_live_baseline (g\<lparr>gw_last_slot := 0, gw_last_signature := None,
     gw_last_observed_at := None, gw_last_chain_block_time := None, gw_last_processed_block_time := None,
     gw_last_processing_lag_seconds := None, gw_last_signatures := []\<rparr>)"

definition later :: "datetime option \<Rightarrow> datetime \<Rightarrow> datetime option" where
  "later old t = (case old of None \<Rightarrow> Some t | Some s \<Rightarrow> if s < t then Some t else Some s)"

definition note_observed :: "datetime \<Rightarrow> gateway \<Rightarrow> gateway" where
  "note_observed t g = g\<lparr>gw_last_observed_at := later (gw_last_observed_at g) t\<rparr>"

section \<open>Queueing transactions\<close>

definition queue_full :: "gateway \<Rightarrow> bool" where
  "queue_full g \<longleftrightarrow> 0 < gw_queue_size g \<and> gw_queue_size g \<le> length (gw_queue g)"

definition note_signature :: "string option \<Rightarrow> protocol \<Rightarrow> gateway \<Rightarrow> gateway" where
  "note_signature signature p g = (if truthy signature
     then g\<lparr>gw_last_signatures := dict_set (gw_last_signatures g) p (the signature)\<rparr> else g)"

definition put_item :: "stream_item \<Rightarrow> gateway \<Rightarrow> gateway" where
  "put_item x g = g\<lparr>gw_queue := gw_queue g @ [Some x]\<rparr>"

text \<open>
  The loop over the protocols of a transaction: the checkpoint of the protocol moves before the
  put, which waits while the queue is full. The answer holds the items that are still to be put.
\<close>

fun put_items :: "string option \<Rightarrow> stream_item list \<Rightarrow> gateway \<Rightarrow> gateway \<times> stream_item list" where
  "put_items signature [] g = (g, [])"
| "put_items signature (x # xs) g = (let g1 = note_signature signature (fst x) g in
     if queue_full g1 then (g1, x # xs) else put_items signature xs (put_item x g1))"

definition queued_source :: "event_source \<Rightarrow> datetime \<Rightarrow> int option \<Rightarrow> gateway \<Rightarrow> gateway \<times> event_source" where
  "queued_source source received generation g =
     (if source \<in> {HELIUS_WSS, SOLANA_WSS} then
        let started = opt_or (gw_baseline_started_at g) received;
            g1 = g\<lparr>gw_baseline_started_at := Some started\<rparr>
        in (g1, if received - started < LIVE_BASELINE_WARMUP
              \<or> (generation \<noteq> None \<and> generation \<noteq> Some (gw_stream_generation g)) then BASELINE_WSS else source)
      else (g, source))"

definition observe_transaction :: "int \<Rightarrow> string option \<Rightarrow> datetime \<Rightarrow> gateway \<Rightarrow> gateway" where
  "observe_transaction slot signature received g =
     note_observed received (g\<lparr>gw_last_slot := max (gw_last_slot g) slot,
       gw_last_signature := if truthy signature then signature else gw_last_signature g\<rparr>)"

definition note_chain_time :: "datetime option \<Rightarrow> gateway \<Rightarrow> gateway" where
  "note_chain_time block_time g = (case block_time of None \<Rightarrow> g
     | Some t \<Rightarrow> g\<lparr>gw_last_chain_block_time := later (gw_last_chain_block_time g) t\<rparr>)"

text \<open>
  \<open>_queue_transaction\<close> up to its end or to the put it waits in; the answer is the job that is left,
  if any.
\<close>

definition queue_transaction :: "json \<Rightarrow> event_source \<Rightarrow> datetime \<Rightarrow> int option \<Rightarrow> put_job option gmethod" where
  "queue_transaction tx source received generation =
     mbind (mlift (slot_of tx)) (\<lambda>slot.
     mbind (mlift (transaction_signature tx)) (\<lambda>signature.
     mseq (mput (observe_transaction slot signature received)) (
     mbind (mlift (transaction_block_time tx)) (\<lambda>block_time.
     mseq (mput (note_chain_time block_time)) (
     mbind (\<lambda>g. case queued_source source received generation g of (g1, s) \<Rightarrow> (g1, Inr s)) (\<lambda>queued.
     mbind (mlift (transaction_protocols tx)) (\<lambda>protocols g.
       case put_items signature (map (\<lambda>p. (p, tx, queued)) protocols) g of
         (g1, []) \<Rightarrow> (g1, Inr None)
       | (g1, rest) \<Rightarrow> (g1, Inr (Some \<lparr>pj_signature = signature, pj_items = rest\<rparr>)))))))))"

text \<open>A waiting put goes on when the queue has space.\<close>

definition resume_put :: "put_job \<Rightarrow> gateway \<Rightarrow> gateway \<times> put_job option" where
  "resume_put j g = (case pj_items j of
     [] \<Rightarrow> (g, None)
   | x # xs \<Rightarrow> (case put_items (pj_signature j) xs (put_item x g) of
       (g1, []) \<Rightarrow> (g1, None)
     | (g1, rest) \<Rightarrow> (g1, Some (j\<lparr>pj_items := rest\<rparr>))))"

section \<open>Messages\<close>

text \<open>\<open>x.get(k) if isinstance(x, dict) else None\<close>\<close>

fun member :: "json \<Rightarrow> string \<Rightarrow> json" where
  "member (JObj d) k = opt_or (dict_get d k) JNull"
| "member _ k = JNull"

fun is_obj :: "json \<Rightarrow> bool" where
  "is_obj (JObj d) = True"
| "is_obj _ = False"

fun is_str :: "json \<Rightarrow> bool" where
  "is_str (JStr s) = True"
| "is_str _ = False"

fun has_key :: "json \<Rightarrow> string \<Rightarrow> bool" where
  "has_key (JObj d) k = (dict_get d k \<noteq> None)"
| "has_key _ k = False"

fun set_member :: "json \<Rightarrow> string \<Rightarrow> json \<Rightarrow> json" where
  "set_member (JObj d) k v = JObj (dict_set d k v)"
| "set_member x k v = x"

text \<open>\<open>_enqueue_notification_dispatch\<close>: a dispatcher that has ended is started again.\<close>

definition enqueue_notification_dispatch :: "notification \<Rightarrow> unit gmethod" where
  "enqueue_notification_dispatch item g =
     (if gw_reconnect_requested g
      then (g, Inl (RuntimeError ''ordered Solana transaction dispatch requested reconnect''))
      else let g1 = (if gw_dispatcher g = None then g\<lparr>gw_dispatcher := Some Waiting\<rparr> else g) in
        if length (gw_notification_queue g1) < gw_notification_queue_size g1
        then (g1\<lparr>gw_notification_queue := gw_notification_queue g1 @ [item]\<rparr>, Inr ())
        else let err = RuntimeError ''Solana notification ingress queue overflow'' in
          ((gblock ''stream_fetch_error'' (g1\<lparr>gw_dispatch_recovery_pending := True\<rparr>))
             \<lparr>gw_reconnect_requested := True, gw_fatal := gw_fatal g1 @ [err]\<rparr>, Inl err))"

text \<open>The checks on a \<open>logsNotification\<close>; a failed transaction is skipped.\<close>

definition log_notification :: "json \<Rightarrow> json \<Rightarrow> datetime \<Rightarrow> int \<Rightarrow> notification option result" where
  "log_notification val context received_at generation =
     (if \<not> is_obj val then Inl (RuntimeError ''Solana logs notification is missing a valid value'')
      else case member val ''signature'' of
        JStr signature \<Rightarrow>
          if signature = [] \<or> signature \<noteq> py_strip signature
          then Inl (RuntimeError ''Solana logs notification is missing a valid signature'')
          else if \<not> has_key val ''err'' then Inl (RuntimeError ''Solana logs notification is missing the required err field'')
          else if member val ''err'' \<noteq> JNull then Inr None
          else (case member val ''logs'' of
            JList raw_logs \<Rightarrow>
              if \<not> list_all is_str raw_logs then Inl (RuntimeError ''Solana logs notification is missing a valid logs array'')
              else (case member context ''slot'' of
                JInt slot \<Rightarrow> if slot \<le> 0 then Inl (RuntimeError ''Solana logs notification is missing a valid slot'')
                  else Inr (Some (LogNotification signature slot (map json_str raw_logs) received_at generation))
              | _ \<Rightarrow> Inl (RuntimeError ''Solana logs notification is missing a valid slot''))
          | _ \<Rightarrow> Inl (RuntimeError ''Solana logs notification is missing a valid logs array''))
      | _ \<Rightarrow> Inl (RuntimeError ''Solana logs notification is missing a valid signature''))"

text \<open>What a notification holds, or the exception its checks raise.\<close>

definition read_notification :: "string \<Rightarrow> json \<Rightarrow> datetime \<Rightarrow> int \<Rightarrow> notification option result" where
  "read_notification method_name result received_at generation =
     (let transaction = member result ''transaction''; context = member result ''context'' in
      if is_obj transaction then
        Inr (Some (TransactionNotification
          (if \<not> has_key transaction ''slot'' \<and> is_obj context
           then set_member transaction ''slot'' (if has_key context ''slot'' then member context ''slot'' else JInt 0)
           else transaction) received_at generation))
      else if method_name \<noteq> ''logsNotification'' then Inr None
      else log_notification (member result ''value'') context received_at generation)"

definition handle_message :: "datetime \<Rightarrow> json \<Rightarrow> unit gmethod" where
  "handle_message received_at message =
     mbind (mlift (json_get message ''error'' JNull)) (\<lambda>err.
     if json_truth err then mraise (RuntimeError ''Helius subscription returned an error'') else
     mbind (mlift (json_or (json_get message ''method'' JNull) (Inr (JStr [])))) (\<lambda>m.
     if \<not> endswith (json_str m) ''Notification'' then mret () else
     mseq (mput (note_observed received_at)) (
     mbind (mlift (rbind (json_or (json_get message ''params'' JNull) (Inr (JObj []))) (\<lambda>params.
       json_or (json_get params ''result'' JNull) (Inr (JObj []))))) (\<lambda>result. mget (\<lambda>g.
     mbind (mlift (read_notification (json_str m) result received_at (gw_stream_generation g))) (\<lambda>item.
     case item of None \<Rightarrow> mret () | Some n \<Rightarrow> enqueue_notification_dispatch n))))))"

section \<open>Dispatching notifications\<close>

definition dispatch_failed :: "gateway \<Rightarrow> gateway" where
  "dispatch_failed g = (gblock ''stream_fetch_error'' (g\<lparr>gw_dispatch_recovery_pending := True\<rparr>))
     \<lparr>gw_reconnect_requested := True\<rparr>"

text \<open>\<open>_spawn_ordered_log_dispatch\<close> once a permit is there.\<close>

definition spawn_log_dispatch :: "string \<Rightarrow> int \<Rightarrow> string list \<Rightarrow> datetime \<Rightarrow> int \<Rightarrow> gateway \<Rightarrow> gateway" where
  "spawn_log_dispatch signature slot logs received_at generation g =
     (let n = gw_log_fetch_sequence g in
      g\<lparr>gw_log_fetch_permits := gw_log_fetch_permits g - 1, gw_log_fetch_sequence := n + 1,
        gw_log_fetch_tasks := gw_log_fetch_tasks g @ [\<lparr>lt_sequence = n, lt_signature = signature, lt_slot = slot,
          lt_logs = logs, lt_received_at = received_at, lt_generation = generation,
          lt_previous = gw_log_fetch_tail g, lt_stage = Created\<rparr>],
        gw_log_fetch_tail := Some n\<rparr>)"

text \<open>
  The steps of the dispatcher: taking a notification, handling it, and going on after a put. A log
  notification waits for a permit, unless a reconnect is requested. A step that cannot be taken is
  \<open>None\<close>.
\<close>

definition dispatcher_take :: "gateway \<Rightarrow> gateway option" where
  "dispatcher_take g = (case (gw_dispatcher g, gw_notification_queue g) of
     (Some Waiting, x # xs) \<Rightarrow> Some (g\<lparr>gw_dispatcher := Some (Holding x), gw_notification_queue := xs\<rparr>)
   | _ \<Rightarrow> None)"

definition dispatcher_end :: "gateway \<Rightarrow> gateway" where
  "dispatcher_end g = (dispatch_failed g)\<lparr>gw_dispatcher := None\<rparr>"

definition dispatcher_put :: "gateway \<times> put_job option \<Rightarrow> gateway" where
  "dispatcher_put r = (fst r)\<lparr>gw_dispatcher := Some (case snd r of None \<Rightarrow> Waiting | Some j \<Rightarrow> Putting j)\<rparr>"

definition dispatcher_handle :: "gateway \<Rightarrow> gateway option" where
  "dispatcher_handle g = (case gw_dispatcher g of
     Some (Holding (TransactionNotification tx received_at generation)) \<Rightarrow>
       (case queue_transaction tx HELIUS_WSS received_at (Some generation) g of
          (g1, Inl e) \<Rightarrow> Some (dispatcher_end g1)
        | (g1, Inr j) \<Rightarrow> Some (dispatcher_put (g1, j)))
   | Some (Holding (LogNotification signature slot logs received_at generation)) \<Rightarrow>
       if gw_reconnect_requested g then Some (dispatcher_end g)
       else if 0 < gw_log_fetch_permits g
       then Some ((spawn_log_dispatch signature slot logs received_at generation g)\<lparr>gw_dispatcher := Some Waiting\<rparr>)
       else None
   | _ \<Rightarrow> None)"

definition dispatcher_resume :: "gateway \<Rightarrow> gateway option" where
  "dispatcher_resume g = (case gw_dispatcher g of
     Some (Putting j) \<Rightarrow> if queue_full g then None else Some (dispatcher_put (resume_put j g))
   | _ \<Rightarrow> None)"

section \<open>Log tasks\<close>

text \<open>\<open>_fetch_slot_block_time\<close>; the answers of the RPC client are given by the attempt.\<close>

function fetch_slot_block_time :: "(nat \<Rightarrow> int option result) \<Rightarrow> nat \<Rightarrow> int option result" where
  "fetch_slot_block_time answer attempt = (case answer attempt of
     Inl e \<Rightarrow> if e \<noteq> SolanaRpcError (Some (- 32004)) \<or> length BLOCK_TIME_RETRY_DELAYS \<le> attempt then Inl e
       else fetch_slot_block_time answer (attempt + 1)
   | Inr r \<Rightarrow> Inr r)"
  by pat_completeness auto
termination by (relation "measure (\<lambda>(answer, attempt). length BLOCK_TIME_RETRY_DELAYS - attempt)") auto

declare fetch_slot_block_time.simps [simp del]

text \<open>
  \<open>_get_slot_block_time\<close>; requests in flight are shared by the tasks of a slot, so their answer is
  an argument. The cache forgets its oldest slots.
\<close>

definition remember_block_time :: "int \<Rightarrow> int \<Rightarrow> gateway \<Rightarrow> gateway" where
  "remember_block_time slot t g = (let d = dict_set (gw_slot_block_times g) slot t in
     g\<lparr>gw_slot_block_times := drop (length d - SLOT_BLOCK_TIME_CACHE_SIZE) d\<rparr>)"

definition get_slot_block_time :: "int \<Rightarrow> (nat \<Rightarrow> int option result) \<Rightarrow> int gmethod" where
  "get_slot_block_time slot answer g =
     (if slot \<le> 0 then (g, Inl (RuntimeError ''Solana logs notification is missing a valid slot''))
      else case dict_get (gw_slot_block_times g) slot of
        Some t \<Rightarrow> (g, Inr t)
      | None \<Rightarrow> (case fetch_slot_block_time answer 0 of
          Inl e \<Rightarrow> (g, Inl e)
        | Inr None \<Rightarrow> (g, Inl (RuntimeError ''confirmed Solana slot block time is unavailable''))
        | Inr (Some t) \<Rightarrow> (remember_block_time slot t g, Inr t)))"

definition log_transaction :: "log_task \<Rightarrow> int \<Rightarrow> json" where
  "log_transaction t block_time = JObj [(''slot'', JInt (lt_slot t)), (''blockTime'', JInt block_time),
     (''signature'', JStr (lt_signature t)),
     (''meta'', JObj [(''err'', JNull), (''logMessages'', JList (map JStr (lt_logs t)))])]"

definition find_log_task :: "nat \<Rightarrow> gateway \<Rightarrow> log_task option" where
  "find_log_task n g = find (\<lambda>t. lt_sequence t = n) (gw_log_fetch_tasks g)"

definition set_log_stage :: "nat \<Rightarrow> log_stage \<Rightarrow> gateway \<Rightarrow> gateway" where
  "set_log_stage n stage g = g\<lparr>gw_log_fetch_tasks :=
     map (\<lambda>t. if lt_sequence t = n then t\<lparr>lt_stage := stage\<rparr> else t) (gw_log_fetch_tasks g)\<rparr>"

text \<open>\<open>_forget_log_fetch_task\<close>, after the task has released its permit.\<close>

definition forget_log_task :: "nat \<Rightarrow> gateway \<Rightarrow> gateway" where
  "forget_log_task n g = g\<lparr>gw_log_fetch_permits := gw_log_fetch_permits g + 1,
     gw_log_fetch_tasks := filter (\<lambda>t. lt_sequence t \<noteq> n) (gw_log_fetch_tasks g),
     gw_log_fetch_tail := if gw_log_fetch_tail g = Some n then None else gw_log_fetch_tail g\<rparr>"

definition fail_log_task :: "nat \<Rightarrow> gateway \<Rightarrow> gateway" where
  "fail_log_task n g = forget_log_task n (dispatch_failed (g\<lparr>gw_failed_tasks := insert n (gw_failed_tasks g),
     gw_fetch_error_sequences := insert n (gw_fetch_error_sequences g)\<rparr>))"

definition finish_log_task :: "nat \<Rightarrow> gateway \<Rightarrow> gateway" where
  "finish_log_task n g = (let g1 = g\<lparr>gw_fetch_error_sequences := gw_fetch_error_sequences g - {n}\<rparr> in
     forget_log_task n (if gw_fetch_error_sequences g1 = {} \<and> \<not> gw_dispatch_recovery_pending g1
       then gunblock ''stream_fetch_error'' g1 else g1))"

definition log_task_put :: "nat \<Rightarrow> gateway \<times> put_job option \<Rightarrow> gateway" where
  "log_task_put n r = (case snd r of None \<Rightarrow> finish_log_task n (fst r) | Some j \<Rightarrow> set_log_stage n (PuttingLog j) (fst r))"

text \<open>
  The steps of a task: it starts, it gets its block time or fails, it waits for the task before it
  and queues its transaction, and it goes on after a put.
\<close>

definition log_task_start :: "nat \<Rightarrow> gateway \<Rightarrow> gateway option" where
  "log_task_start n g = (case find_log_task n g of
     Some t \<Rightarrow> if lt_stage t = Created then Some (set_log_stage n Fetching g) else None
   | None \<Rightarrow> None)"

definition log_task_fetched :: "(nat \<Rightarrow> int option result) \<Rightarrow> nat \<Rightarrow> gateway \<Rightarrow> gateway option" where
  "log_task_fetched answer n g = (case find_log_task n g of
     Some t \<Rightarrow> if lt_stage t \<noteq> Fetching then None
       else (case get_slot_block_time (lt_slot t) answer g of
         (g1, Inl e) \<Rightarrow> Some (fail_log_task n g1)
       | (g1, Inr bt) \<Rightarrow> Some (set_log_stage n (Fetched bt) g1))
   | None \<Rightarrow> None)"

definition task_done :: "nat option \<Rightarrow> gateway \<Rightarrow> bool" where
  "task_done previous g \<longleftrightarrow> (case previous of None \<Rightarrow> True | Some n \<Rightarrow> find_log_task n g = None)"

definition log_task_dispatch :: "nat \<Rightarrow> gateway \<Rightarrow> gateway option" where
  "log_task_dispatch n g = (case find_log_task n g of
     Some t \<Rightarrow> (case lt_stage t of
       Fetched bt \<Rightarrow>
         if \<not> task_done (lt_previous t) g then None
         else if (case lt_previous t of None \<Rightarrow> False | Some m \<Rightarrow> m \<in> gw_failed_tasks g) \<or> (\<exists>failed \<in> gw_fetch_error_sequences g. failed < n)
         then Some (fail_log_task n g)
         else (case queue_transaction (log_transaction t bt) SOLANA_WSS (lt_received_at t) (Some (lt_generation t)) g of
           (g1, Inl e) \<Rightarrow> Some (fail_log_task n g1)
         | (g1, Inr j) \<Rightarrow> Some (log_task_put n (g1\<lparr>gw_sent := gw_sent g1 @ [n]\<rparr>, j)))
     | _ \<Rightarrow> None)
   | None \<Rightarrow> None)"

definition log_task_resume :: "nat \<Rightarrow> gateway \<Rightarrow> gateway option" where
  "log_task_resume n g = (case find_log_task n g of
     Some t \<Rightarrow> (case lt_stage t of
       PuttingLog j \<Rightarrow> if queue_full g then None else Some (log_task_put n (resume_put j g))
     | _ \<Rightarrow> None)
   | None \<Rightarrow> None)"

text \<open>
  \<open>_cancel_log_fetch_tasks\<close>: the dispatcher and the tasks end where they wait. A task that has not
  started is dropped without entering its body, so its permit is not released.
\<close>

definition cancel_log_fetch_tasks :: "gateway \<Rightarrow> gateway" where
  "cancel_log_fetch_tasks g0 =
     (let g = g0\<lparr>gw_dispatcher := None\<rparr>;
          g1 = (if gw_log_fetch_tasks g \<noteq> [] \<or> gw_notification_queue g \<noteq> []
                then gblock ''stream_recovery_gap'' (g\<lparr>gw_dispatch_recovery_pending := True\<rparr>) else g)
      in g1\<lparr>gw_log_fetch_permits := gw_log_fetch_permits g1 + length (filter (\<lambda>t. lt_stage t \<noteq> Created) (gw_log_fetch_tasks g1)),
           gw_log_fetch_tasks := [], gw_log_fetch_tail := None, gw_fetch_error_sequences := {},
           gw_first_task := gw_log_fetch_sequence g1, gw_sent := []\<rparr>)"

section \<open>The worker\<close>

text \<open>
  \<open>_worker\<close>: it takes an item, collects more while its window is open, and hands the batch over;
  a failed batch is tried again, three times at most. \<open>None\<close> in the queue ends it.
\<close>

definition worker_get :: "gateway \<Rightarrow> gateway option" where
  "worker_get g = (case (gw_worker g, gw_queue g) of
     (Idle, None # q) \<Rightarrow> Some (g\<lparr>gw_queue := q, gw_worker := Stopped\<rparr>)
   | (Idle, Some x # q) \<Rightarrow> Some (g\<lparr>gw_queue := q,
       gw_worker := if gw_batching g then Collecting [x] else Processing [x] False 0\<rparr>)
   | (Collecting batch, None # q) \<Rightarrow> if length batch < PROCESSING_BATCH_SIZE
       then Some (g\<lparr>gw_queue := q, gw_worker := Processing batch True 0\<rparr>) else None
   | (Collecting batch, Some x # q) \<Rightarrow> if length batch < PROCESSING_BATCH_SIZE
       then Some (g\<lparr>gw_queue := q, gw_worker := Collecting (batch @ [x])\<rparr>) else None
   | _ \<Rightarrow> None)"

text \<open>The window closes, or the batch is full.\<close>

definition worker_close_window :: "gateway \<Rightarrow> gateway option" where
  "worker_close_window g = (case gw_worker g of
     Collecting batch \<Rightarrow> Some (g\<lparr>gw_worker := Processing batch False 0\<rparr>)
   | _ \<Rightarrow> None)"

definition block_times_of :: "stream_item list \<Rightarrow> datetime list result" where
  "block_times_of batch = foldr (\<lambda>(p, tx, s) acc. rbind (transaction_block_time tx) (\<lambda>t. rbind acc (\<lambda>ts.
     Inr (case t of None \<Rightarrow> ts | Some x \<Rightarrow> x # ts)))) batch (Inr [])"

definition note_processed :: "datetime \<Rightarrow> datetime list \<Rightarrow> gateway \<Rightarrow> gateway" where
  "note_processed processed_at block_times g = (if block_times = [] then g
     else let latest = Max (set block_times) in
       g\<lparr>gw_last_processed_block_time := later (gw_last_processed_block_time g) latest,
         gw_last_processing_lag_seconds := Some (max 0 (total_seconds (processed_at - latest)))\<rparr>)"

text \<open>The handler's answer arrives; an exception of the bookkeeping after it ends the worker.\<close>

definition worker_answer :: "unit result \<Rightarrow> datetime \<Rightarrow> gateway \<Rightarrow> gateway option" where
  "worker_answer answer processed_at g = (case gw_worker g of
     Processing batch stop_after_batch attempt \<Rightarrow> Some (case answer of
       Inr _ \<Rightarrow> (let g1 = gunblock ''event_processing_error'' g in
         case block_times_of batch of
           Inl e \<Rightarrow> g1\<lparr>gw_worker := Stopped\<rparr>
         | Inr ts \<Rightarrow> (note_processed processed_at ts g1)\<lparr>gw_worker := if stop_after_batch then Stopped else Idle\<rparr>)
     | Inl CancelledError \<Rightarrow> g\<lparr>gw_worker := Stopped\<rparr>
     | Inl err \<Rightarrow> (let g1 = gblock ''event_processing_error'' g in
         if PROCESSING_RETRY_LIMIT \<le> attempt + 1
         then g1\<lparr>gw_fatal := gw_fatal g1 @ [err], gw_worker := Stopped\<rparr>
         else g1\<lparr>gw_worker := Processing batch stop_after_batch (attempt + 1)\<rparr>))
   | _ \<Rightarrow> None)"

section \<open>Freshness\<close>

definition transport_stale :: "datetime \<Rightarrow> gateway \<Rightarrow> bool" where
  "transport_stale now g = (case gw_last_observed_at g of None \<Rightarrow> True
     | Some t \<Rightarrow> gw_max_processing_lag_seconds g < total_seconds (now - t))"

definition current_lag :: "datetime \<Rightarrow> gateway \<Rightarrow> rat option" where
  "current_lag now g = (case gw_last_processed_block_time g of
     None \<Rightarrow> gw_last_processing_lag_seconds g
   | Some t \<Rightarrow> Some (max (opt_or (gw_last_processing_lag_seconds g) 0) (max 0 (total_seconds (now - t)))))"

definition stream_is_stale :: "datetime \<Rightarrow> gateway \<Rightarrow> bool" where
  "stream_is_stale now g \<longleftrightarrow> transport_stale now g \<or> (case current_lag now g of
     None \<Rightarrow> True | Some lag \<Rightarrow> gw_max_processing_lag_seconds g < lag)"

definition baseline_ready :: "datetime \<Rightarrow> gateway \<Rightarrow> bool" where
  "baseline_ready now g = (case gw_baseline_started_at g of None \<Rightarrow> False | Some t \<Rightarrow> LIVE_BASELINE_WARMUP \<le> now - t)"

definition refresh_freshness :: "datetime \<Rightarrow> gateway \<Rightarrow> gateway \<times> bool" where
  "refresh_freshness now g =
     (let stale = stream_is_stale now g;
          g1 = (if stale then gblock ''stream_stale'' g else gunblock ''stream_stale'' g);
          ready = baseline_ready now g;
          g2 = (if \<not> ready then gblock ''stream_baseline'' g1
                else let h = gunblock ''stream_baseline'' g1 in
                  if gw_dispatch_recovery_pending h \<and> \<not> stale \<and> \<not> gw_reconnect_requested h \<and> gw_fetch_error_sequences h = {}
                  then gunblock ''stream_fetch_error'' (h\<lparr>gw_dispatch_recovery_pending := False\<rparr>) else h)
      in (g2, \<not> stale \<and> ready))"

end
