(* ===== verification/Gateway_Run.thy ===== *)
theory Gateway_Run
  imports Gateway
begin

text \<open>
  The connection of the stream gateway (\<open>_run\<close>, \<open>_subscribe\<close>, \<open>_collect_acknowledgements\<close>,
  \<open>_recover_gap\<close>, \<open>_recover_gap_with_live_buffer\<close> and \<open>stop\<close> of \<open>stream.py\<close>), cut at its awaits. Waiting
  between two attempts has no effect on the state.
\<close>

section \<open>Exceptions of the connection\<close>

datatype stream_error =
    AcknowledgementError "json list"
  | UseLogsFallback "json list"
  | HandshakeError "json list"
  | GapRecoveryTimeout
  | Failure py_error

section \<open>Subscribing\<close>

text \<open>The frames are what \<open>recv\<close> answers until the timeout.\<close>

fun collect_acknowledgements :: "int list \<Rightarrow> json result list \<Rightarrow> (int, json) dict \<Rightarrow> json list
    \<Rightarrow> stream_error + (int, json) dict \<times> json list" where
  "collect_acknowledgements request_ids frames acks buffered =
     (if list_all (\<lambda>i. dict_get acks i \<noteq> None) request_ids then Inr (acks, buffered)
      else case frames of
        [] \<Rightarrow> Inl (AcknowledgementError buffered)
      | Inl e # rest \<Rightarrow> Inl (if e = TimeoutError then AcknowledgementError buffered else Failure e)
      | Inr message # rest \<Rightarrow>
          if \<not> is_obj message \<or> member message ''jsonrpc'' \<noteq> JStr ''2.0'' then Inl (AcknowledgementError buffered)
          else if has_key message ''id'' then
            (case member message ''id'' of
               JInt i \<Rightarrow> if i \<notin> set request_ids \<or> dict_get acks i \<noteq> None then Inl (AcknowledgementError buffered)
                 else collect_acknowledgements request_ids rest (dict_set acks i message) buffered
             | _ \<Rightarrow> Inl (AcknowledgementError buffered))
          else if SUBSCRIPTION_MESSAGE_BUFFER_LIMIT \<le> length buffered
          then Inl (AcknowledgementError (buffered @ [message]))
          else collect_acknowledgements request_ids rest acks (buffered @ [message]))"

declare collect_acknowledgements.simps [simp del]

definition valid_subscription_ack :: "json \<Rightarrow> bool" where
  "valid_subscription_ack message \<longleftrightarrow> member message ''jsonrpc'' = JStr ''2.0'' \<and> \<not> has_key message ''error''
     \<and> (case member message ''result'' of JInt i \<Rightarrow> 0 \<le> i | _ \<Rightarrow> False)"

definition all_acknowledged :: "int list \<Rightarrow> (int, json) dict \<Rightarrow> bool" where
  "all_acknowledged request_ids acks \<longleftrightarrow> list_all (\<lambda>i. valid_subscription_ack (opt_or (dict_get acks i) JNull)) request_ids"

definition subscribe :: "bool \<Rightarrow> unit result \<Rightarrow> json result list \<Rightarrow> stream_error + json list" where
  "subscribe logs_only sent frames = (case sent of
     Inl e \<Rightarrow> Inl (Failure e)
   | Inr _ \<Rightarrow>
     (let request_ids = (if logs_only then [101, 102] else [1, 2]);
          refused = (if logs_only then HandshakeError else UseLogsFallback)
      in case collect_acknowledgements request_ids frames [] [] of
           Inl (AcknowledgementError buffered) \<Rightarrow> Inl (refused buffered)
         | Inl e \<Rightarrow> Inl e
         | Inr (acks, buffered) \<Rightarrow> if all_acknowledged request_ids acks then Inr buffered else Inl (refused buffered)))"

section \<open>Recovering a gap\<close>

text \<open>The RPC client: pages of signatures for program, \<open>until\<close> and \<open>before\<close>, and transactions.\<close>

record recovery_rpc =
  rc_signatures :: "string \<Rightarrow> string option \<Rightarrow> string option \<Rightarrow> json list result"
  rc_transaction :: "string \<Rightarrow> json option result"

text \<open>\<open>str(item.get("signature") or "")\<close>\<close>

definition item_signature :: "json \<Rightarrow> string" where
  "item_signature item = (let s = member item ''signature'' in if json_truth s then json_str s else [])"

definition fetch_transaction :: "recovery_rpc \<Rightarrow> json \<Rightarrow> (string \<times> json) option result" where
  "fetch_transaction rpc item =
     (if member item ''err'' \<noteq> JNull then Inr None
      else let signature = item_signature item in
        if signature = [] then Inr None
        else rbind (rc_transaction rpc signature) (\<lambda>r. Inr (case r of
          None \<Rightarrow> None
        | Some tx \<Rightarrow> Some (signature, if has_key tx ''slot'' then tx
            else set_member tx ''slot'' (if has_key item ''slot'' then member item ''slot'' else JInt 0)))))"

fun fetch_transactions :: "recovery_rpc \<Rightarrow> json list \<Rightarrow> (string \<times> json) list result" where
  "fetch_transactions rpc [] = Inr []"
| "fetch_transactions rpc (x # xs) = rbind (fetch_transaction rpc x) (\<lambda>r. rbind (fetch_transactions rpc xs) (\<lambda>rs.
     Inr (case r of None \<Rightarrow> rs | Some y \<Rightarrow> y # rs)))"

type_synonym recovered = "(string, protocol \<times> json) dict"

definition add_recovered :: "protocol \<Rightarrow> (string \<times> json) list \<Rightarrow> recovered \<Rightarrow> recovered" where
  "add_recovered p fetched d = foldl (\<lambda>d (signature, tx). dict_set d (protocol_value p @ '':'' @ signature) (p, tx)) d fetched"

definition PAGE_LIMIT :: nat where
  "PAGE_LIMIT = 1000"

text \<open>The loop over the pages of one program; a client whose pages never end keeps it running.\<close>

partial_function (option) recover_pages :: "recovery_rpc \<Rightarrow> protocol \<Rightarrow> string \<Rightarrow> string option \<Rightarrow> string option
    \<Rightarrow> recovered \<Rightarrow> recovered result option" where
  "recover_pages rpc p program checkpoint before d =
     (case rc_signatures rpc program checkpoint before of
        Inl e \<Rightarrow> Some (Inl e)
      | Inr sigs \<Rightarrow> (case fetch_transactions rpc sigs of
          Inl e \<Rightarrow> Some (Inl e)
        | Inr fetched \<Rightarrow>
            if checkpoint = None \<or> length sigs < PAGE_LIMIT then Some (Inr (add_recovered p fetched d))
            else if item_signature (last sigs) = [] \<or> before = Some (item_signature (last sigs))
            then Some (Inl (RuntimeError ''gap recovery pagination did not advance''))
            else recover_pages rpc p program checkpoint (Some (item_signature (last sigs))) (add_recovered p fetched d)))"

text \<open>\<open>sorted\<close> by the slot.\<close>

fun slot_keys :: "(protocol \<times> json) list \<Rightarrow> (int \<times> protocol \<times> json) list result" where
  "slot_keys [] = Inr []"
| "slot_keys (x # xs) = rbind (slot_of (snd x)) (\<lambda>n. rbind (slot_keys xs) (\<lambda>ys. Inr ((n, x) # ys)))"

definition in_slot_order :: "(protocol \<times> json) list \<Rightarrow> stream_item list result" where
  "in_slot_order xs = rbind (slot_keys xs) (\<lambda>ys. Inr (map (\<lambda>(n, p, tx). (p, tx, RPC_RECOVERY)) (sort_key fst ys)))"

definition recover_gap :: "recovery_rpc \<Rightarrow> gateway \<Rightarrow> stream_item list result option" where
  "recover_gap rpc g =
     (case recover_pages rpc PUMP PUMP_PROGRAM_ID (dict_get (gw_last_signatures g) PUMP) None [] of
        None \<Rightarrow> None
      | Some (Inl e) \<Rightarrow> Some (Inl e)
      | Some (Inr d) \<Rightarrow> (case recover_pages rpc PUMPSWAP PUMPSWAP_PROGRAM_ID (dict_get (gw_last_signatures g) PUMPSWAP) None d of
          None \<Rightarrow> None
        | Some (Inl e) \<Rightarrow> Some (Inl e)
        | Some (Inr d2) \<Rightarrow> Some (in_slot_order (dict_values d2))))"

text \<open>
  \<open>_recover_gap_with_live_buffer\<close>: each wake-up of the wait has a received frame, the end of the
  recovery, or both; none of them is the timeout, as is the end of the list.
\<close>

fun live_buffer :: "stream_item list result \<Rightarrow> (json result option \<times> bool) list \<Rightarrow> json list
    \<Rightarrow> stream_error + stream_item list \<times> json list" where
  "live_buffer outcome [] buffered = Inl GapRecoveryTimeout"
| "live_buffer outcome ((None, recovered) # rest) buffered =
     (if \<not> recovered then Inl GapRecoveryTimeout
      else case outcome of Inl e \<Rightarrow> Inl (Failure e) | Inr items \<Rightarrow> Inr (items, buffered))"
| "live_buffer outcome ((Some (Inl e), recovered) # rest) buffered = Inl (Failure e)"
| "live_buffer outcome ((Some (Inr message), recovered) # rest) buffered =
     (if SUBSCRIPTION_MESSAGE_BUFFER_LIMIT < length buffered + 1 then Inl GapRecoveryTimeout
      else if recovered then (case outcome of Inl e \<Rightarrow> Inl (Failure e) | Inr items \<Rightarrow> Inr (items, buffered @ [message]))
      else live_buffer outcome rest (buffered @ [message]))"

text \<open>A recovery that does not return can only time out or fail with the socket.\<close>

definition recover_gap_with_live_buffer :: "recovery_rpc \<Rightarrow> (json result option \<times> bool) list \<Rightarrow> gateway
    \<Rightarrow> stream_error + stream_item list \<times> json list" where
  "recover_gap_with_live_buffer rpc wakes g = (case recover_gap rpc g of
     Some outcome \<Rightarrow> live_buffer outcome wakes (gw_pending g)
   | None \<Rightarrow> live_buffer (Inr []) (map (\<lambda>(frame, _). (frame, False)) wakes) (gw_pending g))"

section \<open>One connection\<close>

type_synonym gap_handler = "string \<Rightarrow> unit result"

definition call_gap_handler :: "gap_handler \<Rightarrow> string \<Rightarrow> unit gmethod" where
  "call_gap_handler h reason g = (g\<lparr>gw_gaps := gw_gaps g @ [reason]\<rparr>, h reason)"

definition hold_for_unrecoverable_gap :: "gap_handler \<Rightarrow> datetime \<Rightarrow> bool gmethod" where
  "hold_for_unrecoverable_gap h now g =
     (if gw_last_slot g = 0 \<or> checkpoint_is_recent now g \<or> \<not> gw_halt_on_unrecoverable_gap g then (g, Inr False)
      else let g1 = gblock ''stream_recovery_gap'' g in
        if gw_unrecoverable_gap_recorded g1 then (g1, Inr True)
        else (case call_gap_handler h ''checkpoint_unrecoverable'' g1 of
          (g2, Inl e) \<Rightarrow> (g2, Inl e)
        | (g2, Inr _) \<Rightarrow> (g2\<lparr>gw_unrecoverable_gap_recorded := True\<rparr>, Inr True)))"

definition extend_handshake_buffer :: "json list \<Rightarrow> gateway \<Rightarrow> gateway \<times> bool" where
  "extend_handshake_buffer incoming g =
     (if SUBSCRIPTION_MESSAGE_BUFFER_LIMIT < length (gw_pending g) + length incoming
      then (gblock ''stream_disconnected'' g, False)
      else (g\<lparr>gw_pending := gw_pending g @ incoming\<rparr>, True))"

text \<open>The \<open>finally\<close> clause of a connection, and the handlers of the loop's \<open>try\<close>.\<close>

definition end_connection :: "gateway \<Rightarrow> gateway" where
  "end_connection g = (let g1 = gblock ''stream_disconnected'' g in
     if gw_stopping g1 then g1 else cancel_log_fetch_tasks g1)"

definition retry_later :: "gateway \<Rightarrow> gateway" where
  "retry_later g = (gblock ''stream_disconnected'' g)\<lparr>gw_attempt := gw_attempt g + 1, gw_phase := Top\<rparr>"

definition connection_error :: "stream_error \<Rightarrow> gateway \<Rightarrow> gateway" where
  "connection_error err g = (case err of
     UseLogsFallback b \<Rightarrow> (case extend_handshake_buffer b g of
       (g1, ok) \<Rightarrow> if ok then g1\<lparr>gw_logs_only := True, gw_phase := Top\<rparr> else g1\<lparr>gw_phase := Ended\<rparr>)
   | HandshakeError b \<Rightarrow> (case extend_handshake_buffer b g of
       (g1, ok) \<Rightarrow> if ok then retry_later g1 else g1\<lparr>gw_phase := Ended\<rparr>)
   | Failure CancelledError \<Rightarrow> g\<lparr>gw_phase := Ended\<rparr>
   | _ \<Rightarrow> retry_later g)"

definition fail_connection :: "stream_error \<Rightarrow> gateway \<Rightarrow> gateway" where
  "fail_connection err g = connection_error err (end_connection g)"

text \<open>The top of the loop up to the open socket; \<open>connect\<close> is the answer of \<open>websockets.connect\<close>.\<close>

definition run_top :: "gap_handler \<Rightarrow> unit result \<Rightarrow> datetime \<Rightarrow> gateway \<Rightarrow> gateway" where
  "run_top h connect now g =
     (if gw_stopping g then g\<lparr>gw_phase := Ended\<rparr>
      else case hold_for_unrecoverable_gap h now (gblock ''stream_disconnected'' g) of
        (g1, Inl e) \<Rightarrow> g1\<lparr>gw_phase := Ended\<rparr>
      | (g1, Inr True) \<Rightarrow> g1
      | (g1, Inr False) \<Rightarrow> (case connect of
          Inl e \<Rightarrow> connection_error (Failure e) g1
        | Inr _ \<Rightarrow> (begin_live_baseline (g1\<lparr>gw_reconnect_requested := False\<rparr>))\<lparr>gw_phase := Connected\<rparr>))"

definition accept_gap :: "gap_handler \<Rightarrow> gateway \<Rightarrow> gateway" where
  "accept_gap h g = (case call_gap_handler h ''unrecoverable_gap_accepted'' (gblock ''stream_recovery_gap'' g) of
     (g1, Inl e) \<Rightarrow> fail_connection (Failure e) g1
   | (g1, Inr _) \<Rightarrow> (gunblock ''stream_recovery_gap'' (discard_in_memory_checkpoint g1))\<lparr>gw_phase := Committing []\<rparr>)"

definition run_subscribed :: "gap_handler \<Rightarrow> datetime \<Rightarrow> stream_error + json list \<Rightarrow> gateway \<Rightarrow> gateway" where
  "run_subscribed h now answer g = (case answer of
     Inl err \<Rightarrow> fail_connection err g
   | Inr buffered \<Rightarrow>
       if SUBSCRIPTION_MESSAGE_BUFFER_LIMIT < length (gw_pending g) + length buffered
       then (end_connection g)\<lparr>gw_phase := Ended\<rparr>
       else let g1 = g\<lparr>gw_pending := gw_pending g @ buffered\<rparr> in
         if gw_last_slot g1 = 0 then g1\<lparr>gw_phase := Committing []\<rparr>
         else if checkpoint_is_recent now g1 then g1\<lparr>gw_phase := Recovering\<rparr>
         else accept_gap h g1)"

definition run_recovered :: "gap_handler \<Rightarrow> stream_error + stream_item list \<times> json list \<Rightarrow> gateway \<Rightarrow> gateway" where
  "run_recovered h answer g = (case answer of
     Inl GapRecoveryTimeout \<Rightarrow> (case call_gap_handler h ''recovery_timeout'' (gblock ''stream_recovery_gap'' (g\<lparr>gw_pending := []\<rparr>)) of
       (g1, Inl e) \<Rightarrow> fail_connection (Failure e) g1
     | (g1, Inr _) \<Rightarrow> (end_connection g1)\<lparr>gw_phase := Top\<rparr>)
   | Inl err \<Rightarrow> fail_connection err g
   | Inr (items, buffered) \<Rightarrow> g\<lparr>gw_pending := buffered, gw_phase := Committing items\<rparr>)"

text \<open>\<open>_commit_recovered_events\<close>, one event at a time, as the queue has space.\<close>

definition commit_recovered_event :: "stream_item \<Rightarrow> unit gmethod" where
  "commit_recovered_event x = (case x of (p, tx, source) \<Rightarrow>
     mbind (mlift (transaction_signature tx)) (\<lambda>signature.
     mbind (mlift (slot_of tx)) (\<lambda>slot.
     mput (\<lambda>g. put_item x (note_signature signature p (g\<lparr>gw_last_slot := max (gw_last_slot g) slot,
       gw_last_signature := if truthy signature then signature else gw_last_signature g\<rparr>))))))"

definition run_commit :: "gateway \<Rightarrow> gateway option" where
  "run_commit g = (case gw_phase g of
     Committing (x # xs) \<Rightarrow> if queue_full g then None
       else Some (case commit_recovered_event x g of
         (g1, Inl e) \<Rightarrow> fail_connection (Failure e) g1
       | (g1, Inr _) \<Rightarrow> g1\<lparr>gw_phase := Committing xs\<rparr>)
   | _ \<Rightarrow> None)"

text \<open>\<open>resolved\<close> is the answer of the handler that closes the recorded gaps.\<close>

definition run_committed :: "unit result \<Rightarrow> gateway \<Rightarrow> gateway" where
  "run_committed resolved g =
     (if gw_last_slot g = 0 then g\<lparr>gw_phase := Replaying\<rparr>
      else let g1 = gunblock ''stream_recovery_gap'' (g\<lparr>gw_dispatch_recovery_pending := False\<rparr>) in
        case resolved of Inl e \<Rightarrow> fail_connection (Failure e) g1 | Inr _ \<Rightarrow> g1\<lparr>gw_phase := Replaying\<rparr>)"

definition reconnect_error :: stream_error where
  "reconnect_error = Failure (RuntimeError ''ordered Solana transaction dispatch requested reconnect'')"

text \<open>The buffered messages are handled in order, then the gate opens and live messages follow.\<close>

definition run_replay :: "datetime \<Rightarrow> gateway \<Rightarrow> gateway" where
  "run_replay now g = (case gw_pending g of
     [] \<Rightarrow> (fst (refresh_freshness now (gunblock ''stream_disconnected'' (gunblock ''startup'' g))))
             \<lparr>gw_attempt := 0, gw_phase := Online\<rparr>
   | message # rest \<Rightarrow>
       if gw_reconnect_requested g then fail_connection reconnect_error g
       else (case handle_message now message g of
         (g1, Inl e) \<Rightarrow> fail_connection (Failure e) g1
       | (g1, Inr _) \<Rightarrow> g1\<lparr>gw_pending := rest\<rparr>))"

text \<open>A frame, the end of the stream (\<open>None\<close>), or a requested reconnect.\<close>

definition run_receive :: "datetime \<Rightarrow> json result option \<Rightarrow> gateway \<Rightarrow> gateway" where
  "run_receive now frame g =
     (if gw_reconnect_requested g then fail_connection reconnect_error g
      else case frame of
        None \<Rightarrow> (end_connection g)\<lparr>gw_phase := Top\<rparr>
      | Some (Inl e) \<Rightarrow> fail_connection (Failure e) g
      | Some (Inr message) \<Rightarrow> (case handle_message now message g of
          (g1, Inl e) \<Rightarrow> fail_connection (Failure e) g1
        | (g1, Inr _) \<Rightarrow> g1))"

section \<open>Shutdown\<close>

text \<open>
  \<open>stop\<close>: the connection ends first while the other tasks go on; then the ingress queues drain or the
  wait times out, and the remaining tasks are cancelled.
\<close>

definition stop_connection :: "gateway \<Rightarrow> gateway" where
  "stop_connection g = (gblock ''stream_disconnected'' (g\<lparr>gw_stopping := True\<rparr>))\<lparr>gw_phase := Ended\<rparr>"

definition stop_drained :: "gateway \<Rightarrow> bool" where
  "stop_drained g \<longleftrightarrow> gw_notification_queue g = [] \<and> gw_dispatcher g \<in> {None, Some Waiting} \<and> gw_log_fetch_tasks g = []"

definition stop_ingress :: "gateway \<Rightarrow> gateway" where
  "stop_ingress g = cancel_log_fetch_tasks (if stop_drained g then g else gblock ''stream_recovery_gap'' g)"

definition stop_worker :: "gateway \<Rightarrow> gateway option" where
  "stop_worker g = (if gw_worker g = Stopped \<or> gw_queue g = [] \<and> gw_worker g = Idle
     then Some (g\<lparr>gw_worker := Stopped\<rparr>) else None)"

end
