(* ===== verification/Gap_Recovery.thy ===== *)
theory Gap_Recovery
  imports Gateway_Run "HOL-Library.Multiset"
begin

text \<open>
  What a gap recovery returns when the RPC client answers from a fixed history: everything newer
  than the checkpoints, in the order of the slots.
\<close>

section \<open>A client with a fixed history\<close>

text \<open>
  The documented behaviour of \<open>getSignaturesForAddress\<close>: the entries of a program from the newest to
  the oldest, those after \<open>before\<close> and down to \<open>until\<close>, at most the limit.
\<close>

definition newer_than :: "string option \<Rightarrow> json list \<Rightarrow> json list" where
  "newer_than until h = takeWhile (\<lambda>x. Some (item_signature x) \<noteq> until) h"

definition older_than :: "string option \<Rightarrow> json list \<Rightarrow> json list" where
  "older_than before h = (case before of None \<Rightarrow> h | Some s \<Rightarrow> tl (dropWhile (\<lambda>x. item_signature x \<noteq> s) h))"

definition proper_history :: "json list \<Rightarrow> bool" where
  "proper_history h \<longleftrightarrow> distinct (map item_signature h) \<and> [] \<notin> item_signature ` set h"

definition honest_rpc :: "(string \<Rightarrow> json list) \<Rightarrow> recovery_rpc \<Rightarrow> bool" where
  "honest_rpc history rpc \<longleftrightarrow>
     (\<forall>program. proper_history (history program)) \<and>
     (\<forall>program until before. rc_signatures rpc program until before
        = Inr (take PAGE_LIMIT (newer_than until (older_than before (history program))))) \<and>
     (\<forall>signature. \<exists>r. rc_transaction rpc signature = Inr r)"

text \<open>The transactions a list of entries stands for.\<close>

definition entry_transaction :: "recovery_rpc \<Rightarrow> json \<Rightarrow> (string \<times> json) option" where
  "entry_transaction rpc item = (case fetch_transaction rpc item of Inr r \<Rightarrow> r | Inl e \<Rightarrow> None)"

definition entry_transactions :: "recovery_rpc \<Rightarrow> json list \<Rightarrow> (string \<times> json) list" where
  "entry_transactions rpc items = List.map_filter (entry_transaction rpc) items"

lemma fetch_transactions_honest:
  assumes "\<And>s. \<exists>r. rc_transaction rpc s = Inr r"
  shows "fetch_transactions rpc items = Inr (entry_transactions rpc items)"
proof (induction items)
  case (Cons x xs)
  obtain r0 where "rc_transaction rpc (item_signature x) = Inr r0" using assms by blast
  then have "\<exists>r. fetch_transaction rpc x = Inr r" by (simp add: fetch_transaction_def Let_def)
  then obtain r where "fetch_transaction rpc x = Inr r" by blast
  with Cons show ?case
    by (cases r) (simp_all add: entry_transactions_def entry_transaction_def List.map_filter_simps)
qed (simp add: entry_transactions_def List.map_filter_simps)

lemma entry_transaction_signature: "entry_transaction rpc item = Some (s, tx) \<Longrightarrow> s = item_signature item"
  by (cases "rc_transaction rpc (item_signature item)")
     (auto simp: entry_transaction_def fetch_transaction_def Let_def split: if_splits option.splits)

lemma entry_transactions_append [simp]:
  "entry_transactions rpc (xs @ ys) = entry_transactions rpc xs @ entry_transactions rpc ys"
  by (simp add: entry_transactions_def List.map_filter_def)

lemma in_entry_transactions:
  "(s, tx) \<in> set (entry_transactions rpc items) \<longleftrightarrow> (\<exists>x \<in> set items. entry_transaction rpc x = Some (s, tx))"
  by (force simp: entry_transactions_def List.map_filter_def)

lemma entry_signatures: "fst ` set (entry_transactions rpc items) \<subseteq> item_signature ` set items"
  by (auto simp: in_entry_transactions dest!: entry_transaction_signature)

lemma entry_signatures_distinct:
  "distinct (map item_signature items) \<Longrightarrow> distinct (map fst (entry_transactions rpc items))"
proof (induction items)
  case (Cons x xs)
  then have "item_signature x \<notin> fst ` set (entry_transactions rpc xs)" using entry_signatures [of rpc xs] by auto
  moreover have "entry_transactions rpc (x # xs) = (case entry_transaction rpc x of None \<Rightarrow> [] | Some y \<Rightarrow> [y]) @ entry_transactions rpc xs"
    by (simp add: entry_transactions_def List.map_filter_simps split: option.split)
  ultimately show ?case
    using Cons by (cases "entry_transaction rpc x") (force dest: entry_transaction_signature simp del: entry_transactions_append)+
qed (simp add: entry_transactions_def List.map_filter_simps)

section \<open>The recovered dictionary\<close>

definition recovered_key :: "protocol \<Rightarrow> string \<Rightarrow> string" where
  "recovered_key p s = protocol_value p @ '':'' @ s"

lemma recovered_key_inj [simp]: "recovered_key p s = recovered_key q t \<longleftrightarrow> p = q \<and> s = t"
  by (cases p; cases q) (auto simp: recovered_key_def)

lemma add_recovered_new:
  assumes "distinct (map fst fetched)" "\<forall>s \<in> fst ` set fetched. dict_get d (recovered_key p s) = None"
  shows "add_recovered p fetched d = d @ map (\<lambda>(s, tx). (recovered_key p s, p, tx)) fetched"
  using assms
proof (induction fetched arbitrary: d)
  case (Cons x xs)
  obtain s tx where x: "x = (s, tx)" by force
  let ?d = "dict_set d (recovered_key p s) (p, tx)"
  have "?d = d @ [(recovered_key p s, p, tx)]" using Cons.prems(2) x by (simp add: dict_set_new)
  moreover have "\<forall>t \<in> fst ` set xs. dict_get ?d (recovered_key p t) = None"
    using Cons.prems x by auto
  ultimately show ?case
    using Cons.IH [of ?d] Cons.prems(1) x by (simp add: add_recovered_def recovered_key_def)
qed (simp add: add_recovered_def)

section \<open>The pages\<close>

lemma newer_than_append:
  "x \<notin> item_signature ` set xs \<Longrightarrow> newer_than (Some x) (xs @ ys) = xs @ newer_than (Some x) ys"
  by (auto simp: newer_than_def takeWhile_append)

lemma newer_than_None [simp]: "newer_than None h = h"
  by (simp add: newer_than_def)

lemma older_than_last:
  assumes "distinct (map item_signature (xs @ ys))" "xs \<noteq> []"
  shows "older_than (Some (item_signature (last xs))) (xs @ ys) = ys"
proof -
  obtain zs z where xs: "xs = zs @ [z]" using assms(2) by (cases xs rule: rev_cases) auto
  then have "item_signature z \<notin> item_signature ` set zs" using assms(1) by simp
  then have "dropWhile (\<lambda>x. item_signature x \<noteq> item_signature z) (zs @ z # ys) = z # ys"
    by (subst dropWhile_append2) (auto simp: image_iff)
  with xs show ?thesis by (simp add: older_than_def)
qed

lemma page_advances:
  assumes "proper_history (xs @ ys)" "before = (if xs = [] then None else Some (item_signature (last xs)))"
    and "ys = sigs @ us" "sigs \<noteq> []"
  shows "item_signature (last sigs) \<noteq> []" "before \<noteq> Some (item_signature (last sigs))"
proof -
  have l: "last sigs \<in> set sigs" using assms(4) by simp
  with assms(1,3) show "item_signature (last sigs) \<noteq> []" by (force simp: proper_history_def)
  have "item_signature (last sigs) \<notin> item_signature ` set xs"
    using assms(1,3) l by (auto simp: proper_history_def)
  then show "before \<noteq> Some (item_signature (last sigs))"
    using assms(2) by (cases "xs = []") (simp, metis imageI last_in_set option.inject)
qed

lemma next_page_new:
  assumes "item_signature ` set us \<inter> item_signature ` set sigs = {}"
    and "\<forall>s \<in> item_signature ` set ys. dict_get d (recovered_key p s) = None" and "set us \<subseteq> set ys"
  shows "\<forall>s \<in> item_signature ` set us.
    dict_get (d @ map (\<lambda>(s, tx). (recovered_key p s, p, tx)) (entry_transactions rpc sigs)) (recovered_key p s) = None"
proof
  fix s assume s: "s \<in> item_signature ` set us"
  with assms(1) entry_signatures [of rpc sigs] have "s \<notin> fst ` set (entry_transactions rpc sigs)" by blast
  then have "dict_get (map (\<lambda>(s, tx). (recovered_key p s, p, tx)) (entry_transactions rpc sigs)) (recovered_key p s) = None"
    by (force simp: map_of_eq_None_iff)
  moreover have "dict_get d (recovered_key p s) = None" using assms(2,3) s by (metis image_mono subsetD)
  ultimately show "dict_get (d @ map (\<lambda>(s, tx). (recovered_key p s, p, tx)) (entry_transactions rpc sigs)) (recovered_key p s) = None"
    by (simp add: map_add_def)
qed

text \<open>From a page on, the loop adds everything down to the checkpoint.\<close>

lemma recover_pages_complete:
  assumes "honest_rpc history rpc" "checkpoint = Some c"
    and "history program = xs @ ys" "c \<notin> item_signature ` set xs"
    and "before = (if xs = [] then None else Some (item_signature (last xs)))"
    and "\<forall>s \<in> item_signature ` set ys. dict_get d (recovered_key p s) = None"
  shows "recover_pages rpc p program checkpoint before d
    = Some (Inr (d @ map (\<lambda>(s, tx). (recovered_key p s, p, tx)) (entry_transactions rpc (newer_than checkpoint ys))))"
  using assms
proof (induction "length ys" arbitrary: xs ys before d rule: less_induct)
  case less
  have hist: "proper_history (xs @ ys)" using less.prems(1,3) by (metis honest_rpc_def)
  then have dist: "distinct (map item_signature (xs @ ys))" by (simp add: proper_history_def)
  have "older_than before (xs @ ys) = ys"
  proof (cases "xs = []")
    case True
    with less.prems(5) show ?thesis by (simp add: older_than_def)
  next
    case False
    with less.prems(5) older_than_last [OF dist] show ?thesis by simp
  qed
  moreover define sigs where "sigs = take PAGE_LIMIT (newer_than checkpoint ys)"
  ultimately have page: "rc_signatures rpc program checkpoint before = Inr sigs"
    using less.prems(1,3) by (simp add: honest_rpc_def)
  have fetched: "fetch_transactions rpc sigs = Inr (entry_transactions rpc sigs)"
    using less.prems(1) by (intro fetch_transactions_honest) (auto simp: honest_rpc_def)
  obtain us where us: "ys = sigs @ us"
    unfolding sigs_def by (metis newer_than_def append_take_drop_id append.assoc takeWhile_dropWhile_id)
  have dsig: "distinct (map item_signature sigs)" using dist us by simp
  have add: "add_recovered p (entry_transactions rpc sigs) d
      = d @ map (\<lambda>(s, tx). (recovered_key p s, p, tx)) (entry_transactions rpc sigs)"
    using less.prems(6) us entry_signatures [of rpc sigs]
    by (intro add_recovered_new entry_signatures_distinct dsig) auto
  show ?case
  proof (cases "length sigs < PAGE_LIMIT")
    case True
    then have "sigs = newer_than checkpoint ys" by (simp add: sigs_def)
    with True page fetched add show ?thesis by (subst recover_pages.simps) simp
  next
    case False
    then have ne: "sigs \<noteq> []" by (auto simp: PAGE_LIMIT_def)
    have "set sigs \<subseteq> set (newer_than checkpoint ys)" unfolding sigs_def by (rule set_take_subset)
    then have cn: "c \<notin> item_signature ` set sigs"
      using less.prems(2) by (auto simp: newer_than_def dest!: set_takeWhileD)
    have more: "newer_than checkpoint ys = sigs @ newer_than checkpoint us"
      using us newer_than_append [OF cn] less.prems(2) by simp
    have IH: "recover_pages rpc p program checkpoint (Some (item_signature (last sigs))) (add_recovered p (entry_transactions rpc sigs) d)
      = Some (Inr (add_recovered p (entry_transactions rpc sigs) d
          @ map (\<lambda>(s, tx). (recovered_key p s, p, tx)) (entry_transactions rpc (newer_than checkpoint us))))"
    proof (rule less.hyps [of us "xs @ sigs"])
      show "length us < length ys" using us ne by simp
      show "Some (item_signature (last sigs)) = (if xs @ sigs = [] then None else Some (item_signature (last (xs @ sigs))))"
        using ne by simp
      show "\<forall>s\<in>item_signature ` set us. dict_get (add_recovered p (entry_transactions rpc sigs) d) (recovered_key p s) = None"
        unfolding add by (rule next_page_new [OF _ less.prems(6)]) (use us dist in auto)
    qed (use less.prems us cn in auto)
    have "item_signature (last sigs) \<noteq> []" and "before \<noteq> Some (item_signature (last sigs))"
      by (rule page_advances [OF hist less.prems(5) us ne])+
    with False page fetched less.prems(2) IH add more show ?thesis
      by (subst recover_pages.simps) simp
  qed
qed

text \<open>Without a checkpoint only the newest page is read.\<close>

lemma recover_pages_newest:
  assumes "honest_rpc history rpc" and "\<forall>s. dict_get d (recovered_key p s) = None"
  shows "recover_pages rpc p program None None d
    = Some (Inr (d @ map (\<lambda>(s, tx). (recovered_key p s, p, tx)) (entry_transactions rpc (take PAGE_LIMIT (history program)))))"
proof -
  have "proper_history (history program)" using assms(1) by (simp add: honest_rpc_def)
  then have "distinct (map item_signature (take PAGE_LIMIT (history program)))"
    unfolding proper_history_def by (metis distinct_take take_map)
  then have "add_recovered p (entry_transactions rpc (take PAGE_LIMIT (history program))) d
      = d @ map (\<lambda>(s, tx). (recovered_key p s, p, tx)) (entry_transactions rpc (take PAGE_LIMIT (history program)))"
    using assms(2) by (intro add_recovered_new entry_signatures_distinct) auto
  moreover have "fetch_transactions rpc items = Inr (entry_transactions rpc items)" for items
    using assms(1) by (intro fetch_transactions_honest) (auto simp: honest_rpc_def)
  ultimately show ?thesis
    using assms(1) by (subst recover_pages.simps) (simp add: honest_rpc_def older_than_def)
qed

section \<open>The whole recovery\<close>

text \<open>The entries of a program that the checkpoint does not cover, newest first.\<close>

definition uncovered :: "string option \<Rightarrow> json list \<Rightarrow> json list" where
  "uncovered checkpoint h = (case checkpoint of None \<Rightarrow> take PAGE_LIMIT h | Some c \<Rightarrow> newer_than (Some c) h)"

definition missed :: "recovery_rpc \<Rightarrow> (string \<Rightarrow> json list) \<Rightarrow> gateway \<Rightarrow> protocol \<Rightarrow> (protocol \<times> json) list" where
  "missed rpc history g p = map (\<lambda>(s, tx). (p, tx))
     (entry_transactions rpc (uncovered (dict_get (gw_last_signatures g) p)
       (history (case p of PUMP \<Rightarrow> PUMP_PROGRAM_ID | PUMPSWAP \<Rightarrow> PUMPSWAP_PROGRAM_ID))))"

lemma recover_pages_uncovered:
  assumes "honest_rpc history rpc" and "\<forall>s. dict_get d (recovered_key p s) = None"
  shows "recover_pages rpc p program checkpoint None d
    = Some (Inr (d @ map (\<lambda>(s, tx). (recovered_key p s, p, tx)) (entry_transactions rpc (uncovered checkpoint (history program)))))"
proof (cases checkpoint)
  case None
  with recover_pages_newest [OF assms] show ?thesis by (simp add: uncovered_def)
next
  case (Some c)
  have "recover_pages rpc p program checkpoint None d = Some (Inr (d @ map (\<lambda>(s, tx). (recovered_key p s, p, tx))
      (entry_transactions rpc (newer_than checkpoint (history program)))))"
    by (rule recover_pages_complete [OF assms(1) Some, where xs = "[]"]) (use assms(2) in auto)
  with Some show ?thesis by (simp add: uncovered_def)
qed

definition slot_number :: "json \<Rightarrow> int" where
  "slot_number tx = (case slot_of tx of Inr n \<Rightarrow> n | Inl e \<Rightarrow> 0)"

lemma insort_key_map: "insort_key f (g x) (map g xs) = map g (insort_key (\<lambda>y. f (g y)) x xs)"
  by (induction xs) auto

lemma sort_key_map: "sort_key f (map g xs) = map g (sort_key (\<lambda>y. f (g y)) xs)"
  by (induction xs) (auto simp: insort_key_map)

lemma in_slot_order_ok:
  assumes "\<forall>x \<in> set xs. \<exists>n. slot_of (snd x) = Inr n"
  shows "in_slot_order xs = Inr (map (\<lambda>(p, tx). (p, tx, RPC_RECOVERY)) (sort_key (slot_number \<circ> snd) xs))"
proof -
  let ?k = "\<lambda>x. (slot_number (snd x), x)"
  have "slot_keys xs = Inr (map ?k xs)"
    using assms by (induction xs) (auto simp: slot_number_def)
  moreover have "sort_key fst (map ?k xs) = map ?k (sort_key (slot_number \<circ> snd) xs)"
    by (simp add: sort_key_map comp_def)
  ultimately show ?thesis by (simp add: in_slot_order_def case_prod_beta)
qed

lemma missed_slots:
  assumes "\<forall>item s tx. entry_transaction rpc item = Some (s, tx) \<longrightarrow> (\<exists>n. slot_of tx = Inr n)"
    and "x \<in> set (missed rpc history g p)"
  shows "\<exists>n. slot_of (snd x) = Inr n"
  using assms by (auto simp: missed_def in_entry_transactions)

lemma missed_protocol: "x \<in> set (missed rpc history g p) \<Longrightarrow> fst x = p"
  by (auto simp: missed_def)

lemma recover_gap_sorted:
  assumes "honest_rpc history rpc"
    and "\<forall>item s tx. entry_transaction rpc item = Some (s, tx) \<longrightarrow> (\<exists>n. slot_of tx = Inr n)"
  shows "recover_gap rpc g = Some (Inr (map (\<lambda>(p, tx). (p, tx, RPC_RECOVERY))
    (sort_key (slot_number \<circ> snd) (missed rpc history g PUMP @ missed rpc history g PUMPSWAP))))"
proof -
  let ?es = "\<lambda>p. entry_transactions rpc (uncovered (dict_get (gw_last_signatures g) p)
       (history (case p of PUMP \<Rightarrow> PUMP_PROGRAM_ID | PUMPSWAP \<Rightarrow> PUMPSWAP_PROGRAM_ID)))"
  let ?d = "\<lambda>p. map (\<lambda>(s, tx). (recovered_key p s, p, tx)) (?es p)"
  have "dict_get (?d PUMP) (recovered_key PUMPSWAP s) = None" for s
    by (auto simp: map_of_eq_None_iff)
  then have "recover_pages rpc PUMPSWAP PUMPSWAP_PROGRAM_ID (dict_get (gw_last_signatures g) PUMPSWAP) None (?d PUMP)
      = Some (Inr (?d PUMP @ ?d PUMPSWAP))"
    using recover_pages_uncovered [OF assms(1), of "?d PUMP" PUMPSWAP PUMPSWAP_PROGRAM_ID] by simp
  moreover have "recover_pages rpc PUMP PUMP_PROGRAM_ID (dict_get (gw_last_signatures g) PUMP) None [] = Some (Inr (?d PUMP))"
    using recover_pages_uncovered [OF assms(1), of "[]" PUMP PUMP_PROGRAM_ID] by simp
  moreover have "map snd (?d PUMP @ ?d PUMPSWAP) = missed rpc history g PUMP @ missed rpc history g PUMPSWAP"
    by (simp add: missed_def comp_def case_prod_beta)
  moreover have "in_slot_order (missed rpc history g PUMP @ missed rpc history g PUMPSWAP)
      = Inr (map (\<lambda>(p, tx). (p, tx, RPC_RECOVERY))
          (sort_key (slot_number \<circ> snd) (missed rpc history g PUMP @ missed rpc history g PUMPSWAP)))"
    by (rule in_slot_order_ok) (use missed_slots [OF assms(2)] in auto)
  ultimately show ?thesis by (simp only: recover_gap_def option.case sum.case)
qed

lemma stable_slots:
  assumes "\<forall>x \<in> set xs. fst x = p" "\<forall>x \<in> set ys. fst x \<noteq> p"
  shows "filter (\<lambda>x. fst x = p \<and> slot_number (snd x) = n) (sort_key (slot_number \<circ> snd) (xs @ ys))
      = filter (\<lambda>x. slot_number (snd x) = n) xs"
    and "filter (\<lambda>x. fst x = p \<and> slot_number (snd x) = n) (sort_key (slot_number \<circ> snd) (ys @ xs))
      = filter (\<lambda>x. slot_number (snd x) = n) xs"
proof -
  have eq: "filter (\<lambda>x. fst x = p \<and> slot_number (snd x) = n) (sort_key (slot_number \<circ> snd) zs)
      = filter (\<lambda>x. fst x = p) (filter (\<lambda>x. slot_number (snd x) = n) zs)" for zs
  proof -
    have "filter (\<lambda>x. fst x = p \<and> slot_number (snd x) = n) (sort_key (slot_number \<circ> snd) zs)
        = filter (\<lambda>x. fst x = p) (filter (\<lambda>x. (slot_number \<circ> snd) x = n) (sort_key (slot_number \<circ> snd) zs))"
      by (simp add: conj_commute)
    also have "\<dots> = filter (\<lambda>x. fst x = p) (filter (\<lambda>x. (slot_number \<circ> snd) x = n) zs)" by (simp only: sort_key_stable)
    finally show ?thesis by simp
  qed
  have yes: "filter (\<lambda>x. fst x = p) (filter (\<lambda>x. slot_number (snd x) = n) xs) = filter (\<lambda>x. slot_number (snd x) = n) xs"
    using assms(1) by (intro filter_True) auto
  have no: "filter (\<lambda>x. fst x = p) (filter (\<lambda>x. slot_number (snd x) = n) ys) = []"
    using assms(2) by (intro filter_False) auto
  show "filter (\<lambda>x. fst x = p \<and> slot_number (snd x) = n) (sort_key (slot_number \<circ> snd) (xs @ ys))
      = filter (\<lambda>x. slot_number (snd x) = n) xs"
    and "filter (\<lambda>x. fst x = p \<and> slot_number (snd x) = n) (sort_key (slot_number \<circ> snd) (ys @ xs))
      = filter (\<lambda>x. slot_number (snd x) = n) xs"
    unfolding eq by (simp_all only: filter_append yes no append_Nil append_Nil2)
qed


section \<open>Witness\<close>

definition demo_entry_of :: "string \<Rightarrow> json" where
  "demo_entry_of s = JObj [(''signature'', JStr s), (''slot'', JInt 7), (''err'', JNull)]"

definition demo_history :: "string \<Rightarrow> json list" where
  "demo_history program = (if program = PUMP_PROGRAM_ID then map demo_entry_of [''c'', ''b'', ''a''] else [])"

definition demo_rpc :: recovery_rpc where
  "demo_rpc = \<lparr>rc_signatures = \<lambda>program until before.
       Inr (take PAGE_LIMIT (newer_than until (older_than before (demo_history program)))),
     rc_transaction = \<lambda>s. Inr (Some (JObj [(''signature'', JStr s), (''slot'', JInt 7)]))\<rparr>"

lemma demo_rpc_honest: "honest_rpc demo_history demo_rpc"
  by (auto simp: honest_rpc_def demo_rpc_def proper_history_def demo_history_def demo_entry_of_def item_signature_def Let_def)

lemma demo_rpc_slots: "entry_transaction demo_rpc item = Some (s, tx) \<Longrightarrow> slot_of tx = Inr 7"
  by (auto simp: entry_transaction_def fetch_transaction_def demo_rpc_def slot_of_def Let_def split: if_splits)

text \<open>The checkpoint of the first program is its oldest signature: the two newer ones come back, newest first.\<close>

definition demo_gateway :: gateway where
  "demo_gateway = restore_protocol_checkpoint PUMP ''a'' (case gateway_init 3 20 4 2 True False of Inr g \<Rightarrow> g)"


end
