(* ===== verification/Gateway_Props.thy ===== *)
theory Gateway_Props
  imports Gateway_Run
begin

text \<open>
  Runs of the stream gateway. The steps of the connection, the dispatcher, the log tasks, the
  worker, the freshness loop and \<open>stop\<close> interleave on one state; the arguments of a rule stand for
  what the outside answers. The other users of the entry gate change reasons of their own.
\<close>

section \<open>The step relation\<close>

definition stream_reasons :: "string set" where
  "stream_reasons = {''startup'', ''stream_disconnected'', ''stream_recovery_gap'', ''stream_baseline'', ''stream_fetch_error''}"

inductive gateway_step :: "gateway \<Rightarrow> gateway \<Rightarrow> bool" where
  top: "gw_phase g = Top \<Longrightarrow> gateway_step g (run_top h connect now g)"
| subscribed: "gw_phase g = Connected \<Longrightarrow> gateway_step g (run_subscribed h now (subscribe (gw_logs_only g) sent frames) g)"
| recovered: "gw_phase g = Recovering \<Longrightarrow> gateway_step g (run_recovered h (recover_gap_with_live_buffer rpc wakes g) g)"
| commit: "run_commit g = Some g' \<Longrightarrow> gateway_step g g'"
| committed: "gw_phase g = Committing [] \<Longrightarrow> gateway_step g (run_committed resolved g)"
| replay: "gw_phase g = Replaying \<Longrightarrow> gateway_step g (run_replay now g)"
| receive: "gw_phase g = Online \<Longrightarrow> gateway_step g (run_receive now frame g)"
| take_notification: "dispatcher_take g = Some g' \<Longrightarrow> gateway_step g g'"
| handle_notification: "dispatcher_handle g = Some g' \<Longrightarrow> gateway_step g g'"
| resume_dispatcher: "dispatcher_resume g = Some g' \<Longrightarrow> gateway_step g g'"
| task_start: "log_task_start n g = Some g' \<Longrightarrow> gateway_step g g'"
| task_fetched: "log_task_fetched answer n g = Some g' \<Longrightarrow> gateway_step g g'"
| task_dispatch: "log_task_dispatch n g = Some g' \<Longrightarrow> gateway_step g g'"
| task_resume: "log_task_resume n g = Some g' \<Longrightarrow> gateway_step g g'"
| worker_takes: "worker_get g = Some g' \<Longrightarrow> gateway_step g g'"
| worker_closes: "worker_close_window g = Some g' \<Longrightarrow> gateway_step g g'"
| worker_answered: "worker_answer result now g = Some g' \<Longrightarrow> gateway_step g g'"
| freshness: "gateway_step g (fst (refresh_freshness now g))"
| others: "eg_reasons gate \<inter> stream_reasons = eg_reasons (gw_entry_gate g) \<inter> stream_reasons
    \<Longrightarrow> gateway_step g (g\<lparr>gw_entry_gate := gate\<rparr>)"
| stop: "gateway_step g (stop_connection g)"
| stopping: "gw_stopping g \<Longrightarrow> gateway_step g (stop_ingress g)"
| stopped: "gw_stopping g \<Longrightarrow> stop_worker g = Some g' \<Longrightarrow> gateway_step g g'"

definition restored :: "int \<times> string option \<times> datetime option \<Rightarrow> (protocol \<times> string) list \<Rightarrow> gateway \<Rightarrow> gateway" where
  "restored checkpoint checkpoints g = (case checkpoint of (slot, signature, observed_at) \<Rightarrow>
     restore_checkpoint slot signature observed_at (foldl (\<lambda>g (p, s). restore_protocol_checkpoint p s g) g checkpoints))"

inductive gateway_reach :: "gateway \<Rightarrow> bool" where
  start: "gateway_init lag concurrency notifications capacity batching halt = Inr g
    \<Longrightarrow> gateway_reach (gateway_start (restored checkpoint checkpoints g))"
| step: "gateway_reach g \<Longrightarrow> gateway_step g g' \<Longrightarrow> gateway_reach g'"

section \<open>What the pieces leave alone\<close>

named_theorems gateway_defs \<open>the small operations on the gateway\<close>

lemmas [gateway_defs] = gblock_def gunblock_def note_observed_def note_signature_def put_item_def begin_live_baseline_def
  discard_in_memory_checkpoint_def observe_transaction_def dispatch_failed_def

text \<open>
  The fields that only the connection and the tasks change, and that no queueing of a transaction
  touches.
\<close>

definition control :: "gateway \<Rightarrow> _" where
  "control g = (gw_phase g, gw_entry_gate g, gw_dispatcher g, gw_stopping g, gw_reconnect_requested g,
     gw_dispatch_recovery_pending g, gw_pending g, gw_gaps g, gw_notification_queue g)"

definition order_view :: "gateway \<Rightarrow> nat \<times> nat list \<times> nat \<times> log_task list \<times> nat option \<times> nat set" where
  "order_view g = (gw_first_task g, gw_sent g, gw_log_fetch_sequence g, gw_log_fetch_tasks g, gw_log_fetch_tail g,
     gw_fetch_error_sequences g)"

lemma put_items_frame [simp]:
  "put_items signature xs g = (g1, rest) \<Longrightarrow> control g1 = control g \<and> order_view g1 = order_view g"
  by (induction xs arbitrary: g)
     (auto simp: Let_def control_def order_view_def put_item_def note_signature_def split: if_splits)

lemma queued_source_frame:
  "queued_source source received generation g = (g1, s) \<Longrightarrow> control g1 = control g \<and> order_view g1 = order_view g"
  by (auto simp: queued_source_def Let_def control_def order_view_def split: if_splits)

lemma keeps_queue_transaction:
  "keeps (\<lambda>g. control g = c \<and> order_view g = v) (queue_transaction tx source received generation)"
  unfolding queue_transaction_def
proof (intro keeps_intros)
  show "keeps (\<lambda>g. control g = c \<and> order_view g = v)
      (\<lambda>g. case queued_source source received generation g of (g1, s) \<Rightarrow> (g1, Inr s))"
    by (auto simp: keeps_def dest: queued_source_frame split: prod.split)
  show "keeps (\<lambda>g. control g = c \<and> order_view g = v)
      (\<lambda>g. case put_items signature items g of (g1, []) \<Rightarrow> (g1, Inr None)
         | (g1, x # rest) \<Rightarrow> (g1, Inr (Some \<lparr>pj_signature = signature, pj_items = x # rest\<rparr>)))" for signature items
    by (auto simp: keeps_def dest: put_items_frame split: prod.split list.split)
qed (auto simp: control_def order_view_def gateway_defs note_chain_time_def split: option.splits)

lemma queue_transaction_frame:
  "queue_transaction tx source received generation g = (g1, r) \<Longrightarrow> control g1 = control g \<and> order_view g1 = order_view g"
  using keepsD [OF keeps_queue_transaction [of "control g" "order_view g" tx source received generation], of g] by simp

lemma resume_put_frame:
  "resume_put j g = (g1, r) \<Longrightarrow> control g1 = control g \<and> order_view g1 = order_view g"
  by (auto simp: resume_put_def control_def order_view_def put_item_def split: list.splits prod.splits dest!: put_items_frame)

section \<open>Entries are blocked while the stream is not in order\<close>

abbreviation reasons :: "gateway \<Rightarrow> string set" where
  "reasons g \<equiv> eg_reasons (gw_entry_gate g)"

definition quiet :: "gateway \<Rightarrow> bool" where
  "quiet g \<longleftrightarrow> gw_dispatcher g = None \<and> gw_log_fetch_tasks g = []"

definition faults_blocked :: "gateway \<Rightarrow> bool" where
  "faults_blocked g \<longleftrightarrow>
     (gw_reconnect_requested g \<longrightarrow> gw_dispatch_recovery_pending g \<and> ''stream_fetch_error'' \<in> reasons g) \<and>
     (gw_fetch_error_sequences g \<noteq> {} \<longrightarrow> ''stream_fetch_error'' \<in> reasons g)"

fun phase_ok :: "run_phase \<Rightarrow> gateway \<Rightarrow> bool" where
  "phase_ok Top g = (\<not> gw_stopping g \<and> quiet g)"
| "phase_ok Connected g = (\<not> gw_stopping g \<and> quiet g \<and> \<not> gw_reconnect_requested g)"
| "phase_ok Recovering g = (\<not> gw_stopping g \<and> quiet g \<and> \<not> gw_reconnect_requested g)"
| "phase_ok (Committing xs) g = (\<not> gw_stopping g \<and> quiet g \<and> \<not> gw_reconnect_requested g)"
| "phase_ok Replaying g = (\<not> gw_stopping g)"
| "phase_ok Online g = (\<not> gw_stopping g)"
| "phase_ok Ended g = True"

definition offline_blocked :: "gateway \<Rightarrow> bool" where
  "offline_blocked g \<longleftrightarrow> gw_phase g \<noteq> Online \<longrightarrow> ''stream_disconnected'' \<in> reasons g \<or> ''startup'' \<in> reasons g"

definition safe :: "gateway \<Rightarrow> bool" where
  "safe g \<longleftrightarrow> phase_ok (gw_phase g) g \<and> faults_blocked g \<and> offline_blocked g"

lemmas safe_defs = safe_def faults_blocked_def offline_blocked_def quiet_def

lemma safe_start:
  assumes "gateway_init lag concurrency notifications capacity batching halt = Inr g"
  shows "safe (gateway_start (restored checkpoint checkpoints g))"
proof -
  have fold: "control (foldl (\<lambda>g (p, s). restore_protocol_checkpoint p s g) g cs) = control g
      \<and> order_view (foldl (\<lambda>g (p, s). restore_protocol_checkpoint p s g) g cs) = order_view g" for cs g
    by (induction cs arbitrary: g) (auto simp: control_def order_view_def restore_protocol_checkpoint_def split: prod.split)
  have "control (restored checkpoint checkpoints g) = control g \<and> order_view (restored checkpoint checkpoints g) = order_view g"
    using fold [of g checkpoints]
    by (auto simp: restored_def restore_checkpoint_def control_def order_view_def split: prod.split)
  then show ?thesis
    using assms by (auto simp: control_def order_view_def gateway_init_def gateway_start_def safe_defs entry_gate_init_def split: if_splits)
qed

lemma safe_frame:
  assumes "safe g" "control h = control g" "order_view h = order_view g"
  shows "safe h"
proof -
  have "phase_ok ph h = phase_ok ph g" for ph
    using assms(2,3) by (cases ph) (auto simp: quiet_def control_def order_view_def)
  with assms show ?thesis by (auto simp: safe_defs control_def order_view_def)
qed

subsection \<open>The end of a connection\<close>

lemma end_connection_facts:
  assumes "\<not> gw_stopping g"
  shows "quiet (end_connection g)" "\<not> gw_stopping (end_connection g)"
    "gw_fetch_error_sequences (end_connection g) = {}"
    "gw_reconnect_requested (end_connection g) = gw_reconnect_requested g"
    "gw_dispatch_recovery_pending g \<Longrightarrow> gw_dispatch_recovery_pending (end_connection g)"
    "insert ''stream_disconnected'' (reasons g) \<subseteq> reasons (end_connection g)"
    "reasons (end_connection g) \<subseteq> insert ''stream_recovery_gap'' (insert ''stream_disconnected'' (reasons g))"
    "gw_pending (end_connection g) = gw_pending g" "gw_gaps (end_connection g) = gw_gaps g"
  using assms by (auto simp: end_connection_def cancel_log_fetch_tasks_def Let_def gateway_defs quiet_def)

lemma connection_error_facts:
  "gw_phase (connection_error err g) \<in> {Top, Ended}" "quiet (connection_error err g) = quiet g"
  "gw_stopping (connection_error err g) = gw_stopping g"
  "gw_fetch_error_sequences (connection_error err g) = gw_fetch_error_sequences g"
  "gw_reconnect_requested (connection_error err g) = gw_reconnect_requested g"
  "gw_dispatch_recovery_pending (connection_error err g) = gw_dispatch_recovery_pending g"
  "reasons g \<subseteq> reasons (connection_error err g)" "reasons (connection_error err g) \<subseteq> insert ''stream_disconnected'' (reasons g)"
  "gw_gaps (connection_error err g) = gw_gaps g" "set (gw_pending g) \<subseteq> set (gw_pending (connection_error err g))"
  by (auto simp: connection_error_def retry_later_def extend_handshake_buffer_def gateway_defs quiet_def
      split: stream_error.split prod.split py_error.split)

lemma safe_offline:
  assumes "gw_phase h \<in> {Top, Ended}" "\<not> gw_stopping h" "quiet h" "faults_blocked h" "''stream_disconnected'' \<in> reasons h"
  shows "safe h"
  using assms by (auto simp: safe_def offline_blocked_def)

lemma safe_fail_connection:
  assumes "\<not> gw_stopping g" "faults_blocked g"
  shows "safe (fail_connection err g)"
  unfolding fail_connection_def
  by (rule safe_offline)
     (use connection_error_facts [where err = err and g = "end_connection g"] end_connection_facts [OF assms(1)] assms(2)
      in \<open>auto simp: faults_blocked_def\<close>)

lemma safe_end_connection:
  assumes "\<not> gw_stopping g" "faults_blocked g" "ph \<in> {Top, Ended}"
  shows "safe ((end_connection g)\<lparr>gw_phase := ph\<rparr>)"
  by (rule safe_offline)
     (use end_connection_facts [OF assms(1)] assms(2,3) in \<open>auto simp: faults_blocked_def quiet_def\<close>)

subsection \<open>The steps of the connection\<close>

lemma hold_facts:
  assumes "hold_for_unrecoverable_gap h now g = (g1, r)"
  shows "gw_phase g1 = gw_phase g" "quiet g1 = quiet g" "gw_stopping g1 = gw_stopping g" "order_view g1 = order_view g"
    "gw_reconnect_requested g1 = gw_reconnect_requested g" "gw_dispatch_recovery_pending g1 = gw_dispatch_recovery_pending g"
    "reasons g \<subseteq> reasons g1" "reasons g1 \<subseteq> insert ''stream_recovery_gap'' (reasons g)" "gw_pending g1 = gw_pending g"
  using assms by (auto simp: hold_for_unrecoverable_gap_def call_gap_handler_def Let_def gateway_defs quiet_def order_view_def
      split: if_splits sum.splits)

lemma safe_top:
  assumes "safe g" "gw_phase g = Top"
  shows "safe (run_top h connect now g)"
proof -
  let ?g = "gblock ''stream_disconnected'' g"
  have s: "\<not> gw_stopping g" "quiet g" "faults_blocked g" using assms by (auto simp: safe_def)
  obtain g1 r where hold: "hold_for_unrecoverable_gap h now ?g = (g1, r)" by force
  have f: "gw_phase g1 = Top" "quiet g1" "\<not> gw_stopping g1" "faults_blocked g1" "''stream_disconnected'' \<in> reasons g1"
    using hold_facts [OF hold] s assms(2) by (auto simp: gateway_defs quiet_def faults_blocked_def order_view_def)
  have "safe (g1\<lparr>gw_phase := Ended\<rparr>)" "safe g1" using f by (auto simp: safe_defs)
  moreover have "safe (connection_error (Failure e) g1)" for e
    by (rule safe_offline) (use connection_error_facts [where err = "Failure e" and g = g1] f in \<open>auto simp: faults_blocked_def\<close>)
  moreover have "safe ((begin_live_baseline (g1\<lparr>gw_reconnect_requested := False\<rparr>))\<lparr>gw_phase := Connected\<rparr>)"
    using f by (auto simp: safe_defs gateway_defs)
  ultimately show ?thesis
    using s(1) by (auto simp: run_top_def hold split: sum.split bool.split)
qed

lemma safe_connected:
  assumes "safe g" "gw_phase g = Connected"
  shows "safe (run_subscribed h now answer g)"
proof -
  have s: "\<not> gw_stopping g" "quiet g" "faults_blocked g" "\<not> gw_reconnect_requested g" "offline_blocked g"
    using assms by (auto simp: safe_def)
  let ?g = "\<lambda>b. g\<lparr>gw_pending := gw_pending g @ b\<rparr>"
  have "safe (accept_gap h (?g b))" for b
  proof -
    let ?h = "(gblock ''stream_recovery_gap'' (?g b))\<lparr>gw_gaps := gw_gaps g @ [''unrecoverable_gap_accepted'']\<rparr>"
    have "safe (fail_connection err ?h)" for err
      by (rule safe_fail_connection) (use s in \<open>auto simp: gateway_defs faults_blocked_def\<close>)
    moreover have "safe ((gunblock ''stream_recovery_gap'' (discard_in_memory_checkpoint ?h))\<lparr>gw_phase := Committing []\<rparr>)"
      using s assms(2) by (auto simp: safe_defs gateway_defs)
    ultimately show ?thesis by (auto simp: accept_gap_def call_gap_handler_def gblock_def split: sum.split)
  qed
  moreover have "safe ((?g b)\<lparr>gw_phase := Committing []\<rparr>)" "safe ((?g b)\<lparr>gw_phase := Recovering\<rparr>)" for b
    using s assms(2) by (auto simp: safe_defs)
  ultimately show ?thesis
    using safe_fail_connection [OF s(1,3)] safe_end_connection [OF s(1,3), of Ended]
    by (auto simp: run_subscribed_def Let_def split: sum.split)
qed

lemma safe_recovering:
  assumes "safe g" "gw_phase g = Recovering"
  shows "safe (run_recovered h answer g)"
proof -
  have s: "\<not> gw_stopping g" "quiet g" "faults_blocked g" "\<not> gw_reconnect_requested g" "offline_blocked g"
    using assms by (auto simp: safe_def)
  let ?h = "(gblock ''stream_recovery_gap'' (g\<lparr>gw_pending := []\<rparr>))\<lparr>gw_gaps := gw_gaps g @ [''recovery_timeout'']\<rparr>"
  have h: "\<not> gw_stopping ?h" "faults_blocked ?h" using s by (auto simp: gateway_defs faults_blocked_def)
  have "safe (g\<lparr>gw_pending := b, gw_phase := Committing xs\<rparr>)" for b xs using s assms(2) by (auto simp: safe_defs)
  moreover have "safe (case call_gap_handler h ''recovery_timeout'' (gblock ''stream_recovery_gap'' (g\<lparr>gw_pending := []\<rparr>)) of
       (g1, Inl e) \<Rightarrow> fail_connection (Failure e) g1
     | (g1, Inr _) \<Rightarrow> (end_connection g1)\<lparr>gw_phase := Top\<rparr>)"
    using safe_fail_connection [OF h] safe_end_connection [OF h, of Top]
    by (auto simp: call_gap_handler_def gblock_def split: sum.split)
  ultimately show ?thesis
    using safe_fail_connection [OF s(1,3)]
    by (auto simp: run_recovered_def split: sum.split stream_error.split)
qed

lemma commit_event_frame:
  "commit_recovered_event x g = (g1, r) \<Longrightarrow> control g1 = control g \<and> order_view g1 = order_view g"
  by (cases x) (auto simp: commit_recovered_event_def method_defs control_def order_view_def gateway_defs
      split: sum.splits if_splits)

lemma safe_commit:
  assumes "safe g" "run_commit g = Some g'"
  shows "safe g'"
proof -
  obtain x xs where ph: "gw_phase g = Committing (x # xs)"
    using assms(2) by (auto simp: run_commit_def split: run_phase.splits list.splits)
  obtain g1 r where c: "commit_recovered_event x g = (g1, r)" by force
  have s1: "safe g1" using safe_frame [OF assms(1)] commit_event_frame [OF c] by blast
  have ph1: "gw_phase g1 = Committing (x # xs)" using commit_event_frame [OF c] ph by (simp add: control_def)
  then have "safe (g1\<lparr>gw_phase := Committing xs\<rparr>)" using s1 by (auto simp: safe_defs)
  moreover have "safe (fail_connection err g1)" for err
    by (rule safe_fail_connection) (use s1 ph1 in \<open>auto simp: safe_def\<close>)
  ultimately show ?thesis
    using assms(2) ph c by (auto simp: run_commit_def split: if_splits sum.splits)
qed

lemma safe_committed:
  assumes "safe g" "gw_phase g = Committing []"
  shows "safe (run_committed resolved g)"
proof -
  let ?g = "gunblock ''stream_recovery_gap'' (g\<lparr>gw_dispatch_recovery_pending := False\<rparr>)"
  have "safe (fail_connection err ?g)" for err
    by (rule safe_fail_connection) (use assms in \<open>auto simp: safe_defs gateway_defs\<close>)
  moreover have "safe (?g\<lparr>gw_phase := Replaying\<rparr>)" "safe (g\<lparr>gw_phase := Replaying\<rparr>)"
    using assms by (auto simp: safe_defs gateway_defs)
  ultimately show ?thesis by (auto simp: run_committed_def Let_def split: sum.split)
qed

text \<open>Handling a message may only start the dispatcher, fill its queue and report an overflow.\<close>

definition listening :: "run_phase \<Rightarrow> string set \<Rightarrow> gateway \<Rightarrow> bool" where
  "listening ph rs g \<longleftrightarrow> gw_phase g = ph \<and> \<not> gw_stopping g \<and> faults_blocked g \<and> rs \<subseteq> reasons g"

lemma keeps_handle_message: "keeps (listening ph rs) (handle_message now message)"
  unfolding handle_message_def
proof (intro keeps_intros)
  show "keeps (listening ph rs) (enqueue_notification_dispatch n)" for n
    by (auto simp: keeps_def enqueue_notification_dispatch_def listening_def faults_blocked_def Let_def gateway_defs)
qed (auto simp: listening_def faults_blocked_def gateway_defs)

lemma handle_message_safe:
  assumes "safe g" "gw_phase g \<in> {Replaying, Online}" "handle_message now message g = (g1, r)"
  shows "safe g1" "gw_phase g1 = gw_phase g" "\<not> gw_stopping g1" "faults_blocked g1" "reasons g \<subseteq> reasons g1"
proof -
  have "listening (gw_phase g) (reasons g) g" using assms(1,2) by (auto simp: listening_def safe_def)
  then have l: "listening (gw_phase g) (reasons g) g1"
    using keepsD [OF keeps_handle_message, of "gw_phase g" "reasons g" g now message] assms(3) by simp
  then show "gw_phase g1 = gw_phase g" "\<not> gw_stopping g1" "faults_blocked g1" "reasons g \<subseteq> reasons g1"
    by (simp_all add: listening_def)
  then show "safe g1" using assms(1,2) by (auto simp: safe_def offline_blocked_def)
qed

lemma refresh_facts:
  "gw_phase (fst (refresh_freshness now g)) = gw_phase g" "gw_stopping (fst (refresh_freshness now g)) = gw_stopping g"
  "order_view (fst (refresh_freshness now g)) = order_view g" "gw_dispatcher (fst (refresh_freshness now g)) = gw_dispatcher g"
  "gw_reconnect_requested (fst (refresh_freshness now g)) = gw_reconnect_requested g"
  "gw_pending (fst (refresh_freshness now g)) = gw_pending g" "gw_gaps (fst (refresh_freshness now g)) = gw_gaps g"
  "reasons g - {''stream_stale'', ''stream_baseline'', ''stream_fetch_error''} \<subseteq> reasons (fst (refresh_freshness now g))"
  by (auto simp: refresh_freshness_def Let_def gateway_defs order_view_def)

lemma refresh_faults: "faults_blocked g \<Longrightarrow> faults_blocked (fst (refresh_freshness now g))"
  by (auto simp: refresh_freshness_def Let_def gateway_defs faults_blocked_def)

lemma safe_refresh:
  assumes "safe g" shows "safe (fst (refresh_freshness now g))"
proof -
  have "phase_ok (gw_phase g) (fst (refresh_freshness now g))"
    using assms refresh_facts [where now = now and g = g] by (cases "gw_phase g") (auto simp: safe_def quiet_def order_view_def)
  moreover have "offline_blocked (fst (refresh_freshness now g))"
    using assms refresh_facts [where now = now and g = g] by (auto simp: safe_def offline_blocked_def)
  ultimately show ?thesis using assms refresh_faults refresh_facts(1) by (auto simp: safe_def)
qed

lemma safe_replay:
  assumes "safe g" "gw_phase g = Replaying"
  shows "safe (run_replay now g)"
proof (cases "gw_pending g")
  case Nil
  let ?g = "gunblock ''stream_disconnected'' (gunblock ''startup'' g)"
  have "\<not> gw_stopping ?g" "faults_blocked ?g" using assms by (auto simp: safe_def faults_blocked_def gateway_defs)
  then have "safe ((fst (refresh_freshness now ?g))\<lparr>gw_attempt := 0, gw_phase := Online\<rparr>)"
    using refresh_facts(2) [where now = now and g = ?g] refresh_faults [of ?g now] by (simp add: safe_defs)
  then show ?thesis by (simp add: run_replay_def Nil)
next
  case (Cons m rest)
  obtain g1 r where m: "handle_message now m g = (g1, r)" by force
  note f = handle_message_safe [OF assms(1) _ m]
  have "safe (g1\<lparr>gw_pending := rest\<rparr>)" using f(1,2) assms(2) by (auto simp: safe_defs)
  moreover have "safe (fail_connection err g1)" for err
    by (rule safe_fail_connection) (use f assms(2) in auto)
  moreover have "safe (fail_connection err g)" for err
    by (rule safe_fail_connection) (use assms in \<open>auto simp: safe_def\<close>)
  ultimately show ?thesis by (auto simp: run_replay_def Cons m split: sum.split)
qed

lemma safe_receive:
  assumes "safe g" "gw_phase g = Online"
  shows "safe (run_receive now frame g)"
proof -
  have s: "\<not> gw_stopping g" "faults_blocked g" using assms by (auto simp: safe_def)
  have "safe (case handle_message now m g of (g1, Inl e) \<Rightarrow> fail_connection (Failure e) g1 | (g1, Inr _) \<Rightarrow> g1)" for m
  proof -
    obtain g1 r where m: "handle_message now m g = (g1, r)" by force
    note f = handle_message_safe [OF assms(1) _ m]
    show ?thesis using f assms(2) safe_fail_connection [OF f(3,4)] by (auto simp: m split: sum.split)
  qed
  then show ?thesis
    using safe_fail_connection [OF s] safe_end_connection [OF s, of Top]
    by (auto simp: run_receive_def split: option.split sum.split)
qed

subsection \<open>The other tasks\<close>

text \<open>
  Outside the connection a step leaves the phase alone, and only touches the tasks when they are
  not quiet.
\<close>

lemma safe_aside:
  assumes "safe g" "gw_phase h = gw_phase g" "gw_stopping h = gw_stopping g" "quiet g \<Longrightarrow> quiet h"
    "gw_reconnect_requested h \<Longrightarrow> gw_reconnect_requested g \<or> \<not> quiet g" "faults_blocked h"
    "reasons g \<inter> {''stream_disconnected'', ''startup''} \<subseteq> reasons h"
  shows "safe h"
proof -
  have "phase_ok (gw_phase g) h" using assms(1-5) by (cases "gw_phase g") (auto simp: safe_def)
  moreover have "offline_blocked h" using assms(1,2,7) by (auto simp: safe_def offline_blocked_def)
  ultimately show ?thesis using assms(2,6) by (simp add: safe_def)
qed

lemma faults_frame: "faults_blocked g \<Longrightarrow> control h = control g \<Longrightarrow> order_view h = order_view g \<Longrightarrow> faults_blocked h"
  by (auto simp: faults_blocked_def control_def order_view_def)

lemma safe_dispatcher:
  assumes "safe g" "dispatcher_take g = Some g' \<or> dispatcher_handle g = Some g' \<or> dispatcher_resume g = Some g'"
  shows "safe g'"
proof -
  have nq: "\<not> quiet g"
    using assms(2) by (auto simp: dispatcher_take_def dispatcher_handle_def dispatcher_resume_def quiet_def
        split: option.splits hand.splits list.splits)
  have fb: "faults_blocked g" using assms(1) by (simp add: safe_def)
  have put: "safe (dispatcher_put (g1, j))" "safe (dispatcher_end g1)"
    if "control g1 = control g \<and> order_view g1 = order_view g" for g1 j
    by (rule safe_aside [OF assms(1)];
        use that nq fb in \<open>auto simp: dispatcher_put_def dispatcher_end_def control_def order_view_def faults_blocked_def gateway_defs\<close>)+
  from assms(2) consider "dispatcher_take g = Some g'" | "dispatcher_handle g = Some g'" | "dispatcher_resume g = Some g'" by blast
  then show ?thesis
  proof cases
    case 1
    then show ?thesis
      by (intro safe_aside [OF assms(1)])
         (use nq fb in \<open>auto simp: dispatcher_take_def faults_blocked_def split: option.splits hand.splits list.splits\<close>)
  next
    case 2
    have "safe ((spawn_log_dispatch signature slot logs received_at generation g)\<lparr>gw_dispatcher := Some Waiting\<rparr>)"
      for signature slot logs received_at generation
      by (rule safe_aside [OF assms(1)]) (use nq fb in \<open>auto simp: spawn_log_dispatch_def faults_blocked_def Let_def\<close>)
    with 2 put show ?thesis
      by (auto simp: dispatcher_handle_def dest!: queue_transaction_frame
          split: option.splits hand.splits notification.splits prod.splits sum.splits if_splits)
  next
    case 3
    then show ?thesis
      using put resume_put_frame
      by (cases "resume_put (case gw_dispatcher g of Some (Putting j) \<Rightarrow> j) g")
         (auto simp: dispatcher_resume_def split: option.splits hand.splits if_splits)
  qed
qed

lemma task_not_quiet: "find_log_task n g = Some t \<Longrightarrow> \<not> quiet g"
  by (auto simp: find_log_task_def quiet_def)

lemma block_time_frame:
  "get_slot_block_time slot answer g = (g1, r) \<Longrightarrow> control g1 = control g \<and> order_view g1 = order_view g"
  by (auto simp: get_slot_block_time_def remember_block_time_def control_def order_view_def Let_def
      split: if_splits option.splits sum.splits)

text \<open>The ways a step of a log task can end.\<close>

lemma log_task_cases:
  assumes "log_task_start n g = Some g' \<or> log_task_fetched answer n g = Some g' \<or> log_task_dispatch n g = Some g' \<or> log_task_resume n g = Some g'"
  obtains (stage) t g1 st where "find_log_task n g = Some t" "control g1 = control g" "order_view g1 = order_view g"
      "lt_stage t \<in> {Created, Fetching}" "st = Fetching \<or> (\<exists>bt. st = Fetched bt)" "g' = set_log_stage n st g1"
    | (fail) t g1 where "find_log_task n g = Some t" "control g1 = control g" "order_view g1 = order_view g"
      "lt_stage t = Fetching \<or> (\<exists>bt. lt_stage t = Fetched bt)" "g' = fail_log_task n g1"
    | (send) t g1 j bt where "find_log_task n g = Some t" "control g1 = control g" "order_view g1 = order_view g"
      "lt_stage t = Fetched bt" "task_done (lt_previous t) g" "\<forall>m \<in> gw_fetch_error_sequences g. n \<le> m"
      "g' = log_task_put n (g1\<lparr>gw_sent := gw_sent g1 @ [n]\<rparr>, j)"
    | (resume) t g1 j j' where "find_log_task n g = Some t" "control g1 = control g" "order_view g1 = order_view g"
      "lt_stage t = PuttingLog j'" "g' = log_task_put n (g1, j)"
proof -
  from assms consider "log_task_start n g = Some g'" | "log_task_fetched answer n g = Some g'"
    | "log_task_dispatch n g = Some g'" | "log_task_resume n g = Some g'" by blast
  then show thesis
  proof cases
    case 1
    then show ?thesis by (auto simp: log_task_start_def split: option.splits if_splits intro: stage [of _ g])
  next
    case 2
    then obtain t where t: "find_log_task n g = Some t" "lt_stage t = Fetching"
      by (auto simp: log_task_fetched_def split: option.splits if_splits)
    obtain g1 r where r: "get_slot_block_time (lt_slot t) answer g = (g1, r)" by force
    show ?thesis
    proof (cases r)
      case (Inl e)
      with 2 t r fail [OF t(1), of g1] block_time_frame [OF r] show ?thesis by (auto simp: log_task_fetched_def)
    next
      case (Inr bt)
      with 2 t r stage [OF t(1), of g1 "Fetched bt"] block_time_frame [OF r] show ?thesis by (auto simp: log_task_fetched_def)
    qed
  next
    case 3
    then obtain t bt where t: "find_log_task n g = Some t" "lt_stage t = Fetched bt" and d: "task_done (lt_previous t) g"
      by (auto simp: log_task_dispatch_def split: option.splits log_stage.splits if_splits)
    obtain g1 r where r: "queue_transaction (log_transaction t bt) SOLANA_WSS (lt_received_at t) (Some (lt_generation t)) g = (g1, r)"
      by force
    note fr = queue_transaction_frame [OF r]
    show ?thesis
    proof (cases "(case lt_previous t of None \<Rightarrow> False | Some m \<Rightarrow> m \<in> gw_failed_tasks g) \<or> (\<exists>failed \<in> gw_fetch_error_sequences g. failed < n)")
      case True
      then have "log_task_dispatch n g = Some (fail_log_task n g)" using t d by (simp add: log_task_dispatch_def)
      with 3 fail [OF t(1), of g] t(2) show ?thesis by simp
    next
      case False
      then have ok: "\<forall>m \<in> gw_fetch_error_sequences g. n \<le> m" by (auto simp: not_less)
      from False t d r have "log_task_dispatch n g = Some (case r of Inl e \<Rightarrow> fail_log_task n g1
          | Inr j \<Rightarrow> log_task_put n (g1\<lparr>gw_sent := gw_sent g1 @ [n]\<rparr>, j))"
        by (auto simp: log_task_dispatch_def split: sum.split)
      with 3 have g': "g' = (case r of Inl e \<Rightarrow> fail_log_task n g1 | Inr j \<Rightarrow> log_task_put n (g1\<lparr>gw_sent := gw_sent g1 @ [n]\<rparr>, j))"
        by simp
      show ?thesis
      proof (cases r)
        case (Inl e)
        with fail [OF t(1), of g1] fr t(2) g' show ?thesis by simp
      next
        case (Inr j)
        with send [OF t(1), of g1 bt j] fr t(2) d ok g' show ?thesis by simp
      qed
    qed
  next
    case 4
    then obtain t j where t: "find_log_task n g = Some t" "lt_stage t = PuttingLog j"
      by (auto simp: log_task_resume_def split: option.splits log_stage.splits if_splits)
    obtain g1 r where r: "resume_put j g = (g1, r)" by force
    have "g' = log_task_put n (g1, r)" using 4 t r by (auto simp: log_task_resume_def split: if_splits)
    with resume [OF t(1), of g1 j r] resume_put_frame [OF r] t(2) show ?thesis by simp
  qed
qed

lemma finish_faults: "faults_blocked g \<Longrightarrow> faults_blocked (finish_log_task n g)"
  by (auto simp: finish_log_task_def forget_log_task_def faults_blocked_def Let_def gateway_defs)

lemma fail_faults: "faults_blocked (fail_log_task n g)"
  by (auto simp: fail_log_task_def forget_log_task_def faults_blocked_def Let_def gateway_defs)

lemma put_faults: "faults_blocked g \<Longrightarrow> faults_blocked (log_task_put n (g, j))"
  using finish_faults [of g n] by (cases j) (simp_all add: log_task_put_def set_log_stage_def faults_blocked_def)

lemma task_fail_facts:
  "gw_phase (fail_log_task n g) = gw_phase g" "gw_stopping (fail_log_task n g) = gw_stopping g"
  "reasons g \<subseteq> reasons (fail_log_task n g)"
  by (auto simp: fail_log_task_def forget_log_task_def gateway_defs)

lemma task_put_facts:
  "gw_phase (log_task_put n (g, j)) = gw_phase g" "gw_stopping (log_task_put n (g, j)) = gw_stopping g"
  "gw_reconnect_requested (log_task_put n (g, j)) = gw_reconnect_requested g"
  "reasons g - {''stream_fetch_error''} \<subseteq> reasons (log_task_put n (g, j))"
  by (cases j; auto simp: log_task_put_def finish_log_task_def forget_log_task_def set_log_stage_def Let_def gateway_defs)+

lemma safe_log_task:
  assumes "safe g"
    and "log_task_start n g = Some g' \<or> log_task_fetched answer n g = Some g' \<or> log_task_dispatch n g = Some g' \<or> log_task_resume n g = Some g'"
  shows "safe g'"
  using assms(2)
proof (cases rule: log_task_cases)
  case (stage t g1 st)
  then have "faults_blocked g1" using assms(1) faults_frame by (auto simp: safe_def)
  with stage show ?thesis
    by (intro safe_aside [OF assms(1)])
       (use task_not_quiet [OF stage(1)] in \<open>auto simp: set_log_stage_def control_def faults_blocked_def\<close>)
next
  case (fail t g1)
  then show ?thesis
    by (intro safe_aside [OF assms(1)])
       (use task_not_quiet [OF fail(1)] fail_faults task_fail_facts [where n = n and g = g1] in \<open>auto simp: control_def\<close>)
next
  case (send t g1 j bt)
  let ?g1 = "g1\<lparr>gw_sent := gw_sent g1 @ [n]\<rparr>"
  have "faults_blocked g1" using assms(1) send faults_frame by (auto simp: safe_def)
  then have "faults_blocked ?g1" by (simp add: faults_blocked_def)
  then show ?thesis
    by (intro safe_aside [OF assms(1)])
       (use send task_not_quiet [OF send(1)] put_faults task_put_facts [where n = n and g = ?g1 and j = j] in \<open>auto simp: control_def\<close>)
next
  case (resume t g1 j j')
  have "faults_blocked g1" using assms(1) resume faults_frame by (auto simp: safe_def)
  then show ?thesis
    by (intro safe_aside [OF assms(1)])
       (use resume task_not_quiet [OF resume(1)] put_faults task_put_facts [where n = n and g = g1 and j = j] in \<open>auto simp: control_def\<close>)
qed

text \<open>The worker changes its own fields, the queue and one reason of the gate.\<close>

definition worker_view :: "gateway \<Rightarrow> _" where
  "worker_view g = (gw_phase g, gw_stopping g, gw_dispatcher g, gw_reconnect_requested g, gw_dispatch_recovery_pending g,
     gw_pending g, gw_gaps g, order_view g, reasons g - {''event_processing_error''})"

lemma worker_frame:
  "worker_get g = Some g' \<Longrightarrow> worker_view g' = worker_view g"
  "worker_close_window g = Some g' \<Longrightarrow> worker_view g' = worker_view g"
  by (auto simp: worker_get_def worker_close_window_def worker_view_def order_view_def
      split: worker.splits list.splits option.splits if_splits)

lemma worker_answer_frame:
  assumes "worker_answer result now g = Some g'" shows "worker_view g' = worker_view g"
proof -
  obtain batch stop n where w: "gw_worker g = Processing batch stop n"
    using assms by (auto simp: worker_answer_def split: worker.splits)
  have upd: "worker_view (g\<lparr>gw_worker := w\<rparr>) = worker_view g" "worker_view (g\<lparr>gw_fatal := f\<rparr>) = worker_view g"
    "worker_view (note_processed t ts g) = worker_view g" "worker_view (gunblock ''event_processing_error'' g) = worker_view g"
    "worker_view (gblock ''event_processing_error'' g) = worker_view g" for w f t ts and g :: gateway
    by (auto simp: worker_view_def order_view_def note_processed_def gateway_defs Let_def)
  show ?thesis
  proof (cases result)
    case (Inr u)
    with assms w upd show ?thesis by (auto simp: worker_answer_def Let_def split: sum.splits)
  next
    case (Inl e)
    have "g' = (if e = CancelledError then g\<lparr>gw_worker := Stopped\<rparr> else let g1 = gblock ''event_processing_error'' g in
         if PROCESSING_RETRY_LIMIT \<le> n + 1 then (g1\<lparr>gw_fatal := gw_fatal g1 @ [e]\<rparr>)\<lparr>gw_worker := Stopped\<rparr>
         else g1\<lparr>gw_worker := Processing batch stop (n + 1)\<rparr>)"
      using assms w Inl by (cases e) (auto simp: worker_answer_def Let_def)
    then show ?thesis by (simp only: upd Let_def split: if_split) simp
  qed
qed

lemma safe_worker:
  assumes "safe g" "worker_view g' = worker_view g"
  shows "safe g'"
  by (rule safe_aside [OF assms(1)])
     (use assms in \<open>auto simp: safe_def faults_blocked_def worker_view_def order_view_def quiet_def\<close>)

lemma safe_step: "gateway_step g g' \<Longrightarrow> safe g \<Longrightarrow> safe g'"
proof (induction rule: gateway_step.induct)
  case (others gate g)
  then have "r \<in> eg_reasons gate \<longleftrightarrow> r \<in> reasons g" if "r \<in> stream_reasons" for r using that by blast
  then show ?case
    using others.prems
    by (intro safe_aside [OF others.prems]) (auto simp: quiet_def safe_def faults_blocked_def stream_reasons_def)
next
  case (stop g)
  then show ?case by (auto simp: stop_connection_def safe_defs gateway_defs)
next
  case (stopping g)
  then have "gw_phase g = Ended" by (cases "gw_phase g") (auto simp: safe_def)
  then show ?case
    using stopping.prems by (auto simp: stop_ingress_def cancel_log_fetch_tasks_def safe_defs gateway_defs Let_def)
next
  case (stopped g g')
  then show ?case
    by (intro safe_aside [OF stopped.prems]) (auto simp: stop_worker_def quiet_def safe_def faults_blocked_def split: if_splits)
qed (auto intro: safe_top safe_connected safe_recovering safe_commit safe_committed safe_replay safe_receive
    safe_dispatcher safe_log_task safe_worker worker_frame worker_answer_frame safe_refresh)

text \<open>
  C27. In every run of the stream gateway, whatever the network, the RPC client and the database
  answer and however its tasks interleave, entries are blocked while the stream is not connected,
  subscribed and recovered, while a reconnect is requested, and while a log task of the connection
  has failed.
\<close>

theorem broken_stream_blocks_entries:
  assumes "gateway_reach g"
    and "gw_phase g \<noteq> Online \<or> gw_reconnect_requested g \<or> gw_fetch_error_sequences g \<noteq> {}"
  shows "\<not> gate_enabled (gw_entry_gate g)"
proof -
  have "safe g" using assms(1) by (induction rule: gateway_reach.induct) (auto intro: safe_start safe_step)
  then show ?thesis using assms(2) by (auto simp: safe_defs dest: reason_disables)
qed

end
