(* ===== verification/Gateway_Order.thy ===== *)
theory Gateway_Order
  imports Gateway_Props
begin

text \<open>
  The log tasks of a connection run at the same time, but they queue their transactions in the
  order in which the notifications arrived, without a gap.
\<close>

section \<open>The invariant\<close>

definition unsent :: "log_task \<Rightarrow> bool" where
  "unsent t \<longleftrightarrow> (\<forall>j. lt_stage t \<noteq> PuttingLog j)"

text \<open>
  \<open>l\<close> is the sequence number that is to be sent next. Everything from there on is still a task or
  has failed, and a task waits for the one before it unless that one is sent or has failed.
\<close>

definition chained :: "nat \<Rightarrow> nat \<Rightarrow> nat set \<Rightarrow> log_task \<Rightarrow> bool" where
  "chained f l errs t \<longleftrightarrow> (\<forall>k. lt_sequence t = Suc k \<longrightarrow> f \<le> k \<longrightarrow> lt_previous t = Some k \<or> k < l \<or> k \<in> errs)"

definition placed :: "nat \<Rightarrow> nat \<Rightarrow> nat \<Rightarrow> log_task \<Rightarrow> bool" where
  "placed f l n t \<longleftrightarrow> f \<le> lt_sequence t \<and> lt_sequence t < n \<and> (unsent t \<longleftrightarrow> l \<le> lt_sequence t)"

definition covered :: "nat \<Rightarrow> nat \<Rightarrow> log_task list \<Rightarrow> nat set \<Rightarrow> bool" where
  "covered l n ts errs \<longleftrightarrow> (\<forall>m. l \<le> m \<longrightarrow> m < n \<longrightarrow> m \<in> lt_sequence ` set ts \<or> m \<in> errs)"

definition tail_ok :: "nat \<Rightarrow> log_task list \<Rightarrow> nat option \<Rightarrow> bool" where
  "tail_ok n ts tail \<longleftrightarrow> (case tail of
     Some k \<Rightarrow> Suc k = n \<and> k \<in> lt_sequence ` set ts
   | None \<Rightarrow> \<forall>k. Suc k = n \<longrightarrow> k \<notin> lt_sequence ` set ts)"

fun in_order :: "nat \<times> nat list \<times> nat \<times> log_task list \<times> nat option \<times> nat set \<Rightarrow> bool" where
  "in_order (f, sent, n, ts, tail, errs) \<longleftrightarrow>
     (let l = f + length sent in sent = [f..<l] \<and> l \<le> n \<and> distinct (map lt_sequence ts)
        \<and> (\<forall>t \<in> set ts. placed f l n t \<and> chained f l errs t) \<and> covered l n ts errs \<and> tail_ok n ts tail)"

lemmas order_defs = chained_def placed_def covered_def tail_ok_def

section \<open>What the tasks do to it\<close>

lemma in_order_spawn:
  assumes "in_order (f, sent, n, ts, tail, errs)" "lt_sequence t = n" "lt_previous t = tail" "lt_stage t = Created"
  shows "in_order (f, sent, n + 1, ts @ [t], Some n, errs)"
proof -
  let ?l = "f + length sent"
  have o: "sent = [f..<?l]" "?l \<le> n" "distinct (map lt_sequence ts)" "\<forall>t \<in> set ts. placed f ?l n t \<and> chained f ?l errs t"
    "covered ?l n ts errs" "tail_ok n ts tail" using assms(1) by (simp_all add: Let_def)
  have "chained f ?l errs t"
    unfolding chained_def
  proof (intro allI impI)
    fix k assume k: "lt_sequence t = Suc k" "f \<le> k"
    show "lt_previous t = Some k \<or> k < ?l \<or> k \<in> errs"
    proof (cases tail)
      case None
      then have "k \<notin> lt_sequence ` set ts" using o(6) k assms(2) by (simp add: tail_ok_def)
      then show ?thesis using o(5) k assms(2) unfolding covered_def by (metis lessI not_less)
    next
      case (Some j)
      then show ?thesis using o(6) k assms(2,3) by (simp add: tail_ok_def)
    qed
  qed
  moreover have "placed f ?l (n + 1) t" using o(2) assms(2,4) by (auto simp: placed_def unsent_def)
  moreover have "\<forall>x \<in> set ts. placed f ?l (n + 1) x" using o(4) by (auto simp: placed_def)
  moreover have "n \<notin> lt_sequence ` set ts" using o(4) by (auto simp: placed_def)
  ultimately show ?thesis
    using o assms(2) by (auto simp: Let_def covered_def tail_ok_def less_Suc_eq)
qed

text \<open>A task in another stage.\<close>

definition at_stage :: "nat \<Rightarrow> log_stage \<Rightarrow> log_task \<Rightarrow> log_task" where
  "at_stage m st t = (if lt_sequence t = m then t\<lparr>lt_stage := st\<rparr> else t)"

lemma at_stage_simps [simp]:
  "lt_sequence (at_stage m st t) = lt_sequence t" "chained f l errs (at_stage m st t) = chained f l errs t"
  "lt_sequence t \<noteq> m \<Longrightarrow> at_stage m st t = t"
  by (auto simp: at_stage_def chained_def)

lemma at_stage_placed:
  "placed f l n t \<Longrightarrow> lt_sequence t = m \<Longrightarrow> (\<forall>j. st \<noteq> PuttingLog j) \<longleftrightarrow> l' \<le> m \<Longrightarrow> placed f l' n (at_stage m st t)"
  by (auto simp: at_stage_def placed_def unsent_def)

lemma at_stage_all [simp]:
  "map lt_sequence (map (at_stage m st) ts) = map lt_sequence ts"
  "covered l n (map (at_stage m st) ts) errs = covered l n ts errs" "tail_ok n (map (at_stage m st) ts) tail = tail_ok n ts tail"
  by (simp_all add: covered_def tail_ok_def comp_def image_image split: option.split)

lemma in_order_stage:
  assumes "in_order (f, sent, n, ts, tail, errs)" "t \<in> set ts" "lt_sequence t = m"
    and "unsent t \<longleftrightarrow> (\<forall>j. st \<noteq> PuttingLog j)"
  shows "in_order (f, sent, n, map (at_stage m st) ts, tail, errs)"
proof -
  let ?l = "f + length sent"
  have o: "\<forall>t \<in> set ts. placed f ?l n t \<and> chained f ?l errs t" using assms(1) by (simp add: Let_def)
  then have m: "(\<forall>j. st \<noteq> PuttingLog j) \<longleftrightarrow> ?l \<le> m" using assms(2-4) by (auto simp: placed_def)
  have "placed f ?l n (at_stage m st x)" if "x \<in> set ts" for x
    using o that m at_stage_placed by (cases "lt_sequence x = m") auto
  then show ?thesis using assms(1) o by (simp add: Let_def del: map_map)
qed

lemma tail_removed:
  "tail_ok n ts tail \<Longrightarrow> tail_ok n (filter (\<lambda>t. lt_sequence t \<noteq> m) ts) (if tail = Some m then None else tail)"
  by (auto simp: tail_ok_def split: option.splits)

lemma distinct_removed: "distinct (map lt_sequence ts) \<Longrightarrow> distinct (map lt_sequence (filter P ts))"
  by (induction ts) auto

lemma in_order_fail:
  assumes "in_order (f, sent, n, ts, tail, errs)"
  shows "in_order (f, sent, n, filter (\<lambda>t. lt_sequence t \<noteq> m) ts, if tail = Some m then None else tail, insert m errs)"
proof -
  let ?l = "f + length sent"
  have "covered ?l n ts errs" using assms by (simp add: Let_def)
  then have "covered ?l n (filter (\<lambda>t. lt_sequence t \<noteq> m) ts) (insert m errs)" by (fastforce simp: covered_def)
  then show ?thesis
    using assms tail_removed [of n ts tail m] by (auto simp: Let_def distinct_removed chained_def)
qed

text \<open>A task that may send is the next one.\<close>

lemma in_order_next:
  assumes "in_order (f, sent, n, ts, tail, errs)" "t \<in> set ts" "unsent t"
    and "\<forall>k. lt_previous t = Some k \<longrightarrow> k \<notin> lt_sequence ` set ts" "\<forall>m \<in> errs. lt_sequence t \<le> m"
  shows "lt_sequence t = f + length sent"
proof (rule ccontr)
  let ?l = "f + length sent"
  have o: "placed f ?l n t" "chained f ?l errs t" "covered ?l n ts errs" using assms(1,2) by (simp_all add: Let_def)
  assume "lt_sequence t \<noteq> ?l"
  then obtain k where k: "lt_sequence t = Suc k" "?l \<le> k"
    using o(1) assms(3) by (cases "lt_sequence t") (auto simp: placed_def)
  have "k \<notin> errs" using assms(5) k(1) by auto
  moreover from this have "lt_previous t = Some k" using o(2) k by (auto simp: chained_def)
  then have "k \<notin> lt_sequence ` set ts" using assms(4) by blast
  moreover have "k < n" using o(1) k(1) by (simp add: placed_def)
  ultimately show False using o(3) k(2) by (auto simp: covered_def)
qed

lemma in_order_send:
  assumes "in_order (f, sent, n, ts, tail, errs)" "t \<in> set ts" "unsent t" "lt_sequence t = m" "m = f + length sent"
  shows "in_order (f, sent @ [m], n, map (at_stage m (PuttingLog j)) ts, tail, errs)"
    and "in_order (f, sent @ [m], n, filter (\<lambda>t. lt_sequence t \<noteq> m) ts, if tail = Some m then None else tail, errs - {m})"
proof -
  have o: "sent = [f..<m]" "distinct (map lt_sequence ts)" "\<forall>t \<in> set ts. placed f m n t \<and> chained f m errs t"
    "covered m n ts errs" "tail_ok n ts tail" "m < n" "f \<le> m"
  proof -
    show o: "sent = [f..<m]" "distinct (map lt_sequence ts)" "\<forall>t \<in> set ts. placed f m n t \<and> chained f m errs t"
      "covered m n ts errs" "tail_ok n ts tail"
      using assms(1) unfolding in_order.simps Let_def assms(5) by blast+
    show "m < n" using o(3) assms(2,4) unfolding placed_def by blast
    show "f \<le> m" using assms(5) by simp
  qed
  have l: "f + length (sent @ [m]) = Suc m" using assms(5) by simp
  have sent: "sent @ [m] = [f..<Suc m]" using o(1,7) by simp
  have other: "placed f (Suc m) n x" if "x \<in> set ts" "lt_sequence x \<noteq> m" for x
  proof -
    have "placed f m n x" using o(3) that(1) by blast
    then show ?thesis using that(2) by (auto simp: placed_def Suc_le_eq)
  qed
  have p: "placed f (Suc m) n (at_stage m (PuttingLog j) x)" if "x \<in> set ts" for x
  proof (cases "lt_sequence x = m")
    case True
    have "placed f m n x" using o(3) that by blast
    then show ?thesis by (rule at_stage_placed [OF _ True]) simp
  next
    case False
    with other [OF that] show ?thesis by simp
  qed
  have c: "chained f (Suc m) errs x" "chained f (Suc m) (errs - {m}) x" if "x \<in> set ts" for x
  proof -
    have "chained f m errs x" using o(3) that by blast
    then show "chained f (Suc m) errs x" "chained f (Suc m) (errs - {m}) x" by (auto simp: chained_def less_Suc_eq)
  qed
  have v: "covered (Suc m) n ts errs" "covered (Suc m) n (filter (\<lambda>t. lt_sequence t \<noteq> m) ts) (errs - {m})"
  proof -
    show "covered (Suc m) n ts errs" using o(4) unfolding covered_def by (metis Suc_leD)
    show "covered (Suc m) n (filter (\<lambda>t. lt_sequence t \<noteq> m) ts) (errs - {m})"
      unfolding covered_def
    proof (intro allI impI)
      fix k assume k: "Suc m \<le> k" "k < n"
      then consider x where "x \<in> set ts" "k = lt_sequence x" | "k \<in> errs" using o(4) unfolding covered_def by (metis Suc_leD imageE)
      then show "k \<in> lt_sequence ` set (filter (\<lambda>t. lt_sequence t \<noteq> m) ts) \<or> k \<in> errs - {m}" using k(1) by cases auto
    qed
  qed
  show "in_order (f, sent @ [m], n, map (at_stage m (PuttingLog j)) ts, tail, errs)"
    unfolding in_order.simps Let_def l at_stage_all
  proof (intro conjI ballI)
    fix x assume "x \<in> set (map (at_stage m (PuttingLog j)) ts)"
    then obtain y where y: "y \<in> set ts" "x = at_stage m (PuttingLog j) y" by auto
    show "placed f (Suc m) n x" unfolding y(2) by (rule p [OF y(1)])
    show "chained f (Suc m) errs x" unfolding y(2) at_stage_simps by (rule c(1) [OF y(1)])
  qed (use sent o(2,5,6) v(1) in \<open>simp_all only: Suc_le_eq\<close>)
  show "in_order (f, sent @ [m], n, filter (\<lambda>t. lt_sequence t \<noteq> m) ts, if tail = Some m then None else tail, errs - {m})"
    unfolding in_order.simps Let_def l
  proof (intro conjI ballI)
    fix x assume "x \<in> set (filter (\<lambda>t. lt_sequence t \<noteq> m) ts)"
    then show "placed f (Suc m) n x" "chained f (Suc m) (errs - {m}) x" using other c(2) by simp_all
  qed (use sent o(6) v(2) tail_removed [OF o(5), of m] distinct_removed [OF o(2)] in \<open>simp_all only: Suc_le_eq\<close>)
qed

lemma in_order_finish:
  assumes "in_order (f, sent, n, ts, tail, errs)" "t \<in> set ts" "\<not> unsent t" "lt_sequence t = m"
  shows "in_order (f, sent, n, filter (\<lambda>t. lt_sequence t \<noteq> m) ts, if tail = Some m then None else tail, errs - {m})"
proof -
  let ?l = "f + length sent"
  have o: "\<forall>t \<in> set ts. placed f ?l n t \<and> chained f ?l errs t" "covered ?l n ts errs" "tail_ok n ts tail"
    using assms(1) by (simp_all add: Let_def)
  have m: "m < ?l" using assms(2-4) o(1) by (auto simp: placed_def)
  have "covered ?l n (filter (\<lambda>t. lt_sequence t \<noteq> m) ts) (errs - {m})"
    using o(2) m by (fastforce simp: covered_def)
  moreover have "chained f ?l (errs - {m}) x" if "x \<in> set ts" for x
    using o(1) that m by (auto simp: chained_def)
  ultimately show ?thesis
    using assms(1) tail_removed [OF o(3), of m] by (simp add: Let_def distinct_removed)
qed

section \<open>Every step keeps it\<close>

lemma in_order_cancel: "in_order (order_view (cancel_log_fetch_tasks g))"
  by (auto simp: cancel_log_fetch_tasks_def order_view_def Let_def order_defs gateway_defs)

lemma view_simps [simp]:
  "order_view (g\<lparr>gw_phase := ph\<rparr>) = order_view g" "order_view (g\<lparr>gw_pending := ms\<rparr>) = order_view g"
  "order_view (g\<lparr>gw_gaps := gs\<rparr>) = order_view g" "order_view (g\<lparr>gw_attempt := n\<rparr>) = order_view g"
  "order_view (g\<lparr>gw_reconnect_requested := b\<rparr>) = order_view g" "order_view (g\<lparr>gw_dispatch_recovery_pending := b\<rparr>) = order_view g"
  "order_view (gblock reason g) = order_view g" "order_view (gunblock reason g) = order_view g"
  "order_view (begin_live_baseline g) = order_view g" "order_view (discard_in_memory_checkpoint g) = order_view g"
  by (simp_all add: order_view_def gateway_defs)

lemma view_connection_error: "order_view (connection_error err g) = order_view g"
  by (auto simp: connection_error_def retry_later_def extend_handshake_buffer_def gateway_defs order_view_def
      split: stream_error.split prod.split py_error.split)

lemma view_end_connection:
  "order_view (end_connection g) = order_view g \<or> in_order (order_view (end_connection g))"
proof (cases "gw_stopping g")
  case True
  then show ?thesis by (simp add: end_connection_def gateway_defs order_view_def)
next
  case False
  then have "end_connection g = cancel_log_fetch_tasks (gblock ''stream_disconnected'' g)"
    by (simp add: end_connection_def gateway_defs)
  then show ?thesis using in_order_cancel by simp
qed

text \<open>A step keeps the order if it leaves the view alone or starts anew.\<close>

definition keeps_order :: "gateway \<Rightarrow> gateway \<Rightarrow> bool" where
  "keeps_order g h \<longleftrightarrow> order_view h = order_view g \<or> in_order (order_view h)"

lemma keeps_order_fail: "order_view g1 = order_view g \<Longrightarrow> keeps_order g (fail_connection err g1)"
  using view_end_connection [of g1] by (simp add: keeps_order_def fail_connection_def view_connection_error)

lemma keeps_order_end: "order_view g1 = order_view g \<Longrightarrow> keeps_order g ((end_connection g1)\<lparr>gw_phase := ph\<rparr>)"
  using view_end_connection [of g1] by (simp add: keeps_order_def order_view_def)

lemma keeps_order_same: "order_view h = order_view g \<Longrightarrow> keeps_order g h"
  by (simp add: keeps_order_def)

lemma view_handle_message: "handle_message now message g = (g1, r) \<Longrightarrow> order_view g1 = order_view g"
proof -
  have "keeps (\<lambda>g. order_view g = v) (handle_message now message)" for v
    unfolding handle_message_def
  proof (intro keeps_intros)
    show "keeps (\<lambda>g. order_view g = v) (enqueue_notification_dispatch n)" for n
      by (auto simp: keeps_def enqueue_notification_dispatch_def order_view_def Let_def gateway_defs)
  qed (auto simp: order_view_def gateway_defs)
  then have "order_view (fst (handle_message now message g)) = order_view g" by (simp add: keeps_def)
  then show "handle_message now message g = (g1, r) \<Longrightarrow> order_view g1 = order_view g" by simp
qed

lemma order_top: "keeps_order g (run_top h connect now g)"
proof -
  obtain g1 r where hold: "hold_for_unrecoverable_gap h now (gblock ''stream_disconnected'' g) = (g1, r)" by force
  then have "order_view g1 = order_view g" using hold_facts(4) by fastforce
  then have "order_view (run_top h connect now g) = order_view g"
    by (auto simp: run_top_def hold view_connection_error split: sum.split bool.split)
  then show ?thesis by (rule keeps_order_same)
qed

lemma order_subscribed: "keeps_order g (run_subscribed h now answer g)"
  by (auto simp: run_subscribed_def accept_gap_def call_gap_handler_def Let_def
      intro!: keeps_order_fail keeps_order_end intro: keeps_order_same split: sum.split)

lemma order_recovered: "keeps_order g (run_recovered h answer g)"
  by (auto simp: run_recovered_def call_gap_handler_def
      intro!: keeps_order_fail keeps_order_end intro: keeps_order_same split: sum.split stream_error.split)

lemma order_commit:
  assumes "run_commit g = Some g'" shows "keeps_order g g'"
proof -
  obtain x xs where ph: "gw_phase g = Committing (x # xs)"
    using assms by (auto simp: run_commit_def split: run_phase.splits list.splits)
  obtain g1 r where c: "commit_recovered_event x g = (g1, r)" by force
  then have "order_view g1 = order_view g" using commit_event_frame by blast
  then show ?thesis
    using assms ph c by (auto simp: run_commit_def split: if_splits sum.splits intro!: keeps_order_fail intro: keeps_order_same)
qed

lemma order_committed: "keeps_order g (run_committed resolved g)"
  by (auto simp: run_committed_def Let_def intro!: keeps_order_fail intro: keeps_order_same split: sum.split)

lemma order_replay: "keeps_order g (run_replay now g)"
proof (cases "gw_pending g")
  case Nil
  then show ?thesis by (intro keeps_order_same) (simp add: run_replay_def refresh_facts(3))
next
  case (Cons m rest)
  obtain g1 r where m: "handle_message now m g = (g1, r)" by force
  then have "order_view g1 = order_view g" by (rule view_handle_message)
  moreover from this have "keeps_order g (g1\<lparr>gw_pending := rest\<rparr>)" by (intro keeps_order_same) simp
  ultimately show ?thesis by (auto simp: run_replay_def Cons m intro!: keeps_order_fail split: sum.split)
qed

lemma order_receive: "keeps_order g (run_receive now frame g)"
  by (auto simp: run_receive_def dest: view_handle_message
      intro!: keeps_order_fail keeps_order_end intro: keeps_order_same split: option.split prod.split sum.split)

lemma order_dispatcher:
  assumes "in_order (order_view g)" "dispatcher_take g = Some g' \<or> dispatcher_handle g = Some g' \<or> dispatcher_resume g = Some g'"
  shows "in_order (order_view g')"
proof -
  have same: "order_view (dispatcher_put (g1, j)) = order_view g1" "order_view (dispatcher_end g1) = order_view g1" for g1 j
    by (simp_all add: dispatcher_put_def dispatcher_end_def dispatch_failed_def order_view_def gateway_defs)
  have spawn: "in_order (order_view ((spawn_log_dispatch signature slot logs received_at generation g)\<lparr>gw_dispatcher := Some Waiting\<rparr>))"
    for signature slot logs received_at generation
    using in_order_spawn [of "gw_first_task g" "gw_sent g" "gw_log_fetch_sequence g" "gw_log_fetch_tasks g" "gw_log_fetch_tail g"
        "gw_fetch_error_sequences g"] assms(1)
    by (simp add: order_view_def spawn_log_dispatch_def Let_def del: in_order.simps)
  from assms(2) consider "dispatcher_take g = Some g'" | "dispatcher_handle g = Some g'" | "dispatcher_resume g = Some g'" by blast
  then show ?thesis
  proof cases
    case 1
    then have "order_view g' = order_view g"
      by (auto simp: dispatcher_take_def order_view_def split: option.splits hand.splits list.splits)
    with assms(1) show ?thesis by simp
  next
    case 2
    have "order_view g1 = order_view g" if "queue_transaction tx source received generation g = (g1, r)" for tx source received generation g1 r
      using that queue_transaction_frame by blast
    then show ?thesis
      using 2 assms(1) same spawn
      by (auto simp: dispatcher_handle_def simp del: in_order.simps
          split: option.splits hand.splits notification.splits prod.splits sum.splits if_splits)
  next
    case 3
    then obtain j where j: "gw_dispatcher g = Some (Putting j)"
      by (auto simp: dispatcher_resume_def split: option.splits hand.splits)
    obtain g1 r where r: "resume_put j g = (g1, r)" by force
    then show ?thesis
      using 3 j assms(1) same resume_put_frame [OF r] by (auto simp: dispatcher_resume_def simp del: in_order.simps split: if_splits)
  qed
qed

lemma view_task_ops:
  assumes "order_view g = (f, sent, n, ts, tail, errs)"
  shows "order_view (set_log_stage m st g) = (f, sent, n, map (at_stage m st) ts, tail, errs)"
    and "order_view (fail_log_task m g)
      = (f, sent, n, filter (\<lambda>t. lt_sequence t \<noteq> m) ts, if tail = Some m then None else tail, insert m errs)"
    and "order_view (finish_log_task m g)
      = (f, sent, n, filter (\<lambda>t. lt_sequence t \<noteq> m) ts, if tail = Some m then None else tail, errs - {m})"
    and "order_view (g\<lparr>gw_sent := sent'\<rparr>) = (f, sent', n, ts, tail, errs)"
  using assms
  by (auto simp: order_view_def set_log_stage_def at_stage_def fail_log_task_def finish_log_task_def forget_log_task_def Let_def gateway_defs)

lemma find_log_task_facts:
  assumes "find_log_task m g = Some t"
  shows "t \<in> set (gw_log_fetch_tasks g)" "lt_sequence t = m"
  using find_Some_set [of "\<lambda>t. lt_sequence t = m"] assms by (auto simp: find_log_task_def)

lemma task_done_facts: "task_done (Some k) g \<Longrightarrow> k \<notin> lt_sequence ` set (gw_log_fetch_tasks g)"
  by (auto simp: task_done_def find_log_task_def find_None_iff)

lemma order_log_task:
  assumes "in_order (order_view g)"
    and "log_task_start m g = Some g' \<or> log_task_fetched answer m g = Some g' \<or> log_task_dispatch m g = Some g' \<or> log_task_resume m g = Some g'"
  shows "in_order (order_view g')"
proof -
  obtain f sent n ts tail errs where v: "order_view g = (f, sent, n, ts, tail, errs)" by (cases "order_view g") auto
  then have o: "in_order (f, sent, n, ts, tail, errs)" and ts: "ts = gw_log_fetch_tasks g" and errs: "errs = gw_fetch_error_sequences g"
    using assms(1) by (auto simp: order_view_def)
  show ?thesis
    using assms(2)
  proof (cases rule: log_task_cases)
    case (stage t g1 st)
    note t = find_log_task_facts [OF stage(1), folded ts]
    have "order_view g1 = (f, sent, n, ts, tail, errs)" using stage(3) v by simp
    moreover have "unsent t" "\<forall>j. st \<noteq> PuttingLog j" using stage(4,5) by (auto simp: unsent_def)
    ultimately show ?thesis
      using stage(6) in_order_stage [OF o t] by (simp add: view_task_ops del: in_order.simps)
  next
    case (fail t g1)
    have "order_view g1 = (f, sent, n, ts, tail, errs)" using fail(3) v by simp
    then show ?thesis using fail(5) in_order_fail [OF o] by (simp add: view_task_ops del: in_order.simps)
  next
    case (send t g1 j bt)
    note t = find_log_task_facts [OF send(1), folded ts]
    have u: "unsent t" using send(4) by (simp add: unsent_def)
    have "\<forall>k. lt_previous t = Some k \<longrightarrow> k \<notin> lt_sequence ` set ts"
      using send(5) task_done_facts [of _ g] ts by force
    then have m: "m = f + length sent"
      using in_order_next [OF o t(1) u] t(2) send(6) errs by simp
    have "order_view g1 = (f, sent, n, ts, tail, errs)" using send(3) v by simp
    moreover from this have "gw_sent g1 = sent" by (simp add: order_view_def)
    ultimately have g1: "order_view (g1\<lparr>gw_sent := gw_sent g1 @ [m]\<rparr>) = (f, sent @ [m], n, ts, tail, errs)" by (simp add: view_task_ops)
    show ?thesis
      using send(7) in_order_send [OF o t(1) u t(2) m] view_task_ops [OF g1]
      by (cases j) (simp_all add: log_task_put_def del: in_order.simps)
  next
    case (resume t g1 j j')
    note t = find_log_task_facts [OF resume(1), folded ts]
    have u: "\<not> unsent t" using resume(4) by (simp add: unsent_def)
    have "order_view g1 = (f, sent, n, ts, tail, errs)" using resume(3) v by simp
    then show ?thesis
      using resume(5) in_order_finish [OF o t(1) u t(2)] in_order_stage [OF o t, of "PuttingLog (the j)"] u
      by (cases j) (simp_all add: log_task_put_def view_task_ops del: in_order.simps)
  qed
qed

lemma order_kept: "keeps_order g h \<Longrightarrow> in_order (order_view g) \<Longrightarrow> in_order (order_view h)"
  by (auto simp: keeps_order_def)

lemma order_worker: "worker_view h = worker_view g \<Longrightarrow> in_order (order_view g) \<Longrightarrow> in_order (order_view h)"
  by (simp add: worker_view_def del: in_order.simps)

lemmas order_steps = order_top [THEN order_kept] order_subscribed [THEN order_kept] order_recovered [THEN order_kept]
  order_commit [THEN order_kept] order_committed [THEN order_kept] order_replay [THEN order_kept] order_receive [THEN order_kept]
  order_worker [OF worker_frame(1)] order_worker [OF worker_frame(2)] order_worker [OF worker_answer_frame]

lemma order_step: "gateway_step g g' \<Longrightarrow> in_order (order_view g) \<Longrightarrow> in_order (order_view g')"
proof (induction rule: gateway_step.induct)
  case (others gate g)
  then show ?case by (simp add: order_view_def del: in_order.simps)
next
  case (stop g)
  then show ?case by (simp add: stop_connection_def order_view_def gateway_defs del: in_order.simps)
next
  case (stopping g)
  show ?case unfolding stop_ingress_def by (rule in_order_cancel)
next
  case (stopped g g')
  then show ?case by (auto simp: stop_worker_def order_view_def simp del: in_order.simps split: if_splits)
next
  case (freshness g now)
  then show ?case by (simp only: refresh_facts(3))
qed (blast intro: order_steps order_dispatcher order_log_task)+


end
