(* ===== verification/Gateway_Faults.thy ===== *)
theory Gateway_Faults
  imports Gap_Recovery Gateway_Order
begin

text \<open>
  Three ways in which the gateway misses its purpose: a buffered message that is refused keeps the
  stream offline, a notification left over from the last connection ends the warm-up of the next
  one, and a transaction whose put is interrupted is not recovered.
\<close>

section \<open>A refused message is replayed for ever\<close>

definition refused :: "json \<Rightarrow> bool" where
  "refused m \<longleftrightarrow> (\<forall>now g. \<exists>e. snd (handle_message now m g) = Inl e)"

abbreviation timeouts :: "gateway \<Rightarrow> nat" where
  "timeouts g \<equiv> count_list (gw_gaps g) ''recovery_timeout''"

lemma fail_connection_pending:
  assumes "\<not> gw_stopping g"
  shows "set (gw_pending g) \<subseteq> set (gw_pending (fail_connection err g))" "gw_phase (fail_connection err g) \<noteq> Online"
    "gw_gaps (fail_connection err g) = gw_gaps g"
  using connection_error_facts [where err = err and g = "end_connection g"] end_connection_facts [OF assms]
  by (auto simp: fail_connection_def)

lemma live_buffer_keeps: "live_buffer outcome wakes b = Inr (items, b') \<Longrightarrow> set b \<subseteq> set b'"
  by (induction outcome wakes b arbitrary: b' rule: live_buffer.induct) (fastforce split: if_splits sum.splits)+

lemma recover_keeps: "recover_gap_with_live_buffer rpc wakes g = Inr (items, b) \<Longrightarrow> set (gw_pending g) \<subseteq> set b"
  by (auto simp: recover_gap_with_live_buffer_def split: option.splits dest!: live_buffer_keeps)

text \<open>A step with the message still to be replayed; the recorded gaps tell whether a recovery timed out.\<close>

definition wedged :: "json \<Rightarrow> gateway \<Rightarrow> bool" where
  "wedged m g \<longleftrightarrow> safe g \<and> gw_phase g \<noteq> Online \<and> m \<in> set (gw_pending g)"

definition stays_wedged :: "json \<Rightarrow> gateway \<Rightarrow> gateway \<Rightarrow> bool" where
  "stays_wedged m g h \<longleftrightarrow> timeouts g < timeouts h \<or> timeouts h = timeouts g \<and> gw_phase h \<noteq> Online \<and> m \<in> set (gw_pending h)"

lemma stays_wedged_fail:
  "\<not> gw_stopping g1 \<Longrightarrow> m \<in> set (gw_pending g1) \<Longrightarrow> timeouts g1 = timeouts g \<Longrightarrow> stays_wedged m g (fail_connection err g1)"
  using fail_connection_pending [of g1 err] by (auto simp: stays_wedged_def)

lemma wedged_top: "gw_phase g = Top \<Longrightarrow> m \<in> set (gw_pending g) \<Longrightarrow> stays_wedged m g (run_top h connect now g)"
proof -
  assume g: "gw_phase g = Top" "m \<in> set (gw_pending g)"
  obtain g1 r where hold: "hold_for_unrecoverable_gap h now (gblock ''stream_disconnected'' g) = (g1, r)" by force
  then have f: "gw_phase g1 = Top" "gw_pending g1 = gw_pending g" using hold_facts [OF hold] g by (auto simp: gateway_defs)
  have t: "timeouts g1 = timeouts g"
    using hold by (auto simp: hold_for_unrecoverable_gap_def call_gap_handler_def Let_def gateway_defs split: if_splits sum.splits)
  have "stays_wedged m g (connection_error (Failure e) g1)" for e
    using connection_error_facts [where err = "Failure e" and g = g1] f t g by (auto simp: stays_wedged_def)
  moreover have "stays_wedged m g g1" "stays_wedged m g (g1\<lparr>gw_phase := Ended\<rparr>)" "stays_wedged m g (g\<lparr>gw_phase := Ended\<rparr>)"
    "stays_wedged m g ((begin_live_baseline (g1\<lparr>gw_reconnect_requested := False\<rparr>))\<lparr>gw_phase := Connected\<rparr>)"
    using f t g by (simp_all add: stays_wedged_def gateway_defs)
  ultimately show ?thesis by (auto simp: run_top_def hold split: sum.split bool.split)
qed

lemma wedged_subscribed:
  assumes "wedged m g" "gw_phase g = Connected" shows "stays_wedged m g (run_subscribed h now answer g)"
proof -
  have g: "\<not> gw_stopping g" "m \<in> set (gw_pending g)" using assms by (auto simp: wedged_def safe_def)
  have "stays_wedged m g ((end_connection g)\<lparr>gw_phase := Ended\<rparr>)"
    using end_connection_facts [OF g(1)] g(2) by (auto simp: stays_wedged_def)
  moreover have "stays_wedged m g (accept_gap h (g\<lparr>gw_pending := gw_pending g @ b\<rparr>))" for b
    using g by (auto simp: accept_gap_def call_gap_handler_def stays_wedged_def [of _ _ "_\<lparr>gw_phase := _\<rparr>"] gateway_defs
        intro!: stays_wedged_fail split: sum.split)
  ultimately show ?thesis
    using g by (auto simp: run_subscribed_def Let_def stays_wedged_def [of _ _ "_\<lparr>gw_phase := _\<rparr>"]
        intro!: stays_wedged_fail split: sum.split)
qed

lemma wedged_recovered:
  assumes "wedged m g" "gw_phase g = Recovering"
  shows "stays_wedged m g (run_recovered h (recover_gap_with_live_buffer rpc wakes g) g)"
proof -
  have g: "\<not> gw_stopping g" "m \<in> set (gw_pending g)" using assms by (auto simp: wedged_def safe_def)
  let ?h = "(gblock ''stream_recovery_gap'' (g\<lparr>gw_pending := []\<rparr>))\<lparr>gw_gaps := gw_gaps g @ [''recovery_timeout'']\<rparr>"
  have ns: "\<not> gw_stopping ?h" using g by (simp add: gateway_defs)
  have "stays_wedged m g (fail_connection err ?h)" for err
    using fail_connection_pending(3) [OF ns] by (simp add: stays_wedged_def)
  moreover have "stays_wedged m g ((end_connection ?h)\<lparr>gw_phase := Top\<rparr>)"
    using end_connection_facts(9) [OF ns] by (simp add: stays_wedged_def)
  moreover have "stays_wedged m g (g\<lparr>gw_pending := b, gw_phase := Committing items\<rparr>)"
    if "recover_gap_with_live_buffer rpc wakes g = Inr (items, b)" for items b
    using recover_keeps [OF that] g by (auto simp: stays_wedged_def)
  ultimately show ?thesis
    using g by (auto simp: run_recovered_def call_gap_handler_def gblock_def intro!: stays_wedged_fail
        split: sum.split stream_error.split)
qed

lemma wedged_commit:
  assumes "wedged m g" "run_commit g = Some g'" shows "stays_wedged m g g'"
proof -
  obtain x xs where ph: "gw_phase g = Committing (x # xs)"
    using assms(2) by (auto simp: run_commit_def split: run_phase.splits list.splits)
  have g: "\<not> gw_stopping g" "m \<in> set (gw_pending g)" using assms(1) ph by (auto simp: wedged_def safe_def)
  obtain g1 r where c: "commit_recovered_event x g = (g1, r)" by force
  have "gw_stopping g1 = gw_stopping g" "gw_pending g1 = gw_pending g" "gw_gaps g1 = gw_gaps g"
    using commit_event_frame [OF c] by (auto simp: control_def)
  then show ?thesis
    using assms(2) ph c g
    by (auto simp: run_commit_def stays_wedged_def [of _ _ "_\<lparr>gw_phase := _\<rparr>"] intro!: stays_wedged_fail split: if_splits sum.splits)
qed

lemma wedged_committed:
  assumes "wedged m g" "gw_phase g = Committing []" shows "stays_wedged m g (run_committed resolved g)"
proof -
  have g: "\<not> gw_stopping g" "m \<in> set (gw_pending g)" using assms by (auto simp: wedged_def safe_def)
  then show ?thesis
    by (auto simp: run_committed_def Let_def stays_wedged_def [of _ _ "_\<lparr>gw_phase := _\<rparr>"] gateway_defs
        intro!: stays_wedged_fail split: sum.split)
qed

lemma handle_message_pending:
  "handle_message now message g = (g1, r) \<Longrightarrow> gw_pending g1 = gw_pending g \<and> gw_gaps g1 = gw_gaps g"
proof -
  have "keeps (\<lambda>g. gw_pending g = ms \<and> gw_gaps g = gs) (handle_message now message)" for ms gs
    unfolding handle_message_def
  proof (intro keeps_intros)
    show "keeps (\<lambda>g. gw_pending g = ms \<and> gw_gaps g = gs) (enqueue_notification_dispatch n)" for n
      by (auto simp: keeps_def enqueue_notification_dispatch_def Let_def gateway_defs)
  qed (auto simp: gateway_defs)
  then have "gw_pending (fst (handle_message now message g)) = gw_pending g \<and> gw_gaps (fst (handle_message now message g)) = gw_gaps g"
    by (simp add: keeps_def)
  then show "handle_message now message g = (g1, r) \<Longrightarrow> gw_pending g1 = gw_pending g \<and> gw_gaps g1 = gw_gaps g" by simp
qed

lemma wedged_replay:
  assumes "wedged m g" "gw_phase g = Replaying" "refused m"
  shows "stays_wedged m g (run_replay now g)"
proof -
  have g: "\<not> gw_stopping g" "m \<in> set (gw_pending g)" "safe g" using assms by (auto simp: wedged_def safe_def)
  then obtain x rest where p: "gw_pending g = x # rest" by (cases "gw_pending g") auto
  obtain g1 r where h: "handle_message now x g = (g1, r)" by force
  have f: "gw_pending g1 = gw_pending g" "gw_gaps g1 = gw_gaps g" "\<not> gw_stopping g1" "gw_phase g1 = Replaying"
    using handle_message_pending [OF h] handle_message_safe [OF g(3) _ h] assms(2) by auto
  have acc: "m \<in> set rest" if "r = Inr u" for u
  proof -
    have "x \<noteq> m" using assms(3) h that unfolding refused_def by (metis snd_conv sum.distinct(1))
    with g(2) p show ?thesis by auto
  qed
  have "stays_wedged m g (fail_connection err g1)" "stays_wedged m g (fail_connection err g)" for err
    using f g by (auto intro!: stays_wedged_fail)
  moreover have "stays_wedged m g (g1\<lparr>gw_pending := rest\<rparr>)" if "r = Inr u" for u
    using acc [OF that] f by (simp add: stays_wedged_def)
  ultimately show ?thesis by (auto simp: run_replay_def p h split: sum.split)
qed

text \<open>The tasks beside the connection leave all of this alone.\<close>

definition replay_view :: "gateway \<Rightarrow> run_phase \<times> json list \<times> string list" where
  "replay_view g = (gw_phase g, gw_pending g, gw_gaps g)"

lemma wedged_aside: "wedged m g \<Longrightarrow> replay_view h = replay_view g \<Longrightarrow> stays_wedged m g h"
  by (auto simp: wedged_def stays_wedged_def replay_view_def)

lemma control_replay: "control h = control g \<Longrightarrow> replay_view h = replay_view g"
  by (simp add: control_def replay_view_def)

lemma dispatcher_replay:
  assumes "dispatcher_take g = Some g' \<or> dispatcher_handle g = Some g' \<or> dispatcher_resume g = Some g'"
  shows "replay_view g' = replay_view g"
proof -
  have same: "replay_view (dispatcher_put (g1, j)) = replay_view g1" "replay_view (dispatcher_end g1) = replay_view g1" for g1 j
    by (simp_all add: dispatcher_put_def dispatcher_end_def replay_view_def gateway_defs)
  from assms consider "dispatcher_take g = Some g'" | "dispatcher_handle g = Some g'" | "dispatcher_resume g = Some g'" by blast
  then show ?thesis
  proof cases
    case 1
    then show ?thesis by (auto simp: dispatcher_take_def replay_view_def split: option.splits hand.splits list.splits)
  next
    case 2
    have "replay_view g1 = replay_view g" if "queue_transaction tx source received generation g = (g1, r)" for tx source received generation g1 r
      using that queue_transaction_frame control_replay by blast
    moreover have "replay_view ((spawn_log_dispatch signature slot logs received_at generation g)\<lparr>gw_dispatcher := Some Waiting\<rparr>) = replay_view g"
      for signature slot logs received_at generation by (simp add: spawn_log_dispatch_def replay_view_def Let_def)
    ultimately show ?thesis
      using 2 same by (auto simp: dispatcher_handle_def
          split: option.splits hand.splits notification.splits prod.splits sum.splits if_splits)
  next
    case 3
    then obtain j where j: "gw_dispatcher g = Some (Putting j)" by (auto simp: dispatcher_resume_def split: option.splits hand.splits)
    obtain g1 r where r: "resume_put j g = (g1, r)" by force
    then show ?thesis
      using 3 j same resume_put_frame [OF r] control_replay [of g1 g] by (auto simp: dispatcher_resume_def split: if_splits)
  qed
qed

lemma log_task_replay:
  assumes "log_task_start n g = Some g' \<or> log_task_fetched answer n g = Some g' \<or> log_task_dispatch n g = Some g' \<or> log_task_resume n g = Some g'"
  shows "replay_view g' = replay_view g"
proof -
  have ops: "replay_view (set_log_stage n st g1) = replay_view g1" "replay_view (fail_log_task n g1) = replay_view g1"
    "replay_view (log_task_put n (g1, j)) = replay_view g1" "replay_view (g1\<lparr>gw_sent := s\<rparr>) = replay_view g1" for g1 st j s
    by (cases j; simp add: replay_view_def set_log_stage_def fail_log_task_def log_task_put_def finish_log_task_def forget_log_task_def
        Let_def gateway_defs)+
  from assms obtain g1 where "control g1 = control g" "replay_view g' = replay_view g1"
    by (cases rule: log_task_cases) (auto simp: ops)
  with control_replay [of g1 g] show ?thesis by simp
qed

lemma worker_replay: "worker_view h = worker_view g \<Longrightarrow> replay_view h = replay_view g"
  by (simp add: worker_view_def replay_view_def)

lemma wedged_step:
  "gateway_step g g' \<Longrightarrow> wedged m g \<Longrightarrow> refused m \<Longrightarrow> stays_wedged m g g'"
proof (induction rule: gateway_step.induct)
  case (receive g now frame)
  then show ?case by (simp add: wedged_def)
next
  case (others gate g)
  then show ?case by (intro wedged_aside) (simp_all add: replay_view_def)
next
  case (freshness g now)
  then show ?case by (intro wedged_aside) (simp_all add: replay_view_def refresh_facts)
next
  case (stop g)
  then show ?case by (simp add: wedged_def stays_wedged_def stop_connection_def gateway_defs)
next
  case (stopping g)
  then show ?case
    by (intro wedged_aside) (auto simp: replay_view_def stop_ingress_def cancel_log_fetch_tasks_def Let_def gateway_defs)
next
  case (stopped g g')
  then show ?case by (intro wedged_aside) (auto simp: replay_view_def stop_worker_def split: if_splits)
next
  case (top g h connect now)
  then show ?case by (intro wedged_top) (simp_all add: wedged_def)
qed (blast intro: wedged_subscribed wedged_recovered wedged_commit wedged_committed wedged_replay wedged_aside
      dispatcher_replay log_task_replay worker_replay worker_frame worker_answer_frame)+

lemma reach_safe: "gateway_reach g \<Longrightarrow> safe g"
  by (induction rule: gateway_reach.induct) (auto intro: safe_start safe_step)

text \<open>
  C13. Suppose the stream is not online and among its buffered messages is one that
  \<open>handle_message\<close> refuses, for example a log notification without the field \<open>err\<close> that arrived while
  subscriptions were being acknowledged. Then in every run in which no gap recovery times out the
  stream never comes online again and entries stay blocked: the message is kept and refused again
  on every connection.
\<close>

theorem refused_message_keeps_stream_offline:
  assumes "gateway_reach g" "gw_phase g \<noteq> Online" "m \<in> set (gw_pending g)" "refused m"
    and "(\<lambda>a b. gateway_step a b \<and> timeouts b = timeouts a)\<^sup>*\<^sup>* g g'"
  shows "gw_phase g' \<noteq> Online \<and> m \<in> set (gw_pending g') \<and> \<not> gate_enabled (gw_entry_gate g')"
proof -
  have "wedged m g" using assms(1-3) by (simp add: wedged_def reach_safe)
  with assms(5) have "wedged m g'"
    by (induction rule: rtranclp_induct) (auto simp: wedged_def stays_wedged_def dest: wedged_step [OF _ _ assms(4)] safe_step)
  then show ?thesis by (auto simp: wedged_def safe_def offline_blocked_def dest: reason_disables)
qed

section \<open>A notification of the last connection ends the warm-up\<close>

text \<open>Queueing a transaction of the stream, up to the first put.\<close>

lemma queue_transaction_ok:
  assumes "slot_of tx = Inr slot" "transaction_signature tx = Inr signature" "transaction_block_time tx = Inr bt"
    "transaction_protocols tx = Inr ps"
  shows "queue_transaction tx source received generation g =
    (case queued_source source received generation (note_chain_time bt (observe_transaction slot signature received g)) of (g1, queued) \<Rightarrow>
      case put_items signature (map (\<lambda>p. (p, tx, queued)) ps) g1 of
         (g2, []) \<Rightarrow> (g2, Inr None)
       | (g2, x # rest) \<Rightarrow> (g2, Inr (Some \<lparr>pj_signature = signature, pj_items = x # rest\<rparr>)))"
  using assms by (simp add: queue_transaction_def method_defs split: prod.split list.split)

lemma put_items_baseline:
  "put_items signature xs g = (g1, rest) \<Longrightarrow>
     gw_baseline_started_at g1 = gw_baseline_started_at g \<and> gw_stream_generation g1 = gw_stream_generation g"
  by (induction xs arbitrary: g) (auto simp: Let_def put_item_def note_signature_def split: if_splits)


section \<open>An interrupted put loses its transaction\<close>

lemma put_items_full:
  "queue_full g \<Longrightarrow> put_items signature (x # xs) g = (note_signature signature (fst x) g, x # xs)"
  by (simp add: note_signature_def queue_full_def)

lemma missed_of_program:
  "mset (filter (\<lambda>x. fst x = p) (sort_key k (missed rpc history g PUMP @ missed rpc history g PUMPSWAP)))
    = mset (missed rpc history g p)"
proof -
  have "filter (\<lambda>x. fst x = p) (missed rpc history g q) = (if q = p then missed rpc history g p else [])" for q
    using missed_protocol [of _ rpc history g q] by (auto simp: filter_id_conv filter_empty_conv)
  then have "filter_mset (\<lambda>x. fst x = p) (mset (missed rpc history g PUMP @ missed rpc history g PUMPSWAP)) = mset (missed rpc history g p)"
    by (cases p) (simp_all flip: mset_filter)
  then show ?thesis by simp
qed

lemma newer_than_self: "c \<notin> item_signature ` set (newer_than (Some c) h)"
  by (auto simp: newer_than_def dest!: set_takeWhileD)

definition queue_view :: "gateway \<Rightarrow> _" where
  "queue_view g = (gw_queue g, gw_last_signatures g, gw_notification_queue g)"

lemma end_connection_queue:
  "queue_view (end_connection g) = queue_view g" "\<not> gw_stopping g \<Longrightarrow> gw_dispatcher (end_connection g) = None"
  by (auto simp: end_connection_def cancel_log_fetch_tasks_def queue_view_def Let_def gateway_defs)

lemma connection_error_queue:
  "queue_view (connection_error err g) = queue_view g" "gw_dispatcher (connection_error err g) = gw_dispatcher g"
  by (auto simp: connection_error_def retry_later_def extend_handshake_buffer_def queue_view_def gateway_defs
      split: stream_error.split prod.split py_error.split)

lemma fail_connection_queue:
  assumes "\<not> gw_stopping g"
  shows "gw_queue (fail_connection err g) = gw_queue g" "gw_last_signatures (fail_connection err g) = gw_last_signatures g"
    "gw_notification_queue (fail_connection err g) = gw_notification_queue g" "gw_dispatcher (fail_connection err g) = None"
  using connection_error_queue [of err "end_connection g"] end_connection_queue [of g] assms
  by (simp_all add: fail_connection_def queue_view_def)

text \<open>
  C32. The checkpoint of a program moves to a transaction before the transaction is put into the
  processing queue. If the queue is full and the connection ends while the dispatcher waits in that
  put, the transaction is in no queue any more, and a recovery from an honest client returns only
  what is newer than it: the transaction is lost without a trace.
\<close>

theorem interrupted_put_loses_transaction:
  assumes "gw_dispatcher g = Some (Holding (TransactionNotification tx received generation))"
    and "queue_full g" "\<not> gw_stopping g"
    and "slot_of tx = Inr slot" "transaction_signature tx = Inr (Some s)" "s \<noteq> []" "transaction_block_time tx = Inr bt"
    and "transaction_protocols tx = Inr (p # ps)"
    and "honest_rpc history rpc" "\<forall>item s tx. entry_transaction rpc item = Some (s, tx) \<longrightarrow> (\<exists>n. slot_of tx = Inr n)"
  shows "\<exists>g1 g2. dispatcher_handle g = Some g1 \<and> g2 = fail_connection err g1
    \<and> gw_queue g2 = gw_queue g \<and> gw_notification_queue g2 = gw_notification_queue g \<and> gw_dispatcher g2 = None
    \<and> (\<exists>txs es. recover_gap rpc g2 = Some (Inr (map (\<lambda>(p, tx). (p, tx, RPC_RECOVERY)) txs))
        \<and> mset (filter (\<lambda>x. fst x = p) txs) = mset (map (\<lambda>(t, tx). (p, tx)) (entry_transactions rpc es))
        \<and> s \<notin> item_signature ` set es)"
proof -
  let ?h = "note_chain_time bt (observe_transaction slot (Some s) received g)"
  obtain h1 queued where q: "queued_source HELIUS_WSS received (Some generation) ?h = (h1, queued)" by force
  have same: "queue_full h1" "gw_queue h1 = gw_queue g" "gw_notification_queue h1 = gw_notification_queue g" "gw_stopping h1 = gw_stopping g"
    using q assms(2) by (auto simp: queued_source_def note_chain_time_def queue_full_def gateway_defs Let_def split: if_splits option.splits)
  define g1 where "g1 = (note_signature (Some s) p h1)\<lparr>gw_dispatcher :=
    Some (Putting \<lparr>pj_signature = Some s, pj_items = (p, tx, queued) # map (\<lambda>p. (p, tx, queued)) ps\<rparr>)\<rparr>"
  have d: "dispatcher_handle g = Some g1"
    using put_items_full [OF same(1)]
    by (simp add: dispatcher_handle_def assms(1) queue_transaction_ok [OF assms(4,5,7,8)] q dispatcher_put_def g1_def del: put_items.simps)
  have ns: "\<not> gw_stopping g1" using same(4) assms(3) by (simp add: g1_def note_signature_def)
  let ?g2 = "fail_connection err g1"
  have f: "gw_queue ?g2 = gw_queue g" "gw_notification_queue ?g2 = gw_notification_queue g" "gw_dispatcher ?g2 = None"
    "dict_get (gw_last_signatures ?g2) p = Some s"
    using fail_connection_queue [OF ns, of err] same assms(6) by (simp_all add: g1_def note_signature_def)
  let ?es = "newer_than (Some s) (history (case p of PUMP \<Rightarrow> PUMP_PROGRAM_ID | PUMPSWAP \<Rightarrow> PUMPSWAP_PROGRAM_ID))"
  have m: "missed rpc history ?g2 p = map (\<lambda>(t, tx). (p, tx)) (entry_transactions rpc ?es)"
    using f(4) by (simp add: missed_def uncovered_def)
  have "\<exists>txs es. recover_gap rpc ?g2 = Some (Inr (map (\<lambda>(p, tx). (p, tx, RPC_RECOVERY)) txs))
        \<and> mset (filter (\<lambda>x. fst x = p) txs) = mset (map (\<lambda>(t, tx). (p, tx)) (entry_transactions rpc es))
        \<and> s \<notin> item_signature ` set es"
    using recover_gap_sorted [OF assms(9,10), of ?g2] newer_than_self [of s] missed_of_program [of p "slot_number \<circ> snd" rpc history ?g2]
    unfolding m by blast
  with d f show ?thesis by blast
qed

section \<open>Witnesses\<close>

text \<open>A gateway that starts, connects and subscribes; the frames of the handshake are an argument.\<close>

definition demo_start_gateway :: gateway where
  "demo_start_gateway = gateway_start (restored (0, None, None) [] (case gateway_init 3 20 4 1 True False of Inr g \<Rightarrow> g))"

definition willing_handler :: gap_handler where
  "willing_handler reason = Inr ()"

definition demo_ack :: "int \<Rightarrow> json result" where
  "demo_ack i = Inr (JObj [(''jsonrpc'', JStr ''2.0''), (''id'', JInt i), (''result'', JInt 5)])"

definition demo_connected :: "datetime \<Rightarrow> gateway \<Rightarrow> gateway" where
  "demo_connected now g = run_top willing_handler (Inr ()) now g"

definition demo_subscribed :: "datetime \<Rightarrow> json result list \<Rightarrow> gateway \<Rightarrow> gateway" where
  "demo_subscribed now frames g = run_committed (Inr ()) (run_subscribed willing_handler now
     (subscribe (gw_logs_only g) (Inr ()) (frames @ [demo_ack 1, demo_ack 2])) g)"

lemma reach_start: "gateway_reach demo_start_gateway"
proof -
  have "gateway_init 3 20 4 1 True False = Inr (case gateway_init 3 20 4 1 True False of Inr g \<Rightarrow> g)"
    by (simp add: gateway_init_def)
  then show ?thesis unfolding demo_start_gateway_def by (rule gateway_reach.start)
qed

lemma reach_connected: "gateway_reach g \<Longrightarrow> gw_phase g = Top \<Longrightarrow> gateway_reach (demo_connected now g)"
  unfolding demo_connected_def by (blast intro: gateway_reach.step gateway_step.top)

lemma reach_subscribed:
  assumes "gateway_reach g" "gw_phase g = Connected"
    and "gw_phase (run_subscribed willing_handler now (subscribe (gw_logs_only g) (Inr ()) (frames @ [demo_ack 1, demo_ack 2])) g) = Committing []"
  shows "gateway_reach (demo_subscribed now frames g)"
  unfolding demo_subscribed_def using assms by (blast intro: gateway_reach.step gateway_step.subscribed gateway_step.committed)

lemma reach_replay: "gateway_reach g \<Longrightarrow> gw_phase g = Replaying \<Longrightarrow> gateway_reach (run_replay now g)"
  by (blast intro: gateway_reach.step gateway_step.replay)

lemma reach_receive: "gateway_reach g \<Longrightarrow> gw_phase g = Online \<Longrightarrow> gateway_reach (run_receive now frame g)"
  by (blast intro: gateway_reach.step gateway_step.receive)

lemma reach_take: "gateway_reach g \<Longrightarrow> dispatcher_take g \<noteq> None \<Longrightarrow> gateway_reach (the (dispatcher_take g))"
  by (metis gateway_reach.step gateway_step.take_notification option.collapse)

lemma reach_handle: "gateway_reach g \<Longrightarrow> dispatcher_handle g \<noteq> None \<Longrightarrow> gateway_reach (the (dispatcher_handle g))"
  by (metis gateway_reach.step gateway_step.handle_notification option.collapse)

definition demo_offline :: gateway where
  "demo_offline = demo_connected 0 demo_start_gateway"

definition demo_online :: gateway where
  "demo_online = run_replay 0 (demo_subscribed 0 [] demo_offline)"

lemma demo_offline_reach: "gateway_reach demo_offline"
  unfolding demo_offline_def by (rule reach_connected [OF reach_start]) code_simp

lemma demo_online_reach: "gateway_reach demo_online"
  unfolding demo_online_def
  by (rule reach_replay, rule reach_subscribed [OF demo_offline_reach]) code_simp+

theorem broken_stream_blocks_entries_witness:
  "\<not> gate_enabled (gw_entry_gate demo_offline)"
  by (rule broken_stream_blocks_entries [OF demo_offline_reach]) code_simp

text \<open>A log notification goes through its task.\<close>

definition demo_log_message :: json where
  "demo_log_message = JObj [(''method'', JStr ''logsNotification''), (''params'', JObj [(''result'', JObj [
     (''context'', JObj [(''slot'', JInt 7)]), (''value'', JObj [(''signature'', JStr ''a''), (''err'', JNull),
       (''logs'', JList [JStr PUMP_PROGRAM_ID])])])])]"

definition demo_spawned :: gateway where
  "demo_spawned = the (dispatcher_handle (the (dispatcher_take (run_receive 0 (Some (Inr demo_log_message)) demo_online))))"

definition demo_fetched :: gateway where
  "demo_fetched = the (log_task_fetched (\<lambda>_. Inr (Some 100)) 0 (the (log_task_start 0 demo_spawned)))"

definition demo_sent :: gateway where
  "demo_sent = the (log_task_dispatch 0 demo_fetched)"

lemma demo_spawned_reach: "gateway_reach demo_spawned"
  unfolding demo_spawned_def
  by (rule reach_handle, rule reach_take, rule reach_receive [OF demo_online_reach]) code_simp+

lemma reach_task:
  assumes "gateway_reach g" "log_task_start n g = Some g' \<or> log_task_fetched answer n g = Some g' \<or> log_task_dispatch n g = Some g'"
  shows "gateway_reach g'"
  using assms by (blast intro: gateway_reach.step gateway_step.task_start gateway_step.task_fetched gateway_step.task_dispatch)

lemma demo_sent_reach: "gateway_reach demo_sent"
proof -
  have some: "log_task_start 0 demo_spawned \<noteq> None"
    "log_task_fetched (\<lambda>_. Inr (Some 100)) 0 (the (log_task_start 0 demo_spawned)) \<noteq> None" "log_task_dispatch 0 demo_fetched \<noteq> None"
    by code_simp+
  have "gateway_reach (the (log_task_start 0 demo_spawned))" using reach_task [OF demo_spawned_reach] some(1) by (metis option.collapse)
  then have "gateway_reach demo_fetched" unfolding demo_fetched_def using reach_task some(2) by (metis option.collapse)
  then show ?thesis unfolding demo_sent_def using reach_task some(3) by (metis option.collapse)
qed


text \<open>A log notification without the field \<open>err\<close> arrives during the handshake.\<close>

definition demo_refused :: json where
  "demo_refused = JObj [(''jsonrpc'', JStr ''2.0''), (''method'', JStr ''logsNotification''),
     (''params'', JObj [(''result'', JObj [(''value'', JObj [(''signature'', JStr ''a'')])])])]"

lemma demo_refused: "refused demo_refused"
proof -
  have "endswith ''logsNotification'' ''Notification''" "py_strip ''a'' = ''a''" by code_simp+
  then show ?thesis
    by (simp add: refused_def demo_refused_def handle_message_def method_defs json_or_def read_notification_def
        log_notification_def Let_def)
qed

definition demo_wedged :: gateway where
  "demo_wedged = demo_subscribed 0 [Inr demo_refused] demo_offline"

theorem refused_message_keeps_stream_offline_witness:
  "gw_phase (run_replay 0 demo_wedged) \<noteq> Online \<and> demo_refused \<in> set (gw_pending (run_replay 0 demo_wedged))
    \<and> \<not> gate_enabled (gw_entry_gate (run_replay 0 demo_wedged))"
proof (rule refused_message_keeps_stream_offline [OF _ _ _ demo_refused])
  show "gateway_reach demo_wedged"
    unfolding demo_wedged_def by (rule reach_subscribed [OF demo_offline_reach]) code_simp+
  show "gw_phase demo_wedged \<noteq> Online" "demo_refused \<in> set (gw_pending demo_wedged)" by code_simp+
  have "gw_phase demo_wedged = Replaying" "timeouts (run_replay 0 demo_wedged) = timeouts demo_wedged" by code_simp+
  then show "(\<lambda>a b. gateway_step a b \<and> timeouts b = timeouts a)\<^sup>*\<^sup>* demo_wedged (run_replay 0 demo_wedged)"
    by (intro r_into_rtranclp conjI gateway_step.replay)
qed

text \<open>Transactions as \<open>transactionNotification\<close> carries them.\<close>

definition demo_transaction :: "string \<Rightarrow> json" where
  "demo_transaction s = JObj [(''signature'', JStr s), (''slot'', JInt 7), (''meta'', JObj [(''logMessages'', JList [JStr PUMP_PROGRAM_ID])])]"

definition demo_message :: "string \<Rightarrow> json" where
  "demo_message s = JObj [(''method'', JStr ''transactionNotification''),
     (''params'', JObj [(''result'', JObj [(''transaction'', demo_transaction s)])])]"

text \<open>
  One notification arrives at time 0 and is still in the queue when the connection ends; the next
  connection opens 61 seconds later and receives another one.
\<close>

definition demo_lost :: gateway where
  "demo_lost = run_receive 0 None (run_receive 0 (Some (Inr (demo_message ''b''))) demo_online)"

definition demo_again :: gateway where
  "demo_again = demo_connected (seconds 61) demo_lost"

definition demo_reconnected :: gateway where
  "demo_reconnected = run_replay (seconds 61) (demo_subscribed (seconds 61) [] demo_again)"

definition demo_leftover :: gateway where
  "demo_leftover = the (dispatcher_take (run_receive (seconds 61) (Some (Inr (demo_message ''c''))) demo_reconnected))"

lemma demo_lost_reach: "gateway_reach demo_lost"
  unfolding demo_lost_def by (rule reach_receive, rule reach_receive [OF demo_online_reach]) code_simp+

lemma demo_again_reach: "gateway_reach demo_again"
  unfolding demo_again_def by (rule reach_connected [OF demo_lost_reach]) code_simp

lemma demo_reconnected_reach: "gateway_reach demo_reconnected"
  unfolding demo_reconnected_def by (rule reach_replay, rule reach_subscribed [OF demo_again_reach]) code_simp+

lemma demo_leftover_reach: "gateway_reach demo_leftover"
  unfolding demo_leftover_def
  by (rule reach_take, rule reach_receive [OF demo_reconnected_reach]) code_simp+


text \<open>The queue has room for one transaction; the second one waits in its put.\<close>

definition demo_full :: gateway where
  "demo_full = the (dispatcher_take (the (dispatcher_handle (the (dispatcher_take
     (run_receive 0 (Some (Inr (demo_message ''c''))) (run_receive 0 (Some (Inr (demo_message ''b''))) demo_online)))))))"

theorem interrupted_put_loses_transaction_witness:
  "\<exists>g1 g2. dispatcher_handle demo_full = Some g1 \<and> g2 = fail_connection (Failure TimeoutError) g1 \<and> gw_queue g2 = gw_queue demo_full
    \<and> gw_dispatcher g2 = None"
proof -
  have "gw_dispatcher demo_full = Some (Holding (TransactionNotification (demo_transaction ''c'') 0 1))"
    "queue_full demo_full" "\<not> gw_stopping demo_full"
    "slot_of (demo_transaction ''c'') = Inr 7" "transaction_signature (demo_transaction ''c'') = Inr (Some ''c'')" "''c'' \<noteq> []"
    "transaction_block_time (demo_transaction ''c'') = Inr None" "transaction_protocols (demo_transaction ''c'') = Inr [PUMP]"
    by code_simp+
  from interrupted_put_loses_transaction [OF this demo_rpc_honest, of "Failure TimeoutError"] show ?thesis
    using demo_rpc_slots by blast
qed

end
