(* ===== verification/Outbox.thy ===== *)
theory Outbox
  imports Anchor Py_Monad Py_Float
begin

text \<open>
  The durable Telegram outbox: the table and its transactions (the outbox part of \<open>database.py\<close>), the
  worker that delivers it (\<open>outbox.py\<close>) and the notifier (\<open>telegram.py\<close>). A transaction is a function on
  the table; fresh identifiers, the clock and the answers of the Telegram API are arguments.
\<close>

section \<open>The table\<close>

datatype delivery_state = PENDING | SENDING | FAILED | UNCERTAIN | DELIVERED | DEAD

record outbox_row =
  ob_id :: string
  ob_idempotency_key :: string
  ob_event_type :: string
  ob_payload :: json
  ob_created_at :: datetime
  ob_available_at :: datetime
  ob_attempts :: nat
  ob_delivery_state :: delivery_state
  ob_claimed_at :: "datetime option"
  ob_claim_token :: "string option"
  ob_delivered_at :: "datetime option"
  ob_telegram_message_id :: "string option"
  ob_last_error :: "string option"

text \<open>A stored daily report; the key is its date, time zone and strategy version.\<close>

type_synonym report_key = "string \<times> string \<times> string"

record report_row =
  dr_report :: json
  dr_telegram_message_id :: "string option"
  dr_generated_at :: datetime
  dr_sent_at :: "datetime option"

record outbox_db =
  od_rows :: "outbox_row list"
  od_reports :: "(report_key, report_row) dict"

definition new_outbox_row :: "string \<Rightarrow> string \<Rightarrow> string \<Rightarrow> json \<Rightarrow> datetime \<Rightarrow> outbox_row" where
  "new_outbox_row row_id key event_type payload now = \<lparr>ob_id = row_id, ob_idempotency_key = key, ob_event_type = event_type,
     ob_payload = payload, ob_created_at = now, ob_available_at = now, ob_attempts = 0, ob_delivery_state = PENDING,
     ob_claimed_at = None, ob_claim_token = None, ob_delivered_at = None, ob_telegram_message_id = None, ob_last_error = None\<rparr>"

text \<open>The insert does nothing when the key is taken, and says whether it inserted.\<close>

definition insert_outbox :: "outbox_row \<Rightarrow> outbox_db \<Rightarrow> outbox_db \<times> bool" where
  "insert_outbox row db =
     (if list_ex (\<lambda>r. ob_idempotency_key r = ob_idempotency_key row) (od_rows db) then (db, False)
      else (db\<lparr>od_rows := od_rows db @ [row]\<rparr>, True))"

definition enqueue_outbox :: "string \<Rightarrow> datetime \<Rightarrow> string \<Rightarrow> string \<Rightarrow> json \<Rightarrow> outbox_db \<Rightarrow> outbox_db \<times> bool" where
  "enqueue_outbox row_id now key event_type payload db = insert_outbox (new_outbox_row row_id key event_type payload now) db"

definition update_row :: "string \<Rightarrow> (outbox_row \<Rightarrow> outbox_row) \<Rightarrow> outbox_db \<Rightarrow> outbox_db" where
  "update_row row_id f db = db\<lparr>od_rows := map (\<lambda>r. if ob_id r = row_id then f r else r) (od_rows db)\<rparr>"

definition get_row :: "string \<Rightarrow> outbox_db \<Rightarrow> outbox_row option" where
  "get_row row_id db = find (\<lambda>r. ob_id r = row_id) (od_rows db)"

section \<open>Claiming\<close>

definition LEASE :: timedelta where
  "LEASE = seconds 30"

text \<open>A claim whose lease has run out may or may not have been sent.\<close>

definition expire_lease :: "datetime \<Rightarrow> outbox_row \<Rightarrow> outbox_row" where
  "expire_lease now r =
     (if ob_delivery_state r = SENDING \<and> (case ob_claimed_at r of None \<Rightarrow> False | Some t \<Rightarrow> t \<le> now - LEASE)
      then r\<lparr>ob_delivery_state := UNCERTAIN, ob_last_error := Some ''DELIVERY_OUTCOME_UNKNOWN_AFTER_LEASE_EXPIRY'',
             ob_claim_token := None\<rparr>
      else r)"

definition claimable :: "datetime \<Rightarrow> outbox_row \<Rightarrow> bool" where
  "claimable now r \<longleftrightarrow> ob_delivered_at r = None \<and> ob_delivery_state r \<in> {PENDING, FAILED} \<and> ob_available_at r \<le> now"

definition claim_row :: "datetime \<Rightarrow> string \<Rightarrow> outbox_row \<Rightarrow> outbox_row" where
  "claim_row now token r = r\<lparr>ob_available_at := now + LEASE, ob_attempts := ob_attempts r + 1, ob_delivery_state := SENDING,
     ob_claimed_at := Some now, ob_claim_token := Some token\<rparr>"

text \<open>
  \<open>pending_outbox\<close>: the oldest claimable rows, each with a token of its own (\<open>token\<close> gives the fresh
  identifier by row). Rows created at the same instant come in the order of the table.
\<close>

definition chosen_rows :: "datetime \<Rightarrow> nat \<Rightarrow> outbox_row list \<Rightarrow> outbox_row list" where
  "chosen_rows now limit rows = take limit (sort_key ob_created_at (filter (claimable now) rows))"

definition pending_outbox :: "datetime \<Rightarrow> (string \<Rightarrow> string) \<Rightarrow> nat \<Rightarrow> outbox_db \<Rightarrow> outbox_db \<times> outbox_row list" where
  "pending_outbox now token limit db =
     (let rows = map (expire_lease now) (od_rows db);
          chosen = chosen_rows now limit rows;
          ids = map ob_id chosen
      in (db\<lparr>od_rows := map (\<lambda>r. if ob_id r \<in> set ids then claim_row now (token (ob_id r)) r else r) rows\<rparr>,
          map (\<lambda>r. claim_row now (token (ob_id r)) r) chosen))"

section \<open>Marking the outcome\<close>

definition validate_outbox_claim :: "outbox_row \<Rightarrow> string \<Rightarrow> bool" where
  "validate_outbox_claim r claim_token \<longleftrightarrow> ob_delivery_state r = SENDING \<and> ob_claim_token r = Some claim_token"

text \<open>The common frame of the four marks: the row is there and the claim still holds.\<close>

definition with_claim :: "string \<Rightarrow> string \<Rightarrow> (outbox_row \<Rightarrow> outbox_db result) \<Rightarrow> outbox_db \<Rightarrow> outbox_db result" where
  "with_claim row_id claim_token f db = (case get_row row_id db of
     None \<Rightarrow> Inl (RuntimeError ''outbox event is missing'')
   | Some r \<Rightarrow> if \<not> validate_outbox_claim r claim_token then Inl (RuntimeError ''outbox claim was superseded'') else f r)"

definition release :: "outbox_row \<Rightarrow> outbox_row" where
  "release r = r\<lparr>ob_claimed_at := None, ob_claim_token := None\<rparr>"

definition delivered_row :: "datetime \<Rightarrow> string option \<Rightarrow> outbox_row \<Rightarrow> outbox_row" where
  "delivered_row delivered_at message_id r = (release r)\<lparr>ob_delivered_at := Some delivered_at,
     ob_telegram_message_id := message_id, ob_last_error := None, ob_delivery_state := DELIVERED\<rparr>"

text \<open>
  \<open>_apply_outbox_delivery\<close> also stamps the daily report the message carries. The date is read by
  \<open>strptime\<close>; \<open>report_date\<close> is its result, or \<open>None\<close> where it raises.
\<close>

definition report_key_of :: "(string \<Rightarrow> string option) \<Rightarrow> json \<Rightarrow> report_key option result" where
  "report_key_of report_date payload = (case payload of
     JObj d \<Rightarrow> (case dict_get d ''_daily_report'' of
       Some (JObj m) \<Rightarrow> (case dict_get m ''date'' of
         None \<Rightarrow> Inl KeyError
       | Some date \<Rightarrow> (case report_date (json_str date) of
           None \<Rightarrow> Inl (ValueError ''time data does not match format'')
         | Some day \<Rightarrow> (case (dict_get m ''timezone'', dict_get m ''strategy_version'') of
             (Some tz, Some version) \<Rightarrow> Inr (Some (day, json_str tz, json_str version))
           | _ \<Rightarrow> Inl KeyError)))
     | _ \<Rightarrow> Inr None)
   | _ \<Rightarrow> Inl AttributeError)"

definition stamp_report :: "report_key option \<Rightarrow> datetime \<Rightarrow> string option \<Rightarrow> outbox_db \<Rightarrow> outbox_db" where
  "stamp_report key delivered_at message_id db = (case key of None \<Rightarrow> db
     | Some k \<Rightarrow> (case dict_get (od_reports db) k of None \<Rightarrow> db
         | Some rep \<Rightarrow> db\<lparr>od_reports := dict_set (od_reports db) k
             (rep\<lparr>dr_telegram_message_id := message_id, dr_sent_at := Some delivered_at\<rparr>)\<rparr>))"

definition apply_outbox_delivery :: "(string \<Rightarrow> string option) \<Rightarrow> datetime \<Rightarrow> string option \<Rightarrow> outbox_db \<Rightarrow> outbox_row \<Rightarrow> outbox_db result" where
  "apply_outbox_delivery report_date delivered_at message_id db r = rbind (report_key_of report_date (ob_payload r)) (\<lambda>key.
     Inr (stamp_report key delivered_at message_id (update_row (ob_id r) (delivered_row delivered_at message_id) db)))"

definition mark_outbox_delivered :: "(string \<Rightarrow> string option) \<Rightarrow> datetime \<Rightarrow> string \<Rightarrow> string \<Rightarrow> string option \<Rightarrow> outbox_db \<Rightarrow> outbox_db result" where
  "mark_outbox_delivered report_date now row_id claim_token message_id db =
     with_claim row_id claim_token (apply_outbox_delivery report_date now message_id db) db"

definition MAX_ATTEMPTS :: nat where
  "MAX_ATTEMPTS = 10"

definition failed_row :: "datetime \<Rightarrow> string \<Rightarrow> outbox_row \<Rightarrow> outbox_row" where
  "failed_row now error_code r = (release r)\<lparr>ob_last_error := Some (take 500 error_code),
     ob_delivery_state := if MAX_ATTEMPTS \<le> ob_attempts r then DEAD else FAILED,
     ob_available_at := now + seconds (min 300 (2 ^ min (ob_attempts r) 8))\<rparr>"

definition mark_outbox_failed :: "datetime \<Rightarrow> string \<Rightarrow> string \<Rightarrow> string \<Rightarrow> outbox_db \<Rightarrow> outbox_db result" where
  "mark_outbox_failed now row_id claim_token error_code db =
     with_claim row_id claim_token (\<lambda>r. Inr (update_row row_id (failed_row now error_code) db)) db"

definition closed_row :: "delivery_state \<Rightarrow> string \<Rightarrow> outbox_row \<Rightarrow> outbox_row" where
  "closed_row st error_code r = (release r)\<lparr>ob_delivery_state := st, ob_last_error := Some (take 500 error_code)\<rparr>"

definition mark_outbox_uncertain :: "string \<Rightarrow> string \<Rightarrow> string \<Rightarrow> outbox_db \<Rightarrow> outbox_db result" where
  "mark_outbox_uncertain row_id claim_token error_code db =
     with_claim row_id claim_token (\<lambda>r. Inr (update_row row_id (closed_row UNCERTAIN error_code) db)) db"

definition mark_outbox_dead :: "string \<Rightarrow> string \<Rightarrow> string \<Rightarrow> outbox_db \<Rightarrow> outbox_db result" where
  "mark_outbox_dead row_id claim_token error_code db =
     with_claim row_id claim_token (\<lambda>r. Inr (update_row row_id (closed_row DEAD error_code) db)) db"

text \<open>The operator decides about an uncertain message.\<close>

definition retry_row :: "datetime \<Rightarrow> outbox_row \<Rightarrow> outbox_row" where
  "retry_row now r = (release r)\<lparr>ob_delivery_state := FAILED, ob_available_at := now,
     ob_last_error := Some ''OPERATOR_RETRY_AFTER_RECONCILIATION''\<rparr>"

definition resolve_uncertain_outbox :: "(string \<Rightarrow> string option) \<Rightarrow> datetime \<Rightarrow> string \<Rightarrow> string \<Rightarrow> string option \<Rightarrow> outbox_db \<Rightarrow> outbox_db result" where
  "resolve_uncertain_outbox report_date now row_id action message_id db =
     (if action \<notin> {''retry'', ''delivered'', ''dead''} then Inl (ValueError ''action must be retry, delivered, or dead'')
      else if action = ''delivered'' \<and> \<not> truthy message_id then Inl (ValueError ''telegram_message_id is required for delivered'')
      else case get_row row_id db of
        None \<Rightarrow> Inl (RuntimeError ''outbox event is missing'')
      | Some r \<Rightarrow>
          if ob_delivery_state r \<noteq> UNCERTAIN then Inl (RuntimeError ''only UNCERTAIN outbox events can be reconciled'')
          else if action = ''delivered'' then apply_outbox_delivery report_date now message_id db r
          else if action = ''retry'' then Inr (update_row row_id (retry_row now) db)
          else Inr (update_row row_id (closed_row DEAD ''OPERATOR_CONFIRMED_DEAD'') db))"

definition outbox_count :: "outbox_db \<Rightarrow> nat" where
  "outbox_count db = length (filter (\<lambda>r. ob_delivered_at r = None) (od_rows db))"

definition deliverable_outbox_count :: "outbox_db \<Rightarrow> nat" where
  "deliverable_outbox_count db = length (filter (\<lambda>r. ob_delivery_state r \<in> {PENDING, FAILED, SENDING}) (od_rows db))"

text \<open>
  \<open>load_daily_report\<close> and \<open>store_daily_report\<close>. The texts of the messages and the fresh identifiers
  of the rows are arguments. A transaction that raises changes nothing.
\<close>

definition load_daily_report :: "(string \<Rightarrow> string option) \<Rightarrow> string \<Rightarrow> string \<Rightarrow> string \<Rightarrow> outbox_db \<Rightarrow> json option result" where
  "load_daily_report report_date date timezone_name strategy_version db = (case report_date date of
     None \<Rightarrow> Inl (ValueError ''time data does not match format'')
   | Some day \<Rightarrow> Inr (map_option dr_report (dict_get (od_reports db) (day, timezone_name, strategy_version))))"

definition item :: "(string, json) dict \<Rightarrow> string \<Rightarrow> json result" where
  "item d k = (case dict_get d k of None \<Rightarrow> Inl KeyError | Some v \<Rightarrow> Inr v)"

definition daily_payload :: "string \<Rightarrow> json \<Rightarrow> json \<Rightarrow> json \<Rightarrow> json" where
  "daily_payload body date tz version = JObj [(''text'', JStr body), (''_daily_report'',
     JObj [(''date'', date), (''timezone'', tz), (''strategy_version'', version)])]"

definition insert_report :: "datetime \<Rightarrow> string \<times> string \<Rightarrow> report_key \<Rightarrow> (string, json) dict \<Rightarrow> json \<Rightarrow> json
    \<Rightarrow> string option \<Rightarrow> outbox_db \<Rightarrow> outbox_db" where
  "insert_report now ids key report report_id payload all_time db =
     (let db1 = db\<lparr>od_reports := dict_set (od_reports db) key
            \<lparr>dr_report = JObj report, dr_telegram_message_id = None, dr_generated_at = now, dr_sent_at = None\<rparr>\<rparr>;
          db2 = fst (insert_outbox (new_outbox_row (fst ids) (''telegram:daily-report:'' @ json_str report_id) ''daily_report'' payload now) db1)
      in case all_time of
        None \<Rightarrow> db2
      | Some body \<Rightarrow> fst (insert_outbox (new_outbox_row (snd ids) (''telegram:all-time-report:'' @ json_str report_id)
          ''all_time_report'' (JObj [(''text'', JStr body)]) now) db2))"

definition store_daily_report :: "(string \<Rightarrow> string option) \<Rightarrow> datetime \<Rightarrow> string \<times> string \<Rightarrow> string \<Rightarrow> (string, json) dict
    \<Rightarrow> string option \<Rightarrow> outbox_db \<Rightarrow> (outbox_db \<times> bool) result" where
  "store_daily_report report_date now ids body report all_time db =
     rbind (item report ''date'') (\<lambda>date. case report_date (json_str date) of
       None \<Rightarrow> Inl (ValueError ''time data does not match format'')
     | Some day \<Rightarrow>
         rbind (item report ''timezone'') (\<lambda>tz.
         rbind (item report ''strategy_version'') (\<lambda>version.
           let key = (day, json_str tz, json_str version) in
           if dict_get (od_reports db) key \<noteq> None then Inr (db, False)
           else rbind (item report ''report_id'') (\<lambda>report_id.
             Inr (insert_report now ids key report report_id (daily_payload body date tz version) all_time db, True)))))"

section \<open>The worker\<close>

text \<open>
  What a notifier does with a message: it accepts it, with the id Telegram gave; it raises
  \<open>PermissionError\<close> or \<open>ValueError\<close>, a \<open>RuntimeError\<close>, or something else. The text is the name of the
  exception class.
\<close>

datatype outcome = Accepted "string option" | Refused string | Rejected string | Unclear string

definition PROACTIVE_TELEGRAM_EVENT_TYPES :: "string set" where
  "PROACTIVE_TELEGRAM_EVENT_TYPES = {''system_start'', ''system_stop'', ''daily_report''}"

definition message_text :: "json \<Rightarrow> string result" where
  "message_text payload = rbind (json_or (json_get payload ''text'' JNull) (Inr (JStr []))) (\<lambda>v. Inr (py_strip (json_str v)))"

text \<open>\<open>int(chat_id)\<close> is evaluated inside the \<open>try\<close>: a text that is no number is refused, another type is unclear.\<close>

definition chat_of :: "json \<Rightarrow> outcome + int option" where
  "chat_of chat_id = (if chat_id = JNull then Inr None else case json_int chat_id of
     Inr i \<Rightarrow> Inr (Some i) | Inl TypeError \<Rightarrow> Inl (Unclear ''TypeError'') | Inl _ \<Rightarrow> Inl (Refused ''ValueError''))"

definition send_message :: "(string \<Rightarrow> int option \<Rightarrow> outcome) \<Rightarrow> json \<Rightarrow> string \<Rightarrow> outcome" where
  "send_message notifier chat_id txt = (case chat_of chat_id of Inl r \<Rightarrow> r | Inr chat \<Rightarrow> notifier txt chat)"

definition mark_outcome :: "(string \<Rightarrow> string option) \<Rightarrow> datetime \<Rightarrow> outbox_row \<Rightarrow> string \<Rightarrow> outcome \<Rightarrow> outbox_db \<Rightarrow> outbox_db result" where
  "mark_outcome report_date now event claim_token r db = (case r of
     Accepted message_id \<Rightarrow> mark_outbox_delivered report_date now (ob_id event) claim_token message_id db
   | Refused name \<Rightarrow> mark_outbox_dead (ob_id event) claim_token (ascii_upper name) db
   | Rejected name \<Rightarrow> mark_outbox_failed now (ob_id event) claim_token (ascii_upper name) db
   | Unclear name \<Rightarrow> mark_outbox_uncertain (ob_id event) claim_token (ascii_upper name) db)"

text \<open>What the worker decides about an event without sending it.\<close>

definition suppressed :: "string set \<Rightarrow> outbox_row \<Rightarrow> string option result" where
  "suppressed allowed event =
     (if ob_event_type event \<notin> allowed then Inr (Some ''TELEGRAM_POLICY_BLOCKED'')
      else rbind (message_text (ob_payload event)) (\<lambda>txt. Inr (if txt = [] then Some ''INVALID_EMPTY_MESSAGE'' else None)))"

text \<open>The body of the loop for one event; the answer says whether it was delivered.\<close>

definition deliver_event :: "(string \<Rightarrow> string option) \<Rightarrow> datetime \<Rightarrow> string set \<Rightarrow> (string \<Rightarrow> int option \<Rightarrow> outcome) \<Rightarrow> outbox_row
    \<Rightarrow> (outbox_db, bool) method_of" where
  "deliver_event report_date now allowed notifier event = (case ob_claim_token event of
     None \<Rightarrow> mraise (RuntimeError ''claimed outbox event has no fencing token'')
   | Some claim_token \<Rightarrow> mbind (mlift (suppressed allowed event)) (\<lambda>code. case code of
       Some error_code \<Rightarrow> (\<lambda>db. case mark_outbox_dead (ob_id event) claim_token error_code db of
           Inl e \<Rightarrow> (db, Inl e) | Inr db1 \<Rightarrow> (db1, Inr False))
     | None \<Rightarrow> mbind (mlift (message_text (ob_payload event))) (\<lambda>txt db.
         let r = send_message notifier (field_or_null (case ob_payload event of JObj d \<Rightarrow> d | _ \<Rightarrow> []) ''chat_id'') txt in
         case mark_outcome report_date now event claim_token r db of
           Inl e \<Rightarrow> (db, Inl e)
         | Inr db1 \<Rightarrow> (db1, Inr (case r of Accepted _ \<Rightarrow> True | _ \<Rightarrow> False)))))"

fun deliver_events :: "(string \<Rightarrow> string option) \<Rightarrow> datetime \<Rightarrow> string set \<Rightarrow> (string \<Rightarrow> string \<Rightarrow> int option \<Rightarrow> outcome) \<Rightarrow> outbox_row list
    \<Rightarrow> nat \<Rightarrow> (outbox_db, nat) method_of" where
  "deliver_events report_date now allowed notifier [] delivered = mret delivered"
| "deliver_events report_date now allowed notifier (event # rest) delivered =
     mbind (deliver_event report_date now allowed (notifier (ob_id event)) event) (\<lambda>ok.
       deliver_events report_date now allowed notifier rest (if ok then delivered + 1 else delivered))"

text \<open>One poll: the notifier's answer is given by the id of the row.\<close>

definition deliver_once :: "(string \<Rightarrow> string option) \<Rightarrow> datetime \<Rightarrow> (string \<Rightarrow> string) \<Rightarrow> string set \<Rightarrow> (string \<Rightarrow> string \<Rightarrow> int option \<Rightarrow> outcome)
    \<Rightarrow> (outbox_db, nat) method_of" where
  "deliver_once report_date now token allowed notifier db =
     (case pending_outbox now token 100 db of (db1, events) \<Rightarrow> deliver_events report_date now allowed notifier events 0 db1)"

text \<open>
  \<open>drain\<close>: what the polls do that fit before the timeout, in order; a poll that raises ends it.
\<close>

fun wait_until_idle :: "(outbox_db, nat) method_of list \<Rightarrow> outbox_db \<Rightarrow> outbox_db \<times> bool" where
  "wait_until_idle [] db = (db, deliverable_outbox_count db = 0)"
| "wait_until_idle (poll # polls) db =
     (if deliverable_outbox_count db = 0 then (db, True)
      else case poll db of (db1, Inl e) \<Rightarrow> (db1, False) | (db1, Inr _) \<Rightarrow> wait_until_idle polls db1)"

definition drain :: "rat \<Rightarrow> (outbox_db, nat) method_of list \<Rightarrow> (outbox_db, bool) method_of" where
  "drain timeout_seconds polls db =
     (if timeout_seconds \<le> 0 then (db, Inl (ValueError ''outbox drain timeout must be positive''))
      else case wait_until_idle polls db of (db1, idle) \<Rightarrow> (db1, Inr idle))"

section \<open>The notifier\<close>

record telegram_message =
  tm_text :: string
  tm_chat_id :: int
  tm_message_id :: "string option"
  tm_attempts :: nat

record telegram_notifier =
  tn_chat_id :: int
  tn_allowlist :: "int set"
  tn_user_allowlist :: "int set"
  tn_allow_duplicate_seconds :: int
  tn_dedupe :: "(string, datetime) dict"
  tn_queue :: "telegram_message option list"

definition notifier_init :: "int \<Rightarrow> int list \<Rightarrow> int list \<Rightarrow> int \<Rightarrow> telegram_notifier" where
  "notifier_init admin_chat_id allowlist user_allowlist allow_duplicate_seconds =
     \<lparr>tn_chat_id = admin_chat_id, tn_allowlist = insert admin_chat_id (set allowlist), tn_user_allowlist = set user_allowlist,
      tn_allow_duplicate_seconds = allow_duplicate_seconds, tn_dedupe = [], tn_queue = []\<rparr>"

definition allow_chat :: "int \<Rightarrow> telegram_notifier \<Rightarrow> bool" where
  "allow_chat chat_id n \<longleftrightarrow> chat_id \<in> tn_allowlist n"

text \<open>The answer of the HTTP request: a status with the decoded body (\<open>None\<close>: not JSON), or an exception.\<close>

definition send_immediate :: "(int \<Rightarrow> string \<Rightarrow> outcome + int \<times> json option) \<Rightarrow> telegram_notifier \<Rightarrow> string \<Rightarrow> int option \<Rightarrow> outcome" where
  "send_immediate post n txt chat_id =
     (let target = opt_or chat_id (tn_chat_id n) in
      if \<not> allow_chat target n then Refused ''PermissionError''
      else case post target txt of
        Inl r \<Rightarrow> r
      | Inr (status, body) \<Rightarrow>
          if status < 200 \<or> 300 \<le> status then Rejected ''RuntimeError''
          else (case opt_or body (JObj []) of
            JObj d \<Rightarrow> (case rbind (json_or (Inr (field_or_null d ''result'')) (Inr (JObj []))) (\<lambda>result. json_get result ''message_id'' JNull) of
              Inl e \<Rightarrow> Unclear ''AttributeError''
            | Inr v \<Rightarrow> Accepted (Some (if v = JNull then [] else json_str v)))
          | _ \<Rightarrow> Accepted (Some [])))"

definition cleanup_dedupe :: "datetime \<Rightarrow> telegram_notifier \<Rightarrow> telegram_notifier" where
  "cleanup_dedupe now n = n\<lparr>tn_dedupe := filter (\<lambda>(k, created_at). \<not> created_at < now - seconds (tn_allow_duplicate_seconds n)) (tn_dedupe n)\<rparr>"

text \<open>\<open>key\<close> is the digest of chat and text.\<close>

definition dedupe_key :: "int \<Rightarrow> string \<Rightarrow> string" where
  "dedupe_key chat_id txt = sha256_hex (int_str chat_id @ '':'' @ txt)"

definition enqueue_message :: "datetime \<Rightarrow> int \<Rightarrow> string \<Rightarrow> telegram_notifier \<Rightarrow> telegram_notifier" where
  "enqueue_message now chat_id txt n0 =
     (let key = dedupe_key chat_id txt; n = cleanup_dedupe now n0 in
      if (case dict_get (tn_dedupe n) key of None \<Rightarrow> False
          | Some previous \<Rightarrow> fl (of_int (now - previous) / of_int usec) < of_int (tn_allow_duplicate_seconds n)) then n
      else n\<lparr>tn_dedupe := dict_set (tn_dedupe n) key now, tn_queue := tn_queue n @ [Some \<lparr>tm_text = txt, tm_chat_id = chat_id, tm_message_id = Some key, tm_attempts = 0\<rparr>]\<rparr>)"

definition send :: "datetime \<Rightarrow> string \<Rightarrow> telegram_notifier \<Rightarrow> telegram_notifier" where
  "send now txt n = enqueue_message now (tn_chat_id n) txt n"

definition send_to :: "datetime \<Rightarrow> int \<Rightarrow> string \<Rightarrow> telegram_notifier \<Rightarrow> telegram_notifier" where
  "send_to now chat_id txt n = (if \<not> allow_chat chat_id n then n else enqueue_message now chat_id txt n)"

text \<open>One message of the worker; after ten failures it is given up. The answer is false when it stops.\<close>

definition notifier_worker :: "(int \<Rightarrow> string \<Rightarrow> outcome + int \<times> json option) \<Rightarrow> telegram_notifier \<Rightarrow> (telegram_notifier \<times> bool) option" where
  "notifier_worker post n = (case tn_queue n of
     [] \<Rightarrow> None
   | None # q \<Rightarrow> Some (n\<lparr>tn_queue := q\<rparr>, False)
   | Some message # q \<Rightarrow> (case send_immediate post n (tm_text message) (Some (tm_chat_id message)) of
       Accepted _ \<Rightarrow> Some (n\<lparr>tn_queue := q\<rparr>, True)
     | _ \<Rightarrow> (let attempts = tm_attempts message + 1 in
         Some (n\<lparr>tn_queue := if attempts < 10 then q @ [Some (message\<lparr>tm_attempts := attempts\<rparr>)] else q\<rparr>, True))))"

text \<open>The command an update of \<open>_poll_commands\<close> carries, if it is handled.\<close>

fun split_words :: "string \<Rightarrow> string \<Rightarrow> string list" where
  "split_words [] w = (if w = [] then [] else [w])"
| "split_words (c # cs) w = (if is_space c then (if w = [] then [] else [w]) @ split_words cs [] else split_words cs (w @ [c]))"

definition command_name :: "string \<Rightarrow> string" where
  "command_name s = takeWhile (\<lambda>c. c \<noteq> CHR ''@'') (dropWhile (\<lambda>c. c = CHR ''/'') s)"

definition authorized :: "telegram_notifier \<Rightarrow> json \<Rightarrow> json \<Rightarrow> bool result" where
  "authorized n chat_id user_id =
     rbind (if tn_user_allowlist n = {} then Inr True
            else if user_id = JNull then Inr False
            else rbind (json_int user_id) (\<lambda>u. Inr (u \<in> tn_user_allowlist n))) (\<lambda>user_ok.
     if chat_id = JNull then Inr False else rbind (json_int chat_id) (\<lambda>c. Inr (allow_chat c n \<and> user_ok)))"

definition parse_command :: "string \<Rightarrow> (string \<times> string list) option" where
  "parse_command txt = (let s = py_strip txt in
     if \<not> startswith s ''/'' then None
     else case split_words s [] of [] \<Rightarrow> None | first # args \<Rightarrow> Some (command_name first, args))"

definition poll_update :: "telegram_notifier \<Rightarrow> json \<Rightarrow> (int \<times> string \<times> string list) option result" where
  "poll_update n update =
     rbind (json_or (json_get update ''message'' JNull) (json_or (json_get update ''edited_message'' JNull) (Inr (JObj [])))) (\<lambda>message.
     rbind (json_or (json_get message ''chat'' JNull) (Inr (JObj []))) (\<lambda>chat.
     rbind (json_get chat ''id'' JNull) (\<lambda>chat_id.
     rbind (json_or (json_get message ''from'' JNull) (Inr (JObj []))) (\<lambda>sender.
     rbind (json_get sender ''id'' JNull) (\<lambda>user_id.
     rbind (authorized n chat_id user_id) (\<lambda>ok.
     if \<not> ok then Inr None
     else rbind (json_or (json_get message ''text'' JNull) (Inr (JStr []))) (\<lambda>v. case v of
       JStr txt \<Rightarrow> (case parse_command txt of None \<Rightarrow> Inr None
         | Some (cmd, args) \<Rightarrow> rbind (json_int chat_id) (\<lambda>c. Inr (Some (c, cmd, args))))
     | _ \<Rightarrow> Inl AttributeError)))))))"

text \<open>
  The updates of one answer of \<open>getUpdates\<close>: the next offset, the commands handed to the handler, and
  the exception that ends the batch, if any.
\<close>

fun poll_updates :: "telegram_notifier \<Rightarrow> (int \<Rightarrow> string \<Rightarrow> string list \<Rightarrow> unit result) \<Rightarrow> int \<Rightarrow> json list
    \<Rightarrow> int \<times> (int \<times> string \<times> string list) list \<times> py_error option" where
  "poll_updates n handler offset [] = (offset, [], None)"
| "poll_updates n handler offset (update # rest) =
     (case rbind (json_get update ''update_id'' (JInt offset)) json_int of
       Inl e \<Rightarrow> (offset, [], Some e)
     | Inr i \<Rightarrow> (case poll_update n update of
         Inl e \<Rightarrow> (i + 1, [], Some e)
       | Inr None \<Rightarrow> poll_updates n handler (i + 1) rest
       | Inr (Some (chat_id, cmd, args)) \<Rightarrow> (case handler chat_id cmd args of
           Inl e \<Rightarrow> (i + 1, [(chat_id, cmd, args)], Some e)
         | Inr _ \<Rightarrow> (case poll_updates n handler (i + 1) rest of
             (final, calls, err) \<Rightarrow> (final, (chat_id, cmd, args) # calls, err)))))"

end
