(* ===== verification/Outbox_Props.thy ===== *)
theory Outbox_Props
  imports Outbox "HOL-Library.Sublist"
begin

text \<open>
  Runs of the outbox with any number of workers, crashes and an operator. A worker holds the rows it
  has claimed, sends one and marks its outcome in separate steps; a crash drops what it holds.
\<close>

section \<open>The system\<close>

text \<open>
  \<open>os_held\<close> are the claimed rows not sent yet, \<open>os_sent\<close> those sent and not marked yet. The tokens in
  use, what was sent, and the rows the operator has released for a retry are recorded.
\<close>

record outbox_system =
  os_db :: outbox_db
  os_held :: "outbox_row list"
  os_sent :: "(outbox_row \<times> outcome) list"
  os_tokens :: "string set"
  os_history :: "(string \<times> outcome) list"
  os_retried :: "string set"

definition row_ids :: "outbox_db \<Rightarrow> string set" where
  "row_ids db = ob_id ` set (od_rows db)"

inductive outbox_step :: "outbox_system \<Rightarrow> outbox_system \<Rightarrow> bool" where
  enqueue: "row_id \<notin> row_ids (os_db s)
    \<Longrightarrow> outbox_step s (s\<lparr>os_db := fst (enqueue_outbox row_id now key event_type payload (os_db s))\<rparr>)"
| claim: "pending_outbox now token limit (os_db s) = (db, rows)
    \<Longrightarrow> inj_on token (row_ids (os_db s)) \<Longrightarrow> token ` row_ids (os_db s) \<inter> os_tokens s = {}
    \<Longrightarrow> outbox_step s (s\<lparr>os_db := db, os_held := os_held s @ rows, os_tokens := os_tokens s \<union> token ` row_ids (os_db s)\<rparr>)"
| suppress: "os_held s = xs @ event # ys \<Longrightarrow> ob_claim_token event = Some t
    \<Longrightarrow> mark_outbox_dead (ob_id event) t error_code (os_db s) = r
    \<Longrightarrow> outbox_step s (s\<lparr>os_db := case r of Inl e \<Rightarrow> os_db s | Inr db \<Rightarrow> db, os_held := xs @ ys\<rparr>)"
| send: "os_held s = xs @ event # ys
    \<Longrightarrow> outbox_step s (s\<lparr>os_held := xs @ ys, os_sent := os_sent s @ [(event, answer)], os_history := os_history s @ [(ob_id event, answer)]\<rparr>)"
| mark: "os_sent s = xs @ (event, answer) # ys \<Longrightarrow> ob_claim_token event = Some t
    \<Longrightarrow> mark_outcome report_date now event t answer (os_db s) = r
    \<Longrightarrow> outbox_step s (s\<lparr>os_db := case r of Inl e \<Rightarrow> os_db s | Inr db \<Rightarrow> db, os_sent := xs @ ys\<rparr>)"
| crash: "outbox_step s (s\<lparr>os_held := filter p (os_held s), os_sent := filter q (os_sent s)\<rparr>)"
| reconcile: "resolve_uncertain_outbox report_date now row_id action message_id (os_db s) = Inr db
    \<Longrightarrow> outbox_step s (s\<lparr>os_retried := (if action = ''retry'' then insert row_id (os_retried s) else os_retried s), os_db := db\<rparr>)"

definition outbox_start :: outbox_system where
  "outbox_start = \<lparr>os_db = \<lparr>od_rows = [], od_reports = []\<rparr>, os_held = [], os_sent = [], os_tokens = {}, os_history = [], os_retried = {}\<rparr>"

definition outbox_reach :: "outbox_system \<Rightarrow> bool" where
  "outbox_reach s \<longleftrightarrow> outbox_step\<^sup>*\<^sup>* outbox_start s"

text \<open>A send after which the message may have arrived.\<close>

definition maybe_delivered :: "outcome \<Rightarrow> bool" where
  "maybe_delivered r \<longleftrightarrow> (case r of Accepted _ \<Rightarrow> True | Unclear _ \<Rightarrow> True | _ \<Rightarrow> False)"

definition arrivals :: "string \<Rightarrow> outbox_system \<Rightarrow> (string \<times> outcome) list" where
  "arrivals k s = filter (\<lambda>(j, r). j = k \<and> maybe_delivered r) (os_history s)"

section \<open>Rows\<close>

lemma get_row_id: "get_row k db = Some r \<Longrightarrow> ob_id r = k"
  using find_Some_set [of "\<lambda>r. ob_id r = k"] by (auto simp: get_row_def)

lemma get_row_None: "get_row k db = None \<longleftrightarrow> k \<notin> row_ids db"
  by (auto simp: get_row_def row_ids_def find_None_iff)

lemma find_map_id:
  "(\<And>r. ob_id (f r) = ob_id r) \<Longrightarrow> find (\<lambda>r. ob_id r = k) (map f rows) = map_option f (find (\<lambda>r. ob_id r = k) rows)"
  by (induction rows) auto

lemma get_row_map: "(\<And>r. ob_id (f r) = ob_id r) \<Longrightarrow> get_row k (db\<lparr>od_rows := map f (od_rows db)\<rparr>) = map_option f (get_row k db)"
  by (simp add: get_row_def find_map_id)

lemma row_ids_map: "(\<And>r. ob_id (f r) = ob_id r) \<Longrightarrow> row_ids (db\<lparr>od_rows := map f (od_rows db)\<rparr>) = row_ids db"
  by (simp add: row_ids_def image_image)

lemma row_changes_id [simp]:
  "ob_id (expire_lease now r) = ob_id r" "ob_id (claim_row now t r) = ob_id r" "ob_id (delivered_row now m r) = ob_id r"
  "ob_id (failed_row now c r) = ob_id r" "ob_id (closed_row st c r) = ob_id r" "ob_id (retry_row now r) = ob_id r"
  by (simp_all add: expire_lease_def claim_row_def delivered_row_def failed_row_def closed_row_def retry_row_def release_def)

lemma get_row_update:
  assumes "\<And>r. ob_id (f r) = ob_id r"
  shows "get_row k (update_row j f db) = (if k = j then map_option f (get_row k db) else get_row k db)"
proof -
  have "get_row k (update_row j f db) = map_option (\<lambda>r. if ob_id r = j then f r else r) (get_row k db)"
    unfolding update_row_def using assms by (intro get_row_map) simp
  then show ?thesis using get_row_id [of k db] by (cases "get_row k db") auto
qed

definition ids_distinct :: "outbox_db \<Rightarrow> bool" where
  "ids_distinct db \<longleftrightarrow> distinct (map ob_id (od_rows db))"

lemma ids_distinct_map: "(\<And>r. ob_id (f r) = ob_id r) \<Longrightarrow> ids_distinct (db\<lparr>od_rows := map f (od_rows db)\<rparr>) = ids_distinct db"
  by (simp add: ids_distinct_def comp_def)

lemma stamp_report_rows [simp]: "od_rows (stamp_report key t m db) = od_rows db"
  by (auto simp: stamp_report_def split: option.split)

lemma get_row_stamp [simp]: "get_row k (stamp_report key t m db) = get_row k db"
  by (simp add: get_row_def)

section \<open>What the transactions do to a row\<close>

definition same_rows :: "(string \<Rightarrow> outbox_row \<Rightarrow> outbox_row) \<Rightarrow> outbox_db \<Rightarrow> outbox_db \<Rightarrow> bool" where
  "same_rows f db db' \<longleftrightarrow> row_ids db' = row_ids db \<and> (ids_distinct db \<longrightarrow> ids_distinct db')
     \<and> (\<forall>k. get_row k db' = map_option (f k) (get_row k db))"

lemma same_rows_update:
  assumes "\<And>r. ob_id (f r) = ob_id r"
  shows "same_rows (\<lambda>k. if k = j then f else id) db (update_row j f db)"
  using assms get_row_update [of f, OF assms] ids_distinct_map [of "\<lambda>r. if ob_id r = j then f r else r" db]
    row_ids_map [of "\<lambda>r. if ob_id r = j then f r else r" db]
  by (auto simp: same_rows_def update_row_def option.map_id)

text \<open>The row that the outcome of a send leaves behind.\<close>

definition marked :: "datetime \<Rightarrow> outcome \<Rightarrow> outbox_row \<Rightarrow> outbox_row" where
  "marked now answer = (case answer of Accepted m \<Rightarrow> delivered_row now m | Refused c \<Rightarrow> closed_row DEAD (ascii_upper c)
     | Rejected c \<Rightarrow> failed_row now (ascii_upper c) | Unclear c \<Rightarrow> closed_row UNCERTAIN (ascii_upper c))"

lemma with_claim_Inr:
  "with_claim k t f db = Inr db' \<longleftrightarrow> (\<exists>r. get_row k db = Some r \<and> validate_outbox_claim r t \<and> f r = Inr db')"
  by (auto simp: with_claim_def split: option.splits)

lemma mark_outcome_rows:
  assumes "mark_outcome report_date now event t answer db = Inr db'"
  shows "same_rows (\<lambda>k. if k = ob_id event then marked now answer else id) db db'"
    and "\<exists>r. get_row (ob_id event) db = Some r \<and> ob_delivery_state r = SENDING \<and> ob_claim_token r = Some t"
proof -
  obtain r where r: "get_row (ob_id event) db = Some r" "validate_outbox_claim r t"
    using assms by (cases answer) (auto simp: mark_outcome_def mark_outbox_delivered_def mark_outbox_dead_def
        mark_outbox_failed_def mark_outbox_uncertain_def with_claim_Inr)
  then show "\<exists>r. get_row (ob_id event) db = Some r \<and> ob_delivery_state r = SENDING \<and> ob_claim_token r = Some t"
    by (auto simp: validate_outbox_claim_def)
  have rid: "ob_id r = ob_id event" using get_row_id r(1) by blast
  have upd: "same_rows (\<lambda>k. if k = ob_id event then marked now answer else id) db (update_row (ob_id event) (marked now answer) db)"
    by (rule same_rows_update) (simp add: marked_def split: outcome.split)
  have "od_rows db' = od_rows (update_row (ob_id event) (marked now answer) db)"
    using assms r rid by (cases answer) (auto simp: mark_outcome_def mark_outbox_delivered_def mark_outbox_dead_def
        mark_outbox_failed_def mark_outbox_uncertain_def with_claim_Inr apply_outbox_delivery_def marked_def)
  with upd show "same_rows (\<lambda>k. if k = ob_id event then marked now answer else id) db db'"
    by (simp add: same_rows_def row_ids_def ids_distinct_def get_row_def)
qed

lemma mark_dead_rows:
  assumes "mark_outbox_dead row_id t error_code db = Inr db'"
  shows "same_rows (\<lambda>k. if k = row_id then closed_row DEAD error_code else id) db db'"
  using assms same_rows_update [of "closed_row DEAD error_code" row_id db] by (auto simp: mark_outbox_dead_def with_claim_Inr)

lemma resolve_rows:
  assumes "resolve_uncertain_outbox report_date now row_id action message_id db = Inr db'"
  shows "\<exists>f. same_rows (\<lambda>k. if k = row_id then f else id) db db'
      \<and> (\<forall>r. ob_attempts (f r) = ob_attempts r \<and> (action \<noteq> ''retry'' \<longrightarrow> ob_delivery_state (f r) \<in> {DELIVERED, DEAD}))"
    and "\<exists>r. get_row row_id db = Some r \<and> ob_delivery_state r = UNCERTAIN"
proof -
  obtain r where r: "get_row row_id db = Some r" "ob_delivery_state r = UNCERTAIN" and rid: "ob_id r = row_id"
    using assms by (auto simp: resolve_uncertain_outbox_def get_row_id split: if_splits option.splits)
  then show "\<exists>r. get_row row_id db = Some r \<and> ob_delivery_state r = UNCERTAIN" by blast
  let ?f = "if action = ''delivered'' then delivered_row now message_id else if action = ''retry'' then retry_row now
    else closed_row DEAD ''OPERATOR_CONFIRMED_DEAD''"
  have "od_rows db' = od_rows (update_row row_id ?f db)"
    using assms r rid by (auto simp: resolve_uncertain_outbox_def apply_outbox_delivery_def split: if_splits)
  moreover have "same_rows (\<lambda>k. if k = row_id then ?f else id) db (update_row row_id ?f db)"
    by (rule same_rows_update) simp
  ultimately have "same_rows (\<lambda>k. if k = row_id then ?f else id) db db'"
    by (simp add: same_rows_def row_ids_def ids_distinct_def get_row_def)
  moreover have "ob_attempts (?f r) = ob_attempts r \<and> (action \<noteq> ''retry'' \<longrightarrow> ob_delivery_state (?f r) \<in> {DELIVERED, DEAD})" for r
    by (simp add: delivered_row_def closed_row_def retry_row_def release_def)
  ultimately show "\<exists>f. same_rows (\<lambda>k. if k = row_id then f else id) db db'
      \<and> (\<forall>r. ob_attempts (f r) = ob_attempts r \<and> (action \<noteq> ''retry'' \<longrightarrow> ob_delivery_state (f r) \<in> {DELIVERED, DEAD}))"
    by blast
qed

lemma expire_cases:
  "expire_lease now r = r \<or> ob_delivery_state r = SENDING \<and> ob_delivery_state (expire_lease now r) = UNCERTAIN"
  by (simp add: expire_lease_def)

lemma claimable_expired: "claimable now (expire_lease now r) \<Longrightarrow> expire_lease now r = r \<and> ob_delivery_state r \<in> {PENDING, FAILED}"
  using expire_cases [of now r] by (auto simp: claimable_def)

lemma get_row_in:
  "ids_distinct db \<Longrightarrow> r \<in> set (od_rows db) \<Longrightarrow> get_row (ob_id r) db = Some r"
proof -
  assume d: "ids_distinct db" "r \<in> set (od_rows db)"
  then obtain q where q: "get_row (ob_id r) db = Some q"
    using get_row_None [of "ob_id r" db] by (cases "get_row (ob_id r) db") (auto simp: row_ids_def)
  then have "q \<in> set (od_rows db)" "ob_id q = ob_id r"
    using find_Some_set [of "\<lambda>x. ob_id x = ob_id r"] by (auto simp: get_row_def)
  with d have "q = r" unfolding ids_distinct_def by (metis distinct_map inj_onD)
  with q show ?thesis by simp
qed

lemma pending_rows:
  assumes "pending_outbox now token limit db = (db', rows)" "ids_distinct db"
  shows "same_rows (\<lambda>k r. if k \<in> ob_id ` set rows then claim_row now (token k) r else expire_lease now r) db db'"
    and "\<forall>e \<in> set rows. \<exists>r. get_row (ob_id e) db = Some r \<and> ob_delivery_state r \<in> {PENDING, FAILED} \<and> e = claim_row now (token (ob_id e)) r"
    and "distinct (map ob_id rows)"
proof -
  define exp where "exp = map (expire_lease now) (od_rows db)"
  define chosen where "chosen = chosen_rows now limit exp"
  let ?c = "\<lambda>r. claim_row now (token (ob_id r)) r"
  let ?f = "\<lambda>r. if ob_id r \<in> ob_id ` set chosen then ?c (expire_lease now r) else expire_lease now r"
  have db': "db' = db\<lparr>od_rows := map ?f (od_rows db)\<rparr>" and rows: "rows = map ?c chosen"
    using assms(1) by (auto simp: pending_outbox_def Let_def exp_def chosen_def)
  have ids: "ob_id ` set rows = ob_id ` set chosen" by (simp add: rows image_image)
  have sub: "set chosen \<subseteq> {x \<in> set exp. claimable now x}"
    unfolding chosen_def chosen_rows_def using set_take_subset by fastforce
  have chosen_row: "\<exists>r. r \<in> set (od_rows db) \<and> x = r \<and> ob_delivery_state r \<in> {PENDING, FAILED}" if "x \<in> set chosen" for x
    using that sub claimable_expired by (fastforce simp: exp_def)
  show "\<forall>e \<in> set rows. \<exists>r. get_row (ob_id e) db = Some r \<and> ob_delivery_state r \<in> {PENDING, FAILED} \<and> e = claim_row now (token (ob_id e)) r"
    using chosen_row get_row_in [OF assms(2)] by (fastforce simp: rows)
  have "distinct (map ob_id exp)" using assms(2) by (simp add: exp_def ids_distinct_def comp_def)
  then have "distinct (map ob_id (sort_key ob_created_at (filter (claimable now) exp)))"
    by (simp add: distinct_map inj_on_def)
  then show "distinct (map ob_id rows)"
    unfolding rows chosen_def chosen_rows_def by (simp add: comp_def take_map [symmetric] distinct_take)
  have eff: "?f r = (if k \<in> ob_id ` set rows then claim_row now (token k) r else expire_lease now r)" if "get_row k db = Some r" for k r
  proof (cases "k \<in> ob_id ` set chosen")
    case True
    then obtain x where x: "x \<in> set chosen" "ob_id x = k" by auto
    then have "x = r" using chosen_row [OF x(1)] get_row_in [OF assms(2)] that by fastforce
    then have "expire_lease now r = r" using chosen_row [OF x(1)] by (auto simp: expire_lease_def)
    with True that get_row_id show ?thesis by (auto simp: ids)
  next
    case False
    with that get_row_id show ?thesis by (auto simp: ids)
  qed
  have "get_row k db' = map_option ?f (get_row k db)" for k unfolding db' by (intro get_row_map) simp
  with eff have "get_row k db' = map_option (\<lambda>r. if k \<in> ob_id ` set rows then claim_row now (token k) r else expire_lease now r) (get_row k db)" for k
    by (cases "get_row k db") auto
  then show "same_rows (\<lambda>k r. if k \<in> ob_id ` set rows then claim_row now (token k) r else expire_lease now r) db db'"
    using ids_distinct_map [of ?f db] row_ids_map [of ?f db] by (simp add: same_rows_def db')
qed

section \<open>The invariant\<close>

definition settled :: "outbox_row \<Rightarrow> bool" where
  "settled r \<longleftrightarrow> ob_delivery_state r \<in> {UNCERTAIN, DELIVERED, DEAD}"

definition held_by :: "string \<Rightarrow> outbox_system \<Rightarrow> outbox_row list" where
  "held_by k s = filter (\<lambda>e. ob_id e = k) (os_held s)"

definition sent_by :: "string \<Rightarrow> outbox_system \<Rightarrow> (outbox_row \<times> outcome) list" where
  "sent_by k s = filter (\<lambda>x. ob_id (fst x) = k) (os_sent s)"

text \<open>For a row the operator has not released: who may still send it, and what was sent.\<close>

definition row_fine :: "outbox_row list \<Rightarrow> (string \<times> outcome) list \<Rightarrow> (outbox_row \<times> outcome) list \<Rightarrow> outbox_row \<Rightarrow> bool" where
  "row_fine held arrived sent r \<longleftrightarrow>
     length held \<le> 1 \<and>
     (\<forall>e \<in> set held. arrived = [] \<and> (settled r \<or> ob_delivery_state r = SENDING \<and> ob_claim_token r = ob_claim_token e)) \<and>
     length arrived \<le> 1 \<and>
     (arrived \<noteq> [] \<longrightarrow> settled r \<or> ob_delivery_state r = SENDING
        \<and> (\<forall>x \<in> set sent. ob_claim_token (fst x) = ob_claim_token r \<longrightarrow> maybe_delivered (snd x))) \<and>
     (ob_delivery_state r \<in> {PENDING, FAILED} \<longrightarrow> ob_attempts r < MAX_ATTEMPTS) \<and> ob_attempts r \<le> MAX_ATTEMPTS"

definition tokens_ok :: "outbox_system \<Rightarrow> bool" where
  "tokens_ok s \<longleftrightarrow> distinct (map ob_claim_token (os_held s @ map fst (os_sent s)))
     \<and> (\<forall>e \<in> set (os_held s @ map fst (os_sent s)). ob_id e \<in> row_ids (os_db s) \<and> ob_claim_token e \<in> Some ` os_tokens s)
     \<and> fst ` set (os_history s) \<subseteq> row_ids (os_db s)"

definition outbox_ok :: "outbox_system \<Rightarrow> bool" where
  "outbox_ok s \<longleftrightarrow> ids_distinct (os_db s) \<and> tokens_ok s
     \<and> (\<forall>k r. k \<notin> os_retried s \<longrightarrow> get_row k (os_db s) = Some r \<longrightarrow> row_fine (held_by k s) (arrivals k s) (sent_by k s) r)"

lemma outbox_okI:
  assumes "ids_distinct (os_db s)" "tokens_ok s"
    "\<And>k r. k \<notin> os_retried s \<Longrightarrow> get_row k (os_db s) = Some r \<Longrightarrow> row_fine (held_by k s) (arrivals k s) (sent_by k s) r"
  shows "outbox_ok s"
  using assms by (simp add: outbox_ok_def)

lemma outbox_okD:
  assumes "outbox_ok s"
  shows "ids_distinct (os_db s)" "tokens_ok s"
    "k \<notin> os_retried s \<Longrightarrow> get_row k (os_db s) = Some r \<Longrightarrow> row_fine (held_by k s) (arrivals k s) (sent_by k s) r"
  using assms by (auto simp: outbox_ok_def)

text \<open>A settled row stays fine whatever the workers drop, and any row when they only drop something.\<close>

lemma row_fine_settled:
  "row_fine held arrived sent r \<Longrightarrow> settled r' \<Longrightarrow> ob_attempts r' \<le> MAX_ATTEMPTS \<Longrightarrow> length held' \<le> length held
    \<Longrightarrow> set held' \<subseteq> set held \<Longrightarrow> row_fine held' arrived sent' r'"
  by (auto simp: row_fine_def settled_def)

lemma row_fine_less:
  "row_fine held arrived sent r \<Longrightarrow> length held' \<le> length held \<Longrightarrow> set held' \<subseteq> set held \<Longrightarrow> set sent' \<subseteq> set sent
    \<Longrightarrow> row_fine held' arrived sent' r"
  unfolding row_fine_def by (meson le_trans subsetD)

lemma row_fine_expire: "row_fine held arrived sent r \<Longrightarrow> row_fine held arrived sent (expire_lease now r)"
  using expire_cases [of now r] row_fine_settled [of held arrived sent r "expire_lease now r" held sent]
  by (auto simp: settled_def row_fine_def expire_lease_def)

lemma row_fine_waiting:
  "row_fine held arrived sent r \<Longrightarrow> ob_delivery_state r \<in> {PENDING, FAILED} \<Longrightarrow> held = [] \<and> arrived = [] \<and> ob_attempts r < MAX_ATTEMPTS"
  by (cases held) (auto simp: row_fine_def settled_def)

lemma distinct_filter_one:
  "distinct (map f xs) \<Longrightarrow> x \<in> set xs \<Longrightarrow> f x = k \<Longrightarrow> filter (\<lambda>y. f y = k) xs = [x]"
  by (induction xs) (auto simp: filter_empty_conv, metis image_eqI)

lemma same_rowsD:
  assumes "same_rows f db db'" "get_row k db' = Some r'"
  shows "\<exists>r. get_row k db = Some r \<and> r' = f k r"
  using assms by (auto simp: same_rows_def)

section \<open>Every step keeps it\<close>

lemma find_app: "find p (xs @ ys) = (case find p xs of None \<Rightarrow> find p ys | Some x \<Rightarrow> Some x)"
  by (induction xs) auto

lemma enqueue_ok:
  assumes "outbox_ok s" "row_id \<notin> row_ids (os_db s)"
  shows "outbox_ok (s\<lparr>os_db := fst (enqueue_outbox row_id now key event_type payload (os_db s))\<rparr>)"
proof (cases "list_ex (\<lambda>r. ob_idempotency_key r = key) (od_rows (os_db s))")
  case True
  then show ?thesis using assms by (simp add: enqueue_outbox_def insert_outbox_def new_outbox_row_def)
next
  case False
  let ?row = "new_outbox_row row_id key event_type payload now"
  let ?db = "(os_db s)\<lparr>od_rows := od_rows (os_db s) @ [?row]\<rparr>"
  have rid: "ob_id ?row = row_id" by (simp add: new_outbox_row_def)
  have eq: "fst (enqueue_outbox row_id now key event_type payload (os_db s)) = ?db"
    using False by (simp add: enqueue_outbox_def insert_outbox_def new_outbox_row_def)
  have ids: "row_ids ?db = insert row_id (row_ids (os_db s))" by (auto simp: row_ids_def rid)
  have get: "get_row k ?db = (if k = row_id then Some ?row else get_row k (os_db s))" for k
    using get_row_None [of row_id "os_db s"] assms(2) rid
    by (auto simp: get_row_def find_app split: option.split)
  show ?thesis unfolding eq
  proof (rule outbox_okI)
    show "ids_distinct (os_db (s\<lparr>os_db := ?db\<rparr>))"
      using outbox_okD(1) [OF assms(1)] assms(2) rid by (auto simp: ids_distinct_def row_ids_def)
    show "tokens_ok (s\<lparr>os_db := ?db\<rparr>)"
      using outbox_okD(2) [OF assms(1)] ids by (auto simp: tokens_ok_def)
  next
    fix k r assume k: "k \<notin> os_retried (s\<lparr>os_db := ?db\<rparr>)" and r: "get_row k (os_db (s\<lparr>os_db := ?db\<rparr>)) = Some r"
    have same: "held_by k (s\<lparr>os_db := ?db\<rparr>) = held_by k s" "arrivals k (s\<lparr>os_db := ?db\<rparr>) = arrivals k s"
      "sent_by k (s\<lparr>os_db := ?db\<rparr>) = sent_by k s" by (simp_all add: held_by_def arrivals_def sent_by_def)
    show "row_fine (held_by k (s\<lparr>os_db := ?db\<rparr>)) (arrivals k (s\<lparr>os_db := ?db\<rparr>)) (sent_by k (s\<lparr>os_db := ?db\<rparr>)) r"
    proof (cases "k = row_id")
      case True
      have "held_by k s = []" "arrivals k s = []"
        using outbox_okD(2) [OF assms(1)] assms(2) True
        by (force simp: tokens_ok_def held_by_def arrivals_def filter_empty_conv)+
      moreover have "r = ?row" using r get [of k] True by simp
      ultimately show ?thesis unfolding same
        by (simp add: row_fine_def new_outbox_row_def MAX_ATTEMPTS_def)
    next
      case False
      then show ?thesis unfolding same using outbox_okD(3) [OF assms(1)] k r get by simp
    qed
  qed
qed

lemma tokens_claim:
  assumes t: "tokens_ok s" and d: "distinct (map ob_claim_token rows)"
    and row: "\<And>e. e \<in> set rows \<Longrightarrow> ob_id e \<in> row_ids (os_db s) \<and> ob_claim_token e \<in> Some ` new"
    and fresh: "new \<inter> os_tokens s = {}" and ids: "row_ids db = row_ids (os_db s)"
  shows "tokens_ok (s\<lparr>os_db := db, os_held := os_held s @ rows, os_tokens := os_tokens s \<union> new\<rparr>)"
proof -
  let ?used = "ob_claim_token ` set (os_held s @ map fst (os_sent s))"
  have old: "\<forall>e \<in> set (os_held s @ map fst (os_sent s)). ob_id e \<in> row_ids (os_db s) \<and> ob_claim_token e \<in> Some ` os_tokens s"
    using t unfolding tokens_ok_def by (elim conjE)
  have "Some ` os_tokens s \<inter> Some ` new = {}" using fresh by auto
  moreover have "?used \<subseteq> Some ` os_tokens s" by (rule image_subsetI) (use old in blast)
  moreover have "ob_claim_token ` set rows \<subseteq> Some ` new" by (rule image_subsetI) (use row in blast)
  ultimately have "?used \<inter> ob_claim_token ` set rows = {}" by (meson disjoint_iff subsetD)
  moreover have "distinct (map ob_claim_token (os_held s @ map fst (os_sent s)))" using t by (simp add: tokens_ok_def)
  ultimately have one: "distinct (map ob_claim_token ((os_held s @ rows) @ map fst (os_sent s)))"
    using d by (simp only: map_append distinct_append set_append set_map image_Un Int_Un_distrib Int_Un_distrib2 Un_empty) (simp add: Int_commute)
  have two: "ob_id e \<in> row_ids db \<and> ob_claim_token e \<in> Some ` (os_tokens s \<union> new)"
    if "e \<in> set ((os_held s @ rows) @ map fst (os_sent s))" for e
  proof (cases "e \<in> set rows")
    case True
    with row [of e] ids show ?thesis by auto
  next
    case False
    with that have "e \<in> set (os_held s @ map fst (os_sent s))" by simp
    with old have "ob_id e \<in> row_ids (os_db s) \<and> ob_claim_token e \<in> Some ` os_tokens s" by blast
    with ids show ?thesis by auto
  qed
  have three: "fst ` set (os_history s) \<subseteq> row_ids db" using t by (simp add: tokens_ok_def ids)
  show ?thesis unfolding tokens_ok_def using one two three by simp
qed

lemma claim_ok:
  assumes ok: "outbox_ok s" and pend: "pending_outbox now token limit (os_db s) = (db, rows)"
    and inj: "inj_on token (row_ids (os_db s))" and fresh: "token ` row_ids (os_db s) \<inter> os_tokens s = {}"
  shows "outbox_ok (s\<lparr>os_db := db, os_held := os_held s @ rows, os_tokens := os_tokens s \<union> token ` row_ids (os_db s)\<rparr>)"
    (is "outbox_ok ?s")
proof (rule outbox_okI)
  note p = pending_rows [OF pend outbox_okD(1) [OF ok]]
  have ids: "row_ids db = row_ids (os_db s)" and dist: "ids_distinct db"
    using p(1) outbox_okD(1) [OF ok] by (simp_all add: same_rows_def)
  have row: "ob_id e \<in> row_ids (os_db s) \<and> ob_claim_token e = Some (token (ob_id e))" if e: "e \<in> set rows" for e
  proof -
    obtain r where r: "get_row (ob_id e) (os_db s) = Some r" "e = claim_row now (token (ob_id e)) r"
      using bspec [OF p(2) e] by (elim exE conjE)
    have "ob_claim_token (claim_row now (token (ob_id e)) r) = Some (token (ob_id e))" by (simp add: claim_row_def)
    then have "ob_claim_token e = Some (token (ob_id e))" unfolding r(2) [symmetric] .
    moreover have "ob_id e \<in> row_ids (os_db s)" using r(1) get_row_None [of "ob_id e" "os_db s"] by simp
    ultimately show ?thesis by blast
  qed
  show "ids_distinct (os_db ?s)" using dist by simp
  have eq: "map ob_claim_token rows = map (Some \<circ> token) (map ob_id rows)" using row by simp
  moreover have "inj_on (Some \<circ> token) (set (map ob_id rows))"
    using inj row by (auto simp: inj_on_def)
  ultimately have d: "distinct (map ob_claim_token rows)" unfolding eq using p(3) distinct_map by blast
  show "tokens_ok ?s"
    by (rule tokens_claim [OF outbox_okD(2) [OF ok] d _ fresh ids]) (use row in blast)
next
  note p = pending_rows [OF pend outbox_okD(1) [OF ok]]
  fix k r' assume k: "k \<notin> os_retried ?s" and r': "get_row k (os_db ?s) = Some r'"
  then obtain r where r: "get_row k (os_db s) = Some r"
    and eq: "r' = (if k \<in> ob_id ` set rows then claim_row now (token k) r else expire_lease now r)"
    using same_rowsD [OF p(1), of k r'] by auto
  have fine: "row_fine (held_by k s) (arrivals k s) (sent_by k s) r" using outbox_okD(3) [OF ok] k r by simp
  have parts: "held_by k ?s = held_by k s @ filter (\<lambda>e. ob_id e = k) rows" "arrivals k ?s = arrivals k s" "sent_by k ?s = sent_by k s"
    by (simp_all add: held_by_def arrivals_def sent_by_def)
  show "row_fine (held_by k ?s) (arrivals k ?s) (sent_by k ?s) r'"
  proof (cases "k \<in> ob_id ` set rows")
    case True
    then obtain e where e: "e \<in> set rows" "ob_id e = k" by auto
    obtain q where "get_row k (os_db s) = Some q" "ob_delivery_state q \<in> {PENDING, FAILED}" "e = claim_row now (token k) q"
      using bspec [OF p(2) e(1)] unfolding e(2) by (elim exE conjE)
    with r have st: "ob_delivery_state r \<in> {PENDING, FAILED}" "e = claim_row now (token k) r" by (simp_all del: insert_iff)
    have "filter (\<lambda>e. ob_id e = k) rows = [e]"
      by (rule distinct_filter_one [OF p(3) e])
    with row_fine_waiting [OF fine st(1)] True eq st(2) show ?thesis
      unfolding parts by (simp add: row_fine_def claim_row_def)
  next
    case False
    then have "filter (\<lambda>e. ob_id e = k) rows = []" by (auto simp: filter_empty_conv)
    with False eq row_fine_expire [OF fine] show ?thesis unfolding parts by simp
  qed
qed

text \<open>Workers may drop what they hold.\<close>

lemma subseq_distinct: "subseq xs ys \<Longrightarrow> distinct ys \<Longrightarrow> distinct xs"
  by (auto simp: subseq_conv_nths distinct_nthsI)

lemma subseq_set: "subseq xs ys \<Longrightarrow> set xs \<subseteq> set ys"
  by (auto simp: subseq_conv_nths dest: in_set_nthsD)

lemma subseq_drop_one: "subseq (xs @ ys) (xs @ x # ys)"
  unfolding subseq_append' by (rule list_emb_Cons) simp

lemma tokens_drop:
  assumes t: "tokens_ok s" and ids: "row_ids db = row_ids (os_db s)"
    and sub: "subseq held (os_held s)" "subseq sent (os_sent s)"
  shows "tokens_ok (s\<lparr>os_db := db, os_held := held, os_sent := sent\<rparr>)"
proof -
  have sub2: "subseq (held @ map fst sent) (os_held s @ map fst (os_sent s))"
    using sub by (intro list_emb_append_mono subseq_map)
  have "distinct (map ob_claim_token (held @ map fst sent))"
    by (rule subseq_distinct [OF subseq_map [OF sub2]]) (use t in \<open>simp add: tokens_ok_def\<close>)
  moreover have "\<forall>e \<in> set (held @ map fst sent). ob_id e \<in> row_ids db \<and> ob_claim_token e \<in> Some ` os_tokens s"
    using t subseq_set [OF sub2] unfolding tokens_ok_def ids by blast
  moreover have "fst ` set (os_history s) \<subseteq> row_ids db" using t by (simp add: tokens_ok_def ids)
  ultimately show ?thesis by (simp add: tokens_ok_def)
qed

lemma dropped_ok:
  assumes ok: "outbox_ok s" and rows: "same_rows (\<lambda>k. if k = j then f else id) (os_db s) db"
    and sub: "subseq held (os_held s)" "subseq sent (os_sent s)"
    and f: "\<And>r. j \<notin> os_retried s \<Longrightarrow> get_row j (os_db s) = Some r
      \<Longrightarrow> row_fine (held_by j s) (arrivals j s) (sent_by j s) r \<Longrightarrow> row_fine (held_by j s) (arrivals j s) (sent_by j s) (f r)"
  shows "outbox_ok (s\<lparr>os_db := db, os_held := held, os_sent := sent\<rparr>)" (is "outbox_ok ?s")
proof (rule outbox_okI)
  have h: "subseq (held_by k ?s) (held_by k s)" "subseq (sent_by k ?s) (sent_by k s)" for k
    using sub by (simp_all add: held_by_def sent_by_def)
  have less: "length (held_by k ?s) \<le> length (held_by k s)" "set (held_by k ?s) \<subseteq> set (held_by k s)" "set (sent_by k ?s) \<subseteq> set (sent_by k s)" for k
    using list_emb_length [OF h(1)] subseq_set [OF h(1)] subseq_set [OF h(2)] by blast+
  show "ids_distinct (os_db ?s)" using outbox_okD(1) [OF ok] rows by (simp add: same_rows_def)
  show "tokens_ok ?s" by (rule tokens_drop [OF outbox_okD(2) [OF ok] _ sub]) (use rows in \<open>simp add: same_rows_def\<close>)
  fix k r' assume k: "k \<notin> os_retried ?s" and "get_row k (os_db ?s) = Some r'"
  then obtain r where r: "get_row k (os_db s) = Some r" and r': "r' = (if k = j then f else id) r"
    using same_rowsD [OF rows, of k r'] by auto
  have "row_fine (held_by k s) (arrivals k s) (sent_by k s) r" using outbox_okD(3) [OF ok] k r by simp
  then have "row_fine (held_by k s) (arrivals k s) (sent_by k s) r'" using f r r' k by (cases "k = j") auto
  moreover have "arrivals k ?s = arrivals k s" by (simp add: arrivals_def)
  ultimately show "row_fine (held_by k ?s) (arrivals k ?s) (sent_by k ?s) r'" using row_fine_less [OF _ less] by metis
qed

lemma same_rows_refl: "same_rows (\<lambda>k. if k = j then id else id) db db"
  by (simp add: same_rows_def option.map_id)

lemma drop_only_ok:
  assumes "outbox_ok s" "subseq held (os_held s)" "subseq sent (os_sent s)"
  shows "outbox_ok (s\<lparr>os_held := held, os_sent := sent\<rparr>)"
  using dropped_ok [OF assms(1) same_rows_refl assms(2,3)] by simp

lemma row_fine_closed:
  "row_fine held arrived sent r \<Longrightarrow> settled r' \<Longrightarrow> ob_attempts r' = ob_attempts r \<Longrightarrow> row_fine held arrived sent r'"
  by (rule row_fine_settled [of held arrived sent r]) (simp_all, simp add: row_fine_def)

lemma suppress_ok:
  assumes "outbox_ok s" "os_held s = xs @ event # ys" "mark_outbox_dead (ob_id event) t error_code (os_db s) = r"
  shows "outbox_ok (s\<lparr>os_db := case r of Inl e \<Rightarrow> os_db s | Inr db \<Rightarrow> db, os_held := xs @ ys\<rparr>)"
proof (cases r)
  case (Inl e)
  then show ?thesis using drop_only_ok [OF assms(1), of "xs @ ys" "os_sent s"] assms(2) by (simp add: subseq_drop_one)
next
  case (Inr db)
  have "outbox_ok (s\<lparr>os_db := db, os_held := xs @ ys, os_sent := os_sent s\<rparr>)"
  proof (rule dropped_ok [OF assms(1) mark_dead_rows])
    show "mark_outbox_dead (ob_id event) t error_code (os_db s) = Inr db" using assms(3) Inr by simp
  qed (use assms(2) in \<open>auto simp: subseq_drop_one closed_row_def release_def settled_def intro: row_fine_closed\<close>)
  then show ?thesis using Inr by simp
qed

lemma send_ok:
  assumes ok: "outbox_ok s" and held: "os_held s = xs @ event # ys"
  shows "outbox_ok (s\<lparr>os_held := xs @ ys, os_sent := os_sent s @ [(event, answer)], os_history := os_history s @ [(ob_id event, answer)]\<rparr>)"
    (is "outbox_ok ?s")
proof (rule outbox_okI)
  have t: "tokens_ok s" by (rule outbox_okD(2) [OF ok])
  show "ids_distinct (os_db ?s)" using outbox_okD(1) [OF ok] by simp
  show "tokens_ok ?s" using t held by (auto simp: tokens_ok_def)
  fix k r assume k: "k \<notin> os_retried ?s" and r: "get_row k (os_db ?s) = Some r"
  have fine: "row_fine (held_by k s) (arrivals k s) (sent_by k s) r" using outbox_okD(3) [OF ok] k r by simp
  show "row_fine (held_by k ?s) (arrivals k ?s) (sent_by k ?s) r"
  proof (cases "k = ob_id event")
    case False
    then have "held_by k ?s = held_by k s" "arrivals k ?s = arrivals k s" "sent_by k ?s = sent_by k s"
      using held by (simp_all add: held_by_def arrivals_def sent_by_def)
    with fine show ?thesis by simp
  next
    case True
    have h: "held_by k s = filter (\<lambda>e. ob_id e = k) xs @ event # filter (\<lambda>e. ob_id e = k) ys"
      using held True by (simp add: held_by_def)
    have none: "held_by k ?s = []" using fine h by (simp add: row_fine_def held_by_def)
    have arr: "arrivals k s = []" "settled r \<or> ob_delivery_state r = SENDING \<and> ob_claim_token r = ob_claim_token event"
      using fine unfolding row_fine_def h by auto
    have other: "ob_claim_token (fst x) \<noteq> ob_claim_token event" if "x \<in> set (os_sent s)" for x
    proof -
      have "ob_claim_token event \<notin> ob_claim_token ` set (map fst (os_sent s))" using t unfolding tokens_ok_def held by (simp add: image_image)
      moreover have "fst x \<in> set (map fst (os_sent s))" using that by simp
      ultimately show ?thesis by (metis imageI)
    qed
    have "arrivals k ?s = (if maybe_delivered answer then [(k, answer)] else [])"
      using arr(1) True by (simp add: arrivals_def)
    moreover have "sent_by k ?s = sent_by k s @ [(event, answer)]" using True by (simp add: sent_by_def)
    moreover have "set (sent_by k s) \<subseteq> set (os_sent s)" by (auto simp: sent_by_def)
    ultimately show ?thesis using fine arr none other by (auto simp: row_fine_def)
  qed
qed

text \<open>A rejected send is recorded only when nothing arrived under the claim and nobody else holds the row.\<close>

lemma rejected_fine:
  assumes ok: "outbox_ok s" and sent: "os_sent s = xs @ (event, Rejected c) # ys" and t: "ob_claim_token event = Some t"
    and r: "ob_delivery_state r = SENDING" "ob_claim_token r = Some t"
    and fine: "row_fine (held_by (ob_id event) s) (arrivals (ob_id event) s) (sent_by (ob_id event) s) r"
  shows "row_fine (held_by (ob_id event) s) (arrivals (ob_id event) s) (sent_by (ob_id event) s) (failed_row now c' r)"
proof -
  have "(event, Rejected c) \<in> set (sent_by (ob_id event) s)" using sent by (simp add: sent_by_def)
  then have a: "arrivals (ob_id event) s = []"
    using fine r t by (fastforce simp: row_fine_def settled_def maybe_delivered_def)
  have "ob_claim_token event \<notin> ob_claim_token ` set (os_held s)"
    using outbox_okD(2) [OF ok] unfolding tokens_ok_def sent by auto
  then have "held_by (ob_id event) s = []"
    using fine r t by (fastforce simp: row_fine_def settled_def held_by_def filter_empty_conv)
  with a fine show ?thesis by (auto simp: row_fine_def failed_row_def release_def)
qed

lemma marked_settled:
  "(\<And>c. answer \<noteq> Rejected c) \<Longrightarrow> settled (marked now answer r) \<and> ob_attempts (marked now answer r) = ob_attempts r"
  by (cases answer) (auto simp: marked_def settled_def delivered_row_def closed_row_def release_def)

lemma mark_ok:
  assumes ok: "outbox_ok s" and sent: "os_sent s = xs @ (event, answer) # ys" and t: "ob_claim_token event = Some t"
    and m: "mark_outcome report_date now event t answer (os_db s) = r"
  shows "outbox_ok (s\<lparr>os_db := case r of Inl e \<Rightarrow> os_db s | Inr db \<Rightarrow> db, os_sent := xs @ ys\<rparr>)"
proof (cases r)
  case (Inl e)
  then show ?thesis using drop_only_ok [OF ok, of "os_held s" "xs @ ys"] sent by (simp add: subseq_drop_one)
next
  case (Inr db)
  note rows = mark_outcome_rows [OF m [unfolded Inr]]
  have "outbox_ok (s\<lparr>os_db := db, os_held := os_held s, os_sent := xs @ ys\<rparr>)"
  proof (rule dropped_ok [OF ok rows(1)])
    fix q assume q: "get_row (ob_id event) (os_db s) = Some q"
      and fine: "row_fine (held_by (ob_id event) s) (arrivals (ob_id event) s) (sent_by (ob_id event) s) q"
    have st: "ob_delivery_state q = SENDING" "ob_claim_token q = Some t" using rows(2) q by auto
    show "row_fine (held_by (ob_id event) s) (arrivals (ob_id event) s) (sent_by (ob_id event) s) (marked now answer q)"
    proof (cases "\<exists>c. answer = Rejected c")
      case True
      then obtain c where c: "answer = Rejected c" by blast
      with rejected_fine [OF ok _ t st fine] sent show ?thesis by (simp add: marked_def)
    next
      case False
      with marked_settled [of answer now q] show ?thesis by (intro row_fine_closed [OF fine]) auto
    qed
  qed (use sent in \<open>simp_all add: subseq_drop_one\<close>)
  then show ?thesis using Inr by simp
qed

lemma retried_ok: "outbox_ok s \<Longrightarrow> os_retried s \<subseteq> R \<Longrightarrow> outbox_ok (s\<lparr>os_retried := R\<rparr>)"
  by (auto simp: outbox_ok_def tokens_ok_def held_by_def arrivals_def sent_by_def)

lemma reconcile_ok:
  assumes ok: "outbox_ok s" and res: "resolve_uncertain_outbox report_date now row_id action message_id (os_db s) = Inr db"
  shows "outbox_ok (s\<lparr>os_retried := (if action = ''retry'' then insert row_id (os_retried s) else os_retried s), os_db := db\<rparr>)"
    (is "outbox_ok (s\<lparr>os_retried := ?R, os_db := db\<rparr>)")
proof -
  obtain f where rows: "same_rows (\<lambda>k. if k = row_id then f else id) (os_db s) db"
    and f: "\<And>r. ob_attempts (f r) = ob_attempts r" "\<And>r. action \<noteq> ''retry'' \<Longrightarrow> ob_delivery_state (f r) \<in> {DELIVERED, DEAD}"
    using resolve_rows(1) [OF res] by blast
  let ?s = "s\<lparr>os_retried := ?R\<rparr>"
  have "outbox_ok ?s" by (rule retried_ok [OF ok]) auto
  then have "outbox_ok (?s\<lparr>os_db := db, os_held := os_held s, os_sent := os_sent s\<rparr>)"
  proof (rule dropped_ok)
    show "same_rows (\<lambda>k. if k = row_id then f else id) (os_db ?s) db" using rows by simp
    fix r assume "row_id \<notin> os_retried ?s"
      and fine: "row_fine (held_by row_id ?s) (arrivals row_id ?s) (sent_by row_id ?s) r"
    then have "settled (f r)" using f(2) [of r] by (auto simp: settled_def split: if_splits)
    then show "row_fine (held_by row_id ?s) (arrivals row_id ?s) (sent_by row_id ?s) (f r)"
      using f(1) by (intro row_fine_closed [OF fine]) auto
  qed simp_all
  then show ?thesis by (simp split del: if_split)
qed

lemma step_ok: "outbox_step s s' \<Longrightarrow> outbox_ok s \<Longrightarrow> outbox_ok s'"
  by (induction rule: outbox_step.induct)
    (blast intro: enqueue_ok claim_ok suppress_ok send_ok mark_ok reconcile_ok drop_only_ok subseq_filter_left)+

lemma reach_ok: "outbox_reach s \<Longrightarrow> outbox_ok s"
proof -
  have "outbox_ok outbox_start" by (simp add: outbox_ok_def outbox_start_def tokens_ok_def ids_distinct_def get_row_def)
  moreover have "outbox_step\<^sup>*\<^sup>* outbox_start s \<Longrightarrow> outbox_ok outbox_start \<Longrightarrow> outbox_ok s"
    by (induction rule: rtranclp_induct) (auto intro: step_ok)
  ultimately show "outbox_reach s \<Longrightarrow> outbox_ok s" by (simp add: outbox_reach_def)
qed

lemma reach_arrivals:
  assumes "outbox_reach s" "k \<notin> os_retried s"
  shows "length (arrivals k s) \<le> 1"
proof (cases "get_row k (os_db s)")
  case None
  then have "arrivals k s = []"
    using outbox_okD(2) [OF reach_ok [OF assms(1)]] by (force simp: get_row_None tokens_ok_def arrivals_def filter_empty_conv)
  then show ?thesis by simp
next
  case (Some r)
  from outbox_okD(3) [OF reach_ok [OF assms(1)] assms(2) Some] show ?thesis by (simp add: row_fine_def)
qed

section \<open>The worker is a run of the system\<close>

text \<open>One event: the worker suppresses it, or sends it and marks the outcome.\<close>

lemma deliver_event_run:
  assumes run: "deliver_event report_date now allowed notifier event (os_db s) = (db, res)"
    and held: "os_held s = event # rest" and sent: "os_sent s = []"
  shows "\<exists>s'. outbox_step\<^sup>*\<^sup>* s s' \<and> os_db s' = db \<and> os_retried s' = os_retried s
    \<and> (\<forall>ok. res = Inr ok \<longrightarrow> os_held s' = rest \<and> os_sent s' = [])"
proof (cases "ob_claim_token event")
  case None
  then have "db = os_db s" "\<And>ok. res \<noteq> Inr ok" using run by (auto simp: deliver_event_def mraise_def)
  then show ?thesis by blast
next
  case (Some t)
  show ?thesis
  proof (cases "suppressed allowed event")
    case (Inl e)
    then have "db = os_db s" "\<And>ok. res \<noteq> Inr ok" using run Some by (auto simp: deliver_event_def mbind_def mlift_def)
    then show ?thesis by blast
  next
    case (Inr code)
    show ?thesis
    proof (cases code)
      case (Some error_code)
      let ?r = "mark_outbox_dead (ob_id event) t error_code (os_db s)"
      have "db = (case ?r of Inl e \<Rightarrow> os_db s | Inr db \<Rightarrow> db)"
        using run \<open>ob_claim_token event = Some t\<close> Inr Some by (auto simp: deliver_event_def mbind_def mlift_def split: sum.splits)
      moreover have "outbox_step s (s\<lparr>os_db := case ?r of Inl e \<Rightarrow> os_db s | Inr db \<Rightarrow> db, os_held := [] @ rest\<rparr>)" (is "outbox_step s ?s")
        by (rule outbox_step.suppress) (use held \<open>ob_claim_token event = Some t\<close> in auto)
      ultimately show ?thesis using sent by (intro exI [of _ ?s]) auto
    next
      case None
      then obtain body where body: "message_text (ob_payload event) = Inr body"
        using Inr by (cases "message_text (ob_payload event)") (auto simp: suppressed_def split: if_splits)
      define answer where "answer = send_message notifier (field_or_null (case ob_payload event of JObj d \<Rightarrow> d | _ \<Rightarrow> []) ''chat_id'') body"
      let ?r = "mark_outcome report_date now event t answer (os_db s)"
      let ?s = "s\<lparr>os_held := [] @ rest, os_sent := os_sent s @ [(event, answer)], os_history := os_history s @ [(ob_id event, answer)]\<rparr>"
      have "db = (case ?r of Inl e \<Rightarrow> os_db s | Inr db \<Rightarrow> db)"
        using run \<open>ob_claim_token event = Some t\<close> Inr None body
        by (auto simp: deliver_event_def mbind_def mlift_def Let_def answer_def [symmetric] split: sum.splits)
      moreover have "outbox_step s ?s" by (rule outbox_step.send) (simp add: held)
      moreover have "outbox_step ?s (?s\<lparr>os_db := case ?r of Inl e \<Rightarrow> os_db ?s | Inr db \<Rightarrow> db, os_sent := [] @ []\<rparr>)"
        (is "outbox_step _ ?s'")
        by (rule outbox_step.mark [where event = event and answer = answer]) (use sent \<open>ob_claim_token event = Some t\<close> in auto)
      moreover have "outbox_step\<^sup>*\<^sup>* s ?s'" using calculation(2,3) by (meson converse_rtranclp_into_rtranclp r_into_rtranclp)
      ultimately show ?thesis using sent by (intro exI [of _ ?s']) (auto split: sum.splits)
    qed
  qed
qed

lemma deliver_events_run:
  "deliver_events report_date now allowed notifier events n (os_db s) = (db, res) \<Longrightarrow> os_held s = events \<Longrightarrow> os_sent s = []
    \<Longrightarrow> \<exists>s'. outbox_step\<^sup>*\<^sup>* s s' \<and> os_db s' = db \<and> os_retried s' = os_retried s"
proof (induction events arbitrary: s n)
  case Nil
  then show ?case by (auto simp: mret_def)
next
  case (Cons event rest)
  obtain db1 r1 where one: "deliver_event report_date now allowed (notifier (ob_id event)) event (os_db s) = (db1, r1)" by fastforce
  obtain s1 where s1: "outbox_step\<^sup>*\<^sup>* s s1" "os_db s1 = db1" "os_retried s1 = os_retried s"
    and next_: "\<forall>ok. r1 = Inr ok \<longrightarrow> os_held s1 = rest \<and> os_sent s1 = []"
    using deliver_event_run [OF one Cons.prems(2,3)] by blast
  show ?case
  proof (cases r1)
    case (Inl e)
    with Cons.prems(1) one have "db = db1" by (simp add: mbind_def)
    with s1 show ?thesis by blast
  next
    case (Inr ok)
    with Cons.prems(1) one s1(2)
    have "deliver_events report_date now allowed notifier rest (if ok then n + 1 else n) (os_db s1) = (db, res)"
      by (simp add: mbind_def split del: if_split)
    with Cons.IH next_ Inr obtain s2 where "outbox_step\<^sup>*\<^sup>* s1 s2" "os_db s2 = db" "os_retried s2 = os_retried s1" by blast
    with s1 show ?thesis by (metis rtranclp_trans)
  qed
qed


text \<open>A message that is sent and whose answer is lost, and the table half a minute later.\<close>

definition demo_queued :: outbox_system where
  "demo_queued = outbox_start\<lparr>os_db := fst (enqueue_outbox ''r1'' 0 ''k1'' ''system_start'' (JObj [(''text'', JStr ''up'')]) (os_db outbox_start))\<rparr>"

definition demo_token :: "string \<Rightarrow> string" where
  "demo_token k = CHR ''t'' # k"

definition demo_claimed :: outbox_system where
  "demo_claimed = (let (db, rows) = pending_outbox (seconds 1) demo_token 100 (os_db demo_queued) in
     demo_queued\<lparr>os_db := db, os_held := os_held demo_queued @ rows, os_tokens := os_tokens demo_queued \<union> demo_token ` row_ids (os_db demo_queued)\<rparr>)"

definition demo_sent :: outbox_system where
  "demo_sent = demo_claimed\<lparr>os_held := [] @ [], os_sent := os_sent demo_claimed @ [(hd (os_held demo_claimed), Unclear ''ReadTimeout'')],
     os_history := os_history demo_claimed @ [(ob_id (hd (os_held demo_claimed)), Unclear ''ReadTimeout'')]\<rparr>"

lemma demo_queued_step: "outbox_step outbox_start demo_queued"
  unfolding demo_queued_def by (rule outbox_step.enqueue) (simp add: row_ids_def outbox_start_def)

lemma demo_claimed_step: "outbox_step demo_queued demo_claimed"
proof -
  obtain db rows where p: "pending_outbox (seconds 1) demo_token 100 (os_db demo_queued) = (db, rows)" by fastforce
  show ?thesis unfolding demo_claimed_def p Let_def prod.case
    by (rule outbox_step.claim [OF p]) (simp_all add: inj_on_def demo_token_def demo_queued_def outbox_start_def)
qed

lemma demo_sent_step: "outbox_step demo_claimed demo_sent"
proof -
  have "os_held demo_claimed = [] @ hd (os_held demo_claimed) # []" by code_simp
  then show ?thesis unfolding demo_sent_def by (rule outbox_step.send)
qed

lemma demo_reach: "outbox_reach demo_queued" "outbox_reach demo_sent"
  using demo_queued_step demo_claimed_step demo_sent_step unfolding outbox_reach_def
  by (meson rtranclp.rtrancl_into_rtrancl rtranclp.rtrancl_refl)+


text \<open>
  C23. in every run of any number of workers, with crashes, lost answers and expired leases anywhere,
  a message that the operator has not released for a retry is sent at most once after which it may have
  arrived, and it is attempted at most ten times.
\<close>

theorem sent_at_most_once:
  assumes "outbox_reach s" "k \<notin> os_retried s"
  shows "length (arrivals k s) \<le> 1 \<and> (\<forall>r. get_row k (os_db s) = Some r \<longrightarrow> ob_attempts r \<le> MAX_ATTEMPTS)"
  using reach_arrivals [OF assms] outbox_okD(3) [OF reach_ok [OF assms(1)] assms(2)] by (auto simp: row_fine_def)

theorem sent_at_most_once_witness:
  "arrivals ''r1'' demo_sent = [(''r1'', Unclear ''ReadTimeout'')] \<and> length (arrivals ''r1'' demo_sent) \<le> 1
    \<and> map ob_delivery_state (od_rows (fst (pending_outbox (seconds 31) demo_token 100 (os_db demo_sent)))) = [UNCERTAIN]"
proof (intro conjI)
  show "arrivals ''r1'' demo_sent = [(''r1'', Unclear ''ReadTimeout'')]" by code_simp
  have "''r1'' \<notin> os_retried demo_sent" by code_simp
  then show "length (arrivals ''r1'' demo_sent) \<le> 1" using sent_at_most_once [OF demo_reach(2)] by blast
  show "map ob_delivery_state (od_rows (fst (pending_outbox (seconds 31) demo_token 100 (os_db demo_sent)))) = [UNCERTAIN]" by code_simp
qed

section \<open>Who may write and who is answered\<close>

lemma sent_to_allowed: "send_immediate post n body chat_id = Accepted m \<Longrightarrow> opt_or chat_id (tn_chat_id n) \<in> tn_allowlist n"
  by (auto simp: send_immediate_def allow_chat_def Let_def split: if_splits)

lemma authorized_chat:
  assumes "authorized n chat_id user_id = Inr True"
  shows "\<exists>c. json_int chat_id = Inr c \<and> c \<in> tn_allowlist n"
    and "tn_user_allowlist n \<noteq> {} \<Longrightarrow> \<exists>u. json_int user_id = Inr u \<and> u \<in> tn_user_allowlist n"
  using assms by (auto simp: authorized_def allow_chat_def rbind_def split: if_splits sum.splits)

lemma rbind_InrE: "rbind m f = Inr y \<Longrightarrow> (\<And>x. m = Inr x \<Longrightarrow> f x = Inr y \<Longrightarrow> thesis) \<Longrightarrow> thesis"
  by (cases m) auto

lemma poll_update_authorized:
  assumes "poll_update n update = Inr (Some (c, cmd, args))"
  shows "c \<in> tn_allowlist n"
proof -
  from assms obtain chat_id user_id where "authorized n chat_id user_id = Inr True" "json_int chat_id = Inr c"
    unfolding poll_update_def
    by (auto elim!: rbind_InrE split: if_split_asm json.split_asm option.split_asm) (metis json.exhaust)
  then show ?thesis using authorized_chat(1) by fastforce
qed

lemma poll_updates_authorized:
  "poll_updates n handler offset updates = (final, calls, err) \<Longrightarrow> (c, cmd, args) \<in> set calls \<Longrightarrow> c \<in> tn_allowlist n"
proof (induction updates arbitrary: offset final calls err)
  case (Cons update rest)
  then show ?case
    by (auto split: sum.split_asm option.split_asm prod.split_asm dest!: poll_update_authorized)
qed simp

text \<open>A drain that reports success leaves nothing that could still be delivered.\<close>

lemma drain_idle: "drain timeout_seconds polls db = (db1, Inr True) \<Longrightarrow> deliverable_outbox_count db1 = 0"
proof -
  have "wait_until_idle polls db = (db1, True) \<Longrightarrow> deliverable_outbox_count db1 = 0" for db
    by (induction polls db rule: wait_until_idle.induct) (auto split: if_splits sum.splits prod.splits)
  then show "drain timeout_seconds polls db = (db1, Inr True) \<Longrightarrow> deliverable_outbox_count db1 = 0"
    by (auto simp: drain_def split: if_splits prod.splits)
qed

text \<open>A report is stored and queued once.\<close>

lemma insert_outbox_reports [simp]: "od_reports (fst (insert_outbox row db)) = od_reports db"
  by (simp add: insert_outbox_def)

lemma insert_report_stored: "dict_get (od_reports (insert_report now ids key report report_id payload all_time db)) key \<noteq> None"
  by (auto simp: insert_report_def Let_def split: option.split)

lemma store_daily_report_once:
  assumes "store_daily_report report_date now ids body report all_time db = Inr (db1, True)"
  shows "store_daily_report report_date now' ids' body' report all_time' db1 = Inr (db1, False)"
proof -
  obtain date day tz version report_id
    where items: "item report ''date'' = Inr date" "report_date (json_str date) = Some day" "item report ''timezone'' = Inr tz"
      "item report ''strategy_version'' = Inr version"
    and db1: "db1 = insert_report now ids (day, json_str tz, json_str version) report report_id (daily_payload body date tz version) all_time db"
    using assms by (auto simp: store_daily_report_def Let_def split: option.split_asm if_split_asm)
  have "dict_get (od_reports db1) (day, json_str tz, json_str version) \<noteq> None" unfolding db1 by (rule insert_report_stored)
  then show ?thesis by (simp add: store_daily_report_def Let_def items del: not_None_eq)
qed

end
