(* ===== verification/Spec2Isabelle.thy ===== *)
theory Spec2Isabelle
  imports Ledger_Props Sizing Exit_Engine Broker_Props Features_Props Candidates_Props Events_Props
    Registry_Props Wallet_Props Anchor_Logs Clustering_Props Config_Props Pipeline_Props Stages
    Exit_Monitor Gateway_Faults Outbox_Props
begin

text \<open>
  Verification of the Solana confirmation sniper, the paper-trading release under
  \<open>src/src/sniper_bot\<close>.

  \<^bold>\<open>The program.\<close> A stream of transactions is decoded into chain events (\<open>protocols/\<close>, \<open>events.py\<close>).
  The pipeline (\<open>pipeline.py\<close>) deduplicates and archives them, applies them to the token registry and
  the pool tracker (\<open>registry.py\<close>), to the feature windows (\<open>features.py\<close>) and, through an observer, to
  the wallet analysis (\<open>wallet_analysis.py\<close>, \<open>clustering.py\<close>), and creates a candidate for each new
  pool. A periodic pass takes a feature snapshot of each candidate, checks its security
  (\<open>security.py\<close>), scores it (\<open>scoring.py\<close>) and drives the candidate state machine (\<open>candidates.py\<close>).
  A confirmed candidate goes to the entry handler: sizing (\<open>sizing.py\<close>), risk limits (\<open>risk.py\<close>) and
  the paper broker (\<open>broker.py\<close>), which records the position in the ledger (\<open>ledger.py\<close>). Open
  positions are marked and closed by the exit policy (\<open>exit_engine.py\<close>). The entry gate of
  \<open>stream.py\<close> blocks entries while any part of the system is not healthy; \<open>config.py\<close> sets the
  thresholds.

  \<^bold>\<open>Foundations.\<close>
  \<^item> \<open>Prelude\<close>: exceptions as values, insertion-ordered dictionaries, shared list lemmas.
  \<^item> \<open>Py_Monad\<close>: methods with state and exceptions, and rules for the invariants they keep.
  \<^item> \<open>Decimal_Arith\<close>: Python's decimals as rationals with the rounding of the 28-digit context after
    each operation; \<open>Py_Float\<close>: binary floats with an abstract rounding; \<open>Py_Time\<close>: instants in
    microseconds, time zones and calendar days.
  \<^item> \<open>Bytes\<close>, \<open>Sha256\<close>, \<open>Json\<close>: byte strings, the hash function, decoded JSON values.

  \<^bold>\<open>Components.\<close> Each theory without suffix holds the definitions in the order of the source file and
  uses its names; the theory with suffix \<open>Props\<close>, \<open>Inv\<close> or \<open>Logs\<close> holds its theorems.
  \<^item> \<open>Models\<close>, \<open>Ledger\<close>, \<open>Ledger_Ops\<close>, \<open>Ledger_Inv\<close>, \<open>Ledger_Props\<close> (\<open>models.py\<close>, \<open>ledger.py\<close>): the
    ledger's state as a record, every operation as a function on it, its reachable states as an
    inductive predicate; invariants, accounting of closes, restart from the JSON mirror, halts.
  \<^item> \<open>Risk\<close>, \<open>Sizing\<close>, \<open>Exit_Engine\<close> (\<open>risk.py\<close>, \<open>sizing.py\<close>, \<open>exit_engine.py\<close>): what an allowed entry
    respects, what an allowed size can lose, when a position is closed and why.
  \<^item> \<open>Broker\<close>, \<open>Broker_Props\<close> (\<open>broker.py\<close>): opening and closing over the ledger with the quotes, the
    clock and the database answers as arguments; every path is a run of ledger operations, the exit
    loop returns.
  \<^item> \<open>Features\<close>, \<open>Features_Props\<close>, \<open>Scoring\<close> (\<open>features.py\<close>, \<open>scoring.py\<close>): snapshots do not depend on
    the order of arrival nor on later events; scores stay within their caps.
  \<^item> \<open>Security\<close>, \<open>Security_Props\<close>, \<open>Candidates\<close>, \<open>Candidates_Props\<close> (\<open>security.py\<close>,
    \<open>candidates.py\<close>): the security verdict in closed form, the life cycle of a candidate.
  \<^item> \<open>Events\<close>, \<open>Events_Props\<close> (\<open>events.py\<close>): canonical ids, the bounded deduplicator as a
    most-recently-used cache, archive segments that read back.
  \<^item> \<open>Registry\<close>, \<open>Registry_Props\<close> (\<open>registry.py\<close>): normalised orientation and values of pools.
  \<^item> \<open>Clustering\<close>, \<open>Clustering_Props\<close>, \<open>Wallet_Analysis\<close>, \<open>Wallet_Props\<close> (\<open>clustering.py\<close>,
    \<open>wallet_analysis.py\<close>): clusters are connected components; the incremental buyer evidence equals
    the rebuilt one.
  \<^item> \<open>Anchor\<close>, \<open>Anchor_Props\<close>, \<open>Anchor_Logs\<close> (\<open>protocols/\<close>): Borsh decoding round trips and the
    attribution of logged data to programs.
  \<^item> \<open>Config\<close>, \<open>Config_Props\<close> (\<open>config.py\<close>): validators and what a validated configuration
    guarantees, the precedence of the environment.
  \<^item> \<open>Entry_Gate\<close> (\<open>stream.py\<close>), \<open>Pipeline\<close>, \<open>Pipeline_Props\<close>, \<open>Stages\<close> (\<open>pipeline.py\<close>): when the entry
    handler is called, what a failed event leaves behind, where candidates come from, why passes
    stop after an aged rejection, and the ordered stages as a step relation that is first in first
    out and drains.
  \<^item> \<open>Runtime\<close>, \<open>Runtime_Exits\<close>, \<open>Runtime_Props\<close>, \<open>Runtime_Runs\<close>, \<open>Exit_Monitor\<close> (\<open>runtime.py\<close>): the
    runtime's state extends the pipeline's record by the ledger, the risk manager and the bookkeeping
    of its loops. \<open>Runtime\<close> has the entry handler, the security context and the candidate loop,
    \<open>Runtime_Exits\<close> the exit monitor with marks, write-offs and liquidations. The turns of the loops
    and the events form a step relation: every run keeps the ledger reachable, an exit pass returns,
    an aged rejection ends trading, an unquotable position is written off. \<open>Py_Text\<close> renders numbers
    as Python does, for the order ids and messages.

  \<^item> \<open>Gateway\<close>, \<open>Gateway_Run\<close>, \<open>Gateway_Props\<close>, \<open>Gateway_Order\<close>, \<open>Gap_Recovery\<close>, \<open>Gateway_Faults\<close>
    (\<open>stream.py\<close>): the stream gateway as one state on which the connection, the dispatcher, the log
    tasks, the worker and the freshness loop take steps between their awaits. Entries are blocked
    while the stream is not in order, log transactions are queued in order, a gap recovery is
    complete; and three faults: a refused message keeps the stream offline, a leftover notification
    ends the warm-up, an interrupted put loses its transaction.

  \<^item> \<open>Outbox\<close>, \<open>Outbox_Props\<close> (\<open>outbox.py\<close>, \<open>telegram.py\<close>, the outbox and daily-report transactions of
    \<open>database.py\<close>): the message table with leases and claim tokens, the delivery worker, the notifier
    and the command intake. Workers, crashes and the operator form a step relation in which a message
    is sent at most once with a possible arrival; a poll of the worker is a run of it.

  \<^bold>\<open>Interfaces.\<close> Contracts between components are locales interpreted on the model's definitions, in
  the theories that provide them. Calls to code outside the repository, to the network and to the
  database are arguments of the definitions.

  \<^bold>\<open>Bounds and fuel.\<close> Loops are structural recursions or have a termination proof. The exit loop of
  the broker is a partial function with value \<open>None\<close> for an endless run, and returning is proved. The
  event decoder takes the depth of nested types as an argument, whose exhaustion is Python's
  recursion limit. Union-find takes an iteration bound that is proved to be enough.

  \<^bold>\<open>Not modelled.\<close> the other SQL statements and table definitions (\<open>database.py\<close>, \<open>db_models.py\<close>,
  migrations), network clients (\<open>jupiter.py\<close>, \<open>solana_rpc.py\<close>, \<open>enrichment.py\<close>), HTTP routes, reports,
  acceptance statistics, replay, start and shutdown of the process (part of \<open>runtime.py\<close>, \<open>main.py\<close>,
  \<open>service.py\<close>), metrics, logging and operator scripts: input and output, assembly, or aggregation of
  database rows. Metrics and log messages are left out of the modelled
  functions. Asynchronous code is modelled between its awaits: handlers run as a whole, and where an
  interleaving matters (the stages) the steps are explicit.
\<close>

end
